(* ===== verification/Prelude.thy ===== *)
theory Prelude
  imports Complex_Main "HOL-Library.Sublist" "HOL-Library.Char_ord" "HOL-Library.List_Lexorder"
    "HOL-Library.Word"
begin

text \<open>
  Shared foundation of the development: C++ faults as values of a sum type, the two ways
  the code composes fallible and stateful steps, byte classification as in the C locale,
  decimal conversion of integers, and the list lemmas the components use.

  The model fixes what C++ leaves to the implementation the way the released Linux and macOS
  builds do (LP64: \<open>int\<close> 32 bits, \<open>long\<close> and \<open>long long\<close> 64 bits, two's complement,
  the C locale for \<open>isspace\<close>, \<open>isdigit\<close> and \<open>isxdigit\<close>).
\<close>

named_theorems comp_simps \<open>unfolding the composition of fallible and stateful steps\<close>
named_theorems str_simps \<open>facts on strings, prefixes and splitting\<close>

subsection \<open>Faults and fallible values\<close>

text \<open>
  The exceptions the code can raise, by their C++ class. \<open>Undefined\<close> is not an exception: it
  marks undefined behaviour of the language (a read past the end of a string, a const JSON
  access of a missing key), \<open>Diverges\<close> a call that never returns, and
  \<open>Exits\<close> the end of the process with an exit code. A \<^verbatim>\<open>catch(const exception&)\<close> handler sees every
  exception and never these three.
\<close>

datatype fault =
    TypeError | ParseError | OutOfRange | InvalidArgument | FilesystemError | LengthError
  | WebsocketError | Undefined | Diverges | Exits int

type_synonym 'a result = "fault + 'a"

definition catchable :: "fault \<Rightarrow> bool" where
  "catchable e = (case e of Undefined \<Rightarrow> False | Diverges \<Rightarrow> False | Exits code \<Rightarrow> False | _ \<Rightarrow> True)"

definition bindR :: "'a result \<Rightarrow> ('a \<Rightarrow> 'b result) \<Rightarrow> 'b result" where
  "bindR r f = (case r of Inl e \<Rightarrow> Inl e | Inr v \<Rightarrow> f v)"

text \<open>\<^verbatim>\<open>try { r } catch(const exception&) { return h; }\<close>\<close>

definition tryR :: "'a result \<Rightarrow> 'a \<Rightarrow> 'a result" where
  "tryR r h = (case r of Inl e \<Rightarrow> if catchable e then Inr h else Inl e | Inr v \<Rightarrow> Inr v)"

fun mapR :: "('a \<Rightarrow> 'b result) \<Rightarrow> 'a list \<Rightarrow> 'b list result" where
  "mapR f [] = Inr []"
| "mapR f (x # xs) = bindR (f x) (\<lambda>y. bindR (mapR f xs) (\<lambda>ys. Inr (y # ys)))"

lemma bindR_simps [simp, comp_simps]:
  "bindR (Inl e) f = Inl e"
  "bindR (Inr v) f = f v"
  by (simp_all add: bindR_def)

lemma bindR_eq_Inr: "bindR r f = Inr y \<longleftrightarrow> (\<exists>x. r = Inr x \<and> f x = Inr y)"
  by (cases r) simp_all

lemma bindR_cong [fundef_cong]:
  "r = r' \<Longrightarrow> (\<And>v. r' = Inr v \<Longrightarrow> f v = g v) \<Longrightarrow> bindR r f = bindR r' g"
  by (cases r') simp_all

lemma mapR_Inr_length: "mapR f xs = Inr ys \<Longrightarrow> length ys = length xs"
  by (induction xs arbitrary: ys) (auto simp: bindR_eq_Inr)

lemma mapR_Inr_nth: "mapR f xs = Inr ys \<Longrightarrow> i < length xs \<Longrightarrow> f (xs ! i) = Inr (ys ! i)"
  by (induction xs arbitrary: ys i) (auto simp: bindR_eq_Inr nth_Cons split: nat.splits)

lemma mapR_pure: "(\<And>x. x \<in> set xs \<Longrightarrow> f x = Inr (g x)) \<Longrightarrow> mapR f xs = Inr (map g xs)"
  by (induction xs) simp_all

subsection \<open>Stateful steps that may fault\<close>

text \<open>
  A step of the program: it reads and writes the global variables (a record), and returns or
  faults. What it wrote before a fault stays written, as in the code.
\<close>

type_synonym ('s, 'a) comp = "'s \<Rightarrow> 'a result \<times> 's"

definition retS :: "'a \<Rightarrow> ('s, 'a) comp" where
  "retS v = (\<lambda>s. (Inr v, s))"

definition throwS :: "fault \<Rightarrow> ('s, 'a) comp" where
  "throwS e = (\<lambda>s. (Inl e, s))"

definition liftS :: "'a result \<Rightarrow> ('s, 'a) comp" where
  "liftS r = (\<lambda>s. (r, s))"

definition getS :: "('s \<Rightarrow> 'a) \<Rightarrow> ('s, 'a) comp" where
  "getS f = (\<lambda>s. (Inr (f s), s))"

text \<open>A step that only reads the state, and may fault.\<close>

definition readS :: "('s \<Rightarrow> 'a result) \<Rightarrow> ('s, 'a) comp" where
  "readS f = (\<lambda>s. (f s, s))"

definition modS :: "('s \<Rightarrow> 's) \<Rightarrow> ('s, unit) comp" where
  "modS f = (\<lambda>s. (Inr (), f s))"

definition bindS :: "('s, 'a) comp \<Rightarrow> ('a \<Rightarrow> ('s, 'b) comp) \<Rightarrow> ('s, 'b) comp" where
  "bindS m f = (\<lambda>s. case m s of (Inl e, s') \<Rightarrow> (Inl e, s') | (Inr v, s') \<Rightarrow> f v s')"

definition thenS :: "('s, 'a) comp \<Rightarrow> ('s, 'b) comp \<Rightarrow> ('s, 'b) comp" where
  "thenS m n = bindS m (\<lambda>_. n)"

text \<open>\<^verbatim>\<open>try { m } catch(const exception&) { h }\<close>\<close>

definition catchS :: "('s, 'a) comp \<Rightarrow> ('s, 'a) comp \<Rightarrow> ('s, 'a) comp" where
  "catchS m h = (\<lambda>s. case m s of
     (Inl e, s') \<Rightarrow> if catchable e then h s' else (Inl e, s')
   | (Inr v, s') \<Rightarrow> (Inr v, s'))"

fun forS :: "'a list \<Rightarrow> ('a \<Rightarrow> ('s, unit) comp) \<Rightarrow> ('s, unit) comp" where
  "forS [] f = retS ()"
| "forS (x # xs) f = thenS (f x) (forS xs f)"

lemma step_simps [simp, comp_simps]:
  "retS v s = (Inr v, s)"
  "throwS e s = (Inl e, s)"
  "liftS r s = (r, s)"
  "getS f s = (Inr (f s), s)"
  "readS g s = (g s, s)"
  "modS f' s = (Inr (), f' s)"
  by (simp_all add: retS_def throwS_def liftS_def getS_def readS_def modS_def)

lemma bindS_simps [simp]:
  "bindS (retS v) g s = g v s"
  "bindS (throwS e) g s = (Inl e, s)"
  "bindS (getS f) g s = g (f s) s"
  "thenS (retS v) n s = n s"
  "thenS (modS f') n s = n (f' s)"
  by (simp_all add: bindS_def thenS_def retS_def throwS_def getS_def modS_def)

lemma bindS_step [simp]:
  "m s = (Inl e, s') \<Longrightarrow> bindS m f s = (Inl e, s')"
  "m s = (Inr v, s') \<Longrightarrow> bindS m f s = f v s'"
  by (simp_all add: bindS_def)

text \<open>The same for a step that answers a boolean.\<close>

lemma bindS_bool [simp]:
  "m s = (Inr True, s') \<Longrightarrow> bindS m f s = f True s'"
  "m s = (Inr False, s') \<Longrightarrow> bindS m f s = f False s'"
  by (simp_all add: bindS_def)

lemma thenS_step [simp]:
  "m s = (Inl e, s') \<Longrightarrow> thenS m n s = (Inl e, s')"
  "m s = (Inr v, s') \<Longrightarrow> thenS m n s = n s'"
  by (simp_all add: thenS_def)

lemma catchS_step [simp]:
  "m s = (Inr v, s') \<Longrightarrow> catchS m h s = (Inr v, s')"
  "m s = (Inl e, s') \<Longrightarrow> catchS m h s = (if catchable e then h s' else (Inl e, s'))"
  by (simp_all add: catchS_def)

lemma bindS_cases:
  "bindS m f s = (r, t) \<longleftrightarrow>
     (\<exists>e. m s = (Inl e, t) \<and> r = Inl e) \<or> (\<exists>v s'. m s = (Inr v, s') \<and> f v s' = (r, t))"
  by (auto simp: bindS_def split: prod.splits sum.splits)

text \<open>A step that leaves a view of the state alone, and composition of such steps.\<close>

definition keeps :: "('s \<Rightarrow> 'b) \<Rightarrow> ('s, 'a) comp \<Rightarrow> bool" where
  "keeps v m \<longleftrightarrow> (\<forall>s. v (snd (m s)) = v s)"

lemma keepsI [intro]: "(\<And>s. v (snd (m s)) = v s) \<Longrightarrow> keeps v m"
  by (simp add: keeps_def)

lemma keepsD: "keeps v m \<Longrightarrow> v (snd (m s)) = v s"
  by (simp add: keeps_def)

lemma keepsD': "keeps v m \<Longrightarrow> m s = (r, s') \<Longrightarrow> v s' = v s"
  by (metis keepsD snd_conv)

lemma keeps_pure [simp]:
  "keeps v (retS x)" "keeps v (throwS e)" "keeps v (liftS r)" "keeps v (getS f)"
  "keeps v (readS g)"
  by (auto simp: keeps_def)

lemma keeps_modS: "(\<And>s. v (f s) = v s) \<Longrightarrow> keeps v (modS f)"
  by (auto simp: keeps_def)

lemma keeps_bindS: "keeps v m \<Longrightarrow> (\<And>x. keeps v (f x)) \<Longrightarrow> keeps v (bindS m f)"
  by (auto simp: keeps_def bindS_def split: prod.splits sum.splits) (metis snd_conv)+

lemma keeps_thenS: "keeps v m \<Longrightarrow> keeps v n \<Longrightarrow> keeps v (thenS m n)"
  by (simp add: thenS_def keeps_bindS)

lemma keeps_catchS: "keeps v m \<Longrightarrow> keeps v h \<Longrightarrow> keeps v (catchS m h)"
  by (auto simp: keeps_def catchS_def split: prod.splits sum.splits) (metis snd_conv)+

lemma keeps_forS: "(\<And>x. keeps v (f x)) \<Longrightarrow> keeps v (forS xs f)"
  by (induction xs) (auto intro: keeps_thenS)

lemma keeps_if: "keeps v m \<Longrightarrow> keeps v n \<Longrightarrow> keeps v (if b then m else n)"
  by simp

lemmas keeps_intros = keeps_pure keeps_modS keeps_bindS keeps_thenS keeps_catchS keeps_forS keeps_if

subsection \<open>Bytes in the C locale\<close>

definition byte :: "char \<Rightarrow> nat" where
  "byte c = of_char c"

definition isspace :: "char \<Rightarrow> bool" where
  "isspace c \<longleftrightarrow> byte c = 32 \<or> (9 \<le> byte c \<and> byte c \<le> 13)"

definition isdigit :: "char \<Rightarrow> bool" where
  "isdigit c \<longleftrightarrow> 48 \<le> byte c \<and> byte c \<le> 57"

definition isupper :: "char \<Rightarrow> bool" where
  "isupper c \<longleftrightarrow> 65 \<le> byte c \<and> byte c \<le> 90"

definition islower :: "char \<Rightarrow> bool" where
  "islower c \<longleftrightarrow> 97 \<le> byte c \<and> byte c \<le> 122"

definition isalnum :: "char \<Rightarrow> bool" where
  "isalnum c \<longleftrightarrow> isdigit c \<or> isupper c \<or> islower c"

definition isxdigit :: "char \<Rightarrow> bool" where
  "isxdigit c \<longleftrightarrow> isdigit c \<or> (65 \<le> byte c \<and> byte c \<le> 70) \<or> (97 \<le> byte c \<and> byte c \<le> 102)"

text \<open>The regular-expression class \<^verbatim>\<open>\w\<close>.\<close>

definition isword :: "char \<Rightarrow> bool" where
  "isword c \<longleftrightarrow> isalnum c \<or> c = CHR ''_''"

definition toupper :: "char \<Rightarrow> char" where
  "toupper c = (if islower c then char_of (byte c - 32) else c)"

lemmas ctype_defs = byte_def isspace_def isdigit_def isupper_def islower_def isalnum_def
  isxdigit_def isword_def

lemma byte_less: "byte c < 256"
  by (simp add: byte_def)

lemma char_of_byte [simp]: "char_of (byte c) = c"
  by (simp add: byte_def)

lemma byte_char_of: "n < 256 \<Longrightarrow> byte (char_of n) = n"
  by (simp add: byte_def)

subsection \<open>Machine integers and decimal text\<close>

text \<open>
  Conversion to a signed integer of the given width, as \<^verbatim>\<open>static_cast\<close> does it (modular).
\<close>

definition wrap_s :: "nat \<Rightarrow> int \<Rightarrow> int" where
  "wrap_s w i = (i + 2 ^ (w - 1)) mod 2 ^ w - 2 ^ (w - 1)"

definition to_int :: "int \<Rightarrow> int" where
  "to_int = wrap_s 32"

definition to_long :: "int \<Rightarrow> int" where
  "to_long = wrap_s 64"

definition to_ulong :: "int \<Rightarrow> int" where
  "to_ulong i = i mod 2 ^ 64"

lemma to_int_id: "- (2 ^ 31) \<le> i \<Longrightarrow> i < 2 ^ 31 \<Longrightarrow> to_int i = i"
  by (simp add: to_int_def wrap_s_def)

lemma to_long_id: "- (2 ^ 63) \<le> i \<Longrightarrow> i < 2 ^ 63 \<Longrightarrow> to_long i = i"
  by (simp add: to_long_def wrap_s_def)

lemma to_int_range: "- (2 ^ 31) \<le> to_int i \<and> to_int i < 2 ^ 31"
  by (simp add: to_int_def wrap_s_def)

lemma to_long_range: "- (2 ^ 63) \<le> to_long i \<and> to_long i < 2 ^ 63"
  by (simp add: to_long_def wrap_s_def)

definition digit_char :: "nat \<Rightarrow> char" where
  "digit_char d = char_of (48 + d)"

fun string_of_nat :: "nat \<Rightarrow> string" where
  "string_of_nat n = (if n < 10 then [digit_char n] else string_of_nat (n div 10) @ [digit_char (n mod 10)])"

declare string_of_nat.simps [simp del]

text \<open>\<^verbatim>\<open>std::to_string\<close> on the integer types.\<close>

definition to_string :: "int \<Rightarrow> string" where
  "to_string i = (if i < 0 then CHR ''-'' # string_of_nat (nat (- i)) else string_of_nat (nat i))"

definition nat_of_digits :: "string \<Rightarrow> nat" where
  "nat_of_digits ds = foldl (\<lambda>acc c. 10 * acc + (byte c - 48)) 0 ds"

text \<open>
  \<^verbatim>\<open>std::stoi\<close> and \<^verbatim>\<open>std::stoll\<close>: skip white space, an optional sign, then the longest run of
  digits; no digits is \<open>invalid_argument\<close>, a value outside the type \<open>out_of_range\<close>; what
  follows the digits is ignored.
\<close>

definition parse_int :: "nat \<Rightarrow> string \<Rightarrow> int result" where
  "parse_int w s =
     (let t = dropWhile isspace s;
          (neg, u) = (case t of [] \<Rightarrow> (False, t)
            | c # cs \<Rightarrow> if c = CHR ''-'' then (True, cs) else if c = CHR ''+'' then (False, cs) else (False, t));
          ds = takeWhile isdigit u;
          v = (if neg then - int (nat_of_digits ds) else int (nat_of_digits ds))
      in if ds = [] then Inl InvalidArgument
         else if v < - (2 ^ (w - 1)) \<or> 2 ^ (w - 1) \<le> v then Inl OutOfRange
         else Inr v)"

definition stoi :: "string \<Rightarrow> int result" where
  "stoi = parse_int 32"

definition stoll :: "string \<Rightarrow> int result" where
  "stoll = parse_int 64"

lemma takeWhile_all [str_simps]: "\<forall>x \<in> set xs. P x \<Longrightarrow> takeWhile P xs = xs"
  by (induction xs) simp_all

lemma byte_digit_char: "d < 10 \<Longrightarrow> byte (digit_char d) = 48 + d"
  by (simp add: digit_char_def byte_char_of)

lemma isdigit_digit_char [simp]: "d < 10 \<Longrightarrow> isdigit (digit_char d)"
  by (simp add: isdigit_def byte_digit_char)

lemma nat_of_digits_snoc: "nat_of_digits (ds @ [c]) = 10 * nat_of_digits ds + (byte c - 48)"
  by (simp add: nat_of_digits_def)

lemma string_of_nat_digits: "\<forall>c \<in> set (string_of_nat n). isdigit c"
proof (induction n rule: string_of_nat.induct)
  case (1 n)
  then show ?case
    by (cases "n < 10") (auto simp: string_of_nat.simps [of n])
qed

lemma string_of_nat_nonempty [simp]: "string_of_nat n \<noteq> []"
  by (subst string_of_nat.simps) simp

lemma nat_of_digits_string_of_nat [simp]: "nat_of_digits (string_of_nat n) = n"
proof (induction n rule: string_of_nat.induct)
  case (1 n)
  show ?case
  proof (cases "n < 10")
    case True
    then show ?thesis
      by (simp add: string_of_nat.simps [of n] nat_of_digits_def byte_digit_char)
  next
    case False
    with 1 show ?thesis
      by (simp add: string_of_nat.simps [of n] nat_of_digits_snoc byte_digit_char)
  qed
qed

lemma string_of_nat_inj: "string_of_nat m = string_of_nat n \<longleftrightarrow> m = n"
  by (metis nat_of_digits_string_of_nat)

lemma takeWhile_isdigit_string_of_nat [simp]: "takeWhile isdigit (string_of_nat n) = string_of_nat n"
  by (simp add: string_of_nat_digits)

lemma string_of_nat_Cons:
  obtains c cs where "string_of_nat n = c # cs" "isdigit c" "\<forall>d \<in> set cs. isdigit d"
  by (metis list.exhaust list.set_intros string_of_nat_digits string_of_nat_nonempty)

lemma digit_not_space_sign: "isdigit c \<Longrightarrow> \<not> isspace c \<and> c \<noteq> CHR ''-'' \<and> c \<noteq> CHR ''+''"
  by (auto simp: ctype_defs)

text \<open>Converting an integer to text and back, within the range of the type.\<close>

lemma parse_int_to_string:
  assumes "- (2 ^ (w - 1)) \<le> i" "i < 2 ^ (w - 1)"
  shows "parse_int w (to_string i) = Inr i"
proof -
  obtain c cs where n: "string_of_nat (nat \<bar>i\<bar>) = c # cs" and c: "isdigit c"
    by (rule string_of_nat_Cons [of "nat \<bar>i\<bar>"]) blast
  have d: "nat_of_digits (c # cs) = nat \<bar>i\<bar>" "takeWhile isdigit (c # cs) = c # cs"
    using nat_of_digits_string_of_nat [of "nat \<bar>i\<bar>"] takeWhile_isdigit_string_of_nat [of "nat \<bar>i\<bar>"]
    by (simp_all add: n)
  show ?thesis
  proof (cases "i < 0")
    case True
    have "\<not> isspace (CHR ''-'')" by (simp add: ctype_defs)
    with True n d assms show ?thesis
      by (simp add: parse_int_def to_string_def Let_def)
  next
    case False
    then have "to_string i = c # cs" using n by (simp add: to_string_def)
    with False d(1) d(2) assms digit_not_space_sign [OF c] show ?thesis
      by (simp add: parse_int_def Let_def takeWhile_all)
  qed
qed

lemma parse_int_range: "parse_int w s = Inr i \<Longrightarrow> - (2 ^ (w - 1)) \<le> i \<and> i < 2 ^ (w - 1)"
  by (auto simp: parse_int_def Let_def split: if_splits list.splits)

subsection \<open>Lists and strings\<close>

lemma takeWhile_append_stop [str_simps]:
  "\<forall>x \<in> set xs. P x \<Longrightarrow> \<not> P y \<Longrightarrow> takeWhile P (xs @ y # ys) = xs"
  by (induction xs) simp_all

lemma dropWhile_append_stop [str_simps]:
  "\<forall>x \<in> set xs. P x \<Longrightarrow> \<not> P y \<Longrightarrow> dropWhile P (xs @ y # ys) = y # ys"
  by (induction xs) simp_all

lemma takeWhile_absent [simp]: "d \<notin> set s \<Longrightarrow> takeWhile (\<lambda>c. c \<noteq> d) s = s"
  by (induction s) auto

lemma takeWhile_first [simp]: "d \<notin> set w \<Longrightarrow> takeWhile (\<lambda>c. c \<noteq> d) (w @ d # s) = w"
  by (induction w) auto

lemma prefix_take: "prefix p s \<longleftrightarrow> take (length p) s = p"
  by (metis append_eq_conv_conj prefix_def take_is_prefix)

lemma suffix_drop: "suffix p s \<longleftrightarrow> length p \<le> length s \<and> drop (length s - length p) s = p"
  by (auto simp: suffix_def) (metis append_take_drop_id)

text \<open>Position of the first occurrence, \<^verbatim>\<open>std::string::find\<close> of one byte.\<close>

definition find_char :: "char \<Rightarrow> string \<Rightarrow> nat option" where
  "find_char c s = (if c \<in> set s then Some (length (takeWhile (\<lambda>x. x \<noteq> c) s)) else None)"

text \<open>\<^verbatim>\<open>s.substr(0, s.find(c))\<close>, where \<open>npos\<close> keeps the whole string.\<close>

lemma take_find_char:
  "(case find_char c s of None \<Rightarrow> s | Some i \<Rightarrow> take i s) = takeWhile (\<lambda>x. x \<noteq> c) s"
proof (cases "c \<in> set s")
  case True
  then show ?thesis
    by (simp add: find_char_def) (metis append_eq_conv_conj takeWhile_dropWhile_id)
next
  case False
  then show ?thesis
    by (subst takeWhile_all) (auto simp: find_char_def)
qed

end
