(* ===== verification/Assoc.thy ===== *)
theory Assoc
  imports Prelude
begin

text \<open>
  \<^verbatim>\<open>std::map\<close>: an association list kept sorted by key, so that iterating over it visits the keys
  in order. The interface the components rely on is a locale, interpreted here on the lists.
\<close>

fun upd :: "'k::linorder \<Rightarrow> 'v \<Rightarrow> ('k \<times> 'v) list \<Rightarrow> ('k \<times> 'v) list" where
  "upd k v [] = [(k, v)]"
| "upd k v ((k', v') # kvs) =
     (if k < k' then (k, v) # (k', v') # kvs
      else if k = k' then (k, v) # kvs
      else (k', v') # upd k v kvs)"

definition del :: "'k \<Rightarrow> ('k \<times> 'v) list \<Rightarrow> ('k \<times> 'v) list" where
  "del k kvs = filter (\<lambda>kv. fst kv \<noteq> k) kvs"

definition sorted_keys :: "('k::linorder \<times> 'v) list \<Rightarrow> bool" where
  "sorted_keys kvs \<longleftrightarrow> sorted_wrt (<) (map fst kvs)"

definition has_key :: "'k \<Rightarrow> ('k \<times> 'v) list \<Rightarrow> bool" where
  "has_key k kvs \<longleftrightarrow> map_of kvs k \<noteq> None"

subsection \<open>The interface\<close>

locale ordered_map =
  fixes update :: "'k::linorder \<Rightarrow> 'v \<Rightarrow> 'm \<Rightarrow> 'm"
    and delete :: "'k \<Rightarrow> 'm \<Rightarrow> 'm"
    and lookup :: "'m \<Rightarrow> 'k \<Rightarrow> 'v option"
    and entries :: "'m \<Rightarrow> ('k \<times> 'v) list"
    and inv :: "'m \<Rightarrow> bool"
  assumes lookup_update: "lookup (update k v m) = (lookup m)(k \<mapsto> v)"
    and lookup_delete: "lookup (delete k m) = (lookup m)(k := None)"
    and inv_update: "inv m \<Longrightarrow> inv (update k v m)"
    and inv_delete: "inv m \<Longrightarrow> inv (delete k m)"
    and entries_lookup: "inv m \<Longrightarrow> (k, v) \<in> set (entries m) \<longleftrightarrow> lookup m k = Some v"
    and entries_sorted: "inv m \<Longrightarrow> sorted_wrt (<) (map fst (entries m))"
begin

lemma insert_then_delete: "lookup m k = None \<Longrightarrow> lookup (delete k (update k v m)) = lookup m"
  by (auto simp: lookup_update lookup_delete fun_eq_iff)

lemma entries_distinct: "inv m \<Longrightarrow> distinct (map fst (entries m))"
proof -
  have "sorted_wrt (<) ks \<Longrightarrow> distinct ks" for ks :: "'k list"
    by (induction ks) auto
  then show "inv m \<Longrightarrow> distinct (map fst (entries m))" using entries_sorted by blast
qed

lemma keys_update: "inv m \<Longrightarrow> fst ` set (entries (update k v m)) = insert k (fst ` set (entries m))"
proof -
  have keys: "fst ` set (entries m') = dom (lookup m')" if "inv m'" for m'
    using entries_lookup [OF that] by (force simp: image_iff)
  assume "inv m"
  then show ?thesis by (simp add: keys inv_update lookup_update)
qed

lemma keys_delete: "inv m \<Longrightarrow> fst ` set (entries (delete k m)) = fst ` set (entries m) - {k}"
proof -
  have keys: "fst ` set (entries m') = dom (lookup m')" if "inv m'" for m'
    using entries_lookup [OF that] by (force simp: image_iff)
  assume "inv m"
  then show ?thesis by (simp add: keys inv_delete lookup_delete)
qed

lemma card_update_fresh:
  "inv m \<Longrightarrow> lookup m k = None \<Longrightarrow> length (entries (update k v m)) = Suc (length (entries m))"
proof -
  assume a: "inv m" "lookup m k = None"
  have "k \<notin> fst ` set (entries m)"
    using entries_lookup [OF a(1)] a(2) by auto
  then have "card (fst ` set (entries (update k v m))) = Suc (card (fst ` set (entries m)))"
    by (simp add: keys_update [OF a(1)])
  then show ?thesis
    using distinct_card [OF entries_distinct [OF a(1)]]
      distinct_card [OF entries_distinct [OF inv_update [OF a(1), of k v]]]
    by simp
qed

end

subsection \<open>Sorted association lists implement it\<close>

lemma map_of_upd [simp]: "map_of (upd k v kvs) = (map_of kvs)(k \<mapsto> v)"
  by (induction k v kvs rule: upd.induct) (auto simp: fun_eq_iff)

lemma map_of_del [simp]: "map_of (del k kvs) = (map_of kvs)(k := None)"
  by (induction kvs) (auto simp: del_def fun_eq_iff)

lemma keys_upd: "fst ` set (upd k v kvs) = insert k (fst ` set kvs)"
  by (induction k v kvs rule: upd.induct) auto

lemma set_upd: "set (upd k v kvs) \<subseteq> insert (k, v) (set kvs)"
  by (induction k v kvs rule: upd.induct) auto

lemma sorted_keys_upd: "sorted_keys kvs \<Longrightarrow> sorted_keys (upd k v kvs)"
proof (induction k v kvs rule: upd.induct)
  case (2 k v k' v' kvs)
  then show ?case
    using keys_upd [of k v kvs] by (fastforce simp: sorted_keys_def)
qed (simp add: sorted_keys_def)

lemma sorted_keys_del: "sorted_keys kvs \<Longrightarrow> sorted_keys (del k kvs)"
  unfolding sorted_keys_def del_def by (induction kvs) auto

lemma sorted_keys_distinct: "sorted_keys kvs \<Longrightarrow> distinct (map fst kvs)"
  unfolding sorted_keys_def by (induction kvs) auto

lemma sorted_keys_Nil [simp]: "sorted_keys []"
  by (simp add: sorted_keys_def)

interpretation alist: ordered_map upd del map_of "\<lambda>kvs. kvs" sorted_keys
proof unfold_locales
  show "sorted_keys m \<Longrightarrow> ((k, v) \<in> set m) = (map_of m k = Some v)" for k v and m :: "('a \<times> 'b) list"
    by (simp add: sorted_keys_distinct)
  show "sorted_keys m \<Longrightarrow> sorted_wrt (<) (map fst m)" for m :: "('a \<times> 'b) list"
    by (simp add: sorted_keys_def)
qed (simp_all add: sorted_keys_upd sorted_keys_del)

lemma has_key_upd [simp]: "has_key k' (upd k v kvs) \<longleftrightarrow> k' = k \<or> has_key k' kvs"
  by (simp add: has_key_def)

lemma has_key_del [simp]: "has_key k' (del k kvs) \<longleftrightarrow> k' \<noteq> k \<and> has_key k' kvs"
  by (simp add: has_key_def)

end
