(* ===== verification/Json.thy ===== *)
theory Json
  imports Assoc
begin

text \<open>
  JSON values and the operations of \<^verbatim>\<open>nlohmann::json\<close> the program calls on them. An object is a
  \<^verbatim>\<open>std::map\<close>, here an association list kept sorted by key. The non-const \<^verbatim>\<open>operator[]\<close> turns
  null into an object and inserts a missing key with the value null, so a read through it is a
  write: \<open>jref\<close> and \<open>ptr_ref\<close> return the value and the changed document. The const
  \<^verbatim>\<open>operator[]\<close> of a missing key is undefined behaviour (an assertion of the library).
\<close>

datatype json =
    JNull
  | JBool bool
  | JInt int
  | JFloat rat
  | JString string
  | JArray "json list"
  | JObject "(string \<times> json) list"

subsection \<open>Objects\<close>

text \<open>Every object inside the document is sorted: what the library's \<^verbatim>\<open>std::map\<close> guarantees.\<close>

fun wf_json :: "json \<Rightarrow> bool" where
  "wf_json (JArray js) = (\<forall>j \<in> set js. wf_json j)"
| "wf_json (JObject kvs) = (sorted_keys kvs \<and> (\<forall>kv \<in> set kvs. wf_json (snd kv)))"
| "wf_json _ = True"

subsection \<open>Member access\<close>

definition is_null :: "json \<Rightarrow> bool" where
  "is_null j \<longleftrightarrow> j = JNull"

definition contains :: "json \<Rightarrow> string \<Rightarrow> bool" where
  "contains j k = (case j of JObject kvs \<Rightarrow> map_of kvs k \<noteq> None | _ \<Rightarrow> False)"

text \<open>The const \<^verbatim>\<open>j[k]\<close>.\<close>

definition jat :: "json \<Rightarrow> string \<Rightarrow> json result" where
  "jat j k = (case j of
     JObject kvs \<Rightarrow> (case map_of kvs k of Some v \<Rightarrow> Inr v | None \<Rightarrow> Inl Undefined)
   | _ \<Rightarrow> Inl TypeError)"

text \<open>The value at a key, null where there is none: the pure view of a document.\<close>

definition jget :: "json \<Rightarrow> string \<Rightarrow> json" where
  "jget j k = (case j of JObject kvs \<Rightarrow> (case map_of kvs k of Some v \<Rightarrow> v | None \<Rightarrow> JNull) | _ \<Rightarrow> JNull)"

text \<open>The non-const \<^verbatim>\<open>j[k]\<close>: the value and the document after the access.\<close>

definition jref :: "json \<Rightarrow> string \<Rightarrow> (json \<times> json) result" where
  "jref j k = (case j of
     JNull \<Rightarrow> Inr (JNull, JObject [(k, JNull)])
   | JObject kvs \<Rightarrow> Inr (jget j k, JObject (upd k (jget j k) kvs))
   | _ \<Rightarrow> Inl TypeError)"

text \<open>\<^verbatim>\<open>j[k] = v\<close> on null or an object (the shape of every response the code builds).\<close>

definition jput :: "string \<Rightarrow> json \<Rightarrow> json \<Rightarrow> json" where
  "jput k v j = (case j of JNull \<Rightarrow> JObject [(k, v)] | JObject kvs \<Rightarrow> JObject (upd k v kvs) | _ \<Rightarrow> j)"

text \<open>An object literal \<^verbatim>\<open>{{k, v}, ...}\<close>, and an object filled key by key from null.\<close>

definition jobj :: "(string \<times> json) list \<Rightarrow> json" where
  "jobj kvs = JObject (foldl (\<lambda>acc (k, v). upd k v acc) [] kvs)"

definition push_back :: "json \<Rightarrow> json \<Rightarrow> json result" where
  "push_back j v = (case j of JNull \<Rightarrow> Inr (JArray [v]) | JArray vs \<Rightarrow> Inr (JArray (vs @ [v])) | _ \<Rightarrow> Inl TypeError)"

text \<open>\<^verbatim>\<open>items()\<close>: the keys and values, in order; an array is keyed by its indices.\<close>

definition items :: "json \<Rightarrow> (string \<times> json) list" where
  "items j = (case j of
     JNull \<Rightarrow> []
   | JObject kvs \<Rightarrow> kvs
   | JArray vs \<Rightarrow> map (\<lambda>i. (string_of_nat i, vs ! i)) [0..<length vs]
   | _ \<Rightarrow> [([], j)])"

definition jsize :: "json \<Rightarrow> nat" where
  "jsize j = length (items j)"

lemma jget_simps [simp]:
  "jget JNull k = JNull" "jget (JBool b) k = JNull" "jget (JInt i) k = JNull"
  "jget (JFloat q) k = JNull" "jget (JString t) k = JNull" "jget (JArray js) k = JNull"
  by (simp_all add: jget_def)

lemma jget_object: "jget (JObject kvs) k = (case map_of kvs k of Some v \<Rightarrow> v | None \<Rightarrow> JNull)"
  by (simp add: jget_def)

lemma jget_upd [simp]: "jget (JObject (upd k v kvs)) k' = (if k' = k then v else jget (JObject kvs) k')"
  by (simp add: jget_object)

lemma jget_jput:
  "j = JNull \<or> (\<exists>kvs. j = JObject kvs) \<Longrightarrow> jget (jput k v j) k' = (if k' = k then v else jget j k')"
  by (auto simp: jput_def jget_object)

lemma jat_jget: "jat j k = Inr v \<Longrightarrow> jget j k = v"
  by (auto simp: jat_def jget_def split: json.splits option.splits)

lemma contains_jat: "contains j k \<Longrightarrow> jat j k = Inr (jget j k)"
  by (auto simp: contains_def jat_def jget_def split: json.splits option.splits)

lemma jref_value: "jref j k = Inr (v, j') \<Longrightarrow> v = jget j k"
  by (auto simp: jref_def split: json.splits)

text \<open>Reading through the non-const operator changes no view of the document.\<close>

lemma jref_view: "jref j k = Inr (v, j') \<Longrightarrow> jget j' k' = jget j k'"
  by (auto simp: jref_def jget_object split: json.splits option.splits)

lemma wf_json_jget: "wf_json j \<Longrightarrow> wf_json (jget j k)"
  by (cases j) (auto simp: jget_def dest!: map_of_SomeD split: option.splits)

lemma wf_json_upd: "wf_json (JObject kvs) \<Longrightarrow> wf_json v \<Longrightarrow> wf_json (JObject (upd k v kvs))"
  using set_upd [of k v kvs] by (auto simp: sorted_keys_upd)

lemma wf_json_single [simp]: "wf_json (JObject [(k, v)]) \<longleftrightarrow> wf_json v"
  by (simp add: sorted_keys_def)

lemma wf_json_jput: "wf_json j \<Longrightarrow> wf_json v \<Longrightarrow> wf_json (jput k v j)"
  by (cases j) (auto simp: jput_def simp del: wf_json.simps(2) intro: wf_json_upd)

lemma wf_json_jref: "wf_json j \<Longrightarrow> jref j k = Inr (v, j') \<Longrightarrow> wf_json j'"
  using wf_json_jget [of j k]
  by (cases j) (auto simp: jref_def simp del: wf_json.simps(2) intro: wf_json_upd)

lemma wf_jobj: "(\<And>kv. kv \<in> set kvs \<Longrightarrow> wf_json (snd kv)) \<Longrightarrow> wf_json (jobj kvs)"
proof -
  have "wf_json (JObject (foldl (\<lambda>acc (k, v). upd k v acc) acc kvs))"
    if "wf_json (JObject acc)" "\<And>kv. kv \<in> set kvs \<Longrightarrow> wf_json (snd kv)" for acc
    using that
  proof (induction kvs arbitrary: acc)
    case (Cons kv kvs)
    then have "wf_json (JObject (upd (fst kv) (snd kv) acc))"
      by (intro wf_json_upd) simp_all
    with Cons show ?case by (cases kv) simp
  qed simp
  from this [of "[]"] show "(\<And>kv. kv \<in> set kvs \<Longrightarrow> wf_json (snd kv)) \<Longrightarrow> wf_json (jobj kvs)"
    by (simp add: jobj_def sorted_keys_def)
qed

lemma jget_jobj: "jget (jobj kvs) k = (case map_of (rev kvs) k of Some v \<Rightarrow> v | None \<Rightarrow> JNull)"
proof -
  have "map_of (foldl (\<lambda>acc (k, v). upd k v acc) acc kvs) = map_of (rev kvs @ acc)" for acc
  proof (induction kvs arbitrary: acc)
    case (Cons kv kvs)
    then show ?case by (cases kv) (auto simp: fun_eq_iff map_add_def split: option.splits)
  qed simp
  from this [of "[]"] show ?thesis by (simp add: jobj_def jget_object)
qed

subsection \<open>Conversions\<close>

definition get_string :: "json \<Rightarrow> string result" where
  "get_string j = (case j of JString s \<Rightarrow> Inr s | _ \<Rightarrow> Inl TypeError)"

definition get_bool :: "json \<Rightarrow> bool result" where
  "get_bool j = (case j of JBool b \<Rightarrow> Inr b | _ \<Rightarrow> Inl TypeError)"

text \<open>Truncation towards zero, the conversion from a double.\<close>

definition trunc_rat :: "rat \<Rightarrow> int" where
  "trunc_rat q = (if q < 0 then - \<lfloor>- q\<rfloor> else \<lfloor>q\<rfloor>)"

text \<open>
  \<^verbatim>\<open>get<int>()\<close> and \<^verbatim>\<open>get<long long>()\<close>: integers are reduced to the width, a float is truncated
  (outside the range that is undefined), a boolean counts as 0 or 1.
\<close>

definition get_signed :: "nat \<Rightarrow> json \<Rightarrow> int result" where
  "get_signed w j = (case j of
     JInt i \<Rightarrow> Inr (wrap_s w i)
   | JFloat q \<Rightarrow> (let i = trunc_rat q in if - (2 ^ (w - 1)) \<le> i \<and> i < 2 ^ (w - 1) then Inr i else Inl Undefined)
   | JBool b \<Rightarrow> Inr (if b then 1 else 0)
   | _ \<Rightarrow> Inl TypeError)"

definition get_int :: "json \<Rightarrow> int result" where
  "get_int = get_signed 32"

definition get_long :: "json \<Rightarrow> int result" where
  "get_long = get_signed 64"

text \<open>\<^verbatim>\<open>get<unsigned long>()\<close>, the library's own unsigned type: numbers only.\<close>

definition get_ulong :: "json \<Rightarrow> int result" where
  "get_ulong j = (case j of
     JInt i \<Rightarrow> Inr (to_ulong i)
   | JFloat q \<Rightarrow> (let i = trunc_rat q in if 0 \<le> i \<and> i < 2 ^ 64 then Inr i else Inl Undefined)
   | _ \<Rightarrow> Inl TypeError)"

definition get_array :: "json \<Rightarrow> json list result" where
  "get_array j = (case j of JArray js \<Rightarrow> Inr js | _ \<Rightarrow> Inl TypeError)"

definition get_strings :: "json \<Rightarrow> string list result" where
  "get_strings j = bindR (get_array j) (mapR get_string)"

definition is_number_integer :: "json \<Rightarrow> bool" where
  "is_number_integer j = (case j of JInt _ \<Rightarrow> True | _ \<Rightarrow> False)"

definition is_string :: "json \<Rightarrow> bool" where
  "is_string j = (case j of JString _ \<Rightarrow> True | _ \<Rightarrow> False)"

lemmas get_defs = get_string_def get_bool_def get_int_def get_long_def get_signed_def get_ulong_def
  get_array_def get_strings_def

lemma get_string_Inr [simp]: "get_string j = Inr s \<longleftrightarrow> j = JString s"
  by (auto simp: get_string_def split: json.splits)

lemma get_bool_Inr [simp]: "get_bool j = Inr b \<longleftrightarrow> j = JBool b"
  by (auto simp: get_bool_def split: json.splits)

lemma get_simps [simp]:
  "get_string (JString s) = Inr s" "get_bool (JBool b) = Inr b" "get_array (JArray js) = Inr js"
  by (simp_all add: get_defs)

lemma get_strings_JArray [simp]: "get_strings (JArray (map JString ss)) = Inr ss"
  by (induction ss) (simp_all add: get_strings_def)

lemma get_int_range: "get_int j = Inr i \<Longrightarrow> - (2 ^ 31) \<le> i \<and> i < 2 ^ 31"
  using to_int_range
  by (auto simp: get_int_def get_signed_def Let_def to_int_def split: json.splits if_splits)

subsection \<open>JSON pointers\<close>

text \<open>
  A pointer is its list of reference tokens. The tokens the program uses are words, so on an
  array they fail as an array index. \<open>ptr_ref\<close> is the non-const \<^verbatim>\<open>j[pointer]\<close>, which creates
  what is missing; \<open>ptr_at\<close> is \<^verbatim>\<open>j.at(pointer)\<close>, which does not.
\<close>

fun split_on :: "char \<Rightarrow> string \<Rightarrow> string list" where
  "split_on d [] = [[]]"
| "split_on d (c # cs) =
     (if c = d then [] # split_on d cs
      else (case split_on d cs of [] \<Rightarrow> [[c]] | w # ws \<Rightarrow> (c # w) # ws))"

definition ptr_tokens :: "string \<Rightarrow> string list" where
  "ptr_tokens s = tl (split_on (CHR ''/'') s)"

fun ptr_get :: "string list \<Rightarrow> json \<Rightarrow> json" where
  "ptr_get [] j = j"
| "ptr_get (t # ts) j = ptr_get ts (jget j t)"

fun ptr_ref :: "string list \<Rightarrow> json \<Rightarrow> (json \<times> json) result" where
  "ptr_ref [] j = Inr (j, j)"
| "ptr_ref (t # ts) j = (case j of
     JNull \<Rightarrow> bindR (ptr_ref ts JNull) (\<lambda>(v, c). Inr (v, JObject [(t, c)]))
   | JObject kvs \<Rightarrow> bindR (ptr_ref ts (jget j t)) (\<lambda>(v, c). Inr (v, JObject (upd t c kvs)))
   | JArray _ \<Rightarrow> Inl ParseError
   | _ \<Rightarrow> Inl OutOfRange)"

text \<open>\<^verbatim>\<open>j[pointer] = v\<close>\<close>

fun ptr_put :: "string list \<Rightarrow> json \<Rightarrow> json \<Rightarrow> json result" where
  "ptr_put [] v j = Inr v"
| "ptr_put (t # ts) v j = (case j of
     JNull \<Rightarrow> bindR (ptr_put ts v JNull) (\<lambda>c. Inr (JObject [(t, c)]))
   | JObject kvs \<Rightarrow> bindR (ptr_put ts v (jget j t)) (\<lambda>c. Inr (JObject (upd t c kvs)))
   | JArray _ \<Rightarrow> Inl ParseError
   | _ \<Rightarrow> Inl OutOfRange)"

fun ptr_at :: "string list \<Rightarrow> json \<Rightarrow> json result" where
  "ptr_at [] j = Inr j"
| "ptr_at (t # ts) j = (case j of
     JObject kvs \<Rightarrow> (case map_of kvs t of Some v \<Rightarrow> ptr_at ts v | None \<Rightarrow> Inl OutOfRange)
   | JArray _ \<Rightarrow> Inl ParseError
   | _ \<Rightarrow> Inl OutOfRange)"

text \<open>
  The two operations of a JSON patch the program issues. \<open>add\<close> needs the parent, \<open>replace\<close> the
  element itself to exist.
\<close>

definition patch_add :: "string list \<Rightarrow> json \<Rightarrow> json \<Rightarrow> json result" where
  "patch_add ts v j =
     (if ts = [] then Inr v
      else bindR (ptr_at (butlast ts) j) (\<lambda>p. case p of
          JNull \<Rightarrow> ptr_put ts v j
        | JObject _ \<Rightarrow> ptr_put ts v j
        | JArray _ \<Rightarrow> Inl ParseError
        | _ \<Rightarrow> Inl Undefined))"

definition patch_replace :: "string list \<Rightarrow> json \<Rightarrow> json \<Rightarrow> json result" where
  "patch_replace ts v j = bindR (ptr_at ts j) (\<lambda>_. ptr_put ts v j)"

lemma ptr_get_null [simp]: "ptr_get ts JNull = JNull"
  by (induction ts) simp_all

lemma ptr_get_append: "ptr_get (ts @ us) j = ptr_get us (ptr_get ts j)"
  by (induction ts arbitrary: j) simp_all

lemma ptr_ref_value: "ptr_ref ts j = Inr (v, j') \<Longrightarrow> v = ptr_get ts j"
proof (induction ts arbitrary: j v j')
  case (Cons t ts)
  then show ?case
    by (cases j) (fastforce simp: bindR_eq_Inr)+
qed simp

lemma ptr_put_get: "ptr_put ts v j = Inr j' \<Longrightarrow> ptr_get ts j' = v"
proof (induction ts arbitrary: j j')
  case (Cons t ts)
  then show ?case
    by (cases j) (auto simp: bindR_eq_Inr jget_object)
qed simp

text \<open>A pointer that is not a prefix of the one written, nor extends it, reads the same.\<close>

lemma ptr_put_other:
  "ptr_put ts v j = Inr j' \<Longrightarrow> \<not> prefix us ts \<Longrightarrow> \<not> prefix ts us \<Longrightarrow> ptr_get us j' = ptr_get us j"
proof (induction ts arbitrary: j j' us)
  case (Cons t ts)
  then obtain u us' where us: "us = u # us'"
    by (cases us) auto
  show ?case
  proof (cases "u = t")
    case True
    with Cons us show ?thesis
      by (cases j) (auto simp: bindR_eq_Inr jget_object dest: Cons.IH)
  next
    case False
    with Cons.prems(1) us show ?thesis
      by (cases j) (auto simp: bindR_eq_Inr jget_object)
  qed
qed simp

text \<open>After \<open>ptr_ref\<close> the path exists, so a patch of either kind at it goes through.\<close>

lemma ptr_ref_put: "ptr_ref ts j = Inr r \<Longrightarrow> \<exists>j'. ptr_put ts v j = Inr j'"
proof (induction ts arbitrary: j r)
  case (Cons t ts)
  then show ?case
    by (cases j) (auto simp: bindR_eq_Inr dest!: Cons.IH)
qed simp

lemma wf_json_ptr_put: "ptr_put ts v j = Inr j' \<Longrightarrow> wf_json j \<Longrightarrow> wf_json v \<Longrightarrow> wf_json j'"
proof (induction ts arbitrary: j j')
  case (Cons t ts)
  show ?case
  proof (cases j)
    case JNull
    with Cons show ?thesis by (auto simp: bindR_eq_Inr sorted_keys_def)
  next
    case (JObject kvs)
    with Cons.prems(1) obtain c where c: "ptr_put ts v (jget j t) = Inr c" "j' = JObject (upd t c kvs)"
      by (auto simp: bindR_eq_Inr)
    from Cons.IH [OF c(1) wf_json_jget [OF Cons.prems(2)] Cons.prems(3)] have "wf_json c" .
    with Cons.prems(2) JObject show ?thesis unfolding c(2) by (intro wf_json_upd) simp_all
  qed (use Cons.prems in auto)
qed simp

end
