(* ===== verification/Regex.thy ===== *)
theory Regex
  imports Prelude
begin

text \<open>
  The part of \<^verbatim>\<open>std::regex\<close> (ECMAScript grammar) the program uses: matching a whole string
  (\<^verbatim>\<open>regex_match\<close>), the leftmost match (\<^verbatim>\<open>regex_search\<close>) and replacing every match by a
  format string (\<^verbatim>\<open>regex_replace\<close>). A pattern of the source is written as a term of type
  \<open>rx\<close>; the matcher backtracks in the order ECMAScript prescribes (first alternative first,
  a star takes another round before it stops). The theorem at the end of the first part says
  that the backtracking matcher decides membership in the language of the pattern.
\<close>

datatype rx = REps | RSet "char \<Rightarrow> bool" | RSeq rx rx | RAlt rx rx | RStar rx

text \<open>
  What can be left of the input after a match of the pattern at its start, in the order the
  matcher tries the possibilities. A round of a star must consume something.
\<close>

function rests :: "rx \<Rightarrow> string \<Rightarrow> string list" where
  "rests REps s = [s]"
| "rests (RSet p) s = (case s of [] \<Rightarrow> [] | c # cs \<Rightarrow> if p c then [cs] else [])"
| "rests (RSeq a b) s = concat (map (rests b) (rests a s))"
| "rests (RAlt a b) s = rests a s @ rests b s"
| "rests (RStar a) s =
     concat (map (\<lambda>t. if length t < length s then rests (RStar a) t else []) (rests a s)) @ [s]"
  by pat_completeness auto
termination
  by (relation "measures [\<lambda>(r, s). size r, \<lambda>(r, s). length s]") auto

declare rests.simps(5) [simp del]

definition regex_match :: "rx \<Rightarrow> string \<Rightarrow> bool" where
  "regex_match r s \<longleftrightarrow> [] \<in> set (rests r s)"

text \<open>The leftmost match: what precedes it, the match, what follows.\<close>

fun regex_search :: "rx \<Rightarrow> string \<Rightarrow> (string \<times> string \<times> string) option" where
  "regex_search r s =
     (case rests r s of
        v # _ \<Rightarrow> Some ([], take (length s - length v) s, v)
      | [] \<Rightarrow> (case s of [] \<Rightarrow> None
         | c # cs \<Rightarrow> map_option (\<lambda>(p, m, q). (c # p, m, q)) (regex_search r cs)))"

declare regex_search.simps [simp del]

subsection \<open>Patterns\<close>

text \<open>The dot matches everything but the line terminators.\<close>

definition dot :: "char \<Rightarrow> bool" where
  "dot c \<longleftrightarrow> c \<noteq> CHR 0x0A \<and> c \<noteq> CHR 0x0D"

definition rdot :: rx where
  "rdot = RSet dot"

definition rdots :: rx where
  "rdots = RStar rdot"

fun rlit :: "string \<Rightarrow> rx" where
  "rlit [] = REps"
| "rlit (c # cs) = RSeq (RSet (\<lambda>x. x = c)) (rlit cs)"

definition rplus :: "rx \<Rightarrow> rx" where
  "rplus r = RSeq r (RStar r)"

fun rseq :: "rx list \<Rightarrow> rx" where
  "rseq [] = REps"
| "rseq (r # rs) = RSeq r (rseq rs)"

text \<open>Between \<open>m\<close> and \<open>m + n\<close> repetitions, greedy: \<^verbatim>\<open>{m,m+n}\<close>.\<close>

fun rrep :: "rx \<Rightarrow> nat \<Rightarrow> nat \<Rightarrow> rx" where
  "rrep r 0 0 = REps"
| "rrep r 0 (Suc n) = RAlt (RSeq r (rrep r 0 n)) REps"
| "rrep r (Suc m) n = RSeq r (rrep r m n)"

subsection \<open>The language of a pattern\<close>

inductive rxl :: "rx \<Rightarrow> string \<Rightarrow> bool" where
  eps: "rxl REps []"
| chr: "p c \<Longrightarrow> rxl (RSet p) [c]"
| seq: "rxl a u \<Longrightarrow> rxl b v \<Longrightarrow> rxl (RSeq a b) (u @ v)"
| alt1: "rxl a u \<Longrightarrow> rxl (RAlt a b) u"
| alt2: "rxl b u \<Longrightarrow> rxl (RAlt a b) u"
| star0: "rxl (RStar a) []"
| star1: "rxl a u \<Longrightarrow> rxl (RStar a) v \<Longrightarrow> rxl (RStar a) (u @ v)"

declare rxl.eps [simp] rxl.star0 [simp]

inductive_simps rxl_simps [simp]:
  "rxl REps u" "rxl (RSet p) u" "rxl (RAlt a b) u"

inductive_cases rxl_seqE: "rxl (RSeq a b) u"
inductive_cases rxl_starE: "rxl (RStar a) u"

lemma rxl_seq_iff: "rxl (RSeq a b) w \<longleftrightarrow> (\<exists>u v. w = u @ v \<and> rxl a u \<and> rxl b v)"
  by (auto intro: rxl.seq elim!: rxl_seqE)

lemma rxl_seq_set [simp]: "rxl (RSeq (RSet p) b) w \<longleftrightarrow> (\<exists>c v. w = c # v \<and> p c \<and> rxl b v)"
  by (auto simp: rxl_seq_iff) (metis append_Cons append_Nil)

text \<open>A word of the star is empty or starts with a nonempty round.\<close>

lemma rxl_star_split:
  "rxl (RStar a) w \<Longrightarrow> w = [] \<or> (\<exists>u v. w = u @ v \<and> u \<noteq> [] \<and> rxl a u \<and> rxl (RStar a) v)"
proof (induction "RStar a" w rule: rxl.induct)
  case (star1 u v)
  then show ?case by (cases "u = []") auto
qed simp

lemma rests_sound: "v \<in> set (rests r s) \<Longrightarrow> \<exists>u. s = u @ v \<and> rxl r u"
proof (induction r s arbitrary: v rule: rests.induct)
  case (2 p s)
  then show ?case by (auto split: list.splits if_splits)
next
  case (3 a b s)
  from "3.prems" obtain t where t: "t \<in> set (rests a s)" and v: "v \<in> set (rests b t)"
    by auto
  from "3.IH"(1) [OF t] obtain u1 where "s = u1 @ t" "rxl a u1" by blast
  moreover from "3.IH"(2) [OF t v] obtain u2 where "t = u2 @ v" "rxl b u2" by blast
  ultimately show ?case by (auto intro!: exI [of _ "u1 @ u2"] rxl.seq)
next
  case (4 a b s)
  then show ?case by auto
next
  case (5 a s)
  show ?case
  proof (cases "v = s")
    case False
    with "5.prems" obtain t where t: "t \<in> set (rests a s)" and lt: "length t < length s"
      and v: "v \<in> set (rests (RStar a) t)"
      by (auto simp: rests.simps(5) [of a s] split: if_splits)
    from "5.IH"(1) [OF t] obtain u1 where "s = u1 @ t" "rxl a u1" by blast
    moreover from "5.IH"(2) [OF t lt v] obtain u2 where "t = u2 @ v" "rxl (RStar a) u2" by blast
    ultimately show ?thesis by (auto intro!: exI [of _ "u1 @ u2"] rxl.star1)
  qed simp
qed auto

lemma rests_complete: "rxl r u \<Longrightarrow> s = u @ v \<Longrightarrow> v \<in> set (rests r s)"
proof (induction r s arbitrary: u v rule: rests.induct)
  case (3 a b s)
  from "3.prems"(1) obtain u1 u2 where u: "u = u1 @ u2" and a: "rxl a u1" and b: "rxl b u2"
    by (auto elim: rxl_seqE)
  have t: "u2 @ v \<in> set (rests a s)"
    using "3.IH"(1) [OF a] "3.prems"(2) u by simp
  from "3.IH"(2) [OF t b refl] t show ?case by (auto intro!: bexI [of _ "u2 @ v"])
next
  case (5 a s)
  from rxl_star_split [OF "5.prems"(1)] show ?case
  proof
    assume "u = []"
    with "5.prems"(2) show ?thesis by (subst rests.simps(5)) simp
  next
    assume "\<exists>u1 u2. u = u1 @ u2 \<and> u1 \<noteq> [] \<and> rxl a u1 \<and> rxl (RStar a) u2"
    then obtain u1 u2 where u: "u = u1 @ u2" "u1 \<noteq> []" and a: "rxl a u1" and r: "rxl (RStar a) u2"
      by blast
    have t: "u2 @ v \<in> set (rests a s)"
      using "5.IH"(1) [OF a] "5.prems"(2) u by simp
    have lt: "length (u2 @ v) < length s"
      using "5.prems"(2) u by simp
    from "5.IH"(2) [OF t lt r refl] t lt show ?thesis
      by (auto simp: rests.simps(5) [of a s] intro!: bexI [of _ "u2 @ v"])
  qed
qed auto

lemma set_rests: "set (rests r s) = {v. \<exists>u. s = u @ v \<and> rxl r u}"
  using rests_sound rests_complete by blast

lemma rests_Nil_iff: "rests r s = [] \<longleftrightarrow> (\<forall>u q. s = u @ q \<longrightarrow> \<not> rxl r u)"
proof -
  have "rests r s = [] \<longleftrightarrow> set (rests r s) = {}" by simp
  then show ?thesis unfolding set_rests by blast
qed

theorem regex_match_lang: "regex_match r s \<longleftrightarrow> rxl r s"
  by (simp add: regex_match_def set_rests)

subsection \<open>Languages of the patterns in use\<close>

lemma rxl_rlit [simp]: "rxl (rlit w) u \<longleftrightarrow> u = w"
  by (induction w arbitrary: u) (auto simp: rxl_seq_iff)

lemma rxl_star_set: "rxl (RStar (RSet p)) u \<longleftrightarrow> (\<forall>c \<in> set u. p c)"
proof
  assume "rxl (RStar (RSet p)) u"
  then show "\<forall>c \<in> set u. p c"
    by (induction "RStar (RSet p)" u rule: rxl.induct) auto
next
  assume "\<forall>c \<in> set u. p c"
  then show "rxl (RStar (RSet p)) u"
  proof (induction u)
    case (Cons c u)
    then have "rxl (RStar (RSet p)) ([c] @ u)"
      by (intro rxl.star1) auto
    then show ?case by simp
  qed simp
qed

lemma rxl_rdots [simp]: "rxl rdots u \<longleftrightarrow> (\<forall>c \<in> set u. dot c)"
  by (simp add: rdots_def rdot_def rxl_star_set)

lemma rxl_rdot [simp]: "rxl rdot u \<longleftrightarrow> (\<exists>c. u = [c] \<and> dot c)"
  by (auto simp: rdot_def)

lemma rxl_rplus_set: "rxl (rplus (RSet p)) u \<longleftrightarrow> u \<noteq> [] \<and> (\<forall>c \<in> set u. p c)"
  by (cases u) (simp_all add: rplus_def rxl_star_set)

lemma rxl_rrep_set: "rxl (rrep (RSet p) m n) u \<longleftrightarrow> m \<le> length u \<and> length u \<le> m + n \<and> (\<forall>c \<in> set u. p c)"
proof (induction "RSet p" m n arbitrary: u rule: rrep.induct)
  case 1
  then show ?case by auto
next
  case (2 n)
  show ?case by (cases u) (auto simp: 2)
next
  case (3 m n)
  show ?case by (cases u) (auto simp: 3)
qed

text \<open>\<^verbatim>\<open>.*w$\<close>: the string ends with the word, and no line terminator precedes it.\<close>

lemma match_dots_lit:
  "regex_match (RSeq rdots (rlit w)) s \<longleftrightarrow> (\<exists>u. s = u @ w \<and> (\<forall>c \<in> set u. dot c))"
  by (auto simp: regex_match_lang rxl_seq_iff)

text \<open>\<^verbatim>\<open>^w.*\<close>\<close>

lemma match_lit_dots:
  "regex_match (RSeq (rlit w) rdots) s \<longleftrightarrow> (\<exists>u. s = w @ u \<and> (\<forall>c \<in> set u. dot c))"
  by (auto simp: regex_match_lang rxl_seq_iff)

subsection \<open>Searching and replacing\<close>

lemma regex_search_SomeD:
  "regex_search r s = Some (p, m, q) \<Longrightarrow> s = p @ m @ q \<and> rxl r m"
proof (induction s arbitrary: p m q)
  case Nil
  then show ?case
    by (cases "rests r []") (use rests_sound [of _ r "[]"] in \<open>auto simp: regex_search.simps\<close>)
next
  case (Cons c cs)
  show ?case
  proof (cases "rests r (c # cs)")
    case Nil
    with Cons.prems obtain p' where "regex_search r cs = Some (p', m, q)" "p = c # p'"
      by (auto simp: regex_search.simps [of r "c # cs"])
    with Cons.IH show ?thesis by fastforce
  next
    case (Cons v vs)
    then have "v \<in> set (rests r (c # cs))" by simp
    then obtain u where u: "c # cs = u @ v" "rxl r u"
      using rests_sound by blast
    have "take (length (c # cs) - length v) (c # cs) = u"
      by (simp add: u(1))
    moreover have "p = [] \<and> m = take (length (c # cs) - length v) (c # cs) \<and> q = v"
      using Cons \<open>regex_search r (c # cs) = Some (p, m, q)\<close>
      by (auto simp: regex_search.simps [of r "c # cs"])
    ultimately show ?thesis using u by simp
  qed
qed

lemma regex_search_None: "regex_search r s = None \<longleftrightarrow> (\<forall>u. \<not> (\<exists>p q. s = p @ u @ q \<and> rxl r u))"
proof (induction s)
  case Nil
  have "rests r [] = [] \<longleftrightarrow> (\<forall>u. \<not> (\<exists>p q. [] = p @ u @ q \<and> rxl r u))"
    by (auto simp: rests_Nil_iff)
  then show ?case by (auto simp: regex_search.simps [of r "[]"] split: list.splits)
next
  case (Cons c cs)
  let ?L = "\<exists>u p q. c # cs = p @ u @ q \<and> rxl r u"
  let ?A = "\<exists>u q. c # cs = u @ q \<and> rxl r u"
  let ?B = "\<exists>u p q. cs = p @ u @ q \<and> rxl r u"
  have "?L \<longleftrightarrow> ?A \<or> ?B"
  proof
    assume ?L
    then obtain u p q where upq: "c # cs = p @ u @ q" "rxl r u" by blast
    then show "?A \<or> ?B" by (cases p) auto
  next
    assume "?A \<or> ?B"
    then show ?L by (metis append_Cons append_Nil)
  qed
  moreover have "rests r (c # cs) = [] \<longleftrightarrow> \<not> ?A"
    unfolding rests_Nil_iff by blast
  moreover have "regex_search r cs = None \<longleftrightarrow> \<not> ?B"
    using Cons.IH by simp
  moreover have "regex_search r (c # cs) = None \<longleftrightarrow> rests r (c # cs) = [] \<and> regex_search r cs = None"
    by (subst regex_search.simps) (auto split: list.splits)
  ultimately have "regex_search r (c # cs) = None \<longleftrightarrow> \<not> ?L" by argo
  then show ?case by simp
qed

text \<open>
  The replacement text of \<^verbatim>\<open>regex_replace\<close> is a format string: \<^verbatim>\<open>$$\<close> is a dollar sign,
  \<^verbatim>\<open>$&\<close> the match, \<^verbatim>\<open>$`\<close> and \<^verbatim>\<open>$'\<close> the text before and after it, \<^verbatim>\<open>$n\<close> and \<^verbatim>\<open>$nn\<close> a group
  (no group here but the whole match, number 0), and a dollar sign before anything else stands
  for itself. \<open>pre\<close> is the text since the previous match, \<open>post\<close> what follows this one.
\<close>

fun format_repl :: "string \<Rightarrow> string \<Rightarrow> string \<Rightarrow> string \<Rightarrow> string" where
  "format_repl pre m post [] = []"
| "format_repl pre m post [c] = [c]"
| "format_repl pre m post (c # d # fs) =
     (if c \<noteq> CHR ''$'' then c # format_repl pre m post (d # fs)
      else if d = CHR ''$'' then CHR ''$'' # format_repl pre m post fs
      else if d = CHR ''&'' then m @ format_repl pre m post fs
      else if d = CHR ''`'' then pre @ format_repl pre m post fs
      else if d = CHR 0x27 then post @ format_repl pre m post fs
      else if isdigit d then
        (case fs of
           e # fs' \<Rightarrow> if isdigit e
             then (if 10 * (byte d - 48) + (byte e - 48) = 0 then m else []) @ format_repl pre m post fs'
             else (if byte d = 48 then m else []) @ format_repl pre m post fs
         | [] \<Rightarrow> (if byte d = 48 then m else []))
      else CHR ''$'' # format_repl pre m post (d # fs))"

lemma format_repl_plain [simp]: "CHR ''$'' \<notin> set f \<Longrightarrow> format_repl pre m post f = f"
  by (induction pre m post f rule: format_repl.induct) auto

text \<open>
  Every match is replaced, from the left; the patterns the program replaces never match the
  empty string.
\<close>

fun replace_from :: "rx \<Rightarrow> string \<Rightarrow> string \<Rightarrow> string \<Rightarrow> string" where
  "replace_from r f pre [] = pre"
| "replace_from r f pre (c # cs) =
     (case rests r (c # cs) of
        v # _ \<Rightarrow>
          if length v \<le> length cs
          then pre @ format_repl pre (take (length (c # cs) - length v) (c # cs)) v f
                 @ replace_from r f [] v
          else replace_from r f (pre @ [c]) cs
      | [] \<Rightarrow> replace_from r f (pre @ [c]) cs)"

definition regex_replace :: "rx \<Rightarrow> string \<Rightarrow> string \<Rightarrow> string" where
  "regex_replace r f s = replace_from r f [] s"

lemma replace_from_no_match:
  "(\<And>p u q. s = p @ u @ q \<Longrightarrow> rxl r u \<Longrightarrow> u = []) \<Longrightarrow> replace_from r f pre s = pre @ s"
proof (induction s arbitrary: pre)
  case (Cons c cs)
  have "length v > length cs" if "v \<in> set (rests r (c # cs))" for v
  proof -
    from rests_sound [OF that] obtain u where u: "c # cs = u @ v" "rxl r u" by blast
    with Cons.prems [of "[]" u v] show ?thesis by auto
  qed
  moreover have "replace_from r f (pre @ [c]) cs = pre @ c # cs"
    using Cons.IH [of "pre @ [c]"] Cons.prems by (metis append_Cons append_assoc append_Nil)
  ultimately show ?case
    by (auto split: list.splits) (metis leD list.set_intros(1))
qed simp

lemma regex_replace_no_match:
  "(\<And>p u q. s = p @ u @ q \<Longrightarrow> rxl r u \<Longrightarrow> u = []) \<Longrightarrow> regex_replace r f s = s"
  by (simp add: regex_replace_def replace_from_no_match)

text \<open>Deleting a class of single bytes is filtering.\<close>

lemma rests_RSet [simp]: "rests (RSet p) (c # cs) = (if p c then [cs] else [])"
  by simp

lemma replace_class_empty: "replace_from (RSet p) [] pre s = pre @ filter (\<lambda>c. \<not> p c) s"
proof (induction s arbitrary: pre)
  case (Cons c cs)
  then show ?case by (cases "p c") auto
qed simp

lemma regex_replace_class_empty: "regex_replace (RSet p) [] s = filter (\<lambda>c. \<not> p c) s"
  by (simp add: regex_replace_def replace_class_empty)

end
