(* ===== verification/Helpers.thy ===== *)
theory Helpers
  imports Json Regex
begin

text \<open>
  \<^verbatim>\<open>helpers.cpp\<close>: splitting and trimming strings, tokens, URL decoding, checking the fields of
  a request, path separators, glob patterns and the splitting of a shell command.
\<close>

text \<open>The platforms the code is compiled for (\<^verbatim>\<open>NEU_OS_NAME\<close>), and the application modes.\<close>

datatype platform = Linux | Windows | Darwin | FreeBSD

datatype AppMode = AppModeWindow | AppModeBrowser | AppModeCloud | AppModeChrome

fun NEU_OS_NAME :: "platform \<Rightarrow> string" where
  "NEU_OS_NAME Linux = ''Linux''"
| "NEU_OS_NAME Windows = ''Windows''"
| "NEU_OS_NAME Darwin = ''Darwin''"
| "NEU_OS_NAME FreeBSD = ''FreeBSD''"

subsection \<open>Splitting\<close>

text \<open>
  The loop reads with \<^verbatim>\<open>getline\<close> until nothing is left; a separator at the very end yields no
  empty last token. After \<open>stopAfter - 1\<close> tokens the separator becomes the newline.
\<close>

function split_loop :: "char \<Rightarrow> 32 word \<Rightarrow> string list \<Rightarrow> string \<Rightarrow> string list" where
  "split_loop delim stopAfter tokens s =
     (if s = [] then tokens
      else let item = takeWhile (\<lambda>c. c \<noteq> delim) s;
               tokens' = tokens @ [item];
               delim' = (if stopAfter \<noteq> -1 \<and> length tokens' = unat (stopAfter - 1) then CHR 0x0A else delim)
           in split_loop delim' stopAfter tokens' (drop (length item + 1) s))"
  by pat_completeness auto
termination
  by (relation "measure (\<lambda>(d, n, ts, s). length s)") auto

declare split_loop.simps [simp del]

definition split :: "string \<Rightarrow> char \<Rightarrow> string list" where
  "split s delim = split_loop delim (-1) [] s"

definition splitTwo :: "string \<Rightarrow> char \<Rightarrow> string list" where
  "splitTwo s delim = split_loop delim 2 [] s"

definition trimRight :: "string \<Rightarrow> string" where
  "trimRight s = rev (dropWhile isspace (rev s))"

subsection \<open>Tokens\<close>

definition token_characters :: string where
  "token_characters = ''-_0123456789ABCDEFGHIJKLMNOPQRSTUVWXYZabcdefghijklmnopqrstuvwxyz''"

text \<open>\<open>draw i\<close> is what the random distribution over the alphabet returns the \<open>i\<close>-th time.\<close>

definition generateToken :: "(nat \<Rightarrow> nat) \<Rightarrow> string" where
  "generateToken draw =
     concat (map (\<lambda>i. (if i = 47 then ''.'' else []) @ [token_characters ! draw i]) [0..<96])"

subsection \<open>URL decoding\<close>

definition hexval :: "char \<Rightarrow> nat" where
  "hexval c =
     (let a = byte c;
          a = (if 97 \<le> a then a - (97 - 65) else a)
      in if 65 \<le> a then a - (65 - 10) else a - 48)"

fun urldecode :: "string \<Rightarrow> string" where
  "urldecode (c # a # b # src) =
     (if c = CHR ''%'' \<and> isxdigit a \<and> isxdigit b
      then char_of (16 * hexval a + hexval b) # urldecode src
      else c # urldecode (a # b # src))"
| "urldecode [c, a] = [c, a]"
| "urldecode [c] = [c]"
| "urldecode [] = []"

text \<open>What a \<^verbatim>\<open>char*\<close> denotes: the bytes before the first zero byte.\<close>

definition c_str :: "string \<Rightarrow> string" where
  "c_str s = takeWhile (\<lambda>c. c \<noteq> CHR 0x00) s"

definition cStrCopy :: "string \<Rightarrow> string" where
  "cStrCopy s = s @ [CHR 0x00]"

subsection \<open>Request fields\<close>

definition hasField :: "json \<Rightarrow> string \<Rightarrow> bool" where
  "hasField input key \<longleftrightarrow> contains input key \<and> \<not> is_null (jget input key)"

fun hasRequiredFields :: "json \<Rightarrow> string list \<Rightarrow> bool" where
  "hasRequiredFields input [] = True"
| "hasRequiredFields input (key # keys) = (if \<not> hasField input key then False else hasRequiredFields input keys)"

fun missingRequiredField :: "json \<Rightarrow> string list \<Rightarrow> string option" where
  "missingRequiredField input [] = None"
| "missingRequiredField input (key # keys) =
     (if \<not> hasField input key then Some key else missingRequiredField input keys)"

definition getModes :: "string list" where
  "getModes = [''window'', ''browser'', ''cloud'', ''chrome'']"

fun appModeToStr :: "AppMode \<Rightarrow> string" where
  "appModeToStr AppModeWindow = ''window''"
| "appModeToStr AppModeBrowser = ''browser''"
| "appModeToStr AppModeCloud = ''cloud''"
| "appModeToStr AppModeChrome = ''chrome''"

subsection \<open>Paths\<close>

definition normalizePath :: "platform \<Rightarrow> string \<Rightarrow> string" where
  "normalizePath pf path =
     (let path = (if pf = Windows then map (\<lambda>c. if c = CHR 0x5C then CHR ''/'' else c) path else path)
      in if 1 < length path \<and> last path = CHR ''/'' then butlast path else path)"

definition unNormalizePath :: "platform \<Rightarrow> string \<Rightarrow> string" where
  "unNormalizePath pf path =
     (if pf = Windows then map (\<lambda>c. if c = CHR ''/'' then CHR 0x5C else c) path else path)"

subsection \<open>Glob patterns\<close>

definition glob_escaped :: string where
  "glob_escaped = ''.'' @ [CHR 0x5C] @ ''+()[]{}|^$#''"

definition glob_char :: "char \<Rightarrow> string" where
  "glob_char c =
     (if c = CHR ''*'' then ''.*''
      else if c = CHR ''?'' then ''.''
      else if c \<in> set glob_escaped then [CHR 0x5C, c]
      else [c])"

definition glob_regex :: "string \<Rightarrow> string" where
  "glob_regex pattern = ''^'' @ concat (map glob_char pattern) @ ''$''"

text \<open>
  Reading such a pattern: between the anchors, an escaped byte, a dot or a byte that is not
  special, each with an optional star. Anything else is outside the fragment the function builds
  (\<^verbatim>\<open>regex_error\<close>).
\<close>

definition rx_special :: string where
  "rx_special = [CHR 0x5C] @ ''^$.*+?()[]{}|''"

fun parse_atoms :: "string \<Rightarrow> rx list option" where
  "parse_atoms [] = Some []"
| "parse_atoms [c] =
     (if c = CHR ''$'' then Some [] else None)"
| "parse_atoms (c # d # cs) =
     (if c = CHR 0x5C then
        (case cs of
           e # cs' \<Rightarrow> if e = CHR ''*''
              then map_option ((#) (RStar (RSet (\<lambda>x. x = d)))) (parse_atoms cs')
              else map_option ((#) (RSet (\<lambda>x. x = d))) (parse_atoms cs)
         | [] \<Rightarrow> None)
      else if c = CHR ''.'' then
        (if d = CHR ''*'' then map_option ((#) rdots) (parse_atoms cs)
         else map_option ((#) rdot) (parse_atoms (d # cs)))
      else if c \<in> set rx_special then None
      else if d = CHR ''*'' then map_option ((#) (RStar (RSet (\<lambda>x. x = c)))) (parse_atoms cs)
      else map_option ((#) (RSet (\<lambda>x. x = c))) (parse_atoms (d # cs)))"

definition parse_anchored :: "string \<Rightarrow> rx option" where
  "parse_anchored s = (case s of
     c # cs \<Rightarrow> if c = CHR ''^'' then map_option rseq (parse_atoms cs) else None
   | [] \<Rightarrow> None)"

definition globalMatch :: "string \<Rightarrow> string \<Rightarrow> bool" where
  "globalMatch value pattern =
     (case parse_anchored (glob_regex pattern) of None \<Rightarrow> False | Some r \<Rightarrow> regex_match r value)"

subsection \<open>Command lines\<close>

text \<open>The bytes that end tokenizing outside quotes; \<^verbatim>\<open>strchr\<close> also finds the terminating zero.\<close>

definition shell_meta :: string where
  "shell_meta = '';|&><$`(){}'' @ [CHR 0x5C, CHR 0x0A, CHR 0x0D, CHR 0x00]"

definition flushToken :: "string list \<Rightarrow> string \<Rightarrow> string list" where
  "flushToken tokens current = (if current \<noteq> [] then tokens @ [current] else tokens)"

fun tokenize_loop :: "string list \<Rightarrow> string \<Rightarrow> bool \<Rightarrow> bool \<Rightarrow> string \<Rightarrow> string list" where
  "tokenize_loop tokens current inSingle inDouble [] =
     (if inSingle \<or> inDouble then [] else flushToken tokens current)"
| "tokenize_loop tokens current inSingle inDouble (c # cs) =
     (if \<not> inSingle \<and> \<not> inDouble then
        (if isspace c then tokenize_loop (flushToken tokens current) [] inSingle inDouble cs
         else if c = CHR 0x27 then tokenize_loop tokens current True inDouble cs
         else if c = CHR 0x22 then tokenize_loop tokens current inSingle True cs
         else if c \<in> set shell_meta then []
         else tokenize_loop tokens (current @ [c]) inSingle inDouble cs)
      else if inSingle then
        (if c = CHR 0x27 then tokenize_loop tokens current False inDouble cs
         else tokenize_loop tokens (current @ [c]) inSingle inDouble cs)
      else
        (if c = CHR 0x22 then tokenize_loop tokens current inSingle False cs
         else tokenize_loop tokens (current @ [c]) inSingle inDouble cs))"

definition tokenizeCommand :: "string \<Rightarrow> string list" where
  "tokenizeCommand command = tokenize_loop [] [] False False command"


section \<open>Properties\<close>

subsection \<open>Splitting\<close>

lemma split_loop_acc:
  "stop = -1 \<or> unat (stop - 1) \<le> length ts \<Longrightarrow> split_loop d stop ts s = ts @ split_loop d (-1) [] s"
proof (induction "length s" arbitrary: ts s stop rule: less_induct)
  case less
  show ?case
  proof (cases "s = []")
    case True
    then show ?thesis by (simp add: split_loop.simps)
  next
    case False
    let ?w = "takeWhile (\<lambda>c. c \<noteq> d) s"
    let ?r = "drop (length ?w + 1) s"
    have r: "length ?r < length s" using False by simp
    have "split_loop d (-1) [] s = [?w] @ split_loop d (-1) [] ?r"
      using False less.hyps [OF r, of "-1" "[?w]"]
      by (subst split_loop.simps) (simp add: Let_def)
    moreover have "split_loop d stop ts s = split_loop d stop (ts @ [?w]) ?r"
      using False less.prems by (subst split_loop.simps) (auto simp: Let_def)
    moreover have "split_loop d stop (ts @ [?w]) ?r = (ts @ [?w]) @ split_loop d (-1) [] ?r"
      using less.prems by (intro less.hyps [OF r]) auto
    ultimately show ?thesis by simp
  qed
qed

lemma split_Nil [simp]: "split [] d = []"
  by (simp add: split_def split_loop.simps)

lemma split_step:
  "s \<noteq> [] \<Longrightarrow> split s d = takeWhile (\<lambda>c. c \<noteq> d) s # split (drop (length (takeWhile (\<lambda>c. c \<noteq> d) s) + 1) s) d"
  unfolding split_def
  by (subst split_loop.simps) (simp add: Let_def split_loop_acc [of "-1" "[_]"])

lemma splitTwo_step:
  "s \<noteq> [] \<Longrightarrow> splitTwo s d =
     takeWhile (\<lambda>c. c \<noteq> d) s # split (drop (length (takeWhile (\<lambda>c. c \<noteq> d) s) + 1) s) (CHR 0x0A)"
  unfolding split_def splitTwo_def
  by (subst split_loop.simps) (simp add: Let_def split_loop_acc [of "2" "[_]"])

lemma splitTwo_Nil [simp]: "splitTwo [] d = []"
  by (simp add: splitTwo_def split_loop.simps)

lemma split_absent: "d \<notin> set s \<Longrightarrow> s \<noteq> [] \<Longrightarrow> split s d = [s]"
  by (simp add: split_step)

lemma split_Cons_sep: "d \<notin> set w \<Longrightarrow> split (w @ d # s) d = w # split s d"
  by (subst split_step) simp_all

text \<open>A pair \<open>key=value\<close> splits in two at the first separator, when the value has no newline.\<close>

lemma splitTwo_pair:
  "d \<notin> set k \<Longrightarrow> CHR 0x0A \<notin> set v \<Longrightarrow> v \<noteq> [] \<Longrightarrow> splitTwo (k @ d # v) d = [k, v]"
  by (subst splitTwo_step) (simp_all add: split_absent)

lemma splitTwo_absent: "d \<notin> set s \<Longrightarrow> s \<noteq> [] \<Longrightarrow> splitTwo s d = [s]"
  by (simp add: splitTwo_step)

lemma splitTwo_hd: "s \<noteq> [] \<Longrightarrow> splitTwo s d \<noteq> [] \<and> hd (splitTwo s d) = takeWhile (\<lambda>c. c \<noteq> d) s"
  by (simp add: splitTwo_step)

lemma split_length_one: "length (split s d) < 2 \<longleftrightarrow> d \<notin> set (butlast s)"
proof (cases "d \<in> set s")
  case False
  then have "d \<notin> set (butlast s)" by (meson in_set_butlastD)
  with False show ?thesis by (cases "s = []") (simp_all add: split_absent)
next
  case True
  then obtain w r where s: "s = w @ d # r" "d \<notin> set w" by (meson split_list_first)
  then have "split s d = w # split r d" by (simp add: split_Cons_sep)
  moreover have "split r d = [] \<longleftrightarrow> r = []" by (cases "r = []") (simp_all add: split_step)
  ultimately have "length (split s d) < 2 \<longleftrightarrow> r = []"
    by (metis length_Cons length_greater_0_conv less_2_cases_iff less_numeral_extra(3) list.size(3)
        not_less_eq numeral_2_eq_2)
  moreover have "d \<in> set (butlast s) \<longleftrightarrow> r \<noteq> []"
    using s by (auto simp: butlast_append)
  ultimately show ?thesis by simp
qed

subsection \<open>Tokens\<close>

lemma length_token_characters [simp]: "length token_characters = 64"
  by (simp add: token_characters_def)

lemma token_chars_word: "c \<in> set token_characters \<Longrightarrow> isword c \<or> c = CHR ''-''"
proof -
  have "list_all (\<lambda>c. isword c \<or> c = CHR ''-'') token_characters"
    by (simp add: token_characters_def ctype_defs)
  then show "c \<in> set token_characters \<Longrightarrow> isword c \<or> c = CHR ''-''"
    by (simp add: list_all_iff)
qed

definition token_head :: "(nat \<Rightarrow> nat) \<Rightarrow> string" where
  "token_head draw = map (\<lambda>i. token_characters ! draw i) [0..<47]"

definition token_tail :: "(nat \<Rightarrow> nat) \<Rightarrow> string" where
  "token_tail draw = map (\<lambda>i. token_characters ! draw i) [47..<96]"

lemma generateToken_parts: "generateToken draw = token_head draw @ CHR ''.'' # token_tail draw"
proof -
  have u2: "[47..<96::nat] = 47 # [48..<96]"
    using upt_conv_Cons [of 47 96] by (simp del: upt_rec_numeral)
  have u1: "[0..<96] = [0..<47] @ 47 # [48..<96::nat]"
    using upt_add_eq_append [of 0 47 49] by (simp add: u2 del: upt_rec_numeral)
  have a: "concat (map (\<lambda>i. (if i = 47 then ''.'' else []) @ [token_characters ! draw i]) xs)
      = map (\<lambda>i. token_characters ! draw i) xs" if "47 \<notin> set xs" for xs
    using that by (induction xs) auto
  show ?thesis
    unfolding generateToken_def token_head_def token_tail_def u1 u2
    by (simp add: a del: upt_rec_numeral upt_Suc)
qed

lemma token_part_chars:
  assumes "\<And>i. draw i < 64"
  shows "set (token_head draw) \<subseteq> set token_characters" "set (token_tail draw) \<subseteq> set token_characters"
  using assms by (auto simp: token_head_def token_tail_def)

lemma token_tail_safe:
  assumes "\<And>i. draw i < 64" "c \<in> set (token_head draw) \<union> set (token_tail draw)"
  shows "isword c \<or> c = CHR ''-''" and "c \<noteq> CHR ''.''" and "c \<noteq> CHR 0x0A"
proof -
  have c: "c \<in> set token_characters"
    using assms token_part_chars [of draw] by blast
  show "isword c \<or> c = CHR ''-''" using token_chars_word [OF c] .
  then show "c \<noteq> CHR ''.''" "c \<noteq> CHR 0x0A" by (auto simp: ctype_defs)
qed

lemma splitTwo_token:
  assumes "\<forall>i. draw i < 64"
  shows "splitTwo (generateToken draw) (CHR ''.'') = [token_head draw, token_tail draw]"
proof -
  have "CHR ''.'' \<notin> set (token_head draw)" "CHR 0x0A \<notin> set (token_tail draw)"
    using assms token_tail_safe(2) [of draw "CHR ''.''"] token_tail_safe(3) [of draw "CHR 0x0A"]
    by blast+
  moreover have "token_tail draw \<noteq> []" by (simp add: token_tail_def)
  ultimately show ?thesis unfolding generateToken_parts by (rule splitTwo_pair)
qed

subsection \<open>URL decoding\<close>

text \<open>The decoded text never outgrows the buffer, which holds \<^verbatim>\<open>strlen(src) + 1\<close> bytes.\<close>

lemma urldecode_length: "length (urldecode s) \<le> length s"
  by (induction s rule: urldecode.induct) auto

definition hex_digit :: "nat \<Rightarrow> char" where
  "hex_digit n = char_of (if n < 10 then 48 + n else 55 + n)"

text \<open>Percent encoding of every byte but the unreserved ones: what a client sends.\<close>

definition unreserved :: "char \<Rightarrow> bool" where
  "unreserved c \<longleftrightarrow> isalnum c \<or> c \<in> set ''-_.~/''"

fun urlencode :: "string \<Rightarrow> string" where
  "urlencode [] = []"
| "urlencode (c # cs) =
     (if unreserved c then c # urlencode cs
      else CHR ''%'' # hex_digit (byte c div 16) # hex_digit (byte c mod 16) # urlencode cs)"

lemma hex_digit_byte: "n < 16 \<Longrightarrow> byte (hex_digit n) = (if n < 10 then 48 + n else 55 + n)"
  by (simp add: hex_digit_def byte_char_of)

lemma hex_digit_xdigit: "n < 16 \<Longrightarrow> isxdigit (hex_digit n)"
  by (auto simp: isxdigit_def isdigit_def hex_digit_byte)

lemma hexval_hex_digit: "n < 16 \<Longrightarrow> hexval (hex_digit n) = n"
  by (simp add: hexval_def hex_digit_byte)

lemma urldecode_plain: "c \<noteq> CHR ''%'' \<Longrightarrow> urldecode (c # s) = c # urldecode s"
  by (cases s; cases "tl s") auto

lemma unreserved_not_percent: "unreserved c \<Longrightarrow> c \<noteq> CHR ''%''"
  by (auto simp: unreserved_def ctype_defs)

lemma urldecode_urlencode_append: "urldecode (urlencode s @ t) = s @ urldecode t"
proof (induction s)
  case (Cons c s)
  have b: "byte c div 16 < 16" "byte c mod 16 < 16" using byte_less [of c] by simp_all
  have "16 * (byte c div 16) + byte c mod 16 = byte c" by simp
  with b Cons show ?case
    by (cases "unreserved c")
      (auto simp: urldecode_plain unreserved_not_percent hex_digit_xdigit hexval_hex_digit)
qed simp

subsection \<open>Request fields\<close>

lemma hasField_jat: "hasField j k \<Longrightarrow> jat j k = Inr (jget j k)"
  by (simp add: hasField_def contains_jat)

lemma hasField_iff: "hasField j k \<longleftrightarrow> jget j k \<noteq> JNull"
  by (auto simp: hasField_def contains_def is_null_def jget_def split: json.splits option.splits)

lemma hasRequiredFields_iff: "hasRequiredFields j ks \<longleftrightarrow> (\<forall>k \<in> set ks. hasField j k)"
  by (induction ks) auto

lemma missingRequiredField_None: "missingRequiredField j ks = None \<longleftrightarrow> hasRequiredFields j ks"
  by (induction ks) auto

lemma missingRequiredField_Some:
  "missingRequiredField j ks = Some k \<Longrightarrow>
     k \<in> set ks \<and> \<not> hasField j k \<and> (\<exists>pre post. ks = pre @ k # post \<and> (\<forall>k' \<in> set pre. hasField j k'))"
proof (induction ks)
  case (Cons k' ks)
  show ?case
  proof (cases "hasField j k'")
    case True
    with Cons obtain pre post where "ks = pre @ k # post" "\<forall>x \<in> set pre. hasField j x" "\<not> hasField j k"
      by auto
    with True have "k' # ks = (k' # pre) @ k # post" "\<forall>x \<in> set (k' # pre). hasField j x" by simp_all
    with \<open>\<not> hasField j k\<close> show ?thesis by (metis Cons_eq_appendI in_set_conv_decomp)
  next
    case False
    with Cons.prems have "k' = k" by simp
    then have "k' # ks = [] @ k # ks" by simp
    with False \<open>k' = k\<close> show ?thesis by (metis empty_iff list.set(1) list.set_intros(1))
  qed
qed simp

lemma appModeToStr_inj: "appModeToStr m = appModeToStr m' \<Longrightarrow> m = m'"
  by (cases m; cases m') simp_all

lemma appModeToStr_modes: "set getModes = range appModeToStr"
proof -
  have "UNIV = {AppModeWindow, AppModeBrowser, AppModeCloud, AppModeChrome}"
    by (auto intro: AppMode.exhaust)
  then have "range appModeToStr = appModeToStr ` {AppModeWindow, AppModeBrowser, AppModeCloud, AppModeChrome}"
    by simp
  then show ?thesis by (simp add: getModes_def del: image_insert) simp
qed

subsection \<open>Paths\<close>

lemma normalizePath_unix: "pf \<noteq> Windows \<Longrightarrow> normalizePath pf p = (if 1 < length p \<and> last p = CHR ''/'' then butlast p else p)"
  by (simp add: normalizePath_def Let_def)

lemma normalizePath_empty [simp]: "normalizePath pf p = [] \<longleftrightarrow> p = []"
  by (auto simp: normalizePath_def Let_def butlast_conv_take)

text \<open>On Windows the separator conversions undo each other on a path with one kind of separator.\<close>

lemma unNormalize_normalize:
  "CHR 0x5C \<notin> set p \<Longrightarrow> p = [] \<or> last p \<noteq> CHR ''/'' \<Longrightarrow> normalizePath pf (unNormalizePath pf p) = p"
proof -
  assume a: "CHR 0x5C \<notin> set p" "p = [] \<or> last p \<noteq> CHR ''/''"
  have "map (\<lambda>c. if c = CHR 0x5C then CHR ''/'' else c) (map (\<lambda>c. if c = CHR ''/'' then CHR 0x5C else c) p) = p"
    using a(1) by (induction p) auto
  with a show ?thesis
    by (auto simp: normalizePath_def unNormalizePath_def Let_def)
qed

subsection \<open>Glob patterns\<close>

text \<open>
  What a glob means: a star any run of bytes, a question mark any single one (line terminators
  excepted in both cases), every other byte itself.
\<close>

fun glob :: "string \<Rightarrow> string \<Rightarrow> bool" where
  "glob [] v = (v = [])"
| "glob (p # ps) [] = (p = CHR ''*'' \<and> glob ps [])"
| "glob (p # ps) (c # v) =
     (if p = CHR ''*'' then glob ps (c # v) \<or> (dot c \<and> glob (p # ps) v)
      else if p = CHR ''?'' then dot c \<and> glob ps v
      else p = c \<and> glob ps v)"

definition glob_rx :: "char \<Rightarrow> rx" where
  "glob_rx c = (if c = CHR ''*'' then rdots else if c = CHR ''?'' then rdot else RSet (\<lambda>x. x = c))"

lemma glob_char_no_star: "glob_char c \<noteq> [] \<and> hd (glob_char c) \<noteq> CHR ''*''"
  by (simp add: glob_char_def glob_escaped_def)

lemma glob_tail_shape:
  obtains d ds where "concat (map glob_char p) @ ''$'' = d # ds" "d \<noteq> CHR ''*''"
proof (cases p)
  case (Cons c p')
  with glob_char_no_star [of c] that show ?thesis
    by (cases "glob_char c") auto
qed (use that in auto)

lemma parse_atoms_glob: "parse_atoms (concat (map glob_char p) @ ''$'') = Some (map glob_rx p)"
proof (induction p)
  case (Cons c p)
  obtain d ds where d: "concat (map glob_char p) @ ''$'' = d # ds" "d \<noteq> CHR ''*''"
    by (rule glob_tail_shape)
  with Cons have IH: "parse_atoms (d # ds) = Some (map glob_rx p)" by simp
  consider "c = CHR ''*''" | "c = CHR ''?''" | "c \<in> set glob_escaped"
    | "c \<noteq> CHR ''*''" "c \<noteq> CHR ''?''" "c \<notin> set glob_escaped" by blast
  then show ?case
  proof cases
    case 1
    then have "glob_char c = ''.*''" "glob_rx c = rdots" by (simp_all add: glob_char_def glob_rx_def)
    with d IH show ?thesis by simp
  next
    case 2
    then have "glob_char c = ''.''" "glob_rx c = rdot" by (simp_all add: glob_char_def glob_rx_def)
    with d IH show ?thesis by simp
  next
    case 3
    then have "c \<noteq> CHR ''*''" "c \<noteq> CHR ''?''" by (auto simp: glob_escaped_def)
    with 3 have "glob_char c = [CHR 0x5C, c]" "glob_rx c = RSet (\<lambda>x. x = c)"
      by (simp_all add: glob_char_def glob_rx_def)
    with d IH show ?thesis by simp
  next
    case 4
    then have "c \<notin> set rx_special" "c \<noteq> CHR 0x5C" "c \<noteq> CHR ''.''"
      by (auto simp: rx_special_def glob_escaped_def)
    moreover from 4 have "glob_char c = [c]" "glob_rx c = RSet (\<lambda>x. x = c)"
      by (simp_all add: glob_char_def glob_rx_def)
    ultimately show ?thesis using d IH by simp
  qed
qed simp

lemma rxl_seq_rdots_Cons:
  "rxl (RSeq rdots r) (c # v) \<longleftrightarrow> rxl r (c # v) \<or> (dot c \<and> rxl (RSeq rdots r) v)"
proof
  assume "rxl (RSeq rdots r) (c # v)"
  then obtain u w where uw: "c # v = u @ w" "\<forall>x \<in> set u. dot x" "rxl r w"
    by (auto simp: rxl_seq_iff)
  then show "rxl r (c # v) \<or> (dot c \<and> rxl (RSeq rdots r) v)"
    by (cases u) (auto simp: rxl_seq_iff)
next
  assume "rxl r (c # v) \<or> (dot c \<and> rxl (RSeq rdots r) v)"
  then show "rxl (RSeq rdots r) (c # v)"
  proof
    assume "rxl r (c # v)"
    then show ?thesis unfolding rxl_seq_iff by (intro exI [of _ "[]"] exI [of _ "c # v"]) simp
  next
    assume "dot c \<and> rxl (RSeq rdots r) v"
    then obtain u w where "v = u @ w" "\<forall>x \<in> set u. dot x" "rxl r w" "dot c"
      by (auto simp: rxl_seq_iff)
    then show ?thesis unfolding rxl_seq_iff by (intro exI [of _ "c # u"] exI [of _ w]) auto
  qed
qed

lemma rxl_seq_rdot: "rxl (RSeq rdot r) v \<longleftrightarrow> (\<exists>c w. v = c # w \<and> dot c \<and> rxl r w)"
  by (simp add: rdot_def)

lemma rxl_glob: "rxl (rseq (map glob_rx p)) v \<longleftrightarrow> glob p v"
proof (induction p v rule: glob.induct)
  case (2 p ps)
  then show ?case
    by (auto simp: glob_rx_def rxl_seq_rdot rxl_seq_iff)
next
  case (3 p ps c v)
  then show ?case
    by (auto simp: glob_rx_def rxl_seq_rdot rxl_seq_rdots_Cons)
qed simp

lemma globalMatch_glob: "globalMatch value pattern \<longleftrightarrow> glob pattern value"
  by (simp add: globalMatch_def glob_regex_def parse_anchored_def parse_atoms_glob
      regex_match_lang rxl_glob)

subsection \<open>Command lines\<close>

text \<open>
  A byte that is neither white space, quote nor meta character stands for itself outside quotes.
\<close>

definition plain :: "char \<Rightarrow> bool" where
  "plain c \<longleftrightarrow> \<not> isspace c \<and> c \<noteq> CHR 0x27 \<and> c \<noteq> CHR 0x22 \<and> c \<notin> set shell_meta"

lemma tokenize_plain:
  "\<forall>c \<in> set w. plain c \<Longrightarrow>
     tokenize_loop ts cur False False (w @ s) = tokenize_loop ts (cur @ w) False False s"
  by (induction w arbitrary: cur) (auto simp: plain_def)

lemma tokenize_single_quoted:
  "CHR 0x27 \<notin> set w \<Longrightarrow>
     tokenize_loop ts cur True False (w @ CHR 0x27 # s) = tokenize_loop ts (cur @ w) False False s"
  by (induction w arbitrary: cur) auto

lemma tokenize_double_quoted:
  "CHR 0x22 \<notin> set w \<Longrightarrow>
     tokenize_loop ts cur False True (w @ CHR 0x22 # s) = tokenize_loop ts (cur @ w) False False s"
  by (induction w arbitrary: cur) auto

text \<open>The words of a command line, joined by single spaces.\<close>

fun unwords :: "string list \<Rightarrow> string" where
  "unwords [] = []"
| "unwords [w] = w"
| "unwords (w # ws) = w @ CHR '' '' # unwords ws"

lemma isspace_space [simp]: "isspace (CHR '' '')"
  by (simp add: ctype_defs)

lemma tokenize_unwords:
  "\<forall>w \<in> set ws. w \<noteq> [] \<and> (\<forall>c \<in> set w. plain c) \<Longrightarrow> tokenize_loop ts [] False False (unwords ws) = ts @ ws"
proof (induction ws arbitrary: ts rule: unwords.induct)
  case (2 w)
  then show ?case
    using tokenize_plain [of w ts "[]" "[]"] by (simp add: flushToken_def)
next
  case (3 w w' ws)
  then show ?case
    using tokenize_plain [of w ts "[]" "CHR '' '' # unwords (w' # ws)"] by (simp add: flushToken_def)
qed (simp add: flushToken_def)

text \<open>A meta character outside quotes, other than the two that are white space, empties the result.\<close>

lemma tokenize_meta:
  "\<forall>c \<in> set w. c \<noteq> CHR 0x27 \<and> c \<noteq> CHR 0x22 \<Longrightarrow> m \<in> set shell_meta \<Longrightarrow> \<not> isspace m \<Longrightarrow>
     tokenize_loop ts cur False False (w @ m # s) = []"
proof (induction w arbitrary: ts cur)
  case Nil
  then have "m \<noteq> CHR 0x27" "m \<noteq> CHR 0x22" by (auto simp: shell_meta_def)
  with Nil show ?case by simp
qed auto

end
