(* ===== verification/Errors.thy ===== *)
theory Errors
  imports Helpers
begin

text \<open>
  \<^verbatim>\<open>errors.h\<close> and \<^verbatim>\<open>errors.cpp\<close>: the status codes, their names and message templates, and
  the payload a failed native call answers with. The parameter replaces \<^verbatim>\<open>%1\<close> through
  \<^verbatim>\<open>regex_replace\<close>, so a dollar sign in it is read as a format.
\<close>

datatype (plugins only: size code) StatusCode =
    NE_ST_OK | NE_ST_INVSTKY | NE_ST_NOSTKEX | NE_ST_STKEYWE | NE_ST_STKEYRE | NE_ST_NOSTDIR
  | NE_OS_UNLTOUP | NE_OS_INVNOTA | NE_OS_INVMSGA | NE_OS_TRAYIER | NE_OS_INVKNPT | NE_OS_UNLTRAS
  | NE_OS_UNLTOUV | NE_OS_CMDNALW | NE_CO_UNLTOSC | NE_CO_UNLTOMG | NE_CO_UNLTONI | NE_CO_UNLTOSK
  | NE_CO_UNLTODI | NE_EX_EXTNOTC | NE_FS_FILWRER | NE_FS_DIRCRER | NE_FS_REMVERR | NE_FS_FILRDER
  | NE_FS_NOPATHE | NE_FS_NOTADIR | NE_FS_COPYERR | NE_FS_MOVEERR | NE_FS_FILOPER | NE_FS_UNLTOUP
  | NE_FS_UNLTFOP | NE_FS_UNLCWAT | NE_FS_NOWATID | NE_FS_UNLSTPR | NE_FS_ACSFAIL | NE_FS_CHMDERR
  | NE_FS_CHWNERR | NE_FS_SCOPERR | NE_WI_UNBSWSR | NE_RT_INVTOKN | NE_RT_APIPRME | NE_RT_NATPRME
  | NE_RT_NATRTER | NE_RT_NATNTIM | NE_RS_TREEGER | NE_RS_UNBLDRE | NE_RS_NOPATHE | NE_RS_FILEXTF
  | NE_RS_DIREXTF | NE_SR_UNBSEND | NE_SR_UNBPARS | NE_SR_MPINUSE | NE_SR_NOMTPTH | NE_NW_SSLCONN
  | NE_NW_SSLLOAD | NE_NW_SSLVERI | NE_NW_SSLHOST | NE_NW_HTTPERR | NE_CF_UNBLDCF | NE_CF_UNBPRCF
  | NE_CF_UNSUPMD | NE_CF_UNBLWCF

primrec getStatusCodeString :: "StatusCode \<Rightarrow> string" where
  "getStatusCodeString NE_ST_OK = ''NE_ST_OK''"
| "getStatusCodeString NE_ST_INVSTKY = ''NE_ST_INVSTKY''"
| "getStatusCodeString NE_ST_NOSTKEX = ''NE_ST_NOSTKEX''"
| "getStatusCodeString NE_ST_STKEYWE = ''NE_ST_STKEYWE''"
| "getStatusCodeString NE_ST_STKEYRE = ''NE_ST_STKEYRE''"
| "getStatusCodeString NE_ST_NOSTDIR = ''NE_ST_NOSTDIR''"
| "getStatusCodeString NE_OS_UNLTOUP = ''NE_OS_UNLTOUP''"
| "getStatusCodeString NE_OS_INVNOTA = ''NE_OS_INVNOTA''"
| "getStatusCodeString NE_OS_INVMSGA = ''NE_OS_INVMSGA''"
| "getStatusCodeString NE_OS_TRAYIER = ''NE_OS_TRAYIER''"
| "getStatusCodeString NE_OS_INVKNPT = ''NE_OS_INVKNPT''"
| "getStatusCodeString NE_OS_UNLTRAS = ''NE_OS_UNLTRAS''"
| "getStatusCodeString NE_OS_UNLTOUV = ''NE_OS_UNLTOUV''"
| "getStatusCodeString NE_OS_CMDNALW = ''NE_OS_CMDNALW''"
| "getStatusCodeString NE_CO_UNLTOSC = ''NE_CO_UNLTOSC''"
| "getStatusCodeString NE_CO_UNLTOMG = ''NE_CO_UNLTOMG''"
| "getStatusCodeString NE_CO_UNLTONI = ''NE_CO_UNLTONI''"
| "getStatusCodeString NE_CO_UNLTOSK = ''NE_CO_UNLTOSK''"
| "getStatusCodeString NE_CO_UNLTODI = ''NE_CO_UNLTODI''"
| "getStatusCodeString NE_EX_EXTNOTC = ''NE_EX_EXTNOTC''"
| "getStatusCodeString NE_FS_FILWRER = ''NE_FS_FILWRER''"
| "getStatusCodeString NE_FS_DIRCRER = ''NE_FS_DIRCRER''"
| "getStatusCodeString NE_FS_REMVERR = ''NE_FS_REMVERR''"
| "getStatusCodeString NE_FS_FILRDER = ''NE_FS_FILRDER''"
| "getStatusCodeString NE_FS_NOPATHE = ''NE_FS_NOPATHE''"
| "getStatusCodeString NE_FS_NOTADIR = ''NE_FS_NOTADIR''"
| "getStatusCodeString NE_FS_COPYERR = ''NE_FS_COPYERR''"
| "getStatusCodeString NE_FS_MOVEERR = ''NE_FS_MOVEERR''"
| "getStatusCodeString NE_FS_FILOPER = ''NE_FS_FILOPER''"
| "getStatusCodeString NE_FS_UNLTOUP = ''NE_FS_UNLTOUP''"
| "getStatusCodeString NE_FS_UNLTFOP = ''NE_FS_UNLTFOP''"
| "getStatusCodeString NE_FS_UNLCWAT = ''NE_FS_UNLCWAT''"
| "getStatusCodeString NE_FS_NOWATID = ''NE_FS_NOWATID''"
| "getStatusCodeString NE_FS_UNLSTPR = ''NE_FS_UNLSTPR''"
| "getStatusCodeString NE_FS_ACSFAIL = ''NE_FS_ACSFAIL''"
| "getStatusCodeString NE_FS_CHMDERR = ''NE_FS_CHMDERR''"
| "getStatusCodeString NE_FS_CHWNERR = ''NE_FS_CHWNERR''"
| "getStatusCodeString NE_FS_SCOPERR = ''NE_FS_SCOPERR''"
| "getStatusCodeString NE_WI_UNBSWSR = ''NE_WI_UNBSWSR''"
| "getStatusCodeString NE_RT_INVTOKN = ''NE_RT_INVTOKN''"
| "getStatusCodeString NE_RT_APIPRME = ''NE_RT_APIPRME''"
| "getStatusCodeString NE_RT_NATPRME = ''NE_RT_NATPRME''"
| "getStatusCodeString NE_RT_NATRTER = ''NE_RT_NATRTER''"
| "getStatusCodeString NE_RT_NATNTIM = ''NE_RT_NATNTIM''"
| "getStatusCodeString NE_RS_TREEGER = ''NE_RS_TREEGER''"
| "getStatusCodeString NE_RS_UNBLDRE = ''NE_RS_UNBLDRE''"
| "getStatusCodeString NE_RS_NOPATHE = ''NE_RS_NOPATHE''"
| "getStatusCodeString NE_RS_FILEXTF = ''NE_RS_FILEXTF''"
| "getStatusCodeString NE_RS_DIREXTF = ''NE_RS_DIREXTF''"
| "getStatusCodeString NE_SR_UNBSEND = ''NE_SR_UNBSEND''"
| "getStatusCodeString NE_SR_UNBPARS = ''NE_SR_UNBPARS''"
| "getStatusCodeString NE_SR_MPINUSE = ''NE_SR_MPINUSE''"
| "getStatusCodeString NE_SR_NOMTPTH = ''NE_SR_NOMTPTH''"
| "getStatusCodeString NE_NW_SSLCONN = ''NE_NW_SSLCONN''"
| "getStatusCodeString NE_NW_SSLLOAD = ''NE_NW_SSLLOAD''"
| "getStatusCodeString NE_NW_SSLVERI = ''NE_NW_SSLVERI''"
| "getStatusCodeString NE_NW_SSLHOST = ''NE_NW_SSLHOST''"
| "getStatusCodeString NE_NW_HTTPERR = ''NE_NW_HTTPERR''"
| "getStatusCodeString NE_CF_UNBLDCF = ''NE_CF_UNBLDCF''"
| "getStatusCodeString NE_CF_UNBPRCF = ''NE_CF_UNBPRCF''"
| "getStatusCodeString NE_CF_UNSUPMD = ''NE_CF_UNSUPMD''"
| "getStatusCodeString NE_CF_UNBLWCF = ''NE_CF_UNBLWCF''"

primrec findStatusCodeDesc :: "StatusCode \<Rightarrow> string" where
  "findStatusCodeDesc NE_ST_OK = []"
| "findStatusCodeDesc NE_ST_INVSTKY = ''Invalid storage key format. The key should match regex: %1''"
| "findStatusCodeDesc NE_ST_NOSTKEX = ''Unable to find storage key: %1''"
| "findStatusCodeDesc NE_ST_STKEYWE = ''Unable to write data to key: %1''"
| "findStatusCodeDesc NE_ST_STKEYRE = ''Unable to remove storage key: %1''"
| "findStatusCodeDesc NE_ST_NOSTDIR = ''Unable to read storage directory: %1''"
| "findStatusCodeDesc NE_OS_UNLTOUP = ''Unable to update process id: %1''"
| "findStatusCodeDesc NE_OS_INVNOTA = ''Invalid notification style arguments: %1''"
| "findStatusCodeDesc NE_OS_INVMSGA = ''Invalid message box style arguments: %1''"
| "findStatusCodeDesc NE_OS_TRAYIER = ''Unable to initialize the tray menu''"
| "findStatusCodeDesc NE_OS_INVKNPT = ''Invalid platform path name: %1''"
| "findStatusCodeDesc NE_OS_UNLTRAS = ''Unable to move %1 item to trash''"
| "findStatusCodeDesc NE_OS_UNLTOUV = ''Unable to set environment variable''"
| "findStatusCodeDesc NE_OS_CMDNALW = ''Shell command '' @ [CHR 0x22] @ ''%1'' @ [CHR 0x22] @ '' is not allowed''"
| "findStatusCodeDesc NE_CO_UNLTOSC = ''Unable to set mouse cursor''"
| "findStatusCodeDesc NE_CO_UNLTONI = ''Unable to retrieve network interfaces''"
| "findStatusCodeDesc NE_CO_UNLTOMG = ''Unable to set mouse grabbing''"
| "findStatusCodeDesc NE_CO_UNLTOSK = ''Unable to send keys''"
| "findStatusCodeDesc NE_CO_UNLTODI = ''Unable to retrieve disk information''"
| "findStatusCodeDesc NE_EX_EXTNOTC = ''%1 is not connected yet''"
| "findStatusCodeDesc NE_FS_FILWRER = ''Unable to write file: %1''"
| "findStatusCodeDesc NE_FS_DIRCRER = ''Cannot create a directory in %1''"
| "findStatusCodeDesc NE_FS_REMVERR = ''Cannot remove path: %1''"
| "findStatusCodeDesc NE_FS_FILRDER = ''Unable to open file: %1''"
| "findStatusCodeDesc NE_FS_NOPATHE = ''Unable to open path %1''"
| "findStatusCodeDesc NE_FS_NOTADIR = ''Path %1 is not a directory''"
| "findStatusCodeDesc NE_FS_COPYERR = ''Cannot perform copy: %1''"
| "findStatusCodeDesc NE_FS_MOVEERR = ''Cannot perform move: %1''"
| "findStatusCodeDesc NE_FS_FILOPER = ''Unable to open file: %1''"
| "findStatusCodeDesc NE_FS_UNLTOUP = ''Unable to update opened file id: %1''"
| "findStatusCodeDesc NE_FS_UNLTFOP = ''Unable to find opened file id: %1''"
| "findStatusCodeDesc NE_FS_UNLCWAT = ''Unable to create watcher for path: %1''"
| "findStatusCodeDesc NE_FS_NOWATID = ''Unable to find watcher: %1''"
| "findStatusCodeDesc NE_FS_UNLSTPR = ''Unable to set file permissions for %1''"
| "findStatusCodeDesc NE_FS_ACSFAIL = ''File access check failed for %1''"
| "findStatusCodeDesc NE_FS_CHMDERR = ''Unable to change permissions for %1''"
| "findStatusCodeDesc NE_FS_CHWNERR = ''Unable to change ownership for %1''"
| "findStatusCodeDesc NE_FS_SCOPERR = ''Cannot access path %1 outside configured filesystem scopes''"
| "findStatusCodeDesc NE_WI_UNBSWSR = ''Unable to save window screenshot to %1''"
| "findStatusCodeDesc NE_RT_INVTOKN = ''Invalid or expired NL_TOKEN value from client''"
| "findStatusCodeDesc NE_RT_APIPRME = ''Missing permission to access Native API''"
| "findStatusCodeDesc NE_RT_NATPRME = ''Missing permission to execute the native method: %1''"
| "findStatusCodeDesc NE_RT_NATRTER = ''Native method execution error occurred. Required parameter is missing: %1''"
| "findStatusCodeDesc NE_RT_NATNTIM = ''%1 is not implemented in the Neutralinojs server''"
| "findStatusCodeDesc NE_RS_TREEGER = ''Resource file tree generation error. %1 is missing.''"
| "findStatusCodeDesc NE_RS_UNBLDRE = ''Unable to load application resource file %1''"
| "findStatusCodeDesc NE_RS_NOPATHE = ''Path (%1) doesn'' @ [CHR 0x27] @ ''t exist in resources''"
| "findStatusCodeDesc NE_RS_FILEXTF = ''Unable to extract the requested file to %1''"
| "findStatusCodeDesc NE_RS_DIREXTF = ''Unable to extract the requested directory to %1''"
| "findStatusCodeDesc NE_SR_UNBSEND = ''Unable to send native message''"
| "findStatusCodeDesc NE_SR_UNBPARS = ''Unable to parse native call payload''"
| "findStatusCodeDesc NE_SR_MPINUSE = ''Mount path is already in use: %1''"
| "findStatusCodeDesc NE_SR_NOMTPTH = ''Cannot unmount %1, the path that was not mounted''"
| "findStatusCodeDesc NE_NW_SSLCONN = ''SSL connection failed: %1''"
| "findStatusCodeDesc NE_NW_SSLLOAD = ''SSL certificate loading failed: %1''"
| "findStatusCodeDesc NE_NW_SSLVERI = ''SSL server verification failed for %1''"
| "findStatusCodeDesc NE_NW_SSLHOST = ''SSL hostname verification failed for %1''"
| "findStatusCodeDesc NE_NW_HTTPERR = ''HTTP error: %1''"
| "findStatusCodeDesc NE_CF_UNBLDCF = ''Unable to load the %1 configuration file. Framework defaults will be loaded.''"
| "findStatusCodeDesc NE_CF_UNBPRCF = ''Unable to parse the config file: %1''"
| "findStatusCodeDesc NE_CF_UNSUPMD = ''Unsupported mode: %1. The default mode (window) is selected.''"
| "findStatusCodeDesc NE_CF_UNBLWCF = ''Unable to load the window config file: %1''"

definition param_rx :: rx where
  "param_rx = rlit ''%1''"

definition getStatusCodeDesc :: "StatusCode \<Rightarrow> string \<Rightarrow> string" where
  "getStatusCodeDesc code param = regex_replace param_rx param (findStatusCodeDesc code)"

definition makeErrorPayload :: "StatusCode \<Rightarrow> string \<Rightarrow> json" where
  "makeErrorPayload code param =
     (let error = JNull;
          error = jput ''code'' (JString (getStatusCodeString code)) error;
          error = jput ''message'' (JString (getStatusCodeDesc code param)) error
      in error)"

definition makeMissingArgErrorPayload :: "string \<Rightarrow> json" where
  "makeMissingArgErrorPayload missingArg = makeErrorPayload NE_RT_NATRTER missingArg"

definition makeErrorMsg :: "StatusCode \<Rightarrow> string \<Rightarrow> string" where
  "makeErrorMsg code param = getStatusCodeString code @ '': '' @ getStatusCodeDesc code param"

text \<open>\<^verbatim>\<open>output["error"] = payload\<close> on an output that is still null.\<close>

definition error_output :: "json \<Rightarrow> json" where
  "error_output payload = jput ''error'' payload JNull"

section \<open>Properties\<close>

definition all_codes :: "StatusCode list" where
  "all_codes = [
    NE_ST_OK, NE_ST_INVSTKY, NE_ST_NOSTKEX, NE_ST_STKEYWE, NE_ST_STKEYRE, NE_ST_NOSTDIR,
    NE_OS_UNLTOUP, NE_OS_INVNOTA, NE_OS_INVMSGA, NE_OS_TRAYIER, NE_OS_INVKNPT, NE_OS_UNLTRAS,
    NE_OS_UNLTOUV, NE_OS_CMDNALW, NE_CO_UNLTOSC, NE_CO_UNLTOMG, NE_CO_UNLTONI, NE_CO_UNLTOSK,
    NE_CO_UNLTODI, NE_EX_EXTNOTC, NE_FS_FILWRER, NE_FS_DIRCRER, NE_FS_REMVERR, NE_FS_FILRDER,
    NE_FS_NOPATHE, NE_FS_NOTADIR, NE_FS_COPYERR, NE_FS_MOVEERR, NE_FS_FILOPER, NE_FS_UNLTOUP,
    NE_FS_UNLTFOP, NE_FS_UNLCWAT, NE_FS_NOWATID, NE_FS_UNLSTPR, NE_FS_ACSFAIL, NE_FS_CHMDERR,
    NE_FS_CHWNERR, NE_FS_SCOPERR, NE_WI_UNBSWSR, NE_RT_INVTOKN, NE_RT_APIPRME, NE_RT_NATPRME,
    NE_RT_NATRTER, NE_RT_NATNTIM, NE_RS_TREEGER, NE_RS_UNBLDRE, NE_RS_NOPATHE, NE_RS_FILEXTF,
    NE_RS_DIREXTF, NE_SR_UNBSEND, NE_SR_UNBPARS, NE_SR_MPINUSE, NE_SR_NOMTPTH, NE_NW_SSLCONN,
    NE_NW_SSLLOAD, NE_NW_SSLVERI, NE_NW_SSLHOST, NE_NW_HTTPERR, NE_CF_UNBLDCF, NE_CF_UNBPRCF,
    NE_CF_UNSUPMD, NE_CF_UNBLWCF]"

lemma all_codes_complete: "c \<in> set all_codes"
  unfolding all_codes_def by (cases c) simp_all

text \<open>Different codes have different names, so a client can tell them apart.\<close>

lemma distinct_code_strings: "distinct (map getStatusCodeString all_codes)"
  by (simp add: all_codes_def)

lemma getStatusCodeString_inj: "getStatusCodeString c = getStatusCodeString d \<Longrightarrow> c = d"
proof -
  assume a: "getStatusCodeString c = getStatusCodeString d"
  have "inj_on getStatusCodeString (set all_codes)"
    using distinct_code_strings by (simp add: distinct_map)
  with a show ?thesis by (meson all_codes_complete inj_onD)
qed

lemma payload_code: "jget (makeErrorPayload c p) ''code'' = JString (getStatusCodeString c)"
  by (simp add: makeErrorPayload_def Let_def jput_def jget_object)

lemma payload_message: "jget (makeErrorPayload c p) ''message'' = JString (getStatusCodeDesc c p)"
  by (simp add: makeErrorPayload_def Let_def jput_def jget_object)

lemma payload_not_null [simp]: "makeErrorPayload c p \<noteq> JNull"
  by (simp add: makeErrorPayload_def Let_def jput_def)

lemma wf_payload: "wf_json (makeErrorPayload c p)"
  by (simp add: makeErrorPayload_def Let_def wf_json_jput)

lemma payload_inj: "makeErrorPayload c p = makeErrorPayload d q \<Longrightarrow> c = d"
  using payload_code [of c p] payload_code [of d q] by (auto intro: getStatusCodeString_inj)

lemma error_output_get [simp]: "jget (error_output e) ''error'' = e" "jget (error_output e) ''success'' = JNull"
  by (simp_all add: error_output_def jput_def jget_object)

text \<open>
  Without a dollar sign in the parameter the message is the template with the parameter in the
  place of \<^verbatim>\<open>%1\<close>.
\<close>

lemma rests_param_hit: "rests param_rx (CHR ''%'' # CHR ''1'' # s) = [s]"
  by (simp add: param_rx_def)

lemma rests_param_miss: "\<not> prefix ''%1'' s \<Longrightarrow> rests param_rx s = []"
  by (auto simp: param_rx_def split: list.splits)

lemma replace_param_tail: "CHR ''%'' \<notin> set s \<Longrightarrow> replace_from param_rx f pre s = pre @ s"
proof (induction s arbitrary: pre)
  case (Cons c s)
  then have "rests param_rx (c # s) = []" by (intro rests_param_miss) auto
  with Cons show ?case by simp
qed simp

lemma replace_param:
  "CHR ''%'' \<notin> set u \<Longrightarrow> CHR ''%'' \<notin> set v \<Longrightarrow> CHR ''$'' \<notin> set p \<Longrightarrow>
     replace_from param_rx p pre (u @ ''%1'' @ v) = pre @ u @ p @ v"
proof (induction u arbitrary: pre)
  case Nil
  then show ?case by (simp add: rests_param_hit replace_param_tail)
next
  case (Cons c u)
  then have "rests param_rx (c # u @ ''%1'' @ v) = []" by (intro rests_param_miss) auto
  with Cons show ?case by simp
qed

lemma getStatusCodeDesc_param:
  assumes "findStatusCodeDesc c = u @ ''%1'' @ v" "CHR ''%'' \<notin> set u" "CHR ''%'' \<notin> set v" "CHR ''$'' \<notin> set p"
  shows "getStatusCodeDesc c p = u @ p @ v"
  using replace_param [of u v p "[]"] assms by (simp add: getStatusCodeDesc_def regex_replace_def)

end
