(* ===== verification/Devices.thy ===== *)
theory Devices
  imports Json
begin

text \<open>
  The machine around the program as the libraries report it: \<^verbatim>\<open>infoware\<close> and \<^verbatim>\<open>hwinfo\<close> (memory,
  kernel, processor, graphics, displays, disks), the pointer and the keyboard through X11, the
  network interfaces of \<^verbatim>\<open>getifaddrs\<close>, the clipboard of \<^verbatim>\<open>clip\<close>, the client of \<^verbatim>\<open>httplib\<close>, and the
  attributes of files. What a library reports may depend on all calls made to it so far.
\<close>

subsection \<open>Hardware\<close>

record memory_t =
  physical_available :: int
  physical_total :: int
  virtual_available :: int
  virtual_total :: int

datatype kernel_t = kernel_windows_nt | kernel_linux | kernel_darwin | kernel_unknown

record kernel_info_t =
  ki_variant :: kernel_t
  ki_major :: int
  ki_minor :: int
  ki_patch :: int
  ki_build_number :: int

record OS_info_t =
  oi_name :: string
  oi_full_name :: string
  oi_major :: int
  oi_minor :: int
  oi_patch :: int
  oi_build_number :: int

record display_t =
  dp_width :: int
  dp_height :: int
  dp_dpi :: int
  dp_bpp :: int
  dp_refresh_rate :: rat

record cpu_t =
  cpu_vendor :: string
  cpu_model_name :: string
  cpu_frequency :: int
  cpu_logical :: int
  cpu_physical :: int
  cpu_packages :: int

record GPU =
  gpu_device_id :: string
  gpu_vendor_id :: string
  gpu_vendor :: string
  gpu_dedicated_memory :: int
  gpu_shared_memory :: int

record Disk =
  disk_id :: int
  disk_vendor :: string
  disk_model :: string
  disk_serial :: string
  disk_mount_points :: "string list"
  disk_size :: int
  disk_free :: int

subsection \<open>Network interfaces\<close>

text \<open>
  One entry of the list of \<^verbatim>\<open>getifaddrs\<close>: no address, an IPv4 or IPv6 address as \<^verbatim>\<open>inet_ntop\<close> prints
  it, a link-layer address, or a family the program does not know.
\<close>

datatype sockaddr = AddrNull | AddrInet string | AddrInet6 string | AddrPacket "8 word list" | AddrOther

record ifaddrs =
  ifa_name :: string
  ifa_loopback :: bool
  ifa_addr :: sockaddr

text \<open>An adapter as Windows lists it.\<close>

record adapter =
  ad_name :: string
  ad_physical :: "8 word list"
  ad_loopback :: bool
  ad_unicast :: "sockaddr list"

subsection \<open>Clipboard and HTTP\<close>

record image_spec =
  is_width :: "64 word"
  is_height :: "64 word"
  is_bits_per_pixel :: "64 word"
  is_bytes_per_row :: "64 word"
  is_red_mask :: "64 word"
  is_green_mask :: "64 word"
  is_blue_mask :: "64 word"
  is_red_shift :: "64 word"
  is_green_shift :: "64 word"
  is_blue_shift :: "64 word"
  is_alpha_mask :: "64 word"
  is_alpha_shift :: "64 word"

datatype clip_format = image_format | html_format | text_format

text \<open>The configuration of an \<^verbatim>\<open>httplib::Client\<close> and the request made with it.\<close>

datatype http_payload =
    NoBody
  | QueryParams "(string \<times> string) list"
  | FormParams "(string \<times> string) list"
  | Body string string

record http_request =
  hr_method :: string
  hr_origin :: string
  hr_path :: string
  hr_headers :: "(string \<times> string) list"
  hr_payload :: http_payload
  hr_systemCA :: bool
  hr_timeout :: "int option"
  hr_auth :: "(string \<times> string) option"
  hr_followLocation :: bool
  hr_pathEncode :: bool
  hr_keepAlive :: bool

record http_response =
  hs_status :: int
  hs_reason :: string
  hs_body :: string
  hs_headers :: "(string \<times> string) list"
  hs_location :: string
  hs_version :: string

datatype http_error =
    SSLConnection int | SSLLoadingCerts int | SSLServerVerification int | SSLServerHostnameVerification int
  | HttpOther string

type_synonym http_result = "http_error + http_response"

subsection \<open>Calls\<close>

datatype dev_call =
    WarpPointer int int | GrabPointer | UngrabPointer | FakeKey int bool
  | ClipText string | ClipHtml string | ClipImage image_spec string | ClipClear
  | HttpCall http_request

record devices =
  dv_memory :: memory_t
  dv_kernel :: kernel_info_t
  dv_system :: OS_info_t
  dv_cpu :: cpu_t
  dv_gpus :: "GPU list"
  dv_displays :: "display_t list"
  dv_disks :: "Disk list"
  dv_hostname :: "string option"
  dv_machineId :: string
  dv_ifaddrs :: "ifaddrs list option"
  dv_adapters :: "adapter list option"
  dv_xdisplay :: bool
  dv_setsCursor :: "dev_call list \<Rightarrow> bool"
  dv_pointer :: "dev_call list \<Rightarrow> int \<times> int"
  dv_grabs :: "dev_call list \<Rightarrow> bool"
  dv_clipTakes :: "dev_call list \<Rightarrow> bool"
  dv_clipHas :: "dev_call list \<Rightarrow> clip_format \<Rightarrow> bool"
  dv_clipText :: "dev_call list \<Rightarrow> string"
  dv_clipHtml :: "dev_call list \<Rightarrow> string"
  dv_clipImage :: "dev_call list \<Rightarrow> string option"
  dv_clipSpec :: "dev_call list \<Rightarrow> image_spec"
  dv_http :: "dev_call list \<Rightarrow> http_result"

subsection \<open>Attributes of files\<close>

text \<open>The permission bits with set-user, set-group and sticky bit, owner and group of a node.\<close>

record attrs =
  at_mode :: "12 word"
  at_owner :: "32 word"
  at_group :: "32 word"

end
