(* ===== verification/World.thy ===== *)
theory World
  imports Errors Devices
begin

text \<open>
  The state of the program: the operating system it runs on and the namespace-level variables of
  each component. The records extend one another, in the order of the components, so that a step
  of one component can be stated on the whole state \<open>world\<close> and leaves the fields of the others
  alone.

  Fields marked as environment are never written by the model. They stand for what the sources
  only call: \<^verbatim>\<open>nlohmann::json::parse\<close> and \<^verbatim>\<open>dump\<close>, the folder lookups of \<^verbatim>\<open>sago\<close>, the resource
  blob that \<^verbatim>\<open>postject\<close> finds in the executable, the watcher identifiers of \<^verbatim>\<open>efsw\<close>, the processes
  that \<^verbatim>\<open>TinyProcessLib\<close> starts, the liveness of a \<^verbatim>\<open>websocketpp\<close> connection, what
  access rights follow from the attributes of a file, and the devices of \<open>Devices\<close>.
\<close>

subsection \<open>Data of the components\<close>

datatype LogType = LogTypeInfo | LogTypeError | LogTypeWarning | LogTypeDebug

text \<open>A file system node: a regular file with its bytes, a directory, or anything else.\<close>

datatype node = FileN string | DirN | OtherN

datatype ResourceMode = ResourceModeDir | ResourceModeBundle | ResourceModeEmbedded

datatype TokenSecurity = TokenSecurityNone | TokenSecurityOneTime

datatype FileSystemAccessPermission = FileSystemAccessPermissionRead | FileSystemAccessPermissionWrite

text \<open>The frame types of a WebSocket message.\<close>

datatype opcode = opText | opBinary

record CliArg =
  cli_key :: string
  cli_value :: string

record ConfigOverride =
  ovr_key :: string
  ovr_value :: string
  ovr_convertTo :: string

text \<open>An open \<^verbatim>\<open>ifstream\<close>: the bytes of the file, the position and the state of the stream.\<close>

record reader =
  rd_data :: string
  rd_isDir :: bool
  rd_pos :: nat
  rd_eof :: bool
  rd_fail :: bool
  rd_gcount :: nat

text \<open>A child process as it is started: command line, directory, variables, standard input.\<close>

record proc_request =
  pr_command :: string
  pr_cwd :: string
  pr_envs :: "(string \<times> string) list"
  pr_stdIn :: string
  pr_background :: bool

record child =
  ch_pid :: int
  ch_killed :: bool
  ch_stdin :: string
  ch_stdinOpen :: bool

record CommandResult =
  cr_pid :: int
  cr_exitCode :: int
  cr_stdErr :: string
  cr_stdOut :: string

text \<open>One entry of the menu of the tray; a null pointer is \<open>None\<close>.\<close>

record tray_item =
  ti_id :: "string option"
  ti_text :: "string option"
  ti_disabled :: bool
  ti_checked :: bool

text \<open>The buttons of a message box.\<close>

datatype button = ButtonCancel | ButtonOk | ButtonYes | ButtonNo | ButtonAbort | ButtonRetry | ButtonIgnore

text \<open>What the dialogs library was asked to show.\<close>

datatype shown = Message string string string string | Notification string string string

record SizeOptions =
  sz_width :: int
  sz_height :: int
  sz_minWidth :: int
  sz_minHeight :: int
  sz_maxWidth :: int
  sz_maxHeight :: int
  sz_resizable :: bool

datatype NewWindowPolicy = NewWindowPolicySystem | NewWindowPolicyBrowser | NewWindowPolicyCustom

record WindowOptions =
  wo_sizeOptions :: SizeOptions
  wo_fullScreen :: bool
  wo_alwaysOnTop :: bool
  wo_enableInspector :: bool
  wo_openInspectorOnStartup :: bool
  wo_borderless :: bool
  wo_maximize :: bool
  wo_hidden :: bool
  wo_center :: bool
  wo_maximizable :: bool
  wo_transparent :: bool
  wo_exitProcessOnClose :: bool
  wo_useSavedState :: bool
  wo_injectGlobals :: bool
  wo_injectClientLibrary :: bool
  wo_useLogicalPixels :: bool
  wo_skipTaskbar :: bool
  wo_emitDropEvents :: bool
  wo_webviewArgs :: string
  wo_title :: string
  wo_url :: string
  wo_icon :: string
  wo_extendUserAgentWith :: string
  wo_injectScript :: string
  wo_x :: int
  wo_y :: int
  wo_newWindowPolicy :: NewWindowPolicy

record WindowMenuItem =
  mi_id :: string
  mi_text :: string
  mi_disabled :: bool
  mi_checked :: bool
  mi_shortcut :: string

text \<open>An entry of the main menu: a separator, an item with a menu of its own, or a plain item.\<close>

datatype menu_widget = MenuSeparator | MenuSub WindowMenuItem "menu_widget list" | MenuLeaf WindowMenuItem

text \<open>
  The window toolkit: the calls made to it, and what it reports, which may depend on all calls so
  far.
\<close>

datatype win_call =
    SetTitle string | ExtendUserAgent string | SetSize int int SizeOptions | InitScript string | Navigate string
  | MoveTo int int | Maximize | Unmaximize | Iconify | Present | Show | Hide | FullScreen | UnfullScreen
  | SetIcon string | MainMenu "menu_widget list" | RemoveMenu | KeepAbove bool | Decorated bool | SkipTaskbar bool | BeginDrag | PrintDialog | Terminate int

record toolkit =
  tk_size :: "win_call list \<Rightarrow> int \<times> int"
  tk_position :: "win_call list \<Rightarrow> int \<times> int"
  tk_maximized :: "win_call list \<Rightarrow> bool"
  tk_visible :: "win_call list \<Rightarrow> bool"
  tk_title :: "win_call list \<Rightarrow> string"
  tk_workarea :: "int \<times> int"
  tk_initCode :: int
  tk_scale :: int
  tk_snapshot :: "string \<Rightarrow> bool"

subsection \<open>The operating system\<close>

record osys =
  os_platform :: platform
  os_nodes :: "(string list \<times> node) list"
  os_cwd :: "string list"
  os_env :: "(string \<times> string) list"
  os_attrs :: "string list \<Rightarrow> attrs"
  os_denyRead :: "(string list \<Rightarrow> attrs) \<Rightarrow> string list \<Rightarrow> bool"   \<comment> \<open>environment\<close>
  os_denyWrite :: "(string list \<Rightarrow> attrs) \<Rightarrow> string list \<Rightarrow> bool"  \<comment> \<open>environment\<close>
  os_denyExec :: "(string list \<Rightarrow> attrs) \<Rightarrow> string list \<Rightarrow> bool"   \<comment> \<open>environment\<close>
  os_chmod :: "attrs \<Rightarrow> 12 word \<Rightarrow> attrs option"                     \<comment> \<open>environment\<close>
  os_chown :: "attrs \<Rightarrow> 32 word \<Rightarrow> 32 word \<Rightarrow> attrs option"          \<comment> \<open>environment\<close>
  os_dirEnd :: "string list \<Rightarrow> int"             \<comment> \<open>environment: end offset of an opened directory\<close>
  os_times :: "string list \<Rightarrow> int \<times> int"       \<comment> \<open>environment: change and modification time of a node\<close>
  os_dirSize :: "string list \<Rightarrow> int"            \<comment> \<open>environment: size reported for a directory\<close>
  os_memory :: int                              \<comment> \<open>environment: the largest buffer that can be had\<close>
  os_parse :: "string \<Rightarrow> json option"           \<comment> \<open>environment\<close>
  os_dump :: "json \<Rightarrow> string"                   \<comment> \<open>environment\<close>
  os_dump_strict :: "json \<Rightarrow> string result"     \<comment> \<open>environment\<close>
  os_folder :: "string \<Rightarrow> string result"        \<comment> \<open>environment\<close>
  os_resource :: "string option"                \<comment> \<open>environment\<close>
  os_addWatch :: "(int \<times> string) list \<Rightarrow> string \<Rightarrow> int"  \<comment> \<open>environment\<close>
  os_exec :: "proc_request \<Rightarrow> CommandResult"    \<comment> \<open>environment\<close>
  os_pid :: "nat \<Rightarrow> int"                        \<comment> \<open>environment: process id of the n-th child\<close>
  os_clocale :: string                          \<comment> \<open>environment\<close>
  os_pick :: "string \<Rightarrow> string \<Rightarrow> string \<Rightarrow> string list \<Rightarrow> bool \<Rightarrow> string list"  \<comment> \<open>environment: a file dialog\<close>
  os_answer :: "shown \<Rightarrow> button"                 \<comment> \<open>environment\<close>
  os_trash :: "string \<Rightarrow> bool"                   \<comment> \<open>environment\<close>
  os_trayInit :: bool                           \<comment> \<open>environment\<close>
  os_selfPid :: int                             \<comment> \<open>environment\<close>
  os_build :: "string \<Rightarrow> string"                 \<comment> \<open>environment: constants of the build\<close>
  os_toolkit :: toolkit                         \<comment> \<open>environment\<close>
  os_devices :: devices                         \<comment> \<open>environment\<close>
  os_devCalls :: "dev_call list"
  os_mouseTap :: bool
  os_log :: "(LogType \<times> string) list"
  os_started :: "proc_request list"
  os_shown :: "shown list"
  os_stdin :: string
  os_stdout :: string
  os_stderr :: string

text \<open>What the rights of the process on the nodes of the file system, as they are now, deny it.\<close>

abbreviation os_unreadable :: "'z osys_scheme \<Rightarrow> string list \<Rightarrow> bool" where
  "os_unreadable w \<equiv> os_denyRead w (os_attrs w)"

abbreviation os_unwritable :: "'z osys_scheme \<Rightarrow> string list \<Rightarrow> bool" where
  "os_unwritable w \<equiv> os_denyWrite w (os_attrs w)"

subsection \<open>The components\<close>

record res_st = osys +
  res_fileTree :: json
  res_asarHeaderSize :: "32 word"
  res_mode :: ResourceMode

record ext_st = res_st +
  ext_loadedExtensions :: "string list"
  ext_initialized :: bool

record settings_st = ext_st +
  settings_options :: json
  settings_globalArgs :: "string list"
  settings_appPath :: string
  settings_systemDataPath :: string
  settings_appDataPath :: string
  settings_configFile :: string
  settings_localeName :: string
  settings_configOverrides :: "ConfigOverride list"

record auth_st = settings_st +
  auth_token :: string
  auth_connectToken :: string
  auth_tokenSecurity :: TokenSecurity
  auth_tokenSent :: bool

record perm_st = auth_st +
  perm_blockedMethods :: "string list"
  perm_blockedModules :: "string list"
  perm_allowedMethods :: "string list"
  perm_allowedModules :: "string list"
  perm_allowedCommandPatterns :: "string list"
  perm_fileSystemReadScopes :: "string list"
  perm_fileSystemWriteScopes :: "string list"
  perm_shouldCheckBlockList :: bool
  perm_shouldCheckAllowList :: bool
  perm_shouldCheckCommandAllowList :: bool
  perm_shouldCheckScopesLists :: bool

record srv_st = perm_st +
  srv_appConnections :: "nat list"
  srv_extConnections :: "(string \<times> nat) list"
  srv_wsMode :: "(nat \<times> opcode) list"
  srv_initialized :: bool
  srv_applyConfigHeaders :: bool
  srv_listening :: bool
  srv_idleChecks :: nat
  srv_alive :: "nat \<Rightarrow> bool"                     \<comment> \<open>environment\<close>
  srv_outbox :: "(nat \<times> string \<times> opcode) list"

record fs_st = srv_st +
  fs_openedFiles :: "(int \<times> reader) list"
  fs_fileWatcher :: bool
  fs_watchListeners :: "(int \<times> string) list"

record router_st = fs_st +
  rt_mountedPaths :: "(string \<times> string) list"

record procs_st = router_st +
  ops_spawnedProcesses :: "(int \<times> child) list"
  ops_nextVirtualPid :: int
  ops_trayInitialized :: bool
  ops_menus :: "tray_item list"
  ops_trayIcon :: "string option"
  ops_useOtherTempTrayIcon :: bool

record win_st = procs_st +
  win_native :: bool
  win_props :: WindowOptions
  win_savedState :: bool
  win_isFullScreen :: bool
  win_isMinimized :: bool
  win_menuContainer :: bool
  win_calls :: "win_call list"

record world = win_st +
  storage_path :: string

type_synonym 'a prog = "(world, 'a) comp"

definition no_item :: tray_item where
  "no_item = \<lparr>ti_id = None, ti_text = None, ti_disabled = False, ti_checked = False\<rparr>"

definition default_size :: SizeOptions where
  "default_size = \<lparr>sz_width = -1, sz_height = -1, sz_minWidth = -1, sz_minHeight = -1, sz_maxWidth = -1,
     sz_maxHeight = -1, sz_resizable = True\<rparr>"

definition default_window :: WindowOptions where
  "default_window =
    \<lparr>wo_sizeOptions = default_size, wo_fullScreen = False, wo_alwaysOnTop = False, wo_enableInspector = False,
     wo_openInspectorOnStartup = True, wo_borderless = False, wo_maximize = False, wo_hidden = False,
     wo_center = False, wo_maximizable = True, wo_transparent = False, wo_exitProcessOnClose = True, wo_useSavedState = True,
     wo_injectGlobals = False, wo_injectClientLibrary = False, wo_useLogicalPixels = False, wo_skipTaskbar = False,
     wo_emitDropEvents = False, wo_webviewArgs = [], wo_title = ''Neutralinojs'', wo_url = ''https://neutralino.js.org'',
     wo_icon = [], wo_extendUserAgentWith = [], wo_injectScript = [], wo_x = 0, wo_y = 0,
     wo_newWindowPolicy = NewWindowPolicySystem\<rparr>"

text \<open>The variables as the program starts with them, on a given operating system.\<close>

definition initial_world :: "osys \<Rightarrow> world" where
  "initial_world m =
    \<lparr>os_platform = os_platform m, os_nodes = os_nodes m, os_cwd = os_cwd m, os_env = os_env m,
     os_attrs = os_attrs m, os_denyRead = os_denyRead m, os_denyWrite = os_denyWrite m, os_denyExec = os_denyExec m,
     os_chmod = os_chmod m, os_chown = os_chown m, os_dirEnd = os_dirEnd m,
     os_times = os_times m, os_dirSize = os_dirSize m, os_memory = os_memory m, os_parse = os_parse m, os_dump = os_dump m,
     os_dump_strict = os_dump_strict m, os_folder = os_folder m, os_resource = os_resource m,
     os_addWatch = os_addWatch m, os_exec = os_exec m, os_pid = os_pid m,
     os_clocale = os_clocale m, os_pick = os_pick m, os_answer = os_answer m, os_trash = os_trash m,
     os_trayInit = os_trayInit m, os_selfPid = os_selfPid m, os_build = os_build m, os_toolkit = os_toolkit m,
     os_devices = os_devices m, os_devCalls = [], os_mouseTap = False,
     os_log = [], os_started = [], os_shown = [], os_stdin = os_stdin m, os_stdout = [], os_stderr = [],
     res_fileTree = JNull, res_asarHeaderSize = 0, res_mode = ResourceModeEmbedded,
     ext_loadedExtensions = [], ext_initialized = False,
     settings_options = JNull, settings_globalArgs = [], settings_appPath = [],
     settings_systemDataPath = [], settings_appDataPath = [],
     settings_configFile = ''/neutralino.config.json'', settings_localeName = [],
     settings_configOverrides = [],
     auth_token = [], auth_connectToken = [], auth_tokenSecurity = TokenSecurityOneTime,
     auth_tokenSent = False,
     perm_blockedMethods = [], perm_blockedModules = [], perm_allowedMethods = [],
     perm_allowedModules = [], perm_allowedCommandPatterns = [], perm_fileSystemReadScopes = [],
     perm_fileSystemWriteScopes = [], perm_shouldCheckBlockList = False,
     perm_shouldCheckAllowList = False, perm_shouldCheckCommandAllowList = False,
     perm_shouldCheckScopesLists = False,
     srv_appConnections = [], srv_extConnections = [], srv_wsMode = [], srv_initialized = False,
     srv_applyConfigHeaders = False, srv_listening = False, srv_idleChecks = 0,
     srv_alive = (\<lambda>_. True), srv_outbox = [],
     fs_openedFiles = [], fs_fileWatcher = False, fs_watchListeners = [],
     rt_mountedPaths = [],
     ops_spawnedProcesses = [], ops_nextVirtualPid = 0, ops_trayInitialized = False,
     ops_menus = replicate 50 no_item, ops_trayIcon = None, ops_useOtherTempTrayIcon = True,
     win_native = False, win_props = default_window, win_savedState = False, win_isFullScreen = False,
     win_isMinimized = False, win_menuContainer = False, win_calls = [],
     storage_path = []\<rparr>"

text \<open>\<^verbatim>\<open>debug::log\<close>: easylogging appends one entry.\<close>

definition debug_log :: "LogType \<Rightarrow> string \<Rightarrow> unit prog" where
  "debug_log type message = modS (\<lambda>w. w\<lparr>os_log := os_log w @ [(type, message)]\<rparr>)"

definition jsonToString :: "json \<Rightarrow> string prog" where
  "jsonToString obj = getS (\<lambda>w. os_dump w obj)"

text \<open>\<^verbatim>\<open>json::parse\<close> raises \<^verbatim>\<open>parse_error\<close>.\<close>

definition json_parse :: "string \<Rightarrow> json prog" where
  "json_parse text = (\<lambda>w. case os_parse w text of None \<Rightarrow> (Inl ParseError, w) | Some j \<Rightarrow> (Inr j, w))"

lemma json_parse_step [simp]:
  "os_parse w t = Some j \<Longrightarrow> json_parse t w = (Inr j, w)"
  "os_parse w t = None \<Longrightarrow> json_parse t w = (Inl ParseError, w)"
  by (simp_all add: json_parse_def)

lemma debug_log_step [simp]:
  "debug_log t m w = (Inr (), w\<lparr>os_log := os_log w @ [(t, m)]\<rparr>)"
  by (simp add: debug_log_def)

lemma jsonToString_step [simp]: "jsonToString j w = (Inr (os_dump w j), w)"
  by (simp add: jsonToString_def)

lemma keeps_json_parse [simp]: "keeps v (json_parse t)"
  by (auto simp: keeps_def json_parse_def split: option.splits)

lemma keeps_jsonToString [simp]: "keeps v (jsonToString j)"
  by (simp add: jsonToString_def)

end
