(* ===== verification/Vfs.thy ===== *)
theory Vfs
  imports World
begin

text \<open>
  The part of POSIX and of \<^verbatim>\<open>std::filesystem\<close> the program uses, on the tree of nodes of
  \<open>osys\<close>. A location is the list of names from the root. The tree has no symbolic links, so
  canonical paths are computed from names alone; special files can be examined but not opened.
  What a call leaves of a tree when it fails half way (a recursive removal that meets an
  unwritable directory) is not specified by the system: there the model leaves the tree as it was.
\<close>

section \<open>Paths\<close>

text \<open>
  \<^verbatim>\<open>filesystem::path\<close> in generic format: whether the path is absolute, and its file names;
  repeated separators count as one, a separator at the end yields an empty last name.
\<close>

definition path_is_abs :: "string \<Rightarrow> bool" where
  "path_is_abs s = prefix ''/'' s"

definition path_names :: "string \<Rightarrow> string list" where
  "path_names s =
     (let parts = split_on (CHR ''/'') s;
          names = filter (\<lambda>n. n \<noteq> []) parts
      in if names \<noteq> [] \<and> last parts = [] then names @ [[]] else names)"

fun join_names :: "string list \<Rightarrow> string" where
  "join_names [] = []"
| "join_names [n] = n"
| "join_names (n # m # ns) = n @ ''/'' @ join_names (m # ns)"

definition path_string :: "bool \<Rightarrow> string list \<Rightarrow> string" where
  "path_string ab names = (if ab then ''/'' else []) @ join_names names"

text \<open>The string of a location.\<close>

definition loc_string :: "string list \<Rightarrow> string" where
  "loc_string p = path_string True p"

definition is_dots :: "string \<Rightarrow> bool" where
  "is_dots n \<longleftrightarrow> n = ''.'' \<or> n = ''..''"

text \<open>\<^verbatim>\<open>path::lexically_normal\<close>\<close>

fun norm_names :: "bool \<Rightarrow> string list \<Rightarrow> string list \<Rightarrow> string list" where
  "norm_names ab acc [] = acc"
| "norm_names ab acc (n # ns) =
     (if n = [] \<or> n = ''.'' then norm_names ab acc ns
      else if n = ''..'' then
        (if acc = [] then norm_names ab (if ab then [] else [n]) ns
         else if last acc = ''..'' then norm_names ab (acc @ [n]) ns
         else norm_names ab (butlast acc) ns)
      else norm_names ab (acc @ [n]) ns)"

definition lexically_normal :: "bool \<Rightarrow> string list \<Rightarrow> string" where
  "lexically_normal ab names =
     (if \<not> ab \<and> names = [] then []
      else let acc = norm_names ab [] names;
               trailing = (acc \<noteq> [] \<and> last acc \<noteq> ''..'' \<and> (last names = [] \<or> is_dots (last names)))
           in if \<not> ab \<and> acc = [] then ''.''
              else path_string ab (if trailing then acc @ [[]] else acc))"

section \<open>Resolution\<close>

definition node_at :: "'z osys_scheme \<Rightarrow> string list \<Rightarrow> node option" where
  "node_at w p = (if p = [] then Some DirN else map_of (os_nodes w) p)"

text \<open>Every name but the last has to lie in an existing directory.\<close>

fun walk :: "'z osys_scheme \<Rightarrow> string list \<Rightarrow> string list \<Rightarrow> string list option" where
  "walk w cur [] = Some cur"
| "walk w cur (n # ns) =
     (if node_at w cur \<noteq> Some DirN then None
      else if n = [] \<or> n = ''.'' then walk w cur ns
      else if n = ''..'' then walk w (butlast cur) ns
      else walk w (cur @ [n]) ns)"

text \<open>The system reads a path up to its first zero byte.\<close>

definition c_names :: "string list \<Rightarrow> string list" where
  "c_names names =
     (let clean = (\<lambda>n. CHR 0x00 \<notin> set n)
      in takeWhile clean names @ map c_str (take 1 (dropWhile clean names)))"

definition walk_names :: "'z osys_scheme \<Rightarrow> bool \<Rightarrow> string list \<Rightarrow> string list option" where
  "walk_names w ab names = walk w (if ab then [] else os_cwd w) (c_names names)"

text \<open>What a path given as a C string denotes.\<close>

definition locate :: "'z osys_scheme \<Rightarrow> string \<Rightarrow> string list option" where
  "locate w s = (let s = c_str s in if s = [] then None else walk_names w (path_is_abs s) (path_names s))"

definition status_of :: "'z osys_scheme \<Rightarrow> string \<Rightarrow> node option" where
  "status_of w s = Option.bind (locate w s) (node_at w)"

definition fs_exists :: "'z osys_scheme \<Rightarrow> string \<Rightarrow> bool" where
  "fs_exists w s \<longleftrightarrow> status_of w s \<noteq> None"

definition fs_is_directory :: "'z osys_scheme \<Rightarrow> string \<Rightarrow> bool" where
  "fs_is_directory w s \<longleftrightarrow> status_of w s = Some DirN"

subsection \<open>Canonical paths\<close>

definition names_exist :: "'z osys_scheme \<Rightarrow> bool \<Rightarrow> string list \<Rightarrow> bool" where
  "names_exist w ab names \<longleftrightarrow> Option.bind (walk_names w ab names) (node_at w) \<noteq> None"

text \<open>
  \<^verbatim>\<open>weakly_canonical\<close>: the longest leading part that exists is made canonical (and absolute), the
  rest is appended, and the result is normalized by its names alone. \<open>existing\<close> counts the leading
  names that exist.
\<close>

fun existing :: "'z osys_scheme \<Rightarrow> bool \<Rightarrow> string list \<Rightarrow> string list \<Rightarrow> nat" where
  "existing w ab pre [] = length pre"
| "existing w ab pre (n # ns) =
     (if names_exist w ab (pre @ [n]) then existing w ab (pre @ [n]) ns else length pre)"

definition weakly_canonical :: "'z osys_scheme \<Rightarrow> string \<Rightarrow> string" where
  "weakly_canonical w s =
     (let ab = path_is_abs s; names = path_names s; k = existing w ab [] names
      in if k = 0 then lexically_normal ab names
         else if k = length names then loc_string (the (walk_names w ab names))
         else lexically_normal True (the (walk_names w ab (take k names)) @ drop k names))"

definition absolute :: "'z osys_scheme \<Rightarrow> string \<Rightarrow> string result" where
  "absolute w s =
     (if s = [] then Inl FilesystemError
      else if path_is_abs s then Inr s
      else Inr (loc_string (os_cwd w) @ (if os_cwd w = [] then [] else ''/'') @ s))"

section \<open>Reading and writing files\<close>

text \<open>
  \<^verbatim>\<open>ifstream\<close> opens regular files and, on the systems modelled, directories as well. The result is
  the offset of the end and what can be read: of a directory nothing can.
\<close>

definition open_in :: "'z osys_scheme \<Rightarrow> string \<Rightarrow> (int \<times> string option) option" where
  "open_in w s = (case locate w s of
     None \<Rightarrow> None
   | Some p \<Rightarrow> if os_unreadable w p then None
       else (case node_at w p of
          Some (FileN d) \<Rightarrow> Some (int (length d), Some d)
        | Some DirN \<Rightarrow> Some (os_dirEnd w p, None)
        | _ \<Rightarrow> None))"

definition put_node :: "string list \<Rightarrow> node \<Rightarrow> (string list \<times> node) list \<Rightarrow> (string list \<times> node) list" where
  "put_node p n nodes =
     (if map_of nodes p = None then nodes @ [(p, n)]
      else map (\<lambda>(q, m). if q = p then (q, n) else (q, m)) nodes)"

text \<open>
  Where \<^verbatim>\<open>open(path, O_WRONLY | O_CREAT)\<close> may write: an existing writable regular file, or a new
  name in a writable directory.
\<close>

definition may_create :: "'z osys_scheme \<Rightarrow> string list \<Rightarrow> bool" where
  "may_create w p \<longleftrightarrow>
     p \<noteq> [] \<and> node_at w p = None \<and> node_at w (butlast p) = Some DirN \<and> \<not> os_unwritable w (butlast p)"

definition write_at :: "bool \<Rightarrow> string \<Rightarrow> string list \<Rightarrow> 'z osys_scheme \<Rightarrow> 'z osys_scheme option" where
  "write_at app d p w = (case node_at w p of
     Some (FileN old) \<Rightarrow>
       if os_unwritable w p then None
       else Some (w\<lparr>os_nodes := put_node p (FileN (if app then old @ d else d)) (os_nodes w)\<rparr>)
   | Some _ \<Rightarrow> None
   | None \<Rightarrow>
       if may_create w p then Some (w\<lparr>os_nodes := put_node p (FileN d) (os_nodes w)\<rparr>) else None)"

definition write_out :: "bool \<Rightarrow> string \<Rightarrow> string \<Rightarrow> 'z osys_scheme \<Rightarrow> 'z osys_scheme option" where
  "write_out app d s w = (case locate w s of None \<Rightarrow> None | Some p \<Rightarrow> write_at app d p w)"

section \<open>Directories\<close>

definition mkdir_at :: "string list \<Rightarrow> 'z osys_scheme \<Rightarrow> 'z osys_scheme option" where
  "mkdir_at p w = (if may_create w p then Some (w\<lparr>os_nodes := put_node p DirN (os_nodes w)\<rparr>) else None)"

text \<open>
  \<^verbatim>\<open>create_directories\<close> makes every leading part that is missing, in order; a part that ends in
  a dot name is only passed through. It tells whether the last call made a directory.
\<close>

fun make_prefixes :: "bool \<Rightarrow> string list \<Rightarrow> string list \<Rightarrow> bool \<Rightarrow> world \<Rightarrow> bool result \<times> world" where
  "make_prefixes ab pre [] made w = (Inr made, w)"
| "make_prefixes ab pre (n # ns) made w =
     (if n = [] \<or> is_dots n then make_prefixes ab (pre @ [n]) ns made w
      else case walk_names w ab (pre @ [n]) of
        None \<Rightarrow> (Inl FilesystemError, w)
      | Some p \<Rightarrow> (case node_at w p of
            Some DirN \<Rightarrow> make_prefixes ab (pre @ [n]) ns False w
          | Some _ \<Rightarrow> (Inl FilesystemError, w)
          | None \<Rightarrow> (case mkdir_at p w of
                None \<Rightarrow> (Inl FilesystemError, w)
              | Some w' \<Rightarrow> make_prefixes ab (pre @ [n]) ns True w')))"

definition create_directories :: "string \<Rightarrow> bool prog" where
  "create_directories s = (\<lambda>w.
     if s = [] then (Inl FilesystemError, w)
     else if fs_is_directory w s then (Inr False, w)
     else if fs_exists w s then (Inl FilesystemError, w)
     else make_prefixes (path_is_abs s) [] (path_names s) False w)"

definition below :: "string list \<Rightarrow> string list \<Rightarrow> bool" where
  "below p q \<longleftrightarrow> strict_prefix p q"

definition children :: "'z osys_scheme \<Rightarrow> string list \<Rightarrow> (string list \<times> node) list" where
  "children w p = filter (\<lambda>(q, n). q \<noteq> [] \<and> butlast q = p) (os_nodes w)"

definition drop_nodes :: "(string list \<Rightarrow> bool) \<Rightarrow> 'z osys_scheme \<Rightarrow> 'z osys_scheme" where
  "drop_nodes P w = w\<lparr>os_nodes := filter (\<lambda>(q, n). \<not> P q) (os_nodes w)\<rparr>"

text \<open>\<^verbatim>\<open>filesystem::remove\<close>: one file or one empty directory; false when there is none.\<close>

definition last_name_dots :: "string \<Rightarrow> bool" where
  "last_name_dots s = (let names = filter (\<lambda>n. n \<noteq> []) (path_names s) in names \<noteq> [] \<and> is_dots (last names))"

definition remove_one :: "string \<Rightarrow> bool prog" where
  "remove_one s = (\<lambda>w. case locate w s of
     None \<Rightarrow> (Inr False, w)
   | Some p \<Rightarrow> (case node_at w p of
        None \<Rightarrow> (Inr False, w)
      | Some n \<Rightarrow>
          if p = [] \<or> last_name_dots (c_str s) \<or> os_unwritable w (butlast p) \<or> (n = DirN \<and> children w p \<noteq> [])
          then (Inl FilesystemError, w)
          else (Inr True, drop_nodes (\<lambda>q. q = p) w)))"

text \<open>\<^verbatim>\<open>filesystem::remove_all\<close>: the number of nodes removed.\<close>

definition removal_blocked :: "'z osys_scheme \<Rightarrow> string list \<Rightarrow> bool" where
  "removal_blocked w p \<longleftrightarrow>
     os_unwritable w (butlast p) \<or> (\<exists>(q, n) \<in> set (os_nodes w). below p q \<and> os_unwritable w (butlast q))"

definition remove_all :: "string \<Rightarrow> nat prog" where
  "remove_all s = (\<lambda>w. case locate w s of
     None \<Rightarrow> (Inr 0, w)
   | Some p \<Rightarrow> (case node_at w p of
        None \<Rightarrow> (Inr 0, w)
      | Some n \<Rightarrow>
          if removal_blocked w p then (Inl FilesystemError, w)
          else if p = [] \<or> last_name_dots (c_str s) then (Inl FilesystemError, drop_nodes (below p) w)
          else (Inr (length (filter (\<lambda>(q, n). prefix p q) (os_nodes w))), drop_nodes (prefix p) w)))"

text \<open>
  \<^verbatim>\<open>filesystem::rename\<close>: a file replaces a file, a directory an empty directory; a directory does
  not move into itself.
\<close>

definition rename_ok :: "'z osys_scheme \<Rightarrow> string list \<Rightarrow> string list \<Rightarrow> bool" where
  "rename_ok w p q \<longleftrightarrow>
     p \<noteq> [] \<and> q \<noteq> [] \<and> \<not> below p q \<and> node_at w (butlast q) = Some DirN \<and>
     \<not> os_unwritable w (butlast p) \<and> \<not> os_unwritable w (butlast q) \<and>
     (case (node_at w p, node_at w q) of
        (None, _) \<Rightarrow> False
      | (Some _, None) \<Rightarrow> True
      | (Some DirN, Some m) \<Rightarrow> m = DirN \<and> (q = p \<or> children w q = [])
      | (Some _, Some m) \<Rightarrow> m \<noteq> DirN)"

definition rename_nodes :: "string list \<Rightarrow> string list \<Rightarrow> (string list \<times> node) list \<Rightarrow> (string list \<times> node) list" where
  "rename_nodes p q nodes =
     (if p = q then nodes
      else map (\<lambda>(r, n). (if prefix p r then q @ drop (length p) r else r, n))
             (filter (\<lambda>(r, n). r \<noteq> q) nodes))"

definition rename :: "string \<Rightarrow> string \<Rightarrow> 'z osys_scheme \<Rightarrow> 'z osys_scheme option" where
  "rename s t w = (case (locate w s, locate w t) of
     (Some p, Some q) \<Rightarrow>
       if rename_ok w p q \<and> \<not> last_name_dots (c_str s) \<and> \<not> last_name_dots (c_str t)
       then Some (w\<lparr>os_nodes := rename_nodes p q (os_nodes w)\<rparr>) else None
   | _ \<Rightarrow> None)"

section \<open>Properties\<close>

subsection \<open>Names\<close>

definition clean_name :: "string \<Rightarrow> bool" where
  "clean_name n \<longleftrightarrow> n \<noteq> [] \<and> \<not> is_dots n \<and> CHR ''/'' \<notin> set n"

lemma split_on_no_sep: "n \<in> set (split_on d s) \<Longrightarrow> d \<notin> set n"
  by (induction s arbitrary: n) (auto split: if_splits list.splits)

lemma path_names_no_slash: "n \<in> set (path_names s) \<Longrightarrow> CHR ''/'' \<notin> set n"
  using split_on_no_sep [of n "CHR ''/''" s]
  by (auto simp: path_names_def Let_def split: if_splits)

lemma norm_names_append: "norm_names ab acc (ns @ ms) = norm_names ab (norm_names ab acc ns) ms"
  by (induction ab acc ns rule: norm_names.induct) auto

lemma norm_names_clean_id: "\<forall>n \<in> set ns. clean_name n \<Longrightarrow> norm_names ab acc ns = acc @ ns"
  by (induction ns arbitrary: acc) (auto simp: clean_name_def is_dots_def)

lemma clean_last: "\<forall>n \<in> set acc. clean_name n \<Longrightarrow> acc = [] \<or> last acc \<noteq> ''..''"
proof -
  assume "\<forall>n \<in> set acc. clean_name n"
  then have "acc = [] \<or> clean_name (last acc)" using last_in_set by blast
  then show ?thesis unfolding clean_name_def is_dots_def by blast
qed

lemma norm_names_abs_clean:
  "\<forall>n \<in> set acc. clean_name n \<Longrightarrow> \<forall>n \<in> set ns. CHR ''/'' \<notin> set n \<Longrightarrow>
     \<forall>n \<in> set (norm_names True acc ns). clean_name n"
proof (induction ns arbitrary: acc)
  case (Cons n ns)
  have l: "acc = [] \<or> last acc \<noteq> ''..''" using Cons.prems(1) by (rule clean_last)
  have b: "\<forall>n \<in> set (butlast acc). clean_name n" using Cons.prems(1) by (meson in_set_butlastD)
  have sl: "\<forall>n \<in> set ns. CHR ''/'' \<notin> set n" "CHR ''/'' \<notin> set n" using Cons.prems(2) by simp_all
  consider "n = [] \<or> n = ''.''" | "n = ''..''" | "n \<noteq> []" "n \<noteq> ''.''" "n \<noteq> ''..''" by blast
  then show ?case
  proof cases
    case 1
    then show ?thesis using Cons.IH [OF Cons.prems(1) sl(1)] by auto
  next
    case 2
    then show ?thesis using l Cons.IH [OF b sl(1)] by auto
  next
    case 3
    then have "\<forall>m \<in> set (acc @ [n]). clean_name m"
      using Cons.prems(1) sl(2) by (simp add: clean_name_def is_dots_def)
    from Cons.IH [OF this sl(1)] 3 show ?thesis by simp
  qed
qed simp

text \<open>Without symbolic links the system and the normalization by names agree.\<close>

lemma walk_norm:
  "\<forall>n \<in> set cur. clean_name n \<Longrightarrow> \<forall>n \<in> set ns. CHR ''/'' \<notin> set n \<Longrightarrow>
     walk w cur ns = Some p \<Longrightarrow> p = norm_names True cur ns"
proof (induction w cur ns rule: walk.induct)
  case (2 w cur n ns)
  have "cur \<noteq> [] \<Longrightarrow> last cur \<noteq> ''..''" using clean_last [OF "2.prems"(1)] by simp
  moreover have "\<forall>n \<in> set (butlast cur). clean_name n" using "2.prems"(1) by (meson in_set_butlastD)
  moreover have "clean_name n" if "n \<noteq> []" "n \<noteq> ''.''" "n \<noteq> ''..''"
    using that "2.prems"(2) by (simp add: clean_name_def is_dots_def)
  ultimately show ?case using 2 by (auto split: if_splits)
qed simp

lemma walk_append:
  "walk w cur (ns @ ms) = Option.bind (walk w cur ns) (\<lambda>p. walk w p ms)"
  by (induction w cur ns rule: walk.induct) auto

lemma c_names_id [simp]: "\<forall>n \<in> set ns. CHR 0x00 \<notin> set n \<Longrightarrow> c_names ns = ns"
proof -
  assume a: "\<forall>n \<in> set ns. CHR 0x00 \<notin> set n"
  then have "dropWhile (\<lambda>n. CHR 0x00 \<notin> set n) ns = []" by (simp add: dropWhile_eq_Nil_conv)
  with a show ?thesis by (simp add: c_names_def Let_def takeWhile_all)
qed

lemma split_on_chars: "n \<in> set (split_on d s) \<Longrightarrow> set n \<subseteq> set s"
  by (induction s arbitrary: n) (auto split: if_splits list.splits, blast+)

lemma path_names_chars: "n \<in> set (path_names s) \<Longrightarrow> set n \<subseteq> set s"
  using split_on_chars [of n "CHR ''/''" s] by (auto simp: path_names_def Let_def split: if_splits)

lemma c_names_path [simp]: "CHR 0x00 \<notin> set s \<Longrightarrow> c_names (path_names s) = path_names s"
  by (rule c_names_id) (use path_names_chars in blast)

lemma c_str_id [simp]: "CHR 0x00 \<notin> set s \<Longrightarrow> c_str s = s"
  by (simp add: c_str_def)

subsection \<open>Canonical paths\<close>

text \<open>
  A tree: every node lies in a directory, under a clean name, and is listed once; the current
  directory is one of its directories.
\<close>

definition wf_os :: "'z osys_scheme \<Rightarrow> bool" where
  "wf_os w \<longleftrightarrow> distinct (map fst (os_nodes w)) \<and>
     (\<forall>(p, n) \<in> set (os_nodes w). p \<noteq> [] \<and> (\<forall>x \<in> set p. clean_name x) \<and> node_at w (butlast p) = Some DirN) \<and>
     (\<forall>x \<in> set (os_cwd w). clean_name x) \<and> node_at w (os_cwd w) = Some DirN"

lemma wf_os_clean: "wf_os w \<Longrightarrow> node_at w p \<noteq> None \<Longrightarrow> \<forall>x \<in> set p. clean_name x"
  by (auto simp: wf_os_def node_at_def dest!: map_of_SomeD split: if_splits)

lemma wf_os_parent: "wf_os w \<Longrightarrow> node_at w p \<noteq> None \<Longrightarrow> node_at w (butlast p) = Some DirN"
proof (cases "p = []")
  case False
  assume w: "wf_os w" "node_at w p \<noteq> None"
  with False obtain n where "(p, n) \<in> set (os_nodes w)"
    by (auto simp: node_at_def dest!: map_of_SomeD)
  with w(1) show ?thesis unfolding wf_os_def by fast
qed (simp add: node_at_def)

lemma wf_os_cwd: "wf_os w \<Longrightarrow> (\<forall>x \<in> set (os_cwd w). clean_name x) \<and> node_at w (os_cwd w) = Some DirN"
  by (simp add: wf_os_def)

lemma existing_bounds: "length pre \<le> existing w ab pre ns \<and> existing w ab pre ns \<le> length pre + length ns"
  by (induction w ab pre ns rule: existing.induct) auto

lemma existing_exists:
  "length pre < existing w ab pre ns \<Longrightarrow> names_exist w ab (pre @ take (existing w ab pre ns - length pre) ns)"
proof (induction w ab pre ns rule: existing.induct)
  case (2 w ab pre n ns)
  show ?case
  proof (cases "names_exist w ab (pre @ [n])")
    case True
    note IH = 2(1) [OF True]
    let ?k = "existing w ab (pre @ [n]) ns"
    have k: "Suc (length pre) \<le> ?k" using existing_bounds [of "pre @ [n]" w ab ns] by simp
    show ?thesis
    proof (cases "?k = Suc (length pre)")
      case False
      with k have "length (pre @ [n]) < ?k" by simp
      moreover from k obtain j where "?k = Suc (length pre) + j" using le_Suc_ex by blast
      ultimately show ?thesis using IH True by simp
    qed (use True in simp)
  qed (use 2 in simp)
qed simp

lemma existing_stop:
  "existing w ab pre ns - length pre < length ns \<Longrightarrow>
     \<not> names_exist w ab (pre @ take (Suc (existing w ab pre ns - length pre)) ns)"
proof (induction w ab pre ns rule: existing.induct)
  case (2 w ab pre n ns)
  show ?case
  proof (cases "names_exist w ab (pre @ [n])")
    case True
    have "Suc (length pre) \<le> existing w ab (pre @ [n]) ns"
      using existing_bounds [of "pre @ [n]" w ab ns] by simp
    then obtain j where j: "existing w ab (pre @ [n]) ns = Suc (length pre) + j" using le_Suc_ex by blast
    with 2(1) [OF True] 2(2) True show ?thesis by simp
  qed simp
qed simp

lemma join_names_snoc: "join_names (ns @ [n]) = (if ns = [] then n else join_names ns @ ''/'' @ n)"
  by (induction ns rule: join_names.induct) auto

lemma loc_string_snoc: "loc_string (p @ [n]) = loc_string p @ (if p = [] then [] else ''/'') @ n"
  by (simp add: loc_string_def path_string_def join_names_snoc)

lemma walk_exists: "wf_os w \<Longrightarrow> node_at w cur = Some DirN \<Longrightarrow> n = [] \<or> is_dots n \<Longrightarrow>
    Option.bind (walk w cur [n]) (node_at w) \<noteq> None"
  using wf_os_parent [of w cur] by (auto simp: is_dots_def)

text \<open>When the first of several names is missing, nothing can follow it.\<close>

lemma walk_missing_first:
  assumes "wf_os w" "walk w cur (n # ns) = Some p" "Option.bind (walk w cur [n]) (node_at w) = None"
  shows "ns = [] \<and> p = cur @ [n] \<and> n \<noteq> [] \<and> \<not> is_dots n"
proof -
  have d: "node_at w cur = Some DirN" using assms(2) by (auto split: if_splits)
  then have n: "n \<noteq> []" "\<not> is_dots n" using walk_exists [OF assms(1)] assms(3) by blast+
  then have "walk w (cur @ [n]) ns = Some p" "node_at w (cur @ [n]) = None"
    using assms(2,3) d by (auto simp: is_dots_def)
  then show ?thesis using n by (cases ns) auto
qed

lemma lexically_normal_clean:
  "\<forall>x \<in> set p. clean_name x \<Longrightarrow> p \<noteq> [] \<Longrightarrow> lexically_normal ab p = path_string ab p"
proof -
  assume a: "\<forall>x \<in> set p. clean_name x" "p \<noteq> []"
  then have "clean_name (last p)" by simp
  with a show ?thesis
    by (simp add: lexically_normal_def norm_names_clean_id clean_name_def Let_def)
qed

lemma path_string_normalized:
  "pf \<noteq> Windows \<Longrightarrow> \<forall>x \<in> set p. clean_name x \<Longrightarrow> normalizePath pf (loc_string p) = loc_string p"
proof (cases p rule: rev_cases)
  case (snoc q n)
  assume "\<forall>x \<in> set p. clean_name x" and pf: "pf \<noteq> Windows"
  with snoc have n: "n \<noteq> []" "CHR ''/'' \<notin> set n" by (auto simp: clean_name_def)
  then have "last (loc_string p) = last n" "last n \<noteq> CHR ''/''"
    using snoc last_in_set [of n] by (auto simp: loc_string_snoc simp del: last_in_set)
  with pf show ?thesis by (simp add: normalizePath_unix)
qed (simp add: loc_string_def path_string_def normalizePath_unix)

lemma path_names_nonempty: "s \<noteq> [] \<Longrightarrow> \<not> path_is_abs s \<Longrightarrow> path_names s \<noteq> []"
proof (cases s)
  case (Cons c cs)
  assume "\<not> path_is_abs s"
  with Cons have "c \<noteq> CHR ''/''" by (auto simp: path_is_abs_def)
  with Cons have "\<exists>x \<in> set (split_on (CHR ''/'') s). x \<noteq> []"
    by (auto split: list.splits)
  then show ?thesis by (auto simp: path_names_def Let_def filter_empty_conv)
qed simp

lemma walk_names_take:
  "CHR 0x00 \<notin> set s \<Longrightarrow> walk_names w ab (take j (path_names s)) = walk w (if ab then [] else os_cwd w) (take j (path_names s))"
proof -
  assume z: "CHR 0x00 \<notin> set s"
  have "\<forall>n \<in> set (take j (path_names s)). CHR 0x00 \<notin> set n"
    using z path_names_chars by (meson in_set_takeD subsetD)
  then show ?thesis by (simp add: walk_names_def)
qed

lemma locate_walk:
  "CHR 0x00 \<notin> set s \<Longrightarrow> locate w s = Some p \<Longrightarrow>
     s \<noteq> [] \<and> walk w (if path_is_abs s then [] else os_cwd w) (path_names s) = Some p"
  by (auto simp: locate_def walk_names_def Let_def split: if_splits)

text \<open>Where a path resolves although a leading part is missing, the missing name is the last one.\<close>

lemma locate_last_missing:
  assumes wf: "wf_os w" and z: "CHR 0x00 \<notin> set s" and p: "locate w s = Some p"
    and k: "k = existing w (path_is_abs s) [] (path_names s)" "k < length (path_names s)"
  obtains q n where "path_names s = take k (path_names s) @ [n]"
    "walk w (if path_is_abs s then [] else os_cwd w) (take k (path_names s)) = Some q"
    "p = q @ [n]" "clean_name n" "\<forall>x \<in> set q. clean_name x"
proof -
  let ?ns = "path_names s" and ?start = "if path_is_abs s then [] else os_cwd w"
  have slash: "\<forall>n \<in> set ?ns. CHR ''/'' \<notin> set n" using path_names_no_slash by blast
  have start: "\<forall>x \<in> set ?start. clean_name x" using wf_os_cwd [OF wf] by simp
  obtain n ns where ns: "drop k ?ns = n # ns" using k(2) by (metis Cons_nth_drop_Suc)
  then have split: "?ns = take k ?ns @ n # ns" by (metis append_take_drop_id)
  have "Option.bind (walk w ?start (take k ?ns)) (\<lambda>q. walk w q (n # ns)) = Some p"
    using locate_walk [OF z p] split by (metis walk_append)
  then obtain q where q: "walk w ?start (take k ?ns) = Some q" "walk w q (n # ns) = Some p"
    by (auto simp: bind_eq_Some_conv)
  have "take (Suc k) ?ns = take k ?ns @ [n]"
    using k(2) ns by (metis hd_drop_conv_nth list.sel(1) take_Suc_conv_app_nth)
  moreover have "\<not> names_exist w (path_is_abs s) (take (Suc k) ?ns)"
    using existing_stop [of w "path_is_abs s" "[]" ?ns] k by simp
  ultimately have "Option.bind (walk w q [n]) (node_at w) = None"
    using walk_names_take [OF z, of w "path_is_abs s" "Suc k"] q(1)
    by (simp add: names_exist_def walk_append)
  from walk_missing_first [OF wf q(2) this]
  have n: "ns = []" "p = q @ [n]" "n \<noteq> []" "\<not> is_dots n" by auto
  have "n \<in> set ?ns" using split by (metis in_set_conv_decomp)
  then have "clean_name n" using slash n by (simp add: clean_name_def)
  moreover have "\<forall>x \<in> set q. clean_name x"
    using walk_norm [OF start _ q(1)] norm_names_abs_clean [OF start, of "take k ?ns"] slash
    by (metis in_set_takeD)
  ultimately show ?thesis using that split n q(1) by metis
qed

lemma absolute_loc [simp]: "absolute w (loc_string q) = Inr (loc_string q)"
  by (simp add: absolute_def loc_string_def path_string_def path_is_abs_def)

text \<open>
  A path the system can resolve has its location as its canonical form: what the scope check
  compares is what the system then opens.
\<close>

lemma weakly_canonical_locate:
  assumes wf: "wf_os w" and z: "CHR 0x00 \<notin> set s" and p: "locate w s = Some p"
  shows "absolute w (weakly_canonical w s) = Inr (loc_string p)"
proof -
  let ?ab = "path_is_abs s" and ?ns = "path_names s"
  define k where "k = existing w ?ab [] ?ns"
  have s: "s \<noteq> []" and walk: "walk w (if ?ab then [] else os_cwd w) ?ns = Some p"
    using locate_walk [OF z p] by blast+
  have "k \<le> length ?ns" using existing_bounds [of "[]" w ?ab ?ns] by (simp add: k_def)
  then consider "?ns = []" | "k = length ?ns" "?ns \<noteq> []" | "k < length ?ns" by linarith
  then show ?thesis
  proof cases
    case 1
    then have "?ab" using path_names_nonempty [OF s] by blast
    with 1 walk have "p = []" "weakly_canonical w s = loc_string []"
      by (simp_all add: weakly_canonical_def lexically_normal_def loc_string_def)
    then show ?thesis by simp
  next
    case 2
    then have "weakly_canonical w s = loc_string (the (walk_names w ?ab ?ns))"
      by (simp add: weakly_canonical_def k_def)
    then show ?thesis using walk_names_take [OF z, of w ?ab "length ?ns"] walk by simp
  next
    case 3
    then obtain q n where ns: "?ns = take k ?ns @ [n]"
      and q: "walk w (if ?ab then [] else os_cwd w) (take k ?ns) = Some q"
      and pq: "p = q @ [n]" and n: "clean_name n" "\<forall>x \<in> set q. clean_name x"
      by (rule locate_last_missing [OF wf z p k_def])
    show ?thesis
    proof (cases "k = 0")
      case True
      then have wc: "weakly_canonical w s = path_string ?ab [n]" and qs: "q = (if ?ab then [] else os_cwd w)"
        using ns q n by (auto simp: weakly_canonical_def lexically_normal_clean k_def)
      have "\<not> path_is_abs n" using n by (auto simp: clean_name_def path_is_abs_def prefix_def)
      then show ?thesis using wc qs pq n absolute_loc [of w "[n]"]
        by (cases ?ab) (auto simp: absolute_def path_string_def join_names_snoc loc_string_def clean_name_def)
    next
      case False
      have "drop k ?ns = [n]" using ns 3 by (metis append_eq_conv_conj append_take_drop_id same_append_eq)
      with False 3 have "weakly_canonical w s = lexically_normal True p"
        using walk_names_take [OF z, of w ?ab k] q pq by (simp add: weakly_canonical_def Let_def k_def)
      then show ?thesis using n pq by (simp add: lexically_normal_clean loc_string_def [symmetric])
    qed
  qed
qed


subsection \<open>Writing and reading back\<close>

lemma map_of_put_node [simp]: "map_of (put_node p n nodes) = (map_of nodes)(p \<mapsto> n)"
proof -
  have "map_of (map (\<lambda>(q, m). if q = p then (q, n) else (q, m)) xs) =
      (if p \<in> fst ` set xs then (map_of xs)(p \<mapsto> n) else map_of xs)" for xs :: "(string list \<times> node) list"
    by (induction xs) (auto simp: fun_eq_iff)
  note upd = this
  show ?thesis
  proof (cases "map_of nodes p")
    case None
    then show ?thesis by (auto simp: put_node_def fun_eq_iff map_add_def split: option.splits)
  next
    case (Some m)
    then have "p \<in> fst ` set nodes" by (metis map_of_eq_None_iff option.distinct(1))
    with Some show ?thesis by (simp add: put_node_def upd)
  qed
qed

lemma fst_put_node: "map fst (put_node p n nodes) = map fst nodes @ (if map_of nodes p = None then [p] else [])"
  by (auto simp: put_node_def intro: map_cong)

lemma node_at_put [simp]:
  "p \<noteq> [] \<Longrightarrow> node_at (w\<lparr>os_nodes := put_node p n (os_nodes w)\<rparr>) q = (if q = p then Some n else node_at w q)"
  by (simp add: node_at_def)

lemma set_put_node: "(q, m) \<in> set (put_node p n nodes) \<Longrightarrow> (q, m) \<in> set nodes \<or> q = p"
  by (auto simp: put_node_def split: if_splits)

text \<open>
  Writing a file where there was a file or nothing changes no directory, so every path resolves
  as before.
\<close>

lemma node_at_dir_put:
  "p \<noteq> [] \<Longrightarrow> node_at w p \<noteq> Some DirN \<Longrightarrow>
     node_at (w\<lparr>os_nodes := put_node p (FileN d) (os_nodes w)\<rparr>) q = Some DirN \<longleftrightarrow> node_at w q = Some DirN"
  by simp

lemma walk_cong: "(\<And>q. node_at w q = Some DirN \<longleftrightarrow> node_at w' q = Some DirN) \<Longrightarrow> walk w cur ns = walk w' cur ns"
  by (induction w cur ns rule: walk.induct) auto

lemma locate_cong:
  "(\<And>q. node_at w q = Some DirN \<longleftrightarrow> node_at w' q = Some DirN) \<Longrightarrow> os_cwd w = os_cwd w' \<Longrightarrow>
     locate w s = locate w' s"
  by (simp add: locate_def walk_names_def Let_def walk_cong [of w w'])

lemma write_at_cases:
  assumes "write_at a d p w = Some w'"
  obtains "p \<noteq> []" "w' = w\<lparr>os_nodes := put_node p (FileN (case node_at w p of Some (FileN old) \<Rightarrow> if a then old @ d else d | _ \<Rightarrow> d)) (os_nodes w)\<rparr>"
    "node_at w p = None \<and> may_create w p \<or> (\<exists>old. node_at w p = Some (FileN old)) \<and> \<not> os_unwritable w p"
proof -
  have "p \<noteq> []" using assms by (auto simp: write_at_def node_at_def split: option.splits node.splits if_splits)
  then show ?thesis using that assms
    by (auto simp: write_at_def split: option.splits node.splits if_splits)
qed

lemma write_at_node:
  "write_at a d p w = Some w' \<Longrightarrow>
     node_at w' q = (if q = p then Some (FileN (case node_at w p of Some (FileN old) \<Rightarrow> if a then old @ d else d | _ \<Rightarrow> d))
                     else node_at w q)"
  by (erule write_at_cases) simp

lemma write_at_frame:
  "write_at a d p w = Some w' \<Longrightarrow>
     os_cwd w' = os_cwd w \<and> os_unreadable w' = os_unreadable w \<and> os_unwritable w' = os_unwritable w"
  by (erule write_at_cases) simp

lemma write_at_locate: "write_at a d p w = Some w' \<Longrightarrow> locate w' s = locate w s"
proof (rule locate_cong)
  assume a: "write_at a d p w = Some w'"
  then show "os_cwd w' = os_cwd w" using write_at_frame by blast
  show "node_at w' q = Some DirN \<longleftrightarrow> node_at w q = Some DirN" for q
    using a write_at_node [OF a, of q] by (auto simp: write_at_def split: option.splits node.splits if_splits)
qed

lemma wf_os_put:
  assumes wf: "wf_os w" and p: "p \<noteq> []" "\<forall>x \<in> set p. clean_name x" "node_at w (butlast p) = Some DirN"
    and n: "n = DirN \<or> node_at w p \<noteq> Some DirN"
  shows "wf_os (w\<lparr>os_nodes := put_node p n (os_nodes w)\<rparr>)"
proof -
  let ?w = "w\<lparr>os_nodes := put_node p n (os_nodes w)\<rparr>"
  have dir: "node_at ?w q = Some DirN" if "node_at w q = Some DirN" for q
    using that n p(1) by auto
  have "distinct (map fst (put_node p n (os_nodes w)))"
    using wf by (auto simp: fst_put_node wf_os_def map_of_eq_None_iff)
  moreover have "q \<noteq> [] \<and> (\<forall>x \<in> set q. clean_name x) \<and> node_at ?w (butlast q) = Some DirN"
    if "(q, m) \<in> set (put_node p n (os_nodes w))" for q m
    using set_put_node [OF that]
  proof
    assume "(q, m) \<in> set (os_nodes w)"
    then have "q \<noteq> [] \<and> (\<forall>x \<in> set q. clean_name x) \<and> node_at w (butlast q) = Some DirN"
      using wf unfolding wf_os_def by blast
    then show ?thesis using dir by blast
  qed (use p dir in blast)
  ultimately show ?thesis using wf_os_cwd [OF wf] dir unfolding wf_os_def by auto
qed

lemma locate_clean: "wf_os w \<Longrightarrow> CHR 0x00 \<notin> set s \<Longrightarrow> locate w s = Some p \<Longrightarrow> \<forall>x \<in> set p. clean_name x"
proof -
  assume wf: "wf_os w" and z: "CHR 0x00 \<notin> set s" and p: "locate w s = Some p"
  let ?start = "if path_is_abs s then [] else os_cwd w"
  have "\<forall>x \<in> set ?start. clean_name x" using wf_os_cwd [OF wf] by simp
  moreover have "\<forall>n \<in> set (path_names s). CHR ''/'' \<notin> set n" using path_names_no_slash by blast
  ultimately show ?thesis
    using walk_norm [of ?start "path_names s" w p] norm_names_abs_clean [of ?start "path_names s"] locate_walk [OF z p]
    by auto
qed

lemma write_at_wf:
  "wf_os w \<Longrightarrow> \<forall>x \<in> set p. clean_name x \<Longrightarrow> write_at a d p w = Some w' \<Longrightarrow> wf_os w'"
proof (erule write_at_cases)
  assume a: "wf_os w" "\<forall>x \<in> set p. clean_name x" "p \<noteq> []"
    and w': "w' = w\<lparr>os_nodes := put_node p (FileN (case node_at w p of Some (FileN old) \<Rightarrow> if a then old @ d else d | _ \<Rightarrow> d)) (os_nodes w)\<rparr>"
    and c: "node_at w p = None \<and> may_create w p \<or> (\<exists>old. node_at w p = Some (FileN old)) \<and> \<not> os_unwritable w p"
  have "node_at w (butlast p) = Some DirN" "node_at w p \<noteq> Some DirN"
    using c wf_os_parent [OF a(1), of p] by (auto simp: may_create_def)
  then show ?thesis using a w' by (auto intro!: wf_os_put)
qed

subsection \<open>Making directories\<close>

lemma mkdir_at_node: "mkdir_at p w = Some w' \<Longrightarrow> node_at w' q = (if q = p then Some DirN else node_at w q)"
  by (auto simp: mkdir_at_def may_create_def split: if_splits)

lemma mkdir_at_wf: "wf_os w \<Longrightarrow> \<forall>x \<in> set p. clean_name x \<Longrightarrow> mkdir_at p w = Some w' \<Longrightarrow> wf_os w'"
  by (auto simp: mkdir_at_def may_create_def split: if_splits intro!: wf_os_put)

lemma walk_mono:
  "(\<And>q. node_at w q = Some DirN \<Longrightarrow> node_at w' q = Some DirN) \<Longrightarrow> walk w cur ns = Some p \<Longrightarrow> walk w' cur ns = Some p"
  by (induction w cur ns rule: walk.induct) (auto split: if_splits)

definition no_zero :: "string list \<Rightarrow> bool" where
  "no_zero ns \<longleftrightarrow> (\<forall>n \<in> set ns. CHR 0x00 \<notin> set n)"

lemma walk_names_no_zero: "no_zero ns \<Longrightarrow> walk_names w ab ns = walk w (if ab then [] else os_cwd w) ns"
  by (simp add: walk_names_def no_zero_def)

text \<open>Where a chain of names leads to a directory.\<close>

definition leads_to_dir :: "'z osys_scheme \<Rightarrow> bool \<Rightarrow> string list \<Rightarrow> bool" where
  "leads_to_dir w ab ns \<longleftrightarrow> Option.bind (walk_names w ab ns) (node_at w) = Some DirN"

lemma leads_to_dir_dots:
  "wf_os w \<Longrightarrow> no_zero (pre @ [n]) \<Longrightarrow> n = [] \<or> is_dots n \<Longrightarrow> leads_to_dir w ab pre \<Longrightarrow> leads_to_dir w ab (pre @ [n])"
  using wf_os_parent [of w]
  by (auto simp: leads_to_dir_def walk_names_no_zero walk_append is_dots_def no_zero_def bind_eq_Some_conv)

lemma leads_to_dir_mkdir:
  assumes "leads_to_dir w ab pre" "no_zero (pre @ [n])" "n \<noteq> []" "\<not> is_dots n"
    "walk_names w ab (pre @ [n]) = Some p" "mkdir_at p w = Some w'"
  shows "leads_to_dir w' ab (pre @ [n])"
proof -
  have cwd: "os_cwd w' = os_cwd w" using assms(6) by (auto simp: mkdir_at_def split: if_splits)
  have "node_at w' q = Some DirN" if "node_at w q = Some DirN" for q
    using that mkdir_at_node [OF assms(6), of q] by simp
  then have "walk_names w' ab (pre @ [n]) = Some p"
    using assms(2,5) cwd walk_mono [of w w'] by (auto simp: walk_names_no_zero)
  then show ?thesis using mkdir_at_node [OF assms(6), of p] by (simp add: leads_to_dir_def)
qed

lemma walk_names_clean:
  "wf_os w \<Longrightarrow> no_zero ns \<Longrightarrow> \<forall>n \<in> set ns. CHR ''/'' \<notin> set n \<Longrightarrow> walk_names w ab ns = Some p \<Longrightarrow> \<forall>x \<in> set p. clean_name x"
  using walk_norm [of "if ab then [] else os_cwd w" ns w p] wf_os_cwd [of w]
    norm_names_abs_clean [of "if ab then [] else os_cwd w" ns]
  by (auto simp: walk_names_no_zero split: if_splits)

lemma make_prefixes_dir:
  "make_prefixes ab pre ns made w = (Inr b, w') \<Longrightarrow> wf_os w \<Longrightarrow> no_zero (pre @ ns) \<Longrightarrow>
     \<forall>n \<in> set (pre @ ns). CHR ''/'' \<notin> set n \<Longrightarrow> leads_to_dir w ab pre \<Longrightarrow>
     wf_os w' \<and> leads_to_dir w' ab (pre @ ns) \<and> os_cwd w' = os_cwd w"
proof (induction ab pre ns made w rule: make_prefixes.induct)
  case (2 ab pre n ns made w)
  have nz: "no_zero (pre @ [n])" "no_zero ((pre @ [n]) @ ns)" and sl: "\<forall>m \<in> set ((pre @ [n]) @ ns). CHR ''/'' \<notin> set m"
    using "2.prems" by (auto simp: no_zero_def)
  show ?case
  proof (cases "n = [] \<or> is_dots n")
    case True
    then show ?thesis using 2 nz sl leads_to_dir_dots [OF "2.prems"(2) nz(1) True "2.prems"(5)] by simp
  next
    case False
    then obtain p where p: "walk_names w ab (pre @ [n]) = Some p"
      using "2.prems"(1) by (auto split: option.splits)
    consider "node_at w p = Some DirN" | w1 where "node_at w p = None" "mkdir_at p w = Some w1"
      using "2.prems"(1) False p by (auto split: option.splits node.splits)
    then show ?thesis
    proof cases
      case 1
      then have "leads_to_dir w ab (pre @ [n])" using p by (simp add: leads_to_dir_def)
      with 1 False p "2.IH"(3) [OF False p 1] "2.prems" nz sl show ?thesis by simp
    next
      case (2 w1)
      have "wf_os w1"
        using mkdir_at_wf [OF \<open>wf_os w\<close> _ 2(2)] walk_names_clean [OF \<open>wf_os w\<close> nz(1) _ p] sl by auto
      moreover have "leads_to_dir w1 ab (pre @ [n])"
        using leads_to_dir_mkdir [OF \<open>leads_to_dir w ab pre\<close> nz(1) _ _ p 2(2)] False by simp
      moreover have "os_cwd w1 = os_cwd w" using 2(2) by (auto simp: mkdir_at_def split: if_splits)
      ultimately show ?thesis
        using False p 2 "2.IH"(2) [OF False p 2] \<open>make_prefixes ab pre (n # ns) made w = (Inr b, w')\<close> nz sl
        by simp
    qed
  qed
qed auto

lemma create_directories_dir:
  assumes "create_directories s w = (Inr b, w')" "wf_os w" "CHR 0x00 \<notin> set s"
  shows "wf_os w' \<and> fs_is_directory w' s"
proof (cases "fs_is_directory w s")
  case True
  then show ?thesis using assms by (auto simp: create_directories_def split: if_splits)
next
  case False
  then have s: "s \<noteq> []" "make_prefixes (path_is_abs s) [] (path_names s) False w = (Inr b, w')"
    using assms(1) by (auto simp: create_directories_def split: if_splits)
  have "no_zero (path_names s)" using assms(3) path_names_chars unfolding no_zero_def by blast
  moreover have "leads_to_dir w (path_is_abs s) []"
    using wf_os_cwd [OF assms(2)]
    by (auto simp: leads_to_dir_def walk_names_no_zero no_zero_def node_at_def split: if_splits)
  moreover have "\<forall>n \<in> set (path_names s). CHR ''/'' \<notin> set n" using path_names_no_slash by blast
  ultimately have "wf_os w' \<and> leads_to_dir w' (path_is_abs s) (path_names s)"
    using make_prefixes_dir [OF s(2) assms(2)] by simp
  then show ?thesis
    using s(1) assms(3) by (simp add: leads_to_dir_def fs_is_directory_def status_of_def locate_def Let_def)
qed

lemma make_prefixes_frame:
  "make_prefixes ab pre ns made w = (r, w') \<Longrightarrow> w' = w\<lparr>os_nodes := os_nodes w'\<rparr>"
proof (induction ab pre ns made w rule: make_prefixes.induct)
  case (2 ab pre n ns made w)
  have "w' = w\<lparr>os_nodes := os_nodes w'\<rparr>"
    if "mkdir_at p w = Some w1" "w' = w1\<lparr>os_nodes := os_nodes w'\<rparr>" for p w1
    using that by (auto simp: mkdir_at_def split: if_splits)
  with 2 show ?case
    by (auto split: if_splits option.splits node.splits)
qed auto

text \<open>What is found under a path depends on the files and the working directory only.\<close>

lemma open_in_cong:
  assumes "os_nodes v = os_nodes w" "os_cwd v = os_cwd w" "os_unreadable v = os_unreadable w" "os_dirEnd v = os_dirEnd w"
  shows "open_in v f = open_in w f"
proof -
  have n: "node_at v = node_at w" using assms(1) by (intro ext) (simp add: node_at_def)
  then have "locate v f = locate w f" using assms(2) by (intro locate_cong) simp_all
  with n assms(3,4) show ?thesis
    by (cases "locate w f") (simp_all add: open_in_def split: option.splits node.splits)
qed

end
