(* ===== verification/Fs.thy ===== *)
theory Fs
  imports Vfs
begin

text \<open>
  The core of \<^verbatim>\<open>api/fs/fs.cpp\<close>: reading and writing whole files, file information, directory
  listings, the path constants (\<^verbatim>\<open>os::getPath\<close> with them) and \<^verbatim>\<open>dirname\<close>. The handlers of the native API are
  in \<open>FsApi\<close>.
\<close>

record FileReaderResult =
  fr_status :: StatusCode
  fr_data :: string
  fr_size :: int

record FileReaderOptions =
  fo_pos :: int
  fo_size :: int

record FileWriterOptions =
  fw_filename :: string
  fw_data :: string
  fw_append :: bool

datatype EntryType = EntryTypeFile | EntryTypeDir | EntryTypeOther

record FileStats =
  st_status :: StatusCode
  st_size :: int
  st_entryType :: EntryType
  st_createdAt :: int
  st_modifiedAt :: int

record DirReaderEntry =
  de_name :: string
  de_path :: string
  de_type :: EntryType

record DirReaderResult =
  dr_status :: StatusCode
  dr_entries :: "DirReaderEntry list"

definition default_options :: FileReaderOptions where
  "default_options = \<lparr>fo_pos = -1, fo_size = -1\<rparr>"

section \<open>Files\<close>

text \<open>The part of a file that the reader options select: offset and length.\<close>

definition read_range :: "int \<Rightarrow> FileReaderOptions \<Rightarrow> int \<times> int" where
  "read_range origSize opts =
     (let (pos, len) = (if fo_pos opts > -1
            then (min (fo_pos opts) origSize, origSize - min (fo_pos opts) origSize)
            else (0, origSize))
      in (pos, if fo_size opts > -1 then min (fo_size opts) len else len))"

text \<open>
  The buffer keeps its zero bytes where nothing is read. A negative length is a huge one once
  converted to \<^verbatim>\<open>size_t\<close>.
\<close>

definition read_buffer :: "string option \<Rightarrow> int \<Rightarrow> int \<Rightarrow> string" where
  "read_buffer content pos len =
     (let got = (case content of None \<Rightarrow> [] | Some d \<Rightarrow> take (nat len) (drop (nat pos) d))
      in got @ replicate (nat len - length got) (CHR 0x00))"

definition readFile :: "string \<Rightarrow> FileReaderOptions \<Rightarrow> world \<Rightarrow> FileReaderResult result" where
  "readFile filename opts w =
     (case open_in w filename of
        None \<Rightarrow> Inr \<lparr>fr_status = NE_FS_FILRDER, fr_data = [], fr_size = -1\<rparr>
      | Some (origSize, content) \<Rightarrow>
          (let (pos, len) = read_range origSize opts
           in if len < 0 \<or> os_memory w < len then Inl LengthError
              else Inr \<lparr>fr_status = NE_ST_OK, fr_data = read_buffer content pos len, fr_size = origSize\<rparr>))"

definition writeFile :: "FileWriterOptions \<Rightarrow> bool prog" where
  "writeFile opts = (\<lambda>w. case write_out (fw_append opts) (fw_data opts) (fw_filename opts) w of
     None \<Rightarrow> (Inr False, w)
   | Some w' \<Rightarrow> (Inr True, w'))"

section \<open>Information\<close>

definition entry_type :: "node \<Rightarrow> EntryType" where
  "entry_type n = (case n of FileN _ \<Rightarrow> EntryTypeFile | DirN \<Rightarrow> EntryTypeDir | OtherN \<Rightarrow> EntryTypeOther)"

definition node_size :: "world \<Rightarrow> string list \<Rightarrow> node \<Rightarrow> int" where
  "node_size w p n = (case n of FileN d \<Rightarrow> int (length d) | DirN \<Rightarrow> os_dirSize w p | OtherN \<Rightarrow> 0)"

text \<open>Where the call fails the other members are left unset; nothing reads them.\<close>

definition getStats :: "string \<Rightarrow> world \<Rightarrow> FileStats" where
  "getStats path w =
     (let missing = \<lparr>st_status = NE_FS_NOPATHE, st_size = 0, st_entryType = EntryTypeOther,
                     st_createdAt = 0, st_modifiedAt = 0\<rparr>
      in case locate w path of
        None \<Rightarrow> missing
      | Some p \<Rightarrow> (case node_at w p of
           None \<Rightarrow> missing
         | Some n \<Rightarrow> \<lparr>st_status = NE_ST_OK, st_size = node_size w p n, st_entryType = entry_type n,
             st_createdAt = to_long (fst (os_times w p) * 1000),
             st_modifiedAt = to_long (snd (os_times w p) * 1000)\<rparr>))"

section \<open>Directories\<close>

text \<open>\<^verbatim>\<open>path / name\<close> for a relative name.\<close>

definition path_join :: "string \<Rightarrow> string \<Rightarrow> string" where
  "path_join base name = (if base = [] \<or> last base = CHR ''/'' then base @ name else base @ ''/'' @ name)"

text \<open>
  The recursive iterator, in the order the system lists a directory, a subdirectory right after
  its entry. The fuel bounds the depth, which the number of nodes does as well. An unreadable
  directory raises.
\<close>

fun list_dir :: "nat \<Rightarrow> world \<Rightarrow> bool \<Rightarrow> string \<Rightarrow> string list \<Rightarrow> (string list \<times> DirReaderEntry) list result" where
  "list_dir 0 w recursive base p = Inr []"
| "list_dir (Suc fuel) w recursive base p =
     (if os_unreadable w p then Inl FilesystemError
      else bindR (mapR (\<lambda>(q, n).
             let entryPath = path_join base (last q);
                 entry = \<lparr>de_name = last q, de_path = normalizePath (os_platform w) entryPath, de_type = entry_type n\<rparr>
             in if recursive \<and> n = DirN
                then bindR (list_dir fuel w recursive entryPath q) (\<lambda>es. Inr ((q, entry) # es))
                else Inr [(q, entry)])
           (children w p)) (\<lambda>ess. Inr (concat ess)))"

definition dir_fuel :: "world \<Rightarrow> nat" where
  "dir_fuel w = Suc (length (os_nodes w))"

definition readDirectory :: "string \<Rightarrow> bool \<Rightarrow> world \<Rightarrow> DirReaderResult result" where
  "readDirectory path recursive w =
     (let fileStats = getStats path w
      in if st_status fileStats \<noteq> NE_ST_OK then Inr \<lparr>dr_status = st_status fileStats, dr_entries = []\<rparr>
         else case locate w path of
           None \<Rightarrow> Inl FilesystemError
         | Some p \<Rightarrow> if node_at w p \<noteq> Some DirN then Inl FilesystemError
             else bindR (list_dir (dir_fuel w) w recursive path p)
                    (\<lambda>es. Inr \<lparr>dr_status = NE_ST_OK, dr_entries = map snd es\<rparr>))"

section \<open>Paths\<close>

definition strip_slashes :: "string \<Rightarrow> string" where
  "strip_slashes s = rev (dropWhile (\<lambda>c. c = CHR ''/'') (rev s))"

text \<open>\<^verbatim>\<open>dirname\<close> of the C library.\<close>

definition getDirectoryName :: "string \<Rightarrow> string" where
  "getDirectoryName filename =
     (let s = c_str filename; t = strip_slashes s
      in if s \<noteq> [] \<and> t = [] then (if s = ''//'' then ''//'' else ''/'')
         else if CHR ''/'' \<notin> set t then ''.''
         else let d = rev (dropWhile (\<lambda>c. c \<noteq> CHR ''/'') (rev t))
              in if strip_slashes d \<noteq> [] then strip_slashes d else if d = ''//'' then ''//'' else ''/'')"

definition getCurrentDirectory :: "world \<Rightarrow> string" where
  "getCurrentDirectory w = loc_string (os_cwd w)"

text \<open>\<^verbatim>\<open>os::getPath\<close>; an unknown name has the empty path.\<close>

definition getPath_names :: "string list" where
  "getPath_names = [''config'', ''data'', ''cache'', ''documents'', ''pictures'', ''music'', ''video'',
     ''downloads'', ''saveGames1'', ''saveGames2'', ''temp'', ''desktop'', ''home'']"

definition os_getPath :: "string \<Rightarrow> world \<Rightarrow> string result" where
  "os_getPath name w =
     (if name \<in> set getPath_names
      then bindR (os_folder w name) (\<lambda>path. Inr (normalizePath (os_platform w) path))
      else Inr (normalizePath (os_platform w) []))"

definition constant_names :: "string list" where
  "constant_names = [''data'', ''cache'', ''documents'', ''pictures'', ''music'', ''video'', ''downloads'',
     ''saveGames1'', ''saveGames2'', ''temp'', ''home'', ''desktop'']"

definition constant_rx :: "string \<Rightarrow> rx" where
  "constant_rx pathName = rlit (''${NL_OS'' @ map toupper pathName @ ''PATH}'')"

fun apply_constants :: "string list \<Rightarrow> string \<Rightarrow> world \<Rightarrow> string result" where
  "apply_constants [] newPath w = Inr newPath"
| "apply_constants (pathName # names) newPath w =
     bindR (os_getPath pathName w) (\<lambda>p. apply_constants names (regex_replace (constant_rx pathName) p newPath) w)"

definition applyPathConstants :: "string \<Rightarrow> world \<Rightarrow> string result" where
  "applyPathConstants path w =
     apply_constants constant_names (regex_replace (rlit ''${NL_PATH}'') (settings_appPath w) path) w"

section \<open>Properties\<close>

lemma read_buffer_length: "length (read_buffer c pos len) = nat len"
  by (auto simp: read_buffer_def Let_def split: option.splits)

lemma read_range_bounds:
  assumes "0 \<le> n" "read_range n opts = (pos, len)"
  shows "0 \<le> pos \<and> pos \<le> n \<and> 0 \<le> len \<and> pos + len \<le> n"
  using assms by (auto simp: read_range_def Let_def split: if_splits)

text \<open>
  Of a regular file exactly the requested bytes are read: nothing is padded, nothing beyond the
  end is touched.
\<close>

lemma readFile_regular:
  assumes "open_in w f = Some (int (length d), Some d)" "int (length d) \<le> os_memory w"
    "read_range (int (length d)) opts = (pos, len)"
  shows "readFile f opts w =
    Inr \<lparr>fr_status = NE_ST_OK, fr_data = take (nat len) (drop (nat pos) d), fr_size = int (length d)\<rparr>"
proof -
  have b: "0 \<le> pos \<and> 0 \<le> len \<and> pos + len \<le> int (length d)"
    using read_range_bounds [OF _ assms(3)] by simp
  then have "nat len \<le> length d - nat pos" by linarith
  then have "read_buffer (Some d) pos len = take (nat len) (drop (nat pos) d)"
    by (simp add: read_buffer_def Let_def)
  with assms b show ?thesis by (simp add: readFile_def)
qed

lemma readFile_whole:
  assumes "open_in w f = Some (int (length d), Some d)" "int (length d) \<le> os_memory w"
  shows "readFile f default_options w =
    Inr \<lparr>fr_status = NE_ST_OK, fr_data = d, fr_size = int (length d)\<rparr>"
  using readFile_regular [OF assms, of default_options 0 "int (length d)"]
  by (simp add: read_range_def default_options_def)

lemma writeFile_step:
  "writeFile opts w = (Inr True, w') \<longleftrightarrow> write_out (fw_append opts) (fw_data opts) (fw_filename opts) w = Some w'"
  by (auto simp: writeFile_def split: option.splits)

lemma writeFile_Inr: "\<exists>b w'. writeFile opts w = (Inr b, w')"
  by (auto simp: writeFile_def split: option.splits)

end
