(* ===== verification/Resources.thy ===== *)
theory Resources
  imports Fs
begin

text \<open>
  \<^verbatim>\<open>resources.cpp\<close>: the application's files, from a directory, from the archive
  \<^verbatim>\<open>resources.neu\<close> or from the archive embedded in the executable. The archive starts with a
  header whose size is stored in its bytes 4 to 7; the header is a JSON tree of names, sizes and
  offsets.
\<close>

definition joinAppPath :: "string \<Rightarrow> world \<Rightarrow> string" where
  "joinAppPath filename w = settings_appPath w @ filename"

definition resources_getMode :: "world \<Rightarrow> ResourceMode" where
  "resources_getMode w = res_mode w"

definition resources_setMode :: "ResourceMode \<Rightarrow> unit prog" where
  "resources_setMode m = modS (\<lambda>w. w\<lparr>res_mode := m\<rparr>)"

definition isDirMode :: "world \<Rightarrow> bool" where
  "isDirMode w \<longleftrightarrow> resources_getMode w = ResourceModeDir"

definition isBundleMode :: "world \<Rightarrow> bool" where
  "isBundleMode w \<longleftrightarrow> resources_getMode w = ResourceModeBundle"

definition isEmbeddedMode :: "world \<Rightarrow> bool" where
  "isEmbeddedMode w \<longleftrightarrow> resources_getMode w = ResourceModeEmbedded"

definition getFileTree :: "world \<Rightarrow> json" where
  "getFileTree w = res_fileTree w"

definition getModeString :: "world \<Rightarrow> string" where
  "getModeString w = (if isDirMode w then ''directory'' else if isBundleMode w then ''bundle'' else ''embedded'')"

section \<open>Looking up a file in the header\<close>

text \<open>
  One segment: an empty one, or one below something that has no files, is skipped. Reading
  \<^verbatim>\<open>json["files"]\<close> leaves a null member behind.
\<close>

definition seek_step :: "json \<Rightarrow> string \<Rightarrow> json result" where
  "seek_step j seg =
     (if seg = [] \<or> is_null j then Inr j
      else bindR (jref j ''files'') (\<lambda>(files, j').
        if is_null files then Inr j'
        else bindR (jref files seg) (\<lambda>(v, _). Inr v)))"

fun seek_segments :: "json \<Rightarrow> string list \<Rightarrow> json result" where
  "seek_segments j [] = Inr j"
| "seek_segments j (seg # segs) = bindR (seek_step j seg) (\<lambda>j'. seek_segments j' segs)"

definition seekFilePos :: "string \<Rightarrow> json \<Rightarrow> (int \<times> string) result" where
  "seekFilePos path node =
     bindR (seek_segments node (split path (CHR ''/''))) (\<lambda>j.
       if \<not> is_null j
       then bindR (jref j ''size'') (\<lambda>(sz, j1). bindR (get_ulong sz) (\<lambda>n.
              bindR (jref j1 ''offset'') (\<lambda>(ofs, j2). bindR (get_string ofs) (\<lambda>t. Inr (to_long n, t)))))
       else Inr (-1, []))"

section \<open>Reading from an archive\<close>

text \<open>The archive opened for reading: its bytes, or none for what cannot be read as a file.\<close>

definition openResourceFile :: "(int \<times> string option) option prog" where
  "openResourceFile =
     bindS (getS (joinAppPath ''/resources.neu'')) (\<lambda>resFileName.
     bindS (getS (\<lambda>w. open_in w resFileName)) (\<lambda>archive.
     case archive of
       None \<Rightarrow> thenS (debug_log LogTypeError (makeErrorMsg NE_RS_TREEGER resFileName)) (retS None)
     | Some a \<Rightarrow> retS (Some a)))"

definition applyFileReaderOptions :: "int \<Rightarrow> FileReaderOptions \<Rightarrow> int \<times> int" where
  "applyFileReaderOptions origSize opts = read_range origSize opts"

text \<open>
  The absolute offset is an \<^verbatim>\<open>unsigned long\<close>; as a stream position it is signed, and a seek to a
  negative one fails, so that nothing is read.
\<close>

definition archive_slice :: "string option \<Rightarrow> int \<Rightarrow> int \<Rightarrow> string" where
  "archive_slice content start len =
     (if to_long start < 0 then read_buffer None 0 len else read_buffer content (to_long start) len)"

definition getFileFromBundle :: "string \<Rightarrow> FileReaderOptions \<Rightarrow> FileReaderResult prog" where
  "getFileFromBundle filename opts =
     bindS (readS (\<lambda>w. seekFilePos filename (res_fileTree w))) (\<lambda>(first, second).
     if first \<noteq> -1 then
       bindS openResourceFile (\<lambda>archive. case archive of
         None \<Rightarrow> retS \<lparr>fr_status = NE_RS_TREEGER, fr_data = [], fr_size = -1\<rparr>
       | Some (_, content) \<Rightarrow>
           bindS (liftS (stoi second)) (\<lambda>uOffset.
           bindS (getS (\<lambda>w. (res_asarHeaderSize w, os_memory w))) (\<lambda>(header, memory).
           let (pos, len) = applyFileReaderOptions first opts
           in if to_ulong len > memory then throwS LengthError
              else retS \<lparr>fr_status = NE_ST_OK,
                fr_data = archive_slice content (to_ulong (uint header + to_ulong uOffset + pos)) len,
                fr_size = first\<rparr>)))
     else retS \<lparr>fr_status = NE_RS_NOPATHE, fr_data = [], fr_size = -1\<rparr>)"

text \<open>The embedded archive is read in place; a read past its end is undefined.\<close>

definition getFileFromEmbedded :: "string \<Rightarrow> FileReaderOptions \<Rightarrow> FileReaderResult prog" where
  "getFileFromEmbedded filename opts =
     bindS (readS (\<lambda>w. seekFilePos filename (res_fileTree w))) (\<lambda>(first, second).
     if first \<noteq> -1 then
       bindS (getS os_resource) (\<lambda>resource. case resource of
         None \<Rightarrow> retS \<lparr>fr_status = NE_RS_TREEGER, fr_data = [], fr_size = -1\<rparr>
       | Some bytes \<Rightarrow>
           if bytes = [] then retS \<lparr>fr_status = NE_RS_TREEGER, fr_data = [], fr_size = -1\<rparr>
           else bindS (liftS (stoi second)) (\<lambda>uOffset.
             bindS (getS (\<lambda>w. (res_asarHeaderSize w, os_memory w))) (\<lambda>(header, memory).
             let (pos, len) = applyFileReaderOptions first opts;
                 start = to_ulong (uint header + to_ulong uOffset + pos)
             in if to_ulong len > memory then throwS LengthError
                else if start + to_ulong len > int (length bytes) then throwS Undefined
                else retS \<lparr>fr_status = NE_ST_OK,
                  fr_data = take (nat len) (drop (nat start) bytes), fr_size = first\<rparr>)))
     else retS \<lparr>fr_status = NE_RS_NOPATHE, fr_data = [], fr_size = -1\<rparr>)"

section \<open>The header\<close>

text \<open>\<^verbatim>\<open>*(unsigned int *)(sizeBuf + 4) - 8\<close> on a little-endian machine.\<close>

definition header_size :: "string \<Rightarrow> 32 word" where
  "header_size bytes =
     of_nat (byte (bytes ! 4) + 256 * byte (bytes ! 5) + 65536 * byte (bytes ! 6) + 16777216 * byte (bytes ! 7)) - 8"

definition parse_header :: "string \<Rightarrow> bool prog" where
  "parse_header headerContent =
     bindS (catchS (json_parse headerContent)
              (thenS (debug_log LogTypeError ''parse_error'') (retS JNull))) (\<lambda>files.
     thenS (modS (\<lambda>w. w\<lparr>res_fileTree := files\<rparr>)) (retS (files \<noteq> JNull)))"

text \<open>The eight bytes are not initialized when the file is shorter.\<close>

definition makeBundleFileTree :: "bool prog" where
  "makeBundleFileTree =
     bindS openResourceFile (\<lambda>archive. case archive of
       None \<Rightarrow> retS False
     | Some (_, content) \<Rightarrow> (case content of
          None \<Rightarrow> throwS Undefined
        | Some bytes \<Rightarrow>
            if length bytes < 8 then throwS Undefined
            else let len = header_size bytes
              in thenS (modS (\<lambda>w. w\<lparr>res_asarHeaderSize := len + 16\<rparr>))
                 (bindS (getS os_memory) (\<lambda>memory.
                  if uint len > memory then throwS LengthError
                  else parse_header (read_buffer (Some bytes) 16 (uint len))))))"

definition makeEmbeddedFileTree :: "bool prog" where
  "makeEmbeddedFileTree =
     bindS (getS os_resource) (\<lambda>resource. case resource of
       None \<Rightarrow> retS False
     | Some bytes \<Rightarrow>
         if bytes = [] then retS False
         else if length bytes < 8 then throwS Undefined
         else let len = header_size bytes
           in thenS (modS (\<lambda>w. w\<lparr>res_asarHeaderSize := len + 16\<rparr>))
              (bindS (getS os_memory) (\<lambda>memory.
               if uint len > memory then throwS LengthError
               else if 16 + uint len > int (length bytes) then throwS Undefined
               else parse_header (take (unat len) (drop 16 bytes)))))"

section \<open>Operations\<close>

definition resources_getFile :: "string \<Rightarrow> FileReaderOptions \<Rightarrow> FileReaderResult prog" where
  "resources_getFile filename opts =
     bindS (getS (\<lambda>w. w)) (\<lambda>w.
     if isEmbeddedMode w then getFileFromEmbedded filename opts
     else if isBundleMode w then getFileFromBundle filename opts
     else readS (\<lambda>w. readFile (joinAppPath filename w) opts w))"

text \<open>\<^verbatim>\<open>path::parent_path\<close>\<close>

definition parent_path :: "string \<Rightarrow> string" where
  "parent_path s =
     (let d = rev (dropWhile (\<lambda>c. c \<noteq> CHR ''/'') (rev s))
      in if d = [] then [] else if strip_slashes d = [] then (if path_names s = [] then s else ''/'') else strip_slashes d)"

definition resources_extractFile :: "string \<Rightarrow> string \<Rightarrow> bool prog" where
  "resources_extractFile filename outputFilename =
     bindS (resources_getFile filename default_options) (\<lambda>r.
     if fr_status r \<noteq> NE_ST_OK then retS False
     else thenS (if parent_path outputFilename \<noteq> []
                 then bindS (create_directories (parent_path outputFilename)) (\<lambda>_. retS ())
                 else retS ())
          (writeFile \<lparr>fw_filename = outputFilename, fw_data = fr_data r, fw_append = False\<rparr>))"

definition resources_init :: "unit prog" where
  "resources_init =
     bindS (getS (\<lambda>w. w)) (\<lambda>w.
     if isDirMode w then retS ()
     else bindS (if isEmbeddedMode w
                 then bindS (if os_resource w \<noteq> None then makeEmbeddedFileTree else retS False) (\<lambda>loaded.
                      if loaded then retS True else thenS (resources_setMode ResourceModeBundle) (retS False))
                 else retS False) (\<lambda>done.
          if done then retS ()
          else bindS makeBundleFileTree (\<lambda>resourceLoaderStatus.
               if \<not> resourceLoaderStatus then resources_setMode ResourceModeDir else retS ())))"

end
