(* ===== verification/Extensions.thy ===== *)
theory Extensions
  imports World
begin

text \<open>
  \<^verbatim>\<open>extensions_loader.cpp\<close>: the list of loaded extensions. The loader that starts the configured
  extensions is in \<open>App\<close>, since it needs settings, tokens and processes.
\<close>

definition loadOne :: "string \<Rightarrow> unit prog" where
  "loadOne extensionId = modS (\<lambda>w. w\<lparr>ext_loadedExtensions := ext_loadedExtensions w @ [extensionId]\<rparr>)"

definition getLoaded :: "world \<Rightarrow> string list" where
  "getLoaded w = ext_loadedExtensions w"

definition isLoaded :: "string \<Rightarrow> world \<Rightarrow> bool" where
  "isLoaded extensionId w \<longleftrightarrow> extensionId \<in> set (ext_loadedExtensions w)"

definition isInitialized :: "world \<Rightarrow> bool" where
  "isInitialized w = ext_initialized w"

end
