(* ===== verification/Settings.thy ===== *)
theory Settings
  imports Resources Extensions
begin

text \<open>
  \<^verbatim>\<open>settings.cpp\<close>: the command line, the configuration file, the overrides of the command line on
  it, and the lookup of an option for the current mode. The code reads the options through the
  non-const \<^verbatim>\<open>operator[]\<close>, so a lookup may insert null members; the properties show that no later
  lookup can tell.
\<close>

section \<open>Options\<close>

definition joinAppDataPath :: "string \<Rightarrow> world \<Rightarrow> string" where
  "joinAppDataPath filename w = settings_appDataPath w @ filename"

definition joinSystemDataPath :: "string \<Rightarrow> world \<Rightarrow> string" where
  "joinSystemDataPath filename w = settings_systemDataPath w @ filename"

definition getAppPath :: "world \<Rightarrow> string" where
  "getAppPath w = settings_appPath w"

definition getConfigFile :: "world \<Rightarrow> string" where
  "getConfigFile w = settings_configFile w"

definition getConfig :: "world \<Rightarrow> json" where
  "getConfig w = settings_options w"

text \<open>\<^verbatim>\<open>options[k1][k2]...\<close>\<close>

fun jrefs :: "string list \<Rightarrow> json \<Rightarrow> (json \<times> json) result" where
  "jrefs [] j = Inr (j, j)"
| "jrefs (k # ks) j = (case j of
     JNull \<Rightarrow> bindR (jrefs ks JNull) (\<lambda>(v, c). Inr (v, JObject [(k, c)]))
   | JObject kvs \<Rightarrow> bindR (jrefs ks (jget j k)) (\<lambda>(v, c). Inr (v, JObject (upd k c kvs)))
   | _ \<Rightarrow> Inl TypeError)"

definition opt_ref :: "string list \<Rightarrow> json prog" where
  "opt_ref ks = (\<lambda>w. case jrefs ks (settings_options w) of
     Inl e \<Rightarrow> (Inl e, w)
   | Inr (v, j') \<Rightarrow> (Inr v, w\<lparr>settings_options := j'\<rparr>))"

definition mode_of_string :: "string \<Rightarrow> AppMode" where
  "mode_of_string mode =
     (if mode = ''window'' then AppModeWindow
      else if mode = ''browser'' then AppModeBrowser
      else if mode = ''cloud'' then AppModeCloud
      else if mode = ''chrome'' then AppModeChrome
      else AppModeWindow)"

definition settings_getMode :: "AppMode prog" where
  "settings_getMode =
     bindS (opt_ref [''defaultMode'']) (\<lambda>v.
     bindS (if \<not> is_null v then bindS (opt_ref [''defaultMode'']) (\<lambda>v. liftS (get_string v))
            else retS ''window'') (\<lambda>mode.
     retS (mode_of_string mode)))"

definition getOptionForCurrentMode :: "string \<Rightarrow> json prog" where
  "getOptionForCurrentMode key =
     bindS settings_getMode (\<lambda>m.
     bindS (opt_ref [''modes'', appModeToStr m, key]) (\<lambda>v.
     if is_null v then opt_ref [key] else retS v))"

definition put_option :: "string list \<Rightarrow> json \<Rightarrow> unit prog" where
  "put_option ts v = (\<lambda>w. case ptr_put ts v (settings_options w) of
     Inl e \<Rightarrow> (Inl e, w)
   | Inr j \<Rightarrow> (Inr (), w\<lparr>settings_options := j\<rparr>))"

text \<open>\<^verbatim>\<open>options["port"] = port\<close> goes through \<^verbatim>\<open>operator[]\<close>, the modes through JSON pointers.\<close>

definition setPort :: "int \<Rightarrow> unit prog" where
  "setPort port =
     thenS (bindS (opt_ref [''port'']) (\<lambda>_. put_option [''port''] (JInt port)))
    (thenS (put_option (ptr_tokens ''/modes/window/port'') (JInt port))
    (thenS (put_option (ptr_tokens ''/modes/browser/port'') (JInt port))
    (thenS (put_option (ptr_tokens ''/modes/cloud/port'') (JInt port))
           (put_option (ptr_tokens ''/modes/chrome/port'') (JInt port)))))"

text \<open>The two replacements of \<^verbatim>\<open>getAppId\<close>: drop what is neither a word byte nor a dot, then
  squeeze runs of dots.\<close>

definition appid_drop_rx :: rx where
  "appid_drop_rx = RSet (\<lambda>c. \<not> (isword c \<or> c = CHR ''.''))"

definition appid_dots_rx :: rx where
  "appid_dots_rx = (let d = RSet (\<lambda>c. c = CHR ''.'') in RSeq d (RSeq d (RStar d)))"

definition clean_app_id :: "string \<Rightarrow> string" where
  "clean_app_id appId = regex_replace appid_dots_rx ''.'' (regex_replace appid_drop_rx [] appId)"

definition getAppId :: "string prog" where
  "getAppId =
     bindS (opt_ref [''applicationId'']) (\<lambda>v.
     if \<not> is_null v then bindS (opt_ref [''applicationId'']) (\<lambda>v. bindS (liftS (get_string v)) (\<lambda>appId. retS (clean_app_id appId)))
     else retS ''js.neutralino.framework'')"

definition getNavigationUrl :: "string prog" where
  "getNavigationUrl =
     bindS (getOptionForCurrentMode ''url'') (\<lambda>u.
     if \<not> is_null u then bindS (getOptionForCurrentMode ''url'') (\<lambda>u. liftS (get_string u))
     else retS ''https://neutralino.js.org'')"

section \<open>Command line\<close>

definition parseArg :: "string \<Rightarrow> CliArg" where
  "parseArg argStr =
     (let argParts = splitTwo argStr (CHR ''='')
      in if length argParts = 2 \<and> length (argParts ! 1) > 0
         then \<lparr>cli_key = argParts ! 0, cli_value = argParts ! 1\<rparr>
         else \<lparr>cli_key = argStr, cli_value = []\<rparr>)"

definition cliMappings :: "(string \<times> string \<times> string) list" where
  "cliMappings =
    [(''--mode'', (''/defaultMode'', ''string'')),
     (''--url'', (''/url'', ''string'')),
     (''--document-root'', (''/documentRoot'', ''string'')),
     (''--port'', (''/port'', ''int'')),
     (''--logging-enabled'', (''/logging/enabled'', ''bool'')),
     (''--logging-write-to-log-file'', (''/logging/writeToLogFile'', ''bool'')),
     (''--enable-server'', (''/enableServer'', ''bool'')),
     (''--enable-native-api'', (''/enableNativeAPI'', ''bool'')),
     (''--single-page-serve'', (''/singlePageServe'', ''bool'')),
     (''--enable-extensions'', (''/enableExtensions'', ''bool'')),
     (''--export-auth-info'', (''/exportAuthInfo'', ''bool'')),
     (''--data-location'', (''/dataLocation'', ''string'')),
     (''--storage-location'', (''/storageLocation'', ''string'')),
     (''--window-title'', (''/modes/window/title'', ''string'')),
     (''--window-width'', (''/modes/window/width'', ''int'')),
     (''--window-height'', (''/modes/window/height'', ''int'')),
     (''--window-min-width'', (''/modes/window/minWidth'', ''int'')),
     (''--window-min-height'', (''/modes/window/minHeight'', ''int'')),
     (''--window-max-width'', (''/modes/window/maxWidth'', ''int'')),
     (''--window-max-height'', (''/modes/window/maxHeight'', ''int'')),
     (''--window-x'', (''/modes/window/x'', ''int'')),
     (''--window-y'', (''/modes/window/y'', ''int'')),
     (''--window-full-screen'', (''/modes/window/fullScreen'', ''bool'')),
     (''--window-always-on-top'', (''/modes/window/alwaysOnTop'', ''bool'')),
     (''--window-enable-inspector'', (''/modes/window/enableInspector'', ''bool'')),
     (''--window-open-inspector-on-startup'', (''/modes/window/openInspectorOnStartup'', ''bool'')),
     (''--window-borderless'', (''/modes/window/borderless'', ''bool'')),
     (''--window-maximize'', (''/modes/window/maximize'', ''bool'')),
     (''--window-hidden'', (''/modes/window/hidden'', ''bool'')),
     (''--window-resizable'', (''/modes/window/resizable'', ''bool'')),
     (''--window-maximizable'', (''/modes/window/maximizable'', ''bool'')),
     (''--window-center'', (''/modes/window/center'', ''bool'')),
     (''--window-transparent'', (''/modes/window/transparent'', ''bool'')),
     (''--window-skip-taskbar'', (''/modes/window/skipTaskbar'', ''bool'')),
     (''--window-exit-process-on-close'', (''/modes/window/exitProcessOnClose'', ''bool'')),
     (''--window-use-saved-state'', (''/modes/window/useSavedState'', ''bool'')),
     (''--window-icon'', (''/modes/window/icon'', ''string'')),
     (''--window-extend-user-agent-with'', (''/modes/window/extendUserAgentWith'', ''string'')),
     (''--window-inject-globals'', (''/modes/window/injectGlobals'', ''bool'')),
     (''--window-inject-client-library'', (''/modes/window/injectClientLibrary'', ''bool'')),
     (''--window-inject-script'', (''/modes/window/injectScript'', ''string'')),
     (''--chrome-width'', (''/modes/chrome/width'', ''int'')),
     (''--chrome-height'', (''/modes/chrome/height'', ''int'')),
     (''--chrome-args'', (''/modes/chrome/args'', ''string'')),
     (''--chrome-browser-binary'', (''/modes/chrome/browserBinary'', ''string''))]"

definition cliMappingAliases :: "string list" where
  "cliMappingAliases = [''/port'', ''/url'', ''/documentRoot'', ''/logging/enabled'', ''/logging/writeToLogFile'', ''/enableServer'', ''/enableNativeAPI'', ''/singlePageServe'', ''/enableExtensions'', ''/exportAuthInfo'']"

definition add_override :: "ConfigOverride \<Rightarrow> unit prog" where
  "add_override ovr = modS (\<lambda>w. w\<lparr>settings_configOverrides := settings_configOverrides w @ [ovr]\<rparr>)"

definition applyConfigOverride :: "CliArg \<Rightarrow> unit prog" where
  "applyConfigOverride arg =
     (case map_of cliMappings (cli_key arg) of
        None \<Rightarrow> retS ()
      | Some (key, convertTo) \<Rightarrow>
          if cli_key arg = ''--mode'' \<and> cli_value arg \<notin> set getModes
          then debug_log LogTypeError (makeErrorMsg NE_CF_UNSUPMD (cli_value arg))
          else let cfgOverride = \<lparr>ovr_key = key,
                     ovr_value = (if convertTo = ''bool'' \<and> cli_value arg = [] then ''true'' else cli_value arg),
                     ovr_convertTo = convertTo\<rparr>
               in thenS (add_override cfgOverride)
                  (if key \<in> set cliMappingAliases
                   then forS getModes (\<lambda>mode. add_override (cfgOverride\<lparr>ovr_key := ''/modes/'' @ mode @ key\<rparr>))
                   else retS ()))"

definition set_app_path :: "string \<Rightarrow> unit prog" where
  "set_app_path p = modS (\<lambda>w. w\<lparr>settings_appPath := p\<rparr>)"

text \<open>One argument; tells whether the index moves on (a \<^verbatim>\<open>continue\<close> leaves it).\<close>

definition global_arg :: "bool \<Rightarrow> string \<Rightarrow> bool prog" where
  "global_arg first arg =
     (let cliArg = parseArg arg
      in thenS (if first
                then bindS (getS getCurrentDirectory) (\<lambda>cwd.
                     set_app_path (if getDirectoryName arg = [] then cwd else getDirectoryName arg))
                else retS ())
         (if cli_key cliArg = ''--load-dir-res''
          then thenS (resources_setMode ResourceModeDir) (retS False)
          else if cli_key cliArg = ''--res-mode''
          then thenS (if cli_value cliArg = ''directory'' then resources_setMode ResourceModeDir
                      else if cli_value cliArg = ''bundle'' then resources_setMode ResourceModeBundle
                      else if cli_value cliArg = ''embedded'' then resources_setMode ResourceModeEmbedded
                      else retS ()) (retS False)
          else if cli_key cliArg = ''--path''
          then thenS (set_app_path (cli_value cliArg)) (retS False)
          else if cli_key cliArg = ''--config-file''
          then thenS (modS (\<lambda>w. w\<lparr>settings_configFile := cli_value cliArg\<rparr>)) (retS False)
          else bindS (getS (\<lambda>w. \<not> isBundleMode w \<and> \<not> isEmbeddedMode w)) (\<lambda>dev.
               if cli_key cliArg = ''--neu-dev-extension'' \<and> dev
               then thenS (loadOne ''js.neutralino.devtools'') (retS False)
               else thenS (applyConfigOverride cliArg) (retS True))))"

fun global_args :: "nat \<Rightarrow> string list \<Rightarrow> unit prog" where
  "global_args argIndex [] = retS ()"
| "global_args argIndex (arg # args) =
     bindS (global_arg (argIndex = 0) arg) (\<lambda>counted.
     global_args (if counted then argIndex + 1 else argIndex) args)"

definition setGlobalArgs :: "string list \<Rightarrow> unit prog" where
  "setGlobalArgs args =
     thenS (modS (\<lambda>w. w\<lparr>settings_globalArgs := args\<rparr>)) (global_args 0 args)"

section \<open>Locale\<close>

record LocaleInfo =
  lc_locale :: string
  lc_language :: string
  lc_region :: string

definition parseLocaleInfo :: "string \<Rightarrow> LocaleInfo" where
  "parseLocaleInfo localeName =
     (let name = takeWhile (\<lambda>c. c \<noteq> CHR ''.'') localeName;
          name = takeWhile (\<lambda>c. c \<noteq> CHR ''@'') name;
          name = map (\<lambda>c. if c = CHR ''_'' then CHR ''-'' else c) name;
          parts = split name (CHR ''-'')
      in \<lparr>lc_locale = name,
          lc_language = (if length parts > 0 then parts ! 0 else []),
          lc_region = (if length parts > 1 then parts ! (length parts - 1) else [])\<rparr>)"

definition getLocaleInfo :: "world \<Rightarrow> LocaleInfo" where
  "getLocaleInfo w =
     (let env = (\<lambda>k. case map_of (os_env w) k of None \<Rightarrow> [] | Some v \<Rightarrow> v);
          locale1 = env ''LC_ALL'';
          locale2 = (if locale1 = [] then env ''LC_MESSAGES'' else locale1);
          locale3 = (if locale2 = [] then env ''LANG'' else locale2)
      in parseLocaleInfo (if locale3 = [] then os_clocale w else locale3))"

section \<open>Loading the configuration\<close>

definition ptr_opt_ref :: "string list \<Rightarrow> json prog" where
  "ptr_opt_ref ts = (\<lambda>w. case ptr_ref ts (settings_options w) of
     Inl e \<Rightarrow> (Inl e, w)
   | Inr (v, j') \<Rightarrow> (Inr v, w\<lparr>settings_options := j'\<rparr>))"

definition override_value :: "ConfigOverride \<Rightarrow> json result" where
  "override_value ovr =
     (if ovr_convertTo ovr = ''int'' then bindR (stoi (ovr_value ovr)) (\<lambda>i. Inr (JInt i))
      else if ovr_convertTo ovr = ''bool'' then Inr (JBool (ovr_value ovr = ''true''))
      else Inr (JString (ovr_value ovr)))"

text \<open>A patch operation: whether it adds, the pointer, the value.\<close>

fun make_patches :: "ConfigOverride list \<Rightarrow> (bool \<times> string list \<times> json) list prog" where
  "make_patches [] = retS []"
| "make_patches (ovr # ovrs) =
     bindS (ptr_opt_ref (ptr_tokens (ovr_key ovr))) (\<lambda>old.
     bindS (liftS (override_value ovr)) (\<lambda>v.
     bindS (make_patches ovrs) (\<lambda>ps. retS ((is_null old, ptr_tokens (ovr_key ovr), v) # ps))))"

fun apply_patches :: "(bool \<times> string list \<times> json) list \<Rightarrow> json \<Rightarrow> json result" where
  "apply_patches [] j = Inr j"
| "apply_patches ((isAdd, ts, v) # ps) j =
     bindR (if isAdd then patch_add ts v j else patch_replace ts v j) (apply_patches ps)"

definition load_config :: "bool prog" where
  "load_config =
     bindS (getS settings_configFile) (\<lambda>configFile.
     bindS (resources_getFile configFile default_options) (\<lambda>r.
     if fr_status r = NE_ST_OK
     then catchS (bindS (json_parse (fr_data r)) (\<lambda>config.
                  thenS (modS (\<lambda>w. w\<lparr>settings_options := config\<rparr>)) (retS True)))
            (thenS (debug_log LogTypeError (makeErrorMsg NE_CF_UNBPRCF configFile)) (retS False))
     else thenS (debug_log LogTypeError (makeErrorMsg NE_CF_UNBLDCF configFile)) (retS True)))"

definition apply_overrides :: "unit prog" where
  "apply_overrides =
     bindS (getS settings_configOverrides) (\<lambda>ovrs.
     bindS (make_patches ovrs) (\<lambda>patches.
     bindS (getS settings_options) (\<lambda>opts.
     if patches \<noteq> [] then bindS (liftS (apply_patches patches opts)) (\<lambda>opts'.
          modS (\<lambda>w. w\<lparr>settings_options := opts'\<rparr>))
     else retS ())))"

definition set_data_paths :: "unit prog" where
  "set_data_paths =
     bindS (readS (\<lambda>w. os_folder w ''data'')) (\<lambda>dataHome.
     bindS getAppId (\<lambda>appId.
     thenS (modS (\<lambda>w. w\<lparr>settings_systemDataPath := normalizePath (os_platform w) (dataHome @ ''/'' @ appId)\<rparr>))
    (bindS (getOptionForCurrentMode ''dataLocation'') (\<lambda>jLoc.
     bindS (if \<not> is_null jLoc then liftS (get_string jLoc) else retS ''app'') (\<lambda>dataLoc.
     modS (\<lambda>w. w\<lparr>settings_appDataPath := (if dataLoc = ''system'' then settings_systemDataPath w else settings_appPath w)\<rparr>))))))"

definition settings_init :: "bool prog" where
  "settings_init =
     thenS (modS (\<lambda>w. w\<lparr>settings_localeName := lc_locale (getLocaleInfo w), settings_options := JObject []\<rparr>))
    (bindS load_config (\<lambda>loaded.
     if \<not> loaded then retS False
     else thenS apply_overrides (thenS set_data_paths (retS True))))"


section \<open>Properties\<close>

subsection \<open>Reading options\<close>

definition container :: "json \<Rightarrow> bool" where
  "container j = (case j of JNull \<Rightarrow> True | JObject _ \<Rightarrow> True | _ \<Rightarrow> False)"

text \<open>The shape a configuration needs for its lookups to succeed.\<close>

definition good_options :: "json \<Rightarrow> bool" where
  "good_options j \<longleftrightarrow> container j \<and> container (jget j ''modes'') \<and>
     (\<forall>m. container (ptr_get [''modes'', appModeToStr m] j)) \<and>
     (is_null (jget j ''defaultMode'') \<or> is_string (jget j ''defaultMode''))"

text \<open>What a lookup means, on the configuration as a value: the mode's option, else the root's.\<close>

definition mode_view :: "json \<Rightarrow> AppMode" where
  "mode_view j = (case jget j ''defaultMode'' of JString s \<Rightarrow> mode_of_string s | _ \<Rightarrow> AppModeWindow)"

definition opt_view :: "json \<Rightarrow> string \<Rightarrow> json" where
  "opt_view j key =
     (let v = ptr_get [''modes'', appModeToStr (mode_view j), key] j
      in if is_null v then jget j key else v)"

lemma container_simps [simp]: "container JNull" "container (JObject kvs)"
  by (simp_all add: container_def)

lemma container_cases: "container j \<Longrightarrow> j = JNull \<or> (\<exists>kvs. j = JObject kvs)"
  by (auto simp: container_def split: json.splits)

lemma jrefs_value: "jrefs ks j = Inr (v, j') \<Longrightarrow> v = ptr_get ks j"
proof (induction ks arbitrary: j v j')
  case (Cons k ks)
  then show ?case by (cases j) (fastforce simp: bindR_eq_Inr)+
qed simp

lemma jrefs_view:
  "jrefs ks j = Inr (v, j') \<Longrightarrow> \<not> strict_prefix ts ks \<Longrightarrow> ptr_get ts j' = ptr_get ts j"
proof (induction ks arbitrary: j v j' ts)
  case (Cons k ks)
  obtain t ts' where ts: "ts = t # ts'" using Cons.prems(2) by (cases ts) auto
  show ?case
  proof (cases "t = k")
    case True
    with Cons.prems(2) ts have n: "\<not> strict_prefix ts' ks" by simp
    from Cons.prems(1) obtain c where c: "jrefs ks (jget j k) = Inr (v, c)" "jget j' k = c"
      by (cases j) (auto simp: bindR_eq_Inr jget_object)
    from Cons.IH [OF c(1) n] c(2) ts True show ?thesis by simp
  next
    case False
    with Cons.prems(1) ts show ?thesis by (cases j) (auto simp: bindR_eq_Inr jget_object)
  qed
qed auto

lemma jrefs_ok: "(\<And>us. strict_prefix us ks \<Longrightarrow> container (ptr_get us j)) \<Longrightarrow> \<exists>v j'. jrefs ks j = Inr (v, j')"
proof (induction ks arbitrary: j)
  case (Cons k ks)
  have "container j" using Cons.prems [of "[]"] by simp
  moreover have "\<exists>v c. jrefs ks (jget j k) = Inr (v, c)"
    using Cons.prems [of "k # _"] by (intro Cons.IH) simp
  ultimately show ?case by (auto dest!: container_cases)
qed simp


lemma opt_ref_step:
  "jrefs ks (settings_options w) = Inr (v, j') \<Longrightarrow> opt_ref ks w = (Inr v, w\<lparr>settings_options := j'\<rparr>)"
  by (simp add: opt_ref_def)

text \<open>
  Two states with the same answers: only the options differ, and they differ in nothing a lookup
  of an option (other than the whole of \<open>modes\<close>) can see.
\<close>

definition same_opts :: "world \<Rightarrow> world \<Rightarrow> bool" where
  "same_opts w w' \<longleftrightarrow>
     w'\<lparr>settings_options := settings_options w\<rparr> = w \<and> good_options (settings_options w') \<and>
     mode_view (settings_options w') = mode_view (settings_options w) \<and>
     (\<forall>m k. ptr_get [''modes'', appModeToStr m, k] (settings_options w') = ptr_get [''modes'', appModeToStr m, k] (settings_options w)) \<and>
     (\<forall>k. k \<noteq> ''modes'' \<longrightarrow> jget (settings_options w') k = jget (settings_options w) k)"

lemma same_opts_view: "same_opts w w' \<Longrightarrow> k \<noteq> ''modes'' \<Longrightarrow> opt_view (settings_options w') k = opt_view (settings_options w) k"
  by (auto simp: same_opts_def opt_view_def Let_def)

text \<open>Every variable but the options themselves is untouched.\<close>

lemma same_opts_field:
  "same_opts w w' \<Longrightarrow> (\<And>v x. f (v\<lparr>settings_options := x\<rparr>) = f v) \<Longrightarrow> f w' = f w"
  unfolding same_opts_def by metis

lemma same_opts_mode: "same_opts w w' \<Longrightarrow> mode_view (settings_options w') = mode_view (settings_options w)"
  by (simp add: same_opts_def)

lemma same_opts_good: "same_opts w w' \<Longrightarrow> good_options (settings_options w')"
  by (simp add: same_opts_def)

lemma same_opts_refl: "good_options (settings_options w) \<Longrightarrow> same_opts w w"
  by (simp add: same_opts_def)

lemma same_opts_trans: "same_opts w1 w2 \<Longrightarrow> same_opts w2 w3 \<Longrightarrow> same_opts w1 w3"
proof -
  assume a: "same_opts w1 w2" "same_opts w2 w3"
  have "w3\<lparr>settings_options := settings_options w1\<rparr> =
      w3\<lparr>settings_options := settings_options w2\<rparr>\<lparr>settings_options := settings_options w1\<rparr>" by simp
  also have "\<dots> = w1" using a by (simp add: same_opts_def)
  finally show ?thesis using a by (simp add: same_opts_def)
qed

lemma mode_not_modes [simp]: "appModeToStr m \<noteq> ''modes''"
  by (cases m) simp_all

lemma jrefs_container:
  "jrefs ks j = Inr (v, j') \<Longrightarrow> container (ptr_get ts j) \<Longrightarrow> container (ptr_get ts j')"
proof (induction ks arbitrary: j v j' ts)
  case (Cons k ks)
  show ?case
  proof (cases ts)
    case (Cons t ts')
    show ?thesis
    proof (cases "t = k")
      case True
      from Cons.prems(1) obtain c where c: "jrefs ks (jget j k) = Inr (v, c)" "jget j' k = c"
        by (cases j) (auto simp: bindR_eq_Inr jget_object)
      with Cons.IH [OF c(1), of ts'] Cons.prems(2) True \<open>ts = t # ts'\<close> show ?thesis by simp
    next
      case False
      with Cons.prems \<open>ts = t # ts'\<close> show ?thesis by (cases j) (auto simp: bindR_eq_Inr jget_object)
    qed
  qed (use Cons.prems in \<open>cases j; auto simp: bindR_eq_Inr\<close>)
qed simp

text \<open>A single access of a root key, or of a key of a mode, is such a change.\<close>

lemma opt_ref_same:
  assumes "good_options (settings_options w)" "jrefs ks (settings_options w) = Inr (v, j')"
    and "\<And>us. strict_prefix us ks \<Longrightarrow> us = [] \<or> us = [''modes''] \<or> (\<exists>m. us = [''modes'', appModeToStr m])"
  shows "same_opts w (w\<lparr>settings_options := j'\<rparr>)"
proof -
  let ?j = "settings_options w"
  have view: "ptr_get ts j' = ptr_get ts ?j" if "\<not> strict_prefix ts ks" for ts
    using jrefs_view [OF assms(2) that] .
  have root: "jget j' k = jget ?j k" if "k \<noteq> ''modes''" for k
    using view [of "[k]"] assms(3) [of "[k]"] that by auto
  have modes: "ptr_get [''modes'', appModeToStr m, k] j' = ptr_get [''modes'', appModeToStr m, k] ?j" for m k
    using view [of "[''modes'', appModeToStr m, k]"] assms(3) [of "[''modes'', appModeToStr m, k]"] by auto
  have cont: "container (ptr_get ts j')" if "container (ptr_get ts ?j)" for ts
    using jrefs_container [OF assms(2) that] .
  have "good_options j'"
    using assms(1) cont [of "[]"] cont [of "[''modes'']"] cont [of "[''modes'', appModeToStr _]"] root [of "''defaultMode''"]
    by (auto simp: good_options_def)
  moreover have "mode_view j' = mode_view ?j" by (simp add: mode_view_def root)
  ultimately show ?thesis using root modes by (simp add: same_opts_def)
qed

lemma opt_ref_root:
  assumes "good_options (settings_options w)"
  obtains w' where "opt_ref [k] w = (Inr (jget (settings_options w) k), w')" "same_opts w w'"
proof -
  have "container (ptr_get us (settings_options w))" if "strict_prefix us [k]" for us
    using that assms by (auto simp: good_options_def strict_prefix_def prefix_Cons)
  then obtain v j' where j: "jrefs [k] (settings_options w) = Inr (v, j')"
    using jrefs_ok by meson
  have "same_opts w (w\<lparr>settings_options := j'\<rparr>)"
    using opt_ref_same [OF assms j] by (auto simp: strict_prefix_def prefix_Cons)
  with that opt_ref_step [OF j] jrefs_value [OF j] show ?thesis by simp
qed

lemma opt_ref_mode:
  assumes "good_options (settings_options w)"
  obtains w' where "opt_ref [''modes'', appModeToStr m, k] w =
      (Inr (ptr_get [''modes'', appModeToStr m, k] (settings_options w)), w')" "same_opts w w'"
proof -
  have sp: "us = [] \<or> us = [''modes''] \<or> us = [''modes'', appModeToStr m]"
    if "strict_prefix us [''modes'', appModeToStr m, k]" for us
    using that by (auto simp: strict_prefix_def prefix_Cons)
  obtain v j' where j: "jrefs [''modes'', appModeToStr m, k] (settings_options w) = Inr (v, j')"
    using jrefs_ok [of "[''modes'', appModeToStr m, k]" "settings_options w"] assms sp
    by (fastforce simp: good_options_def)
  have "same_opts w (w\<lparr>settings_options := j'\<rparr>)"
    using opt_ref_same [OF assms j] sp by blast
  with that opt_ref_step [OF j] jrefs_value [OF j] show ?thesis by simp
qed

lemma getMode_step:
  assumes "good_options (settings_options w)"
  obtains w' where "settings_getMode w = (Inr (mode_view (settings_options w)), w')" "same_opts w w'"
proof -
  let ?d = "jget (settings_options w) ''defaultMode''"
  obtain w1 where w1: "opt_ref [''defaultMode''] w = (Inr ?d, w1)" "same_opts w w1"
    using opt_ref_root [OF assms] by blast
  obtain w2 where w2: "opt_ref [''defaultMode''] w1 = (Inr ?d, w2)" "same_opts w1 w2"
    using opt_ref_root [OF same_opts_good [OF w1(2)], of "''defaultMode''"] w1(2) by (auto simp: same_opts_def)
  consider "?d = JNull" | s where "?d = JString s"
    using assms by (auto simp: good_options_def is_null_def is_string_def split: json.splits)
  then show ?thesis
  proof cases
    case 1
    then show ?thesis
      using that w1 by (simp add: settings_getMode_def mode_view_def mode_of_string_def is_null_def)
  next
    case (2 s)
    then show ?thesis
      using that w1 w2 same_opts_trans [OF w1(2) w2(2)]
      by (simp add: settings_getMode_def mode_view_def is_null_def)
  qed
qed

theorem getOption_step:
  assumes "good_options (settings_options w)" "key \<noteq> ''modes''"
  obtains w' where "getOptionForCurrentMode key w = (Inr (opt_view (settings_options w) key), w')" "same_opts w w'"
proof -
  let ?j = "settings_options w"
  obtain w1 where w1: "settings_getMode w = (Inr (mode_view ?j), w1)" "same_opts w w1"
    using getMode_step [OF assms(1)] by blast
  let ?v = "ptr_get [''modes'', appModeToStr (mode_view ?j), key] ?j"
  obtain w2 where w2: "opt_ref [''modes'', appModeToStr (mode_view ?j), key] w1 = (Inr ?v, w2)" "same_opts w1 w2"
    using opt_ref_mode [OF same_opts_good [OF w1(2)], of "mode_view ?j" key] w1(2) by (auto simp: same_opts_def)
  have w12: "same_opts w w2" using same_opts_trans [OF w1(2) w2(2)] .
  obtain w3 where w3: "opt_ref [key] w2 = (Inr (jget ?j key), w3)" "same_opts w2 w3"
    using opt_ref_root [OF same_opts_good [OF w12], of key] w12 assms(2) by (auto simp: same_opts_def)
  show ?thesis
  proof (cases "is_null ?v")
    case True
    then have "getOptionForCurrentMode key w = (Inr (opt_view ?j key), w3)"
      using w1 w2 w3 by (simp add: getOptionForCurrentMode_def opt_view_def Let_def)
    with that same_opts_trans [OF w12 w3(2)] show ?thesis by blast
  next
    case False
    then have "getOptionForCurrentMode key w = (Inr (opt_view ?j key), w2)"
      using w1 w2 by (simp add: getOptionForCurrentMode_def opt_view_def Let_def)
    with that w12 show ?thesis by blast
  qed
qed


subsection \<open>The port\<close>

text \<open>After the server has bound its port every mode sees it, whatever the configuration said.\<close>

lemma put_option_step:
  "ptr_put ts v (settings_options w) = Inr j \<Longrightarrow> put_option ts v w = (Inr (), w\<lparr>settings_options := j\<rparr>)"
  by (simp add: put_option_def)

lemma ptr_put_ok: "(\<And>us. strict_prefix us ks \<Longrightarrow> container (ptr_get us j)) \<Longrightarrow> \<exists>j'. ptr_put ks v j = Inr j'"
proof (induction ks arbitrary: j)
  case (Cons k ks)
  have "container j" using Cons.prems [of "[]"] by simp
  moreover have "\<exists>c. ptr_put ks v (jget j k) = Inr c"
    using Cons.prems [of "k # _"] by (intro Cons.IH) simp
  ultimately show ?case by (auto dest!: container_cases)
qed simp

lemma ptr_put_container:
  "ptr_put ks v j = Inr j' \<Longrightarrow> container (ptr_get ts j) \<Longrightarrow> \<not> prefix ks ts \<Longrightarrow> container (ptr_get ts j')"
proof (induction ks arbitrary: j j' ts)
  case (Cons k ks)
  show ?case
  proof (cases ts)
    case (Cons t ts')
    show ?thesis
    proof (cases "t = k")
      case True
      from Cons.prems(1) obtain c where c: "ptr_put ks v (jget j k) = Inr c" "jget j' k = c"
        by (cases j) (auto simp: bindR_eq_Inr jget_object)
      with Cons.IH [OF c(1), of ts'] Cons.prems True \<open>ts = t # ts'\<close> show ?thesis by simp
    next
      case False
      with Cons.prems \<open>ts = t # ts'\<close> show ?thesis by (cases j) (auto simp: bindR_eq_Inr jget_object)
    qed
  qed (use Cons.prems in \<open>cases j; auto simp: bindR_eq_Inr\<close>)
qed simp

lemma mode_port_tokens:
  "ptr_tokens ''/modes/window/port'' = [''modes'', appModeToStr AppModeWindow, ''port'']"
  "ptr_tokens ''/modes/browser/port'' = [''modes'', appModeToStr AppModeBrowser, ''port'']"
  "ptr_tokens ''/modes/cloud/port'' = [''modes'', appModeToStr AppModeCloud, ''port'']"
  "ptr_tokens ''/modes/chrome/port'' = [''modes'', appModeToStr AppModeChrome, ''port'']"
  by (simp_all add: ptr_tokens_def)

lemma put_mode_port:
  assumes good: "good_options (settings_options w)"
  obtains w' where "put_option [''modes'', appModeToStr m, ''port''] v w = (Inr (), w')"
    "good_options (settings_options w')" "mode_view (settings_options w') = mode_view (settings_options w)"
    "\<And>m'. ptr_get [''modes'', appModeToStr m', ''port''] (settings_options w') =
       (if m' = m then v else ptr_get [''modes'', appModeToStr m', ''port''] (settings_options w))"
    "w'\<lparr>settings_options := settings_options w\<rparr> = w"
proof -
  let ?ks = "[''modes'', appModeToStr m, ''port'']" and ?j = "settings_options w"
  have "container (ptr_get us ?j)" if "strict_prefix us ?ks" for us
    using that good by (auto simp: strict_prefix_def prefix_Cons good_options_def)
  then obtain j' where j': "ptr_put ?ks v ?j = Inr j'" using ptr_put_ok by meson
  have root: "jget j' k = jget ?j k" if "k \<noteq> ''modes''" for k
    using ptr_put_other [OF j', of "[k]"] that by simp
  have cont: "container (ptr_get ts j')" if "container (ptr_get ts ?j)" "length ts < 3" for ts
    using ptr_put_container [OF j' that(1)] that(2) prefix_length_le [of ?ks ts] by auto
  have "good_options j'"
    using good cont [of "[]"] cont [of "[''modes'']"] cont [of "[''modes'', appModeToStr _]"] root [of "''defaultMode''"]
    by (auto simp: good_options_def)
  moreover have "mode_view j' = mode_view ?j" by (simp add: mode_view_def root)
  moreover have "ptr_get [''modes'', appModeToStr m', ''port''] j' =
       (if m' = m then v else ptr_get [''modes'', appModeToStr m', ''port''] ?j)" for m'
    using ptr_put_get [OF j'] ptr_put_other [OF j', of "[''modes'', appModeToStr m', ''port'']"]
    by (auto dest: appModeToStr_inj)
  ultimately show ?thesis using that [of "w\<lparr>settings_options := j'\<rparr>"] put_option_step [OF j'] by simp
qed

lemma put_root_port:
  assumes good: "good_options (settings_options w)"
  obtains w' where "put_option [''port''] v w = (Inr (), w')"
    "good_options (settings_options w')" "mode_view (settings_options w') = mode_view (settings_options w)"
    "w'\<lparr>settings_options := settings_options w\<rparr> = w"
proof -
  let ?j = "settings_options w"
  have "container (ptr_get us ?j)" if "strict_prefix us [''port'']" for us
    using that good by (auto simp: strict_prefix_def prefix_Cons good_options_def)
  then obtain j' where j': "ptr_put [''port''] v ?j = Inr j'" using ptr_put_ok by meson
  have other: "ptr_get (k # ts) j' = ptr_get (k # ts) ?j" if "k \<noteq> ''port''" for k ts
    using ptr_put_other [OF j', of "k # ts"] that by simp
  have "good_options j'"
    using good ptr_put_container [OF j', of "[]"] other [of "''modes''" "[]"] other [of "''modes''" "[appModeToStr _]"]
      other [of "''defaultMode''" "[]"]
    by (auto simp: good_options_def)
  moreover have "mode_view j' = mode_view ?j" using other [of "''defaultMode''" "[]"] by (simp add: mode_view_def)
  ultimately show ?thesis using that [of "w\<lparr>settings_options := j'\<rparr>"] put_option_step [OF j'] by simp
qed

lemma options_frame_trans:
  "w2\<lparr>settings_options := settings_options w1\<rparr> = w1 \<Longrightarrow> w3\<lparr>settings_options := settings_options w2\<rparr> = w2 \<Longrightarrow>
     w3\<lparr>settings_options := settings_options w1\<rparr> = (w1::world)"
proof -
  assume a: "w2\<lparr>settings_options := settings_options w1\<rparr> = w1" "w3\<lparr>settings_options := settings_options w2\<rparr> = w2"
  have "w3\<lparr>settings_options := settings_options w1\<rparr> =
      w3\<lparr>settings_options := settings_options w2\<rparr>\<lparr>settings_options := settings_options w1\<rparr>" by simp
  then show ?thesis using a by simp
qed

lemma put_mode_ports:
  "good_options (settings_options w) \<Longrightarrow>
   \<exists>w'. forS ms (\<lambda>m. put_option [''modes'', appModeToStr m, ''port''] v) w = (Inr (), w') \<and>
     good_options (settings_options w') \<and> mode_view (settings_options w') = mode_view (settings_options w) \<and>
     (\<forall>m. ptr_get [''modes'', appModeToStr m, ''port''] (settings_options w') =
        (if m \<in> set ms then v else ptr_get [''modes'', appModeToStr m, ''port''] (settings_options w))) \<and>
     w'\<lparr>settings_options := settings_options w\<rparr> = w"
proof (induction ms arbitrary: w)
  case (Cons m ms)
  obtain w1 where w1: "put_option [''modes'', appModeToStr m, ''port''] v w = (Inr (), w1)"
    "good_options (settings_options w1)" "mode_view (settings_options w1) = mode_view (settings_options w)"
    "\<And>m'. ptr_get [''modes'', appModeToStr m', ''port''] (settings_options w1) =
       (if m' = m then v else ptr_get [''modes'', appModeToStr m', ''port''] (settings_options w))"
    "w1\<lparr>settings_options := settings_options w\<rparr> = w" using put_mode_port [OF Cons.prems, of m v] by metis
  from Cons.IH [OF w1(2)] obtain w2 where w2: "forS ms (\<lambda>m. put_option [''modes'', appModeToStr m, ''port''] v) w1 = (Inr (), w2)"
    "good_options (settings_options w2)" "mode_view (settings_options w2) = mode_view (settings_options w1)"
    "\<And>m'. ptr_get [''modes'', appModeToStr m', ''port''] (settings_options w2) =
       (if m' \<in> set ms then v else ptr_get [''modes'', appModeToStr m', ''port''] (settings_options w1))"
    "w2\<lparr>settings_options := settings_options w1\<rparr> = w1" by blast
  have "w2\<lparr>settings_options := settings_options w\<rparr> = w" using options_frame_trans w1(5) w2(5) by blast
  moreover have "forS (m # ms) (\<lambda>m. put_option [''modes'', appModeToStr m, ''port''] v) w = (Inr (), w2)"
    using w1(1) w2(1) by simp
  ultimately show ?case
    using w1(3) w2(2,3) by (intro exI [of _ w2]) (simp add: w1(4) w2(4) del: ptr_get.simps)
qed simp

lemma thenS_unit: "thenS m (retS ()) = m"
  by (auto simp: thenS_def bindS_def fun_eq_iff split: prod.splits sum.splits)

lemma setPort_modes:
  "setPort p = thenS (bindS (opt_ref [''port'']) (\<lambda>_. put_option [''port''] (JInt p)))
     (forS [AppModeWindow, AppModeBrowser, AppModeCloud, AppModeChrome]
        (\<lambda>m. put_option [''modes'', appModeToStr m, ''port''] (JInt p)))"
  unfolding setPort_def mode_port_tokens forS.simps thenS_unit by (rule refl)

lemma setPort_step:
  assumes good: "good_options (settings_options w)"
  obtains w' where "setPort p w = (Inr (), w')" "good_options (settings_options w')"
    "mode_view (settings_options w') = mode_view (settings_options w)"
    "\<And>m. ptr_get [''modes'', appModeToStr m, ''port''] (settings_options w') = JInt p"
    "w'\<lparr>settings_options := settings_options w\<rparr> = w"
proof -
  let ?ms = "[AppModeWindow, AppModeBrowser, AppModeCloud, AppModeChrome]"
  obtain w0 where w0: "opt_ref [''port''] w = (Inr (jget (settings_options w) ''port''), w0)" "same_opts w w0"
    using opt_ref_root [OF good] by blast
  obtain w1 where w1: "put_option [''port''] (JInt p) w0 = (Inr (), w1)" "good_options (settings_options w1)"
    "mode_view (settings_options w1) = mode_view (settings_options w0)"
    "w1\<lparr>settings_options := settings_options w0\<rparr> = w0"
    using put_root_port [OF same_opts_good [OF w0(2)]] by metis
  obtain w2 where w2: "forS ?ms (\<lambda>m. put_option [''modes'', appModeToStr m, ''port''] (JInt p)) w1 = (Inr (), w2)"
    "good_options (settings_options w2)" "mode_view (settings_options w2) = mode_view (settings_options w1)"
    "\<And>m. ptr_get [''modes'', appModeToStr m, ''port''] (settings_options w2) =
       (if m \<in> set ?ms then JInt p else ptr_get [''modes'', appModeToStr m, ''port''] (settings_options w1))"
    "w2\<lparr>settings_options := settings_options w1\<rparr> = w1"
    using put_mode_ports [OF w1(2)] by blast
  have "setPort p w = (Inr (), w2)"
    unfolding setPort_modes using w0(1) w1(1) w2(1) by (simp del: forS.simps)
  moreover have "m \<in> set ?ms" for m by (cases m) simp_all
  moreover have "w2\<lparr>settings_options := settings_options w\<rparr> = w"
    using options_frame_trans [OF options_frame_trans [OF _ w1(4)] w2(5)] w0(2) by (simp add: same_opts_def)
  moreover have "mode_view (settings_options w2) = mode_view (settings_options w)"
    using w1(3) w2(3) same_opts_mode [OF w0(2)] by simp
  ultimately show ?thesis using that w2(2,4) by auto
qed


subsection \<open>The application id\<close>

lemma rests_star_set: "\<exists>xs. rests (RStar (RSet p)) s = dropWhile p s # xs"
proof (induction s)
  case Nil
  then show ?case by (simp add: rests.simps(5))
next
  case (Cons c s)
  then show ?case by (cases "p c") (auto simp: rests.simps(5) [of "RSet p" "c # s"])
qed

function squeeze :: "string \<Rightarrow> string" where
  "squeeze [] = []"
| "squeeze (c # cs) = c # squeeze (if c = CHR ''.'' then dropWhile (\<lambda>x. x = CHR ''.'') cs else cs)"
  by pat_completeness auto
termination
  by (relation "measure length") (auto simp: le_imp_less_Suc length_dropWhile_le)

lemma rests_dots:
  "rests appid_dots_rx (c # cs) =
     (if c = CHR ''.'' \<and> cs \<noteq> [] \<and> hd cs = CHR ''.''
      then rests (RStar (RSet (\<lambda>x. x = CHR ''.''))) (tl cs) else [])"
  by (cases cs) (auto simp: appid_dots_rx_def Let_def)

lemma replace_dots: "replace_from appid_dots_rx ''.'' pre s = pre @ squeeze s"
proof (induction "length s" arbitrary: pre s rule: less_induct)
  case less
  show ?case
  proof (cases s)
    case (Cons c cs)
    show ?thesis
    proof (cases "c = CHR ''.'' \<and> cs \<noteq> [] \<and> hd cs = CHR ''.''")
      case True
      then obtain ds where ds: "cs = CHR ''.'' # ds" by (cases cs) auto
      let ?r = "dropWhile (\<lambda>x. x = CHR ''.'') ds"
      obtain xs where "rests appid_dots_rx (c # cs) = ?r # xs"
        using rests_star_set [of "\<lambda>x. x = CHR ''.''" ds] True ds by (auto simp: rests_dots)
      moreover have l: "length ?r \<le> length ds" by (rule length_dropWhile_le)
      moreover have "replace_from appid_dots_rx ''.'' [] ?r = squeeze ?r"
        using less [of ?r "[]"] l Cons ds by simp
      ultimately show ?thesis using Cons True ds by simp
    next
      case False
      then have "rests appid_dots_rx (c # cs) = []" unfolding rests_dots by (rule if_not_P)
      moreover have "c = CHR ''.'' \<Longrightarrow> dropWhile (\<lambda>x. x = CHR ''.'') cs = cs" using False by (cases cs) auto
      ultimately show ?thesis using Cons less [of cs] by simp
    qed
  qed simp
qed

lemma squeeze_set: "set (squeeze s) \<subseteq> set s"
proof (induction s rule: squeeze.induct)
  case (2 c cs)
  then show ?case by (cases "c = CHR ''.''") (auto dest: set_dropWhileD)
qed simp

lemma squeeze_hd: "squeeze s \<noteq> [] \<Longrightarrow> hd (squeeze s) = hd s \<and> s \<noteq> []"
  by (cases s) auto

lemma squeeze_no_double: "\<not> sublist ''..'' (squeeze s)"
proof (induction s rule: squeeze.induct)
  case (2 c cs)
  let ?r = "if c = CHR ''.'' then dropWhile (\<lambda>x. x = CHR ''.'') cs else cs"
  have "\<not> prefix ''..'' (c # squeeze ?r)"
  proof
    assume a: "prefix ''..'' (c # squeeze ?r)"
    then have c: "c = CHR ''.''" and h: "squeeze ?r \<noteq> []" "hd (squeeze ?r) = CHR ''.''"
      by (auto simp: prefix_def)
    with squeeze_hd [OF h(1)] have "?r \<noteq> []" "hd ?r = CHR ''.''" by simp_all
    with c hd_dropWhile [of "\<lambda>x. x = CHR ''.''" cs] show False by auto
  qed
  with 2 show ?case by (simp add: sublist_Cons_right)
qed simp

lemma clean_app_id_squeeze: "clean_app_id s = squeeze (filter (\<lambda>c. isword c \<or> c = CHR ''.'') s)"
  unfolding clean_app_id_def appid_drop_rx_def regex_replace_class_empty
  by (simp add: regex_replace_def replace_dots)

text \<open>No path can be built from the cleaned id: no separator, no two dots in a row.\<close>

lemma clean_app_id_safe:
  "c \<in> set (clean_app_id s) \<Longrightarrow> isword c \<or> c = CHR ''.''" "\<not> sublist ''..'' (clean_app_id s)"
  using squeeze_set [of "filter (\<lambda>c. isword c \<or> c = CHR ''.'') s"] squeeze_no_double
  by (auto simp: clean_app_id_squeeze)

subsection \<open>Overrides\<close>

lemma patch_put: "ts \<noteq> [] \<Longrightarrow> (if b then patch_add ts v j else patch_replace ts v j) = Inr j' \<Longrightarrow> ptr_put ts v j = Inr j'"
proof (cases b)
  case True
  assume "ts \<noteq> []" "(if b then patch_add ts v j else patch_replace ts v j) = Inr j'"
  with True obtain p where "ptr_at (butlast ts) j = Inr p" "(case p of JNull \<Rightarrow> ptr_put ts v j
      | JObject _ \<Rightarrow> ptr_put ts v j | JArray _ \<Rightarrow> Inl ParseError | _ \<Rightarrow> Inl Undefined) = Inr j'"
    by (auto simp: patch_add_def bindR_eq_Inr)
  then show ?thesis by (cases p) auto
qed (auto simp: patch_replace_def bindR_eq_Inr)

text \<open>Two pointers into different members.\<close>

definition apart :: "string list \<Rightarrow> string list \<Rightarrow> bool" where
  "apart ts us \<longleftrightarrow> \<not> prefix ts us \<and> \<not> prefix us ts"

text \<open>After the patches a member has the value of the last patch on it.\<close>

lemma apply_patches_last:
  "apply_patches ps j = Inr j' \<Longrightarrow> \<forall>(b, us, v) \<in> set ps. us \<noteq> [] \<and> (us = ts \<or> apart us ts) \<Longrightarrow>
     ptr_get ts j' = (case map_of (rev (map snd ps)) ts of Some v \<Rightarrow> v | None \<Rightarrow> ptr_get ts j)"
proof (induction ps arbitrary: j)
  case (Cons p ps)
  obtain b us v where p: "p = (b, us, v)" by (cases p) auto
  have us: "us \<noteq> []" "us = ts \<or> apart us ts" using Cons.prems(2) p by auto
  obtain j1 where "(if b then patch_add us v j else patch_replace us v j) = Inr j1" "apply_patches ps j1 = Inr j'"
    using Cons.prems(1) p by (auto simp: bindR_eq_Inr)
  then have j1: "ptr_put us v j = Inr j1" "apply_patches ps j1 = Inr j'" using patch_put [OF us(1)] by blast+
  have "ptr_get ts j1 = (if us = ts then v else ptr_get ts j)"
    using ptr_put_get [OF j1(1)] ptr_put_other [OF j1(1), of ts] us by (auto simp: apart_def)
  with Cons.IH [OF j1(2)] Cons.prems(2) p show ?case
    by (auto simp: map_add_def split: option.splits)
qed simp

lemma make_patches_values:
  "make_patches ovrs w = (Inr ps, w') \<Longrightarrow>
     map (fst \<circ> snd) ps = map (\<lambda>ovr. ptr_tokens (ovr_key ovr)) ovrs \<and>
     (\<forall>i < length ovrs. override_value (ovrs ! i) = Inr (snd (snd (ps ! i))))"
proof (induction ovrs arbitrary: w w' ps)
  case (Cons ovr ovrs)
  from Cons.prems obtain old v w1 ps1 where v: "override_value ovr = Inr v"
    "make_patches ovrs w1 = (Inr ps1, w')" "ps = (is_null old, ptr_tokens (ovr_key ovr), v) # ps1"
    by (auto simp: bindS_cases)
  with Cons.IH [OF v(2)] show ?case
    by (auto simp: nth_Cons split: nat.splits)
qed simp

subsection \<open>What a lookup leaves alone\<close>

text \<open>A view of the state without the options, in which a lookup may leave null members.\<close>

definition no_options :: "world \<Rightarrow> world" where
  "no_options w = w\<lparr>settings_options := JNull\<rparr>"

lemma keeps_opt_ref: "keeps no_options (opt_ref ks)"
  by (auto simp: keeps_def opt_ref_def no_options_def split: sum.splits)

lemma keeps_getMode: "keeps no_options settings_getMode"
  unfolding settings_getMode_def by (intro keeps_intros keeps_opt_ref)

lemma keeps_getOption: "keeps no_options (getOptionForCurrentMode k)"
  unfolding getOptionForCurrentMode_def by (intro keeps_intros keeps_opt_ref keeps_getMode)

lemma no_options_field: "no_options w' = no_options w \<Longrightarrow> (\<And>v x. f (v\<lparr>settings_options := x\<rparr>) = f v) \<Longrightarrow> f w' = f w"
  unfolding no_options_def by metis

lemma keeps_field: "keeps no_options m \<Longrightarrow> (\<And>v x. f (v\<lparr>settings_options := x\<rparr>) = f v) \<Longrightarrow> keeps f m"
  by (rule keepsI) (rule no_options_field [OF keepsD])

lemma good_flat:
  "container j \<Longrightarrow> jget j ''modes'' = JNull \<Longrightarrow> jget j ''defaultMode'' = JNull \<Longrightarrow> good_options j"
  by (simp add: good_options_def is_null_def)

end
