(* ===== verification/Authbasic.thy ===== *)
theory Authbasic
  imports Settings
begin

text \<open>
  \<^verbatim>\<open>auth/authbasic.cpp\<close>: the access token, the connect token derived from it, and the rule that the
  access token leaves the process at most once in the one-time mode. The random draws of the token
  are a parameter.
\<close>

definition getTokenInternal :: "world \<Rightarrow> string" where
  "getTokenInternal w = auth_token w"

definition getConnectTokenInternal :: "world \<Rightarrow> string" where
  "getConnectTokenInternal w = auth_connectToken w"

definition makeAuthInfoPayload :: "json prog" where
  "makeAuthInfoPayload =
     bindS (getS getTokenInternal) (\<lambda>token.
     bindS (getS getConnectTokenInternal) (\<lambda>connectToken.
     bindS (getOptionForCurrentMode ''port'') (\<lambda>jPort.
     bindS (liftS (get_int jPort)) (\<lambda>port.
     retS (jput ''nlPort'' (JInt port) (jput ''nlConnectToken'' (JString connectToken)
           (jput ''nlToken'' (JString token) JNull)))))))"

definition authbasic_init :: "(nat \<Rightarrow> nat) \<Rightarrow> unit prog" where
  "authbasic_init draw =
     thenS (modS (\<lambda>w. w\<lparr>auth_token := generateToken draw\<rparr>))
    (bindS (getS auth_token) (\<lambda>token.
     bindS (case splitTwo token (CHR ''.'') of _ # second # _ \<Rightarrow> retS second | _ \<Rightarrow> throwS Undefined) (\<lambda>second.
     thenS (modS (\<lambda>w. w\<lparr>auth_connectToken := second\<rparr>))
    (bindS (getOptionForCurrentMode ''tokenSecurity'') (\<lambda>jTokenSecurity.
     if \<not> is_null jTokenSecurity
     then bindS (liftS (get_string jTokenSecurity)) (\<lambda>s.
          modS (\<lambda>w. w\<lparr>auth_tokenSecurity := (if s = ''one-time'' then TokenSecurityOneTime else TokenSecurityNone)\<rparr>))
     else retS ())))))"

definition exportAuthInfo :: "unit prog" where
  "exportAuthInfo =
     bindS (getS (joinAppDataPath ''/.tmp'')) (\<lambda>tempDirPath.
     bindS (catchS (bindS (create_directories tempDirPath) (\<lambda>_. retS True))
              (thenS (debug_log LogTypeError (''Failed to create '' @ tempDirPath)) (retS False))) (\<lambda>made.
     if \<not> made then retS ()
     else bindS (getS (joinAppDataPath ''/.tmp/auth_info.json'')) (\<lambda>tempAuthInfoPath.
          bindS makeAuthInfoPayload (\<lambda>payload.
          bindS (readS (\<lambda>w. os_dump_strict w payload)) (\<lambda>text.
          bindS (writeFile \<lparr>fw_filename = tempAuthInfoPath, fw_data = text, fw_append = False\<rparr>) (\<lambda>_.
          debug_log LogTypeInfo (''Auth info was exported to '' @ tempAuthInfoPath)))))))"

definition getToken :: "string prog" where
  "getToken =
     bindS (getS (\<lambda>w. auth_tokenSent w \<and> auth_tokenSecurity w = TokenSecurityOneTime)) (\<lambda>spent.
     if spent then retS []
     else thenS (modS (\<lambda>w. w\<lparr>auth_tokenSent := True\<rparr>)) (getS getTokenInternal))"

definition verifyToken :: "string \<Rightarrow> world \<Rightarrow> bool" where
  "verifyToken accessToken w \<longleftrightarrow> auth_token w = accessToken"

definition verifyConnectToken :: "string \<Rightarrow> world \<Rightarrow> bool" where
  "verifyConnectToken inConnectToken w \<longleftrightarrow> auth_connectToken w = inConnectToken"

section \<open>Properties\<close>

text \<open>How often the token is handed out by a run of \<open>n\<close> requests for it.\<close>

fun getToken_runs :: "nat \<Rightarrow> string list prog" where
  "getToken_runs 0 = retS []"
| "getToken_runs (Suc n) = bindS getToken (\<lambda>t. bindS (getToken_runs n) (\<lambda>ts. retS (t # ts)))"

lemma getToken_spent:
  "auth_tokenSent w \<Longrightarrow> auth_tokenSecurity w = TokenSecurityOneTime \<Longrightarrow> getToken w = (Inr [], w)"
  by (simp add: getToken_def)

lemma getToken_first:
  "\<not> auth_tokenSent w \<or> auth_tokenSecurity w \<noteq> TokenSecurityOneTime \<Longrightarrow>
     getToken w = (Inr (auth_token w), w\<lparr>auth_tokenSent := True\<rparr>)"
  by (erule disjE) (simp_all add: getToken_def getTokenInternal_def thenS_def bindS_def getS_def modS_def)

lemma getToken_runs_spent:
  "auth_tokenSent w \<Longrightarrow> auth_tokenSecurity w = TokenSecurityOneTime \<Longrightarrow>
     getToken_runs n w = (Inr (replicate n []), w)"
  by (induction n) (simp_all add: getToken_spent)

lemma getToken_runs_one_time:
  "\<not> auth_tokenSent w \<Longrightarrow> auth_tokenSecurity w = TokenSecurityOneTime \<Longrightarrow>
     getToken_runs (Suc n) w = (Inr (auth_token w # replicate n []), w\<lparr>auth_tokenSent := True\<rparr>)"
  by (simp add: getToken_first getToken_runs_spent)

lemma authbasic_init_step:
  assumes "good_options (settings_options w)" "\<forall>i. draw i < 64"
    and sec: "\<not> is_null (opt_view (settings_options w) ''tokenSecurity'') \<Longrightarrow>
       is_string (opt_view (settings_options w) ''tokenSecurity'')"
  obtains w' where "authbasic_init draw w = (Inr (), w')"
    "auth_token w' = generateToken draw" "auth_connectToken w' = token_tail draw"
    "auth_tokenSecurity w' = (case opt_view (settings_options w) ''tokenSecurity'' of
        JString s \<Rightarrow> if s = ''one-time'' then TokenSecurityOneTime else TokenSecurityNone
      | _ \<Rightarrow> auth_tokenSecurity w)"
    "auth_tokenSent w' = auth_tokenSent w"
proof -
  let ?w1 = "w\<lparr>auth_token := generateToken draw, auth_connectToken := token_tail draw\<rparr>"
  let ?v = "opt_view (settings_options w) ''tokenSecurity''"
  have "good_options (settings_options ?w1)" using assms(1) by simp
  then obtain w2 where w2: "getOptionForCurrentMode ''tokenSecurity'' ?w1 = (Inr ?v, w2)" "same_opts ?w1 w2"
    using getOption_step [of ?w1 "''tokenSecurity''"] by auto
  have f: "auth_token w2 = generateToken draw" "auth_connectToken w2 = token_tail draw"
      "auth_tokenSecurity w2 = auth_tokenSecurity w" "auth_tokenSent w2 = auth_tokenSent w"
    using same_opts_field [OF w2(2), of auth_token] same_opts_field [OF w2(2), of auth_connectToken]
      same_opts_field [OF w2(2), of auth_tokenSecurity] same_opts_field [OF w2(2), of auth_tokenSent] by simp_all
  have run: "authbasic_init draw w = (if \<not> is_null ?v then bindS (liftS (get_string ?v)) (\<lambda>s.
          modS (\<lambda>w. w\<lparr>auth_tokenSecurity := (if s = ''one-time'' then TokenSecurityOneTime else TokenSecurityNone)\<rparr>))
        else retS ()) w2"
    using w2(1) splitTwo_token [OF assms(2)] by (simp add: authbasic_init_def)
  show ?thesis
  proof (cases "is_null ?v")
    case True
    then show ?thesis using that [of w2] f run by (simp add: is_null_def)
  next
    case False
    with sec obtain s where "?v = JString s" by (auto simp: is_string_def split: json.splits)
    then show ?thesis
      using that [of "w2\<lparr>auth_tokenSecurity := (if s = ''one-time'' then TokenSecurityOneTime else TokenSecurityNone)\<rparr>"] f run
      by (simp add: is_null_def)
  qed
qed

end
