(* ===== verification/Permission.thy ===== *)
theory Permission
  imports Authbasic
begin

text \<open>
  \<^verbatim>\<open>auth/permission.cpp\<close>: the allow and block lists of native methods, the patterns of commands that
  may be run and the directories the file system API may touch.
\<close>

section \<open>Helpers\<close>

text \<open>\<^verbatim>\<open>.*\.\*\<close>\<close>

definition isWildcardMatch :: "string \<Rightarrow> bool" where
  "isWildcardMatch methodMatch = regex_match (RSeq rdots (rlit ''.*'')) methodMatch"

definition getModuleFromMethod :: "string \<Rightarrow> string result" where
  "getModuleFromMethod nativeMethod =
     (case splitTwo nativeMethod (CHR ''.'') of [] \<Rightarrow> Inl Undefined | part # _ \<Rightarrow> Inr part)"

definition normalizeScopePath :: "string \<Rightarrow> world \<Rightarrow> string result" where
  "normalizeScopePath path w =
     bindR (applyPathConstants path w) (\<lambda>resolved.
     bindR (absolute w (weakly_canonical w resolved)) (\<lambda>norm.
     Inr (normalizePath (os_platform w) norm)))"

text \<open>The comparison itself: the path is the scope, or goes on with a separator after it.\<close>

definition in_scope :: "string \<Rightarrow> string \<Rightarrow> bool" where
  "in_scope path scope \<longleftrightarrow>
     path = scope \<or> (length path > length scope \<and> take (length scope) path = scope \<and> path ! length scope = CHR ''/'')"

definition isPathInScope :: "string \<Rightarrow> string \<Rightarrow> world \<Rightarrow> bool result" where
  "isPathInScope originalPath scope w =
     bindR (normalizeScopePath originalPath w) (\<lambda>path. Inr (in_scope path scope))"

section \<open>Registering the lists\<close>

definition registerBlockList :: "unit prog" where
  "registerBlockList =
     bindS (getOptionForCurrentMode ''nativeBlockList'') (\<lambda>jNativeBlockList.
     if is_null jNativeBlockList then retS ()
     else bindS (liftS (get_strings jNativeBlockList)) (\<lambda>blockListVector.
          thenS (forS blockListVector (\<lambda>item.
                   if isWildcardMatch item
                   then bindS (liftS (getModuleFromMethod item)) (\<lambda>m.
                        modS (\<lambda>w. w\<lparr>perm_blockedModules := perm_blockedModules w @ [m]\<rparr>))
                   else modS (\<lambda>w. w\<lparr>perm_blockedMethods := perm_blockedMethods w @ [item]\<rparr>)))
                (modS (\<lambda>w. w\<lparr>perm_shouldCheckBlockList := True\<rparr>))))"

definition registerAllowList :: "unit prog" where
  "registerAllowList =
     bindS (getOptionForCurrentMode ''nativeAllowList'') (\<lambda>jNativeAllowList.
     if is_null jNativeAllowList then retS ()
     else bindS (liftS (get_strings jNativeAllowList)) (\<lambda>allowListVector.
          thenS (forS allowListVector (\<lambda>item.
                   if isWildcardMatch item
                   then bindS (liftS (getModuleFromMethod item)) (\<lambda>m.
                        modS (\<lambda>w. w\<lparr>perm_allowedModules := perm_allowedModules w @ [m]\<rparr>))
                   else modS (\<lambda>w. w\<lparr>perm_allowedMethods := perm_allowedMethods w @ [item]\<rparr>)))
                (modS (\<lambda>w. w\<lparr>perm_shouldCheckAllowList := True\<rparr>))))"

definition regiserCommandAllowList :: "unit prog" where
  "regiserCommandAllowList =
     bindS (getOptionForCurrentMode ''commandAllowList'') (\<lambda>jCommandAllowList.
     if is_null jCommandAllowList then retS ()
     else bindS (liftS (get_strings jCommandAllowList)) (\<lambda>patterns.
          modS (\<lambda>w. w\<lparr>perm_allowedCommandPatterns := patterns, perm_shouldCheckCommandAllowList := True\<rparr>)))"

definition registerScopesLists :: "unit prog" where
  "registerScopesLists =
     bindS (getOptionForCurrentMode ''filesystemScopes'') (\<lambda>jScopes.
     if is_null jScopes then retS ()
     else thenS (forS (items jScopes) (\<lambda>(key, value).
                   bindS (liftS (get_string value)) (\<lambda>perm.
                   bindS (readS (normalizeScopePath key)) (\<lambda>normalizedScope.
                   thenS (if perm = ''read-write'' \<or> perm = ''read''
                          then modS (\<lambda>w. w\<lparr>perm_fileSystemReadScopes := perm_fileSystemReadScopes w @ [normalizedScope]\<rparr>)
                          else retS ())
                         (if perm = ''read-write'' \<or> perm = ''write''
                          then modS (\<lambda>w. w\<lparr>perm_fileSystemWriteScopes := perm_fileSystemWriteScopes w @ [normalizedScope]\<rparr>)
                          else retS ())))))
                (modS (\<lambda>w. w\<lparr>perm_shouldCheckScopesLists := True\<rparr>)))"

definition permission_init :: "unit prog" where
  "permission_init =
     thenS registerAllowList (thenS registerBlockList (thenS regiserCommandAllowList registerScopesLists))"

section \<open>Checks\<close>

definition hasMethodAccess :: "string \<Rightarrow> world \<Rightarrow> bool result" where
  "hasMethodAccess nativeMethod w =
     bindR (getModuleFromMethod nativeMethod) (\<lambda>module.
     if perm_shouldCheckBlockList w then
       (if module \<in> set (perm_blockedModules w) then Inr False
        else if nativeMethod \<in> set (perm_blockedMethods w) then Inr False
        else Inr True)
     else if perm_shouldCheckAllowList w then
       (if module \<in> set (perm_allowedModules w) then Inr True
        else if nativeMethod \<in> set (perm_allowedMethods w) then Inr True
        else Inr False)
     else Inr True)"

definition hasAPIAccess :: "bool prog" where
  "hasAPIAccess =
     bindS (getOptionForCurrentMode ''enableNativeAPI'') (\<lambda>jEnableNativeAPI.
     if \<not> is_null jEnableNativeAPI then liftS (get_bool jEnableNativeAPI) else retS False)"

definition hasCommandExecutionAccess :: "string \<Rightarrow> world \<Rightarrow> bool" where
  "hasCommandExecutionAccess command w =
     (if \<not> perm_shouldCheckCommandAllowList w \<or> perm_allowedCommandPatterns w = [] then True
      else case tokenizeCommand command of
        [] \<Rightarrow> False
      | program # _ \<Rightarrow> list_ex (\<lambda>pattern. globalMatch program pattern) (perm_allowedCommandPatterns w))"

fun any_scope :: "string \<Rightarrow> string list \<Rightarrow> world \<Rightarrow> bool result" where
  "any_scope path [] w = Inr False"
| "any_scope path (scope # scopes) w =
     bindR (isPathInScope path scope w) (\<lambda>b. if b then Inr True else any_scope path scopes w)"

definition hasFileSystemPathAccess :: "string \<Rightarrow> FileSystemAccessPermission \<Rightarrow> world \<Rightarrow> bool result" where
  "hasFileSystemPathAccess path perm w =
     (if \<not> perm_shouldCheckScopesLists w then Inr True
      else let activeScopes = (if perm = FileSystemAccessPermissionWrite
                 then perm_fileSystemWriteScopes w else perm_fileSystemReadScopes w)
           in if activeScopes = [] then Inr False else any_scope path activeScopes w)"


section \<open>Properties\<close>

subsection \<open>Methods\<close>

text \<open>What a list of methods names: a method itself, or every method of a module by a wildcard.\<close>

definition module_of :: "string \<Rightarrow> string" where
  "module_of m = takeWhile (\<lambda>c. c \<noteq> CHR ''.'') m"

definition listed :: "string list \<Rightarrow> string \<Rightarrow> bool" where
  "listed L m \<longleftrightarrow> (\<exists>x \<in> set L. if isWildcardMatch x then module_of x = module_of m else x = m)"

lemma getModule: "m \<noteq> [] \<Longrightarrow> getModuleFromMethod m = Inr (module_of m)"
  by (simp add: getModuleFromMethod_def splitTwo_step module_of_def)

lemma wildcard_iff: "isWildcardMatch x \<longleftrightarrow> (\<exists>u. x = u @ ''.*'' \<and> (\<forall>c \<in> set u. dot c))"
  unfolding isWildcardMatch_def by (rule match_dots_lit)

lemma wildcard_nonempty: "isWildcardMatch x \<Longrightarrow> x \<noteq> []"
  by (auto simp: wildcard_iff)

definition list_modules :: "string list \<Rightarrow> string list" where
  "list_modules L = map module_of (filter isWildcardMatch L)"

definition list_methods :: "string list \<Rightarrow> string list" where
  "list_methods L = filter (\<lambda>x. \<not> isWildcardMatch x) L"

lemma listed_iff: "listed L m \<longleftrightarrow> module_of m \<in> set (list_modules L) \<or> m \<in> set (list_methods L)"
  by (auto simp: listed_def list_modules_def list_methods_def image_iff split: if_splits)

lemma register_loop_block:
  "forS L (\<lambda>item. if isWildcardMatch item
      then bindS (liftS (getModuleFromMethod item)) (\<lambda>m. modS (\<lambda>w. w\<lparr>perm_blockedModules := perm_blockedModules w @ [m]\<rparr>))
      else modS (\<lambda>w. w\<lparr>perm_blockedMethods := perm_blockedMethods w @ [item]\<rparr>)) w =
   (Inr (), w\<lparr>perm_blockedModules := perm_blockedModules w @ list_modules L,
              perm_blockedMethods := perm_blockedMethods w @ list_methods L\<rparr>)"
proof (induction L arbitrary: w)
  case (Cons x L)
  then show ?case
    by (cases "isWildcardMatch x") (simp_all add: wildcard_nonempty getModule list_modules_def list_methods_def)
qed (simp add: list_modules_def list_methods_def)

lemma register_loop_allow:
  "forS L (\<lambda>item. if isWildcardMatch item
      then bindS (liftS (getModuleFromMethod item)) (\<lambda>m. modS (\<lambda>w. w\<lparr>perm_allowedModules := perm_allowedModules w @ [m]\<rparr>))
      else modS (\<lambda>w. w\<lparr>perm_allowedMethods := perm_allowedMethods w @ [item]\<rparr>)) w =
   (Inr (), w\<lparr>perm_allowedModules := perm_allowedModules w @ list_modules L,
              perm_allowedMethods := perm_allowedMethods w @ list_methods L\<rparr>)"
proof (induction L arbitrary: w)
  case (Cons x L)
  then show ?case
    by (cases "isWildcardMatch x") (simp_all add: wildcard_nonempty getModule list_modules_def list_methods_def)
qed (simp add: list_modules_def list_methods_def)

text \<open>A configured list: absent, or an array of strings.\<close>

definition string_list_opt :: "json \<Rightarrow> string list option \<Rightarrow> bool" where
  "string_list_opt j L \<longleftrightarrow> (case L of None \<Rightarrow> j = JNull | Some l \<Rightarrow> j = JArray (map JString l))"

text \<open>The variables of the method lists, for the lists of the configuration.\<close>

definition method_lists :: "string list option \<Rightarrow> string list option \<Rightarrow> world \<Rightarrow> bool" where
  "method_lists B A w \<longleftrightarrow>
     perm_shouldCheckBlockList w = (B \<noteq> None) \<and> perm_shouldCheckAllowList w = (A \<noteq> None) \<and>
     (\<forall>l. B = Some l \<longrightarrow> perm_blockedModules w = list_modules l \<and> perm_blockedMethods w = list_methods l) \<and>
     (\<forall>l. A = Some l \<longrightarrow> perm_allowedModules w = list_modules l \<and> perm_allowedMethods w = list_methods l)"

text \<open>The policy: a block list, where there is one, decides alone; else the allow list does.\<close>

definition method_policy :: "string list option \<Rightarrow> string list option \<Rightarrow> string \<Rightarrow> bool" where
  "method_policy B A m = (case B of Some b \<Rightarrow> \<not> listed b m | None \<Rightarrow> (case A of Some a \<Rightarrow> listed a m | None \<Rightarrow> True))"

lemma hasMethodAccess_policy:
  "method_lists B A w \<Longrightarrow> m \<noteq> [] \<Longrightarrow> hasMethodAccess m w = Inr (method_policy B A m)"
  by (cases B; cases A) (auto simp: hasMethodAccess_def getModule method_lists_def method_policy_def listed_iff)

lemma registerAllowList_step:
  assumes "good_options (settings_options w)" "string_list_opt (opt_view (settings_options w) ''nativeAllowList'') A"
    "method_lists None None w" "perm_allowedModules w = []" "perm_allowedMethods w = []"
  obtains w' where "registerAllowList w = (Inr (), w')" "method_lists None A w'"
    "good_options (settings_options w')"
    "\<And>k. k \<noteq> ''modes'' \<Longrightarrow> opt_view (settings_options w') k = opt_view (settings_options w) k"
    "perm_blockedModules w' = perm_blockedModules w" "perm_blockedMethods w' = perm_blockedMethods w"
proof -
  let ?v = "opt_view (settings_options w) ''nativeAllowList''"
  obtain w1 where w1: "getOptionForCurrentMode ''nativeAllowList'' w = (Inr ?v, w1)" "same_opts w w1"
    using getOption_step [OF assms(1), of "''nativeAllowList''"] by auto
  note f = same_opts_field [OF w1(2)]
  have g: "good_options (settings_options w1)" using same_opts_good [OF w1(2)] .
  show ?thesis
  proof (cases A)
    case None
    then have "registerAllowList w = (Inr (), w1)"
      using w1(1) assms(2) by (simp add: registerAllowList_def string_list_opt_def is_null_def)
    then show ?thesis
      using that [of w1] assms None g same_opts_view [OF w1(2)] f [of perm_shouldCheckBlockList] f [of perm_shouldCheckAllowList]
        f [of perm_blockedModules] f [of perm_blockedMethods] by (simp add: method_lists_def)
  next
    case (Some l)
    let ?w' = "w1\<lparr>perm_allowedModules := perm_allowedModules w1 @ list_modules l,
              perm_allowedMethods := perm_allowedMethods w1 @ list_methods l, perm_shouldCheckAllowList := True\<rparr>"
    have "registerAllowList w = (Inr (), ?w')"
      using w1(1) assms(2) Some register_loop_allow [of l w1]
      by (simp add: registerAllowList_def string_list_opt_def is_null_def)
    then show ?thesis
      using that [of ?w'] assms Some g same_opts_view [OF w1(2)] f [of perm_shouldCheckBlockList]
        f [of perm_allowedModules] f [of perm_allowedMethods] f [of perm_blockedModules] f [of perm_blockedMethods]
      by (simp add: method_lists_def)
  qed
qed

lemma registerBlockList_step:
  assumes "good_options (settings_options w)" "string_list_opt (opt_view (settings_options w) ''nativeBlockList'') B"
    "method_lists None A w" "perm_blockedModules w = []" "perm_blockedMethods w = []"
  obtains w' where "registerBlockList w = (Inr (), w')" "method_lists B A w'"
    "good_options (settings_options w')"
    "\<And>k. k \<noteq> ''modes'' \<Longrightarrow> opt_view (settings_options w') k = opt_view (settings_options w) k"
proof -
  let ?v = "opt_view (settings_options w) ''nativeBlockList''"
  obtain w1 where w1: "getOptionForCurrentMode ''nativeBlockList'' w = (Inr ?v, w1)" "same_opts w w1"
    using getOption_step [OF assms(1), of "''nativeBlockList''"] by auto
  note f = same_opts_field [OF w1(2)]
  have g: "good_options (settings_options w1)" using same_opts_good [OF w1(2)] .
  have lists: "method_lists None A w1"
    using assms(3) f [of perm_shouldCheckBlockList] f [of perm_shouldCheckAllowList]
        f [of perm_allowedModules] f [of perm_allowedMethods] by (simp add: method_lists_def)
  show ?thesis
  proof (cases B)
    case None
    then have "registerBlockList w = (Inr (), w1)"
      using w1(1) assms(2) by (simp add: registerBlockList_def string_list_opt_def is_null_def)
    then show ?thesis using that [of w1] None g same_opts_view [OF w1(2)] lists by simp
  next
    case (Some l)
    let ?w' = "w1\<lparr>perm_blockedModules := perm_blockedModules w1 @ list_modules l,
              perm_blockedMethods := perm_blockedMethods w1 @ list_methods l, perm_shouldCheckBlockList := True\<rparr>"
    have "registerBlockList w = (Inr (), ?w')"
      using w1(1) assms(2) Some register_loop_block [of l w1]
      by (simp add: registerBlockList_def string_list_opt_def is_null_def)
    moreover have "method_lists B A ?w'"
      using lists Some assms(4,5) f [of perm_blockedModules] f [of perm_blockedMethods] by (simp add: method_lists_def)
    ultimately show ?thesis using that [of ?w'] g same_opts_view [OF w1(2)] by simp
  qed
qed


subsection \<open>Commands\<close>

lemma command_access_iff:
  "perm_shouldCheckCommandAllowList w \<Longrightarrow> perm_allowedCommandPatterns w \<noteq> [] \<Longrightarrow>
     hasCommandExecutionAccess command w \<longleftrightarrow>
       tokenizeCommand command \<noteq> [] \<and> (\<exists>pat \<in> set (perm_allowedCommandPatterns w). glob pat (hd (tokenizeCommand command)))"
  by (auto simp: hasCommandExecutionAccess_def list_ex_iff globalMatch_glob split: list.splits)

subsection \<open>Scopes\<close>

lemma split_on_nonempty [simp]: "split_on d s \<noteq> []"
  by (cases s) (auto split: list.splits)

lemma split_on_absent: "d \<notin> set s \<Longrightarrow> split_on d s = [s]"
  by (induction s) auto

lemma split_on_sep: "split_on d (u @ d # v) = split_on d u @ split_on d v"
proof (induction u)
  case (Cons c u)
  then show ?case by (cases "split_on d u") auto
qed simp

lemma split_on_join:
  "ns \<noteq> [] \<Longrightarrow> \<forall>n \<in> set ns. CHR ''/'' \<notin> set n \<Longrightarrow> split_on (CHR ''/'') (join_names ns) = ns"
  by (induction ns rule: join_names.induct) (simp_all add: split_on_absent split_on_sep)

lemma loc_string_split:
  "\<forall>n \<in> set p. clean_name n \<Longrightarrow> p \<noteq> [] \<Longrightarrow> split_on (CHR ''/'') (loc_string p) = [] # p"
  using split_on_join [of p] by (simp add: loc_string_def path_string_def clean_name_def)

lemma loc_string_inj:
  assumes "\<forall>n \<in> set p. clean_name n" "\<forall>n \<in> set q. clean_name n" "loc_string p = loc_string q"
  shows "p = q"
proof -
  have e: "loc_string r = ''/'' \<longleftrightarrow> r = []" if "\<forall>n \<in> set r. clean_name n" for r
    using that by (cases r rule: join_names.cases) (auto simp: loc_string_def path_string_def clean_name_def)
  show ?thesis
  proof (cases "p = [] \<or> q = []")
    case True
    then show ?thesis using assms e [OF assms(1)] e [OF assms(2)] by (auto simp: loc_string_def path_string_def)
  next
    case False
    then have "[] # p = [] # q"
      using loc_string_split [OF assms(1)] loc_string_split [OF assms(2)] assms(3) by metis
    then show ?thesis by blast
  qed
qed

lemma in_scope_prefix: "in_scope a b \<longleftrightarrow> a = b \<or> (\<exists>r. a = b @ CHR ''/'' # r)"
proof
  assume "in_scope a b"
  then show "a = b \<or> (\<exists>r. a = b @ CHR ''/'' # r)"
    unfolding in_scope_def using id_take_nth_drop [of "length b" a] by metis
next
  assume "a = b \<or> (\<exists>r. a = b @ CHR ''/'' # r)"
  then show "in_scope a b" unfolding in_scope_def by (elim disjE exE) (simp_all add: nth_append)
qed

text \<open>
  On the strings of two locations the comparison means what it should: the location is the
  scope, or lies below it. The root directory is the exception: nothing but itself is in its scope.
\<close>

lemma in_scope_loc:
  assumes p: "\<forall>n \<in> set p. clean_name n" and q: "\<forall>n \<in> set q. clean_name n"
  shows "in_scope (loc_string p) (loc_string q) \<longleftrightarrow> p = q \<or> (q \<noteq> [] \<and> prefix q p)"
proof (cases "q = []")
  case True
  have "loc_string p ! 1 \<noteq> CHR ''/''" if "length (loc_string p) > 1"
    using that p by (cases p rule: join_names.cases) (auto simp: loc_string_def path_string_def clean_name_def neq_Nil_conv)
  then show ?thesis using True loc_string_inj [OF p q]
    by (auto simp: in_scope_def loc_string_def path_string_def)
next
  case False
  have "in_scope (loc_string p) (loc_string q) \<longleftrightarrow> p = q \<or> (\<exists>r. loc_string p = loc_string q @ CHR ''/'' # r)"
    using loc_string_inj [OF p q] by (auto simp: in_scope_prefix)
  moreover have "(\<exists>r. loc_string p = loc_string q @ CHR ''/'' # r) \<longleftrightarrow> strict_prefix q p"
  proof
    assume "\<exists>r. loc_string p = loc_string q @ CHR ''/'' # r"
    then obtain r where r: "loc_string p = loc_string q @ CHR ''/'' # r" by blast
    then have "p \<noteq> []" by (auto simp: loc_string_def path_string_def)
    with r have "[] # p = ([] # q) @ split_on (CHR ''/'') r"
      using loc_string_split [OF p] loc_string_split [OF q False] by (metis split_on_sep)
    then show "strict_prefix q p" using split_on_nonempty by (auto simp: strict_prefix_def)
  next
    assume "strict_prefix q p"
    then obtain x xs where x: "p = q @ x # xs" by (auto elim: strict_prefixE')
    have "loc_string (q @ x # xs) = loc_string q @ CHR ''/'' # join_names (x # xs)"
      using False by (induction q rule: join_names.induct) (auto simp: loc_string_def path_string_def)
    then show "\<exists>r. loc_string p = loc_string q @ CHR ''/'' # r" using x by blast
  qed
  ultimately show ?thesis using False by (auto simp: strict_prefix_def)
qed

text \<open>
  A path that has no constants to expand and that the system can resolve is granted only when its
  location lies in one of the scopes.
\<close>

lemma normalizeScopePath_locate:
  assumes "wf_os w" "os_platform w \<noteq> Windows" "CHR 0x00 \<notin> set s" "locate w s = Some p"
    "applyPathConstants s w = Inr s"
  shows "normalizeScopePath s w = Inr (loc_string p)"
  using weakly_canonical_locate [OF assms(1,3,4)] path_string_normalized [OF assms(2)]
    locate_clean [OF assms(1,3,4)] assms(5)
  by (simp add: normalizeScopePath_def)

lemma any_scope_locate:
  assumes "normalizeScopePath s w = Inr t"
  shows "any_scope s scopes w = Inr (\<exists>scope \<in> set scopes. in_scope t scope)"
  by (induction scopes) (simp_all add: isPathInScope_def assms)

end
