(* ===== verification/Api.thy ===== *)
theory Api
  imports Permission
begin

text \<open>
  The conventions every native method follows: check the required fields, read the arguments,
  answer with an \<^verbatim>\<open>error\<close> payload, or with \<^verbatim>\<open>success\<close> and an optional \<^verbatim>\<open>returnValue\<close> or
  \<^verbatim>\<open>message\<close>.
\<close>

type_synonym native_method = "json \<Rightarrow> json prog"

text \<open>The guard at the top of a method, with \<^verbatim>\<open>missingRequiredField\<close> or, for a single key,
  \<^verbatim>\<open>hasRequiredFields\<close>.\<close>

definition require :: "string list \<Rightarrow> json \<Rightarrow> json prog \<Rightarrow> json prog" where
  "require keys input body = (case missingRequiredField input keys of
     Some key \<Rightarrow> retS (error_output (makeMissingArgErrorPayload key))
   | None \<Rightarrow> body)"

definition arg_string :: "json \<Rightarrow> string \<Rightarrow> string prog" where
  "arg_string input key = liftS (bindR (jat input key) get_string)"

definition arg_bool :: "json \<Rightarrow> string \<Rightarrow> bool prog" where
  "arg_bool input key = liftS (bindR (jat input key) get_bool)"

definition arg_int :: "json \<Rightarrow> string \<Rightarrow> int prog" where
  "arg_int input key = liftS (bindR (jat input key) get_int)"

definition arg_long :: "json \<Rightarrow> string \<Rightarrow> int prog" where
  "arg_long input key = liftS (bindR (jat input key) get_long)"

text \<open>\<^verbatim>\<open>if(helpers::hasField(input, key)) v = input[key].get<...>()\<close>, with the default otherwise.\<close>

definition opt_arg :: "json \<Rightarrow> string \<Rightarrow> 'a \<Rightarrow> (json \<Rightarrow> string \<Rightarrow> 'a prog) \<Rightarrow> 'a prog" where
  "opt_arg input key d get = (if hasField input key then get input key else retS d)"

definition success_output :: json where
  "success_output = jput ''success'' (JBool True) JNull"

definition return_output :: "json \<Rightarrow> json" where
  "return_output v = jput ''success'' (JBool True) (jput ''returnValue'' v JNull)"

definition message_output :: "string \<Rightarrow> json" where
  "message_output m = jput ''message'' (JString m) (jput ''success'' (JBool True) JNull)"

definition error_of :: "StatusCode \<Rightarrow> string \<Rightarrow> json" where
  "error_of code param = error_output (makeErrorPayload code param)"

section \<open>Recursion over documents\<close>

lemma mapR_cong [fundef_cong]:
  "xs = ys \<Longrightarrow> (\<And>x. x \<in> set ys \<Longrightarrow> f x = g x) \<Longrightarrow> mapR f xs = mapR g ys"
  by (induction ys arbitrary: xs) auto

text \<open>A member is smaller than its document, which is how a walk through a document ends.\<close>

lemma size_jget: "hasField j k \<Longrightarrow> size (jget j k) < size j"
proof -
  assume "hasField j k"
  then obtain kvs v where "j = JObject kvs" "map_of kvs k = Some v"
    by (auto simp: hasField_def contains_def split: json.splits)
  moreover from this have "size v < size_list (size_prod (\<lambda>_. 0) size) kvs + 1"
    by (auto dest!: map_of_SomeD simp: less_Suc_eq_le intro!: size_list_estimation' [where y = "size v"])
  ultimately show ?thesis by (simp add: jget_object)
qed

lemma size_items: "(k, v) \<in> set (items j) \<Longrightarrow> size v \<le> size j"
proof (cases j)
  case (JArray vs)
  assume "(k, v) \<in> set (items j)"
  then have "v \<in> set vs" by (auto simp: items_def JArray)
  then have "size v \<le> size_list size vs" by (auto intro: size_list_estimation')
  then show ?thesis by (simp add: JArray)
next
  case (JObject kvs)
  assume "(k, v) \<in> set (items j)"
  then have "size v \<le> size_list (size_prod (\<lambda>_. 0) size) kvs"
    by (auto simp: items_def JObject intro!: size_list_estimation' [where y = "size v"])
  then show ?thesis by (simp add: JObject)
qed (auto simp: items_def)

section \<open>Properties\<close>

lemma outputs_get [simp]:
  "jget success_output ''success'' = JBool True" "jget success_output ''error'' = JNull"
  "jget (return_output v) ''success'' = JBool True" "jget (return_output v) ''returnValue'' = v"
  "jget (return_output v) ''error'' = JNull"
  "jget (message_output m) ''success'' = JBool True" "jget (message_output m) ''message'' = JString m"
  "jget (message_output m) ''error'' = JNull"
  "jget (error_of c p) ''error'' = makeErrorPayload c p" "jget (error_of c p) ''success'' = JNull"
  by (simp_all add: success_output_def return_output_def message_output_def error_of_def error_output_def
      jput_def jget_object)

lemma output_distinct [simp]:
  "success_output \<noteq> error_of c p" "return_output v \<noteq> error_of c p" "message_output m \<noteq> error_of c p"
  "error_of c p \<noteq> success_output" "error_of c p \<noteq> return_output v" "error_of c p \<noteq> message_output m"
  by (metis outputs_get json.distinct(1))+

lemma error_of_inj: "error_of c p = error_of d q \<Longrightarrow> c = d"
  by (metis outputs_get(9) payload_inj)

lemma require_step:
  "hasRequiredFields input keys \<Longrightarrow> require keys input body = body"
  "missingRequiredField input keys = Some k \<Longrightarrow> require keys input body = retS (error_of NE_RT_NATRTER k)"
  by (auto simp: require_def missingRequiredField_None [symmetric] makeMissingArgErrorPayload_def error_of_def)

lemma arg_string_step:
  "jget input k = JString s \<Longrightarrow> arg_string input k = retS s"
  by (auto simp: arg_string_def retS_def liftS_def hasField_jat hasField_iff)

lemma hasField_simps:
  "jget input k = JString s \<Longrightarrow> hasField input k"
  "jget input k = JNull \<Longrightarrow> \<not> hasField input k"
  by (simp_all add: hasField_iff)

lemma keeps_args [simp]:
  "keeps v (arg_string i k)" "keeps v (arg_bool i k)" "keeps v (arg_int i k)" "keeps v (arg_long i k)"
  by (simp_all add: arg_string_def arg_bool_def arg_int_def arg_long_def)

lemma keeps_require: "keeps v m \<Longrightarrow> keeps v (require ks i m)"
  by (simp add: require_def split: option.splits)

lemma keeps_opt_arg: "(\<And>i k. keeps v (g i k)) \<Longrightarrow> keeps v (opt_arg i k d g)"
  by (simp add: opt_arg_def)

end
