(* ===== verification/Neuserver.thy ===== *)
theory Neuserver
  imports Api
begin

text \<open>
  \<^verbatim>\<open>server/neuserver.cpp\<close>: the connections of the server and the messages it sends. A connection
  is a number (its handle), ordered as the handles are; its resource (the URL path) and host come
  with each call of a handler. Handling of requests, which needs the router, is in \<open>Server\<close>.
\<close>

section \<open>URLs\<close>

definition contains_rx :: "string \<Rightarrow> rx" where
  "contains_rx s = RSeq rdots (RSeq (rlit s) rdots)"

definition isExtensionEndpoint :: "string \<Rightarrow> bool" where
  "isExtensionEndpoint url = regex_match (contains_rx ''extensionId='') url"

definition hasConnectToken :: "string \<Rightarrow> bool" where
  "hasConnectToken url = regex_match (contains_rx ''connectToken='') url"

text \<open>The class \<^verbatim>\<open>[\w.\-_]\<close>.\<close>

definition param_char :: "char \<Rightarrow> bool" where
  "param_char c \<longleftrightarrow> isword c \<or> c = CHR ''.'' \<or> c = CHR ''-'' \<or> c = CHR ''_''"

definition param_value_rx :: "string \<Rightarrow> rx" where
  "param_value_rx param = RSeq (rlit (param @ ''='')) (rplus (RSet param_char))"

text \<open>The group is what follows the equals sign in the leftmost match.\<close>

definition getParamValueFromUrl :: "string \<Rightarrow> string \<Rightarrow> string" where
  "getParamValueFromUrl url param = (case regex_search (param_value_rx param) url of
     None \<Rightarrow> []
   | Some (_, m, _) \<Rightarrow> drop (length param + 1) m)"

definition getExtensionIdFromUrl :: "string \<Rightarrow> string" where
  "getExtensionIdFromUrl url = getParamValueFromUrl url ''extensionId''"

definition getConnectTokenFromUrl :: "string \<Rightarrow> string" where
  "getConnectTokenFromUrl url = getParamValueFromUrl url ''connectToken''"

section \<open>The Range header\<close>

text \<open>\<^verbatim>\<open>bytes=(\d+)-(\d*)?\<close>; the groups of a match are determined by the text.\<close>

definition range_rx :: rx where
  "range_rx = RSeq (rlit ''bytes='') (RSeq (rplus (RSet isdigit)) (RSeq (rlit ''-'') (RStar (RSet isdigit))))"

definition range_first :: "string \<Rightarrow> string" where
  "range_first h = takeWhile isdigit (drop 6 h)"

definition range_second :: "string \<Rightarrow> string" where
  "range_second h = drop (length (range_first h) + 7) h"

text \<open>The length is computed in \<^verbatim>\<open>long long\<close>; an overflow there is undefined.\<close>

definition getFileReaderOptionsFromHeaders :: "string option \<Rightarrow> FileReaderOptions result" where
  "getFileReaderOptionsFromHeaders header = (case header of
     None \<Rightarrow> Inr default_options
   | Some h \<Rightarrow>
       if regex_match range_rx h
       then bindR (stoll (range_first h)) (\<lambda>pos.
            if range_second h \<noteq> []
            then bindR (stoll (range_second h)) (\<lambda>end.
                 if end \<ge> pos
                 then (if end - pos + 1 < 2 ^ 63 then Inr \<lparr>fo_pos = pos, fo_size = end - pos + 1\<rparr> else Inl Undefined)
                 else Inr \<lparr>fo_pos = pos, fo_size = -1\<rparr>)
            else Inr \<lparr>fo_pos = pos, fo_size = -1\<rparr>)
       else Inr default_options)"

section \<open>Sending\<close>

text \<open>\<^verbatim>\<open>server->send\<close> raises for a connection that is no longer open.\<close>

definition send :: "nat \<Rightarrow> string \<Rightarrow> opcode \<Rightarrow> unit prog" where
  "send hdl payload op = (\<lambda>w.
     if srv_alive w hdl then (Inr (), w\<lparr>srv_outbox := srv_outbox w @ [(hdl, payload, op)]\<rparr>)
     else (Inl WebsocketError, w))"

definition op_for :: "nat \<Rightarrow> world \<Rightarrow> opcode" where
  "op_for hdl w = (case map_of (srv_wsMode w) hdl of Some op \<Rightarrow> op | None \<Rightarrow> opText)"

definition broadcastToAllExtensions :: "json \<Rightarrow> unit prog" where
  "broadcastToAllExtensions message =
     bindS (getS srv_extConnections) (\<lambda>conns.
     forS conns (\<lambda>(_, connection).
       bindS (getS (op_for connection)) (\<lambda>op.
       bindS (jsonToString message) (\<lambda>text. send connection text op))))"

definition broadcastToAllApps :: "json \<Rightarrow> unit prog" where
  "broadcastToAllApps message =
     bindS (getS srv_appConnections) (\<lambda>conns.
     forS conns (\<lambda>connection.
       bindS (jsonToString message) (\<lambda>text. send connection text opText)))"

definition broadcast :: "json \<Rightarrow> unit prog" where
  "broadcast message = thenS (broadcastToAllApps message) (broadcastToAllExtensions message)"

definition sendToExtension :: "string \<Rightarrow> json \<Rightarrow> bool prog" where
  "sendToExtension extensionId message =
     bindS (getS (\<lambda>w. map_of (srv_extConnections w) extensionId)) (\<lambda>found. case found of
       Some hdl \<Rightarrow>
         bindS (getS (op_for hdl)) (\<lambda>op.
         bindS (jsonToString message) (\<lambda>text.
         thenS (send hdl text op) (retS True)))
     | None \<Rightarrow> retS False)"

definition getConnectedExtensions :: "world \<Rightarrow> string list" where
  "getConnectedExtensions w = map fst (srv_extConnections w)"

section \<open>Events\<close>

text \<open>\<^verbatim>\<open>api/events/events.cpp\<close>, which the handlers below use.\<close>

definition makeEventPayload :: "string \<Rightarrow> json \<Rightarrow> json" where
  "makeEventPayload event d = jput ''data'' d (jput ''event'' (JString event) JNull)"

definition dispatch :: "string \<Rightarrow> json \<Rightarrow> unit prog" where
  "dispatch event d = broadcast (makeEventPayload event d)"

definition dispatchToAllExtensions :: "string \<Rightarrow> json \<Rightarrow> unit prog" where
  "dispatchToAllExtensions event d = broadcastToAllExtensions (makeEventPayload event d)"

definition dispatchToAllApps :: "string \<Rightarrow> json \<Rightarrow> unit prog" where
  "dispatchToAllApps event d = broadcastToAllApps (makeEventPayload event d)"

definition dispatchToExtension :: "string \<Rightarrow> string \<Rightarrow> json \<Rightarrow> bool prog" where
  "dispatchToExtension extensionId event d = sendToExtension extensionId (makeEventPayload event d)"

section \<open>Connections\<close>

definition getDocumentRoot :: "string prog" where
  "getDocumentRoot =
     bindS (getOptionForCurrentMode ''documentRoot'') (\<lambda>jDocumentRoot.
     if \<not> is_null jDocumentRoot
     then bindS (liftS (get_string jDocumentRoot)) (\<lambda>documentRoot.
          if documentRoot = [] then throwS Undefined
          else if last documentRoot = CHR ''/'' then retS (butlast documentRoot)
          else retS documentRoot)
     else retS [])"

definition handleConnect :: "nat \<Rightarrow> string \<Rightarrow> unit prog" where
  "handleConnect handler url =
     thenS
      (if isExtensionEndpoint url
       then let extensionId = getExtensionIdFromUrl url
            in thenS (modS (\<lambda>w. w\<lparr>srv_extConnections := upd extensionId handler (srv_extConnections w)\<rparr>))
                     (dispatch ''extClientConnect'' (JString extensionId))
       else thenS (modS (\<lambda>w. w\<lparr>srv_appConnections := insort_insert handler (srv_appConnections w)\<rparr>))
                  (bindS (getS (\<lambda>w. length (srv_appConnections w))) (\<lambda>n.
                   dispatch ''appClientConnect'' (JInt (int n)))))
      (bindS (getS (\<lambda>w. length (srv_appConnections w) + length (srv_extConnections w))) (\<lambda>n.
       dispatch ''clientConnect'' (JInt (int n))))"

text \<open>The thread that ends the process later if nobody reconnected is counted here.\<close>

definition exitProcessIfIdle :: "unit prog" where
  "exitProcessIfIdle = modS (\<lambda>w. w\<lparr>srv_idleChecks := srv_idleChecks w + 1\<rparr>)"

definition handleDisconnect :: "nat \<Rightarrow> string \<Rightarrow> unit prog" where
  "handleDisconnect handler url =
     thenS (modS (\<lambda>w. w\<lparr>srv_wsMode := del handler (srv_wsMode w)\<rparr>))
    (thenS
      (if isExtensionEndpoint url
       then let extensionId = getExtensionIdFromUrl url
            in thenS (modS (\<lambda>w. w\<lparr>srv_extConnections := del extensionId (srv_extConnections w)\<rparr>))
                     (dispatch ''extClientDisconnect'' (JString extensionId))
       else bindS settings_getMode (\<lambda>mode.
            thenS (modS (\<lambda>w. w\<lparr>srv_appConnections := removeAll handler (srv_appConnections w)\<rparr>))
           (thenS (if mode = AppModeBrowser \<or> mode = AppModeChrome then exitProcessIfIdle else retS ())
           (bindS (getS (\<lambda>w. length (srv_appConnections w))) (\<lambda>n.
            dispatch ''appClientDisconnect'' (JInt (int n)))))))
      (bindS (getS (\<lambda>w. length (srv_appConnections w) + length (srv_extConnections w))) (\<lambda>n.
       dispatch ''clientDisconnect'' (JInt (int n)))))"

definition handleValidate :: "string \<Rightarrow> string \<Rightarrow> bool prog" where
  "handleValidate url host =
     bindS (if \<not> (host = ''localhost'' \<or> host = ''127.0.0.1'')
            then bindS settings_getMode (\<lambda>mode. retS (mode \<noteq> AppModeCloud)) else retS False) (\<lambda>foreign.
     if foreign then retS False
     else if \<not> hasConnectToken url then retS False
     else bindS (getS (verifyConnectToken (getConnectTokenFromUrl url))) (\<lambda>ok.
          if \<not> ok then retS False
          else if isExtensionEndpoint url then getS (isLoaded (getExtensionIdFromUrl url))
          else retS True))"

section \<open>Start and stop\<close>

text \<open>
  \<open>listen\<close> is what the socket layer does with a requested port: the port it bound, or a failure
  (\<^verbatim>\<open>websocketpp::exception\<close>). The port is passed on as 16 bits.
\<close>

definition url_slash_rx :: rx where
  "url_slash_rx = RSeq (rlit ''/'') rdots"

definition neuserver_init :: "(string \<Rightarrow> int \<Rightarrow> int option) \<Rightarrow> string prog" where
  "neuserver_init listen =
     bindS (getOptionForCurrentMode ''port'') (\<lambda>jPort.
     bindS (if \<not> is_null jPort then liftS (get_int jPort) else retS 0) (\<lambda>port.
     bindS settings_getMode (\<lambda>mode.
     let hostAddress = (if mode = AppModeCloud then ''0.0.0.0'' else ''127.0.0.1'')
     in case listen hostAddress (port mod 65536) of
       None \<Rightarrow> throwS WebsocketError
     | Some actualPort \<Rightarrow>
         thenS (modS (\<lambda>w. w\<lparr>srv_listening := True\<rparr>))
        (thenS (if port \<noteq> actualPort then setPort actualPort else retS ())
        (bindS (getOptionForCurrentMode ''url'') (\<lambda>jUrl.
         bindS (if \<not> is_null jUrl
                then bindS (liftS (get_string jUrl)) (\<lambda>url.
                     retS (if regex_match url_slash_rx url
                           then ''http://127.0.0.1:'' @ to_string actualPort @ url else url))
                else retS (''http://127.0.0.1:'' @ to_string actualPort)) (\<lambda>navigationUrl.
         thenS (modS (\<lambda>w. w\<lparr>srv_initialized := True\<rparr>))
        (bindS (getOptionForCurrentMode ''serverHeaders'') (\<lambda>jHeaders.
         thenS (if \<not> is_null jHeaders then modS (\<lambda>w. w\<lparr>srv_applyConfigHeaders := True\<rparr>) else retS ())
               (retS navigationUrl)))))))))) "

definition neuserver_isInitialized :: "world \<Rightarrow> bool" where
  "neuserver_isInitialized w = srv_initialized w"

definition neuserver_stop :: "unit prog" where
  "neuserver_stop = modS (\<lambda>w. w\<lparr>srv_listening := False\<rparr>)"


section \<open>Properties\<close>

subsection \<open>Parameters of a URL\<close>

lemma contains_rx_iff: "regex_match (contains_rx t) s \<longleftrightarrow> (\<exists>u v. s = u @ t @ v \<and> (\<forall>c \<in> set (u @ v). dot c))"
  by (auto simp: contains_rx_def regex_match_lang rxl_seq_iff)

lemma param_value_found:
  "getParamValueFromUrl url param = v \<Longrightarrow> v \<noteq> [] \<Longrightarrow>
     (\<exists>pre post. url = pre @ param @ ''='' @ v @ post) \<and> (\<forall>c \<in> set v. param_char c)"
proof -
  assume v: "getParamValueFromUrl url param = v" "v \<noteq> []"
  then obtain p m q where s: "regex_search (param_value_rx param) url = Some (p, m, q)"
    by (auto simp: getParamValueFromUrl_def split: option.splits)
  from regex_search_SomeD [OF s] have url: "url = p @ m @ q" and m: "rxl (param_value_rx param) m" by auto
  from m obtain u where u: "m = (param @ ''='') @ u" "rxl (rplus (RSet param_char)) u"
    by (auto simp: param_value_rx_def rxl_seq_iff)
  then have "v = u" using v(1) s by (simp add: getParamValueFromUrl_def)
  moreover from this u url have "url = p @ param @ ''='' @ v @ q" by simp
  ultimately show ?thesis using u(2) by (auto simp: rxl_rplus_set)
qed

text \<open>The handshake decides a policy, and changes nothing but the null members of the options.\<close>

definition handshake_ok :: "string \<Rightarrow> string \<Rightarrow> world \<Rightarrow> bool" where
  "handshake_ok url host w \<longleftrightarrow>
     (host = ''localhost'' \<or> host = ''127.0.0.1'' \<or> mode_view (settings_options w) = AppModeCloud) \<and>
     hasConnectToken url \<and> getConnectTokenFromUrl url = auth_connectToken w \<and>
     (isExtensionEndpoint url \<longrightarrow> isLoaded (getExtensionIdFromUrl url) w)"

lemma handleValidate_decides:
  assumes good: "good_options (settings_options w)"
  obtains w' where "handleValidate url host w = (Inr (handshake_ok url host w), w')" "same_opts w w'"
proof -
  obtain w1 where w1: "settings_getMode w = (Inr (mode_view (settings_options w)), w1)" "same_opts w w1"
    using getMode_step [OF good] by blast
  define w0 where "w0 = (if host = ''localhost'' \<or> host = ''127.0.0.1'' then w else w1)"
  have s0: "same_opts w w0" using w1(2) same_opts_refl [OF good] by (simp add: w0_def)
  have run: "handleValidate url host w =
     (if \<not> (host = ''localhost'' \<or> host = ''127.0.0.1'') \<and> mode_view (settings_options w) \<noteq> AppModeCloud then (Inr False, w0)
      else if \<not> hasConnectToken url then (Inr False, w0)
      else if \<not> verifyConnectToken (getConnectTokenFromUrl url) w0 then (Inr False, w0)
      else if isExtensionEndpoint url then (Inr (isLoaded (getExtensionIdFromUrl url) w0), w0) else (Inr True, w0))"
    unfolding handleValidate_def
  proof (subst bindS_step(2))
    show "(if \<not> (host = ''localhost'' \<or> host = ''127.0.0.1'')
        then bindS settings_getMode (\<lambda>mode. retS (mode \<noteq> AppModeCloud)) else retS False) w =
        (Inr (\<not> (host = ''localhost'' \<or> host = ''127.0.0.1'') \<and> mode_view (settings_options w) \<noteq> AppModeCloud), w0)"
      using w1(1) by (simp add: w0_def)
  qed simp
  have "auth_connectToken w0 = auth_connectToken w" "ext_loadedExtensions w0 = ext_loadedExtensions w"
    using same_opts_field [OF s0, of auth_connectToken] same_opts_field [OF s0, of ext_loadedExtensions] by simp_all
  with run have "handleValidate url host w = (Inr (handshake_ok url host w), w0)"
    by (auto simp: handshake_ok_def verifyConnectToken_def isLoaded_def)
  with that s0 show ?thesis by blast
qed

lemma handleValidate_true:
  assumes good: "good_options (settings_options w)" and "handleValidate url host w = (Inr True, w')"
  shows "handshake_ok url host w \<and> same_opts w w'"
  by (rule handleValidate_decides [OF good, of url host]) (use assms(2) in simp)

subsection \<open>Ranges\<close>

lemma range_rx_shape:
  assumes "regex_match range_rx h"
  shows "h = ''bytes='' @ range_first h @ ''-'' @ range_second h" "range_first h \<noteq> []"
    "\<forall>c \<in> set (range_first h) \<union> set (range_second h). isdigit c"
proof -
  obtain a b where h: "h = ''bytes='' @ a @ ''-'' @ b" and a: "a \<noteq> []" "\<forall>c \<in> set a. isdigit c" and b: "\<forall>c \<in> set b. isdigit c"
    using assms unfolding range_rx_def regex_match_lang rxl_seq_iff rxl_rplus_set rxl_star_set rxl_rlit by blast
  have "\<not> isdigit (CHR ''-'')" by (simp add: ctype_defs)
  then have f: "range_first h = a" using a(2) takeWhile_append_stop [of a isdigit "CHR ''-''" b]
    by (simp add: range_first_def h)
  moreover have "range_second h = b"
  proof -
    have "length (''bytes='' @ a @ ''-'') = length a + 7" "h = (''bytes='' @ a @ ''-'') @ b" by (simp_all add: h)
    then show ?thesis unfolding range_second_def f by (metis append_eq_conv_conj)
  qed
  ultimately show "h = ''bytes='' @ range_first h @ ''-'' @ range_second h" "range_first h \<noteq> []"
    "\<forall>c \<in> set (range_first h) \<union> set (range_second h). isdigit c" using h a b by auto
qed

lemma stoll_digits:
  "ds \<noteq> [] \<Longrightarrow> \<forall>c \<in> set ds. isdigit c \<Longrightarrow> stoll ds = Inr i \<Longrightarrow> i = int (nat_of_digits ds)"
proof -
  assume d: "ds \<noteq> []" "\<forall>c \<in> set ds. isdigit c" "stoll ds = Inr i"
  then obtain c cs where c: "ds = c # cs" "isdigit c" by (cases ds) auto
  have "\<not> isspace c" "c \<noteq> CHR ''-''" "c \<noteq> CHR ''+''" using digit_not_space_sign [OF c(2)] by auto
  moreover have "\<forall>x \<in> set cs. isdigit x" using d(2) c by simp
  ultimately show ?thesis using d(3) c
    by (auto simp: stoll_def parse_int_def Let_def takeWhile_all split: if_splits)
qed

text \<open>The options of a header: a position that is not negative, and the length from the two ends.\<close>

lemma range_options:
  assumes "getFileReaderOptionsFromHeaders (Some h) = Inr opts" "regex_match range_rx h"
  shows "fo_pos opts = int (nat_of_digits (range_first h))"
    and "range_second h = [] \<Longrightarrow> fo_size opts = -1"
    and "range_second h \<noteq> [] \<Longrightarrow> nat_of_digits (range_first h) \<le> nat_of_digits (range_second h) \<Longrightarrow>
       fo_size opts = int (nat_of_digits (range_second h)) - int (nat_of_digits (range_first h)) + 1"
    and "range_second h \<noteq> [] \<Longrightarrow> nat_of_digits (range_second h) < nat_of_digits (range_first h) \<Longrightarrow> fo_size opts = -1"
proof -
  note sh = range_rx_shape [OF assms(2)]
  obtain pos where pos: "stoll (range_first h) = Inr pos" using assms by (auto simp: getFileReaderOptionsFromHeaders_def bindR_eq_Inr)
  have p: "pos = int (nat_of_digits (range_first h))" using stoll_digits [OF sh(2) _ pos] sh(3) by blast
  have e: "fin = int (nat_of_digits (range_second h))" if "stoll (range_second h) = Inr fin" "range_second h \<noteq> []" for fin
    using stoll_digits [OF that(2) _ that(1)] sh(3) by blast
  show "fo_pos opts = int (nat_of_digits (range_first h))"
    using assms pos p by (auto simp: getFileReaderOptionsFromHeaders_def bindR_eq_Inr split: if_splits)
  show "range_second h = [] \<Longrightarrow> fo_size opts = -1"
    using assms pos by (auto simp: getFileReaderOptionsFromHeaders_def bindR_eq_Inr)
  show "range_second h \<noteq> [] \<Longrightarrow> nat_of_digits (range_first h) \<le> nat_of_digits (range_second h) \<Longrightarrow>
       fo_size opts = int (nat_of_digits (range_second h)) - int (nat_of_digits (range_first h)) + 1"
    using assms pos p e by (auto simp: getFileReaderOptionsFromHeaders_def bindR_eq_Inr split: if_splits)
  show "range_second h \<noteq> [] \<Longrightarrow> nat_of_digits (range_second h) < nat_of_digits (range_first h) \<Longrightarrow> fo_size opts = -1"
    using assms pos p e by (auto simp: getFileReaderOptionsFromHeaders_def bindR_eq_Inr split: if_splits)
qed

subsection \<open>Broadcasting\<close>

definition sent_to :: "world \<Rightarrow> json \<Rightarrow> (nat \<times> opcode) list \<Rightarrow> (nat \<times> string \<times> opcode) list" where
  "sent_to w message conns = map (\<lambda>(h, op). (h, os_dump w message, op)) conns"

lemma send_alive: "srv_alive w h \<Longrightarrow> send h t op w = (Inr (), w\<lparr>srv_outbox := srv_outbox w @ [(h, t, op)]\<rparr>)"
  by (simp add: send_def)

lemma broadcastToAllApps_alive:
  assumes "\<forall>h \<in> set (srv_appConnections w). srv_alive w h"
  shows "broadcastToAllApps m w =
    (Inr (), w\<lparr>srv_outbox := srv_outbox w @ sent_to w m (map (\<lambda>h. (h, opText)) (srv_appConnections w))\<rparr>)"
proof -
  have "forS conns (\<lambda>connection. bindS (jsonToString m) (\<lambda>text. send connection text opText)) w =
      (Inr (), w\<lparr>srv_outbox := srv_outbox w @ sent_to w m (map (\<lambda>h. (h, opText)) conns)\<rparr>)"
    if "\<forall>h \<in> set conns. srv_alive w h" for conns w
    using that by (induction conns arbitrary: w) (simp_all add: sent_to_def send_alive)
  with assms show ?thesis by (simp add: broadcastToAllApps_def)
qed

lemma broadcastToAllExtensions_alive:
  assumes "\<forall>h \<in> snd ` set (srv_extConnections w). srv_alive w h"
  shows "broadcastToAllExtensions m w =
    (Inr (), w\<lparr>srv_outbox := srv_outbox w @ sent_to w m (map (\<lambda>(_, h). (h, op_for h w)) (srv_extConnections w))\<rparr>)"
proof -
  have "forS conns (\<lambda>(_, connection). bindS (getS (op_for connection)) (\<lambda>op.
        bindS (jsonToString m) (\<lambda>text. send connection text op))) w =
      (Inr (), w\<lparr>srv_outbox := srv_outbox w @ sent_to w m (map (\<lambda>(_, h). (h, op_for h w)) conns)\<rparr>)"
    if "\<forall>h \<in> snd ` set conns. srv_alive w h" for conns and w :: world
    using that
  proof (induction conns arbitrary: w)
    case (Cons c conns)
    have "op_for h (w\<lparr>srv_outbox := x\<rparr>) = op_for h w" for h x by (simp add: op_for_def)
    with Cons show ?case by (cases c) (simp add: sent_to_def send_alive)
  qed (simp add: sent_to_def)
  with assms show ?thesis by (simp add: broadcastToAllExtensions_def)
qed

lemma broadcast_alive:
  assumes "\<forall>h \<in> set (srv_appConnections w). srv_alive w h" "\<forall>h \<in> snd ` set (srv_extConnections w). srv_alive w h"
  shows "broadcast m w =
    (Inr (), w\<lparr>srv_outbox := srv_outbox w @
       sent_to w m (map (\<lambda>h. (h, opText)) (srv_appConnections w) @
                    map (\<lambda>(_, h). (h, op_for h w)) (srv_extConnections w))\<rparr>)"
  using assms by (simp add: broadcast_def broadcastToAllApps_alive broadcastToAllExtensions_alive sent_to_def op_for_def)

text \<open>Whatever happens on the way, sending writes nothing but the outbox.\<close>

definition no_outbox :: "world \<Rightarrow> world" where
  "no_outbox w = w\<lparr>srv_outbox := []\<rparr>"

lemma keeps_send: "keeps no_outbox (send h t op)"
  by (auto simp: keeps_def no_outbox_def send_def)

lemma keeps_jsonToString': "keeps no_outbox (jsonToString j)"
  by simp

lemma keeps_broadcastToAllApps: "keeps no_outbox (broadcastToAllApps m)"
  unfolding broadcastToAllApps_def by (intro keeps_intros keeps_send keeps_jsonToString')

lemma keeps_broadcastToAllExtensions: "keeps no_outbox (broadcastToAllExtensions m)"
  unfolding broadcastToAllExtensions_def
  unfolding split_beta by (intro keeps_intros keeps_send keeps_jsonToString')

lemma keeps_broadcast: "keeps no_outbox (broadcast m)"
  unfolding broadcast_def by (intro keeps_intros keeps_broadcastToAllApps keeps_broadcastToAllExtensions)

lemma keeps_dispatch: "keeps no_outbox (dispatch e d)"
  by (simp add: dispatch_def keeps_broadcast)

lemma no_outbox_field: "no_outbox w' = no_outbox w \<Longrightarrow> (\<And>v x. f (v\<lparr>srv_outbox := x\<rparr>) = f v) \<Longrightarrow> f w' = f w"
  unfolding no_outbox_def by metis

end
