(* ===== verification/Base64.thy ===== *)
theory Base64
  imports Prelude
begin

text \<open>
  \<^verbatim>\<open>lib/base64/base64.hpp\<close>, which the binary file methods use: the encoder and the decoder as the
  loops they are, over a counter and a bit stream of 32 bits (kept as a number below \<open>2 ^ 32\<close>), and
  the round trip. The counter is taken as unbounded, which holds for data below 2 GiB.
\<close>

definition base64_chars :: string where
  "base64_chars = ''ABCDEFGHIJKLMNOPQRSTUVWXYZabcdefghijklmnopqrstuvwxyz0123456789+/''"

definition b64_char :: "nat \<Rightarrow> char" where
  "b64_char n = base64_chars ! (n mod 64)"

fun encode_loop :: "nat \<Rightarrow> nat \<Rightarrow> nat \<Rightarrow> string \<Rightarrow> string \<Rightarrow> string" where
  "encode_loop counter bit_stream offset encoded [] =
     (if offset = 16 then encoded @ [b64_char (bit_stream div 2 ^ 12)] @ ''==''
      else if offset = 8 then encoded @ [b64_char (bit_stream div 2 ^ 6)] @ ''=''
      else encoded)"
| "encode_loop counter bit_stream offset encoded (c # cs) =
     (let num_val = byte c;
          offset = 16 - counter mod 3 * 8;
          bit_stream = (bit_stream + num_val * 2 ^ offset) mod 2 ^ 32
      in if offset = 16 then encode_loop (counter + 1) bit_stream offset (encoded @ [b64_char (bit_stream div 2 ^ 18)]) cs
         else if offset = 8 then encode_loop (counter + 1) bit_stream offset (encoded @ [b64_char (bit_stream div 2 ^ 12)]) cs
         else if counter \<noteq> 3
         then encode_loop (counter + 1) 0 offset (encoded @ [b64_char (bit_stream div 2 ^ 6), b64_char bit_stream]) cs
         else encode_loop (counter + 1) bit_stream offset encoded cs)"

definition to_base64 :: "string \<Rightarrow> string" where
  "to_base64 s = encode_loop 0 0 0 [] s"

fun index_of :: "char \<Rightarrow> string \<Rightarrow> nat option" where
  "index_of c [] = None"
| "index_of c (d # ds) = (if c = d then Some 0 else map_option Suc (index_of c ds))"

fun decode_loop :: "nat \<Rightarrow> nat \<Rightarrow> string \<Rightarrow> string \<Rightarrow> string" where
  "decode_loop counter bit_stream decoded [] = decoded"
| "decode_loop counter bit_stream decoded (c # cs) =
     (case index_of c base64_chars of
        Some num_val \<Rightarrow>
          (let offset = 18 - counter mod 4 * 6;
               bit_stream = (bit_stream + num_val * 2 ^ offset) mod 2 ^ 32
           in if offset = 12 then decode_loop (counter + 1) bit_stream (decoded @ [char_of (bit_stream div 2 ^ 16 mod 256)]) cs
              else if offset = 6 then decode_loop (counter + 1) bit_stream (decoded @ [char_of (bit_stream div 2 ^ 8 mod 256)]) cs
              else if offset = 0 \<and> counter \<noteq> 4
              then decode_loop (counter + 1) 0 (decoded @ [char_of (bit_stream mod 256)]) cs
              else decode_loop (counter + 1) bit_stream decoded cs)
      | None \<Rightarrow> if c \<noteq> CHR ''='' then [] else decode_loop (counter + 1) bit_stream decoded cs)"

definition from_base64 :: "string \<Rightarrow> string" where
  "from_base64 s = decode_loop 0 0 [] s"

section \<open>Round trip\<close>

lemma length_base64_chars [simp]: "length base64_chars = 64"
  by (simp add: base64_chars_def)

lemma index_of_nth: "distinct ds \<Longrightarrow> i < length ds \<Longrightarrow> index_of (ds ! i) ds = Some i"
  by (induction ds arbitrary: i) (auto simp: nth_Cons split: nat.splits)

lemma distinct_base64_chars: "distinct base64_chars"
  by (simp add: base64_chars_def)

lemma index_b64_char [simp]: "index_of (b64_char n) base64_chars = Some (n mod 64)"
  by (simp add: b64_char_def index_of_nth distinct_base64_chars)

lemma index_equals [simp]: "index_of (CHR ''='') base64_chars = None"
  by (simp add: base64_chars_def)

text \<open>
  The digits of a group of three bytes and the bytes of four digits, with the bytes written
  through the bits they contribute to each digit.
\<close>

lemma div_eqI: "q * n \<le> m \<Longrightarrow> m < (q + 1) * n \<Longrightarrow> m div n = (q::nat)"
  by (intro div_nat_eqI) (simp_all add: algebra_simps)

lemma mod_eqI: "m = k * n + r \<Longrightarrow> r < n \<Longrightarrow> m mod n = (r::nat)"
  by simp

lemma enc_digits:
  assumes "a0 < 4" "b1 < 16" "b0 < 16" "c1 < 4" "c0 < 64" "a1 < (64::nat)"
  shows "((4 * a1 + a0) * 65536) div 262144 mod 64 = a1"
    and "((4 * a1 + a0) * 65536 + (16 * b1 + b0) * 256) div 4096 mod 64 = 16 * a0 + b1"
    and "((4 * a1 + a0) * 65536 + (16 * b1 + b0) * 256 + (64 * c1 + c0)) div 64 mod 64 = 4 * b0 + c1"
    and "((4 * a1 + a0) * 65536 + (16 * b1 + b0) * 256 + (64 * c1 + c0)) mod 64 = c0"
    and "((4 * a1 + a0) * 65536) div 4096 mod 64 = 16 * a0"
    and "((4 * a1 + a0) * 65536 + (16 * b1 + b0) * 256) div 64 mod 64 = 4 * b0"
proof -
  have "((4 * a1 + a0) * 65536) div 262144 = a1"
    using assms by (intro div_eqI) (simp_all add: algebra_simps)
  then show "((4 * a1 + a0) * 65536) div 262144 mod 64 = a1" using assms by simp
  have "((4 * a1 + a0) * 65536 + (16 * b1 + b0) * 256) div 4096 = a1 * 64 + (16 * a0 + b1)"
    using assms by (intro div_eqI) (simp_all add: algebra_simps)
  then show "((4 * a1 + a0) * 65536 + (16 * b1 + b0) * 256) div 4096 mod 64 = 16 * a0 + b1"
    using assms by (intro mod_eqI) (simp_all add: algebra_simps)
  have "((4 * a1 + a0) * 65536 + (16 * b1 + b0) * 256 + (64 * c1 + c0)) div 64 =
      (64 * a1 + 16 * a0 + b1) * 64 + (4 * b0 + c1)"
    using assms by (intro div_eqI) (simp_all add: algebra_simps)
  then show "((4 * a1 + a0) * 65536 + (16 * b1 + b0) * 256 + (64 * c1 + c0)) div 64 mod 64 = 4 * b0 + c1"
    using assms by (intro mod_eqI [of _ "64 * a1 + 16 * a0 + b1"]) (simp_all add: algebra_simps)
  show "((4 * a1 + a0) * 65536 + (16 * b1 + b0) * 256 + (64 * c1 + c0)) mod 64 = c0"
    using assms by (intro mod_eqI [of _ "(4 * a1 + a0) * 1024 + (16 * b1 + b0) * 4 + c1"]) (simp_all add: algebra_simps)
  have "((4 * a1 + a0) * 65536) div 4096 = a1 * 64 + 16 * a0"
    using assms by (intro div_eqI) (simp_all add: algebra_simps)
  then show "((4 * a1 + a0) * 65536) div 4096 mod 64 = 16 * a0"
    using assms by (intro mod_eqI) (simp_all add: algebra_simps)
  have "((4 * a1 + a0) * 65536 + (16 * b1 + b0) * 256) div 64 = (64 * a1 + 16 * a0 + b1) * 64 + 4 * b0"
    using assms by (intro div_eqI) (simp_all add: algebra_simps)
  then show "((4 * a1 + a0) * 65536 + (16 * b1 + b0) * 256) div 64 mod 64 = 4 * b0"
    using assms by (intro mod_eqI [of _ "64 * a1 + 16 * a0 + b1"]) (simp_all add: algebra_simps)
qed

lemma dec_bytes:
  assumes "a0 < 4" "b1 < 16" "b0 < 16" "c1 < 4" "c0 < 64" "a1 < (64::nat)"
  shows "(a1 * 262144 + (16 * a0 + b1) * 4096) div 65536 mod 256 = 4 * a1 + a0"
    and "(a1 * 262144 + (16 * a0 + b1) * 4096 + (4 * b0 + c1) * 64) div 256 mod 256 = 16 * b1 + b0"
    and "(a1 * 262144 + (16 * a0 + b1) * 4096 + (4 * b0 + c1) * 64 + c0) mod 256 = 64 * c1 + c0"
    and "a1 * 262144 + (16 * a0 + b1) * 4096 + (4 * b0 + c1) * 64 + c0 < 2 ^ 32"
proof -
  have "(a1 * 262144 + (16 * a0 + b1) * 4096) div 65536 = 4 * a1 + a0"
    using assms by (intro div_eqI) (simp_all add: algebra_simps)
  then show "(a1 * 262144 + (16 * a0 + b1) * 4096) div 65536 mod 256 = 4 * a1 + a0" using assms by simp
  have "(a1 * 262144 + (16 * a0 + b1) * 4096 + (4 * b0 + c1) * 64) div 256 = (4 * a1 + a0) * 256 + (16 * b1 + b0)"
    using assms by (intro div_eqI) (simp_all add: algebra_simps)
  then show "(a1 * 262144 + (16 * a0 + b1) * 4096 + (4 * b0 + c1) * 64) div 256 mod 256 = 16 * b1 + b0"
    using assms by (intro mod_eqI [of _ "4 * a1 + a0"]) (simp_all add: algebra_simps)
  show "(a1 * 262144 + (16 * a0 + b1) * 4096 + (4 * b0 + c1) * 64 + c0) mod 256 = 64 * c1 + c0"
    using assms by (intro mod_eqI [of _ "(4 * a1 + a0) * 256 + (16 * b1 + b0)"]) (simp_all add: algebra_simps)
  show "a1 * 262144 + (16 * a0 + b1) * 4096 + (4 * b0 + c1) * 64 + c0 < 2 ^ 32" using assms by simp
qed

definition quad :: "nat \<Rightarrow> nat \<Rightarrow> nat \<Rightarrow> string" where
  "quad a b c = [b64_char (a div 4), b64_char (16 * (a mod 4) + b div 16), b64_char (4 * (b mod 16) + c div 64),
     b64_char (c mod 64)]"

lemma b64_char_mod: "b64_char (n mod 64) = b64_char n"
  by (simp add: b64_char_def)


text \<open>Bytes in the form the digit lemmas want.\<close>

lemma byte_split4: "byte x = 4 * (byte x div 4) + byte x mod 4" "byte x div 4 < 64" "byte x mod 4 < 4"
  using byte_less [of x] by simp_all

lemma byte_split16: "byte x = 16 * (byte x div 16) + byte x mod 16" "byte x div 16 < 16" "byte x mod 16 < 16"
  using byte_less [of x] by simp_all

lemma byte_split64: "byte x = 64 * (byte x div 64) + byte x mod 64" "byte x div 64 < 4" "byte x mod 64 < 64"
  using byte_less [of x] by simp_all

lemmas byte_bounds = byte_split4(2,3) byte_split16(2,3) byte_split64(2,3)

lemma enc_bytes:
  "b64_char (byte x * 65536 div 262144) = b64_char (byte x div 4)"
  "b64_char ((byte x * 65536 + byte y * 256) div 4096) = b64_char (16 * (byte x mod 4) + byte y div 16)"
  "b64_char ((byte x * 65536 + byte y * 256 + byte z) div 64) = b64_char (4 * (byte y mod 16) + byte z div 64)"
  "b64_char (byte x * 65536 + byte y * 256 + byte z) = b64_char (byte z mod 64)"
  "b64_char (byte x * 65536 div 4096) = b64_char (16 * (byte x mod 4))"
  "b64_char ((byte x * 65536 + byte y * 256) div 64) = b64_char (4 * (byte y mod 16))"
proof -
  note e = enc_digits [of "byte x mod 4" "byte y div 16" "byte y mod 16" "byte z div 64" "byte z mod 64" "byte x div 4",
      OF byte_split4(3) byte_split16(2,3) byte_split64(2,3) byte_split4(2),
      folded byte_split4(1) byte_split16(1) byte_split64(1)]
  have c: "m mod 64 = n \<Longrightarrow> b64_char m = b64_char n" for m n using b64_char_mod [of m] by simp
  show "b64_char (byte x * 65536 div 262144) = b64_char (byte x div 4)"
    "b64_char ((byte x * 65536 + byte y * 256) div 4096) = b64_char (16 * (byte x mod 4) + byte y div 16)"
    "b64_char ((byte x * 65536 + byte y * 256 + byte z) div 64) = b64_char (4 * (byte y mod 16) + byte z div 64)"
    "b64_char (byte x * 65536 + byte y * 256 + byte z) = b64_char (byte z mod 64)"
    "b64_char (byte x * 65536 div 4096) = b64_char (16 * (byte x mod 4))"
    "b64_char ((byte x * 65536 + byte y * 256) div 64) = b64_char (4 * (byte y mod 16))"
    by (rule c [OF e(1)], rule c [OF e(2)], rule c [OF e(3)], rule c [OF e(4)], rule c [OF e(5)], rule c [OF e(6)])
qed

lemma counter_mod3: "(3 * k + Suc 0) mod 3 = Suc 0" "(3 * k + 2) mod 3 = (2::nat)" "Suc (3 * k) mod 3 = Suc 0"
  "Suc (Suc (3 * k)) mod 3 = 2"
  by presburger+

lemma counter_mod4: "Suc (4 * k) mod 4 = Suc 0" "Suc (Suc (4 * k)) mod 4 = (2::nat)" "Suc (Suc (Suc (4 * k))) mod 4 = 3"
  by presburger+

lemma encode_group:
  "encode_loop (3 * k) 0 off enc (x # y # z # cs) =
     encode_loop (Suc (Suc (Suc (3 * k)))) 0 0 (enc @ quad (byte x) (byte y) (byte z)) cs"
proof -
  have "Suc (Suc (3 * k)) \<noteq> 3" by presburger
  moreover have "byte x * 65536 < 4294967296" "byte x * 65536 + byte y * 256 < 4294967296"
    "byte x * 65536 + byte y * 256 + byte z < 4294967296"
    using byte_less [of x] byte_less [of y] byte_less [of z] by linarith+
  ultimately show ?thesis
    by (simp add: quad_def Let_def counter_mod3 enc_bytes)
qed

text \<open>Four digits, whatever they are.\<close>

lemma decode_quad:
  assumes "n1 < 64" "n2 < 64" "n3 < 64" "n4 < 64"
  shows "decode_loop (4 * k) 0 dec (b64_char n1 # b64_char n2 # cs) =
      decode_loop (Suc (Suc (4 * k))) (n1 * 262144 + n2 * 4096)
        (dec @ [char_of ((n1 * 262144 + n2 * 4096) div 65536 mod 256)]) cs"
    and "decode_loop (Suc (Suc (4 * k))) (n1 * 262144 + n2 * 4096) dec (b64_char n3 # cs) =
      decode_loop (Suc (Suc (Suc (4 * k)))) (n1 * 262144 + n2 * 4096 + n3 * 64)
        (dec @ [char_of ((n1 * 262144 + n2 * 4096 + n3 * 64) div 256 mod 256)]) cs"
    and "decode_loop (Suc (Suc (Suc (4 * k)))) (n1 * 262144 + n2 * 4096 + n3 * 64) dec (b64_char n4 # cs) =
      decode_loop (Suc (Suc (Suc (Suc (4 * k))))) 0
        (dec @ [char_of ((n1 * 262144 + n2 * 4096 + n3 * 64 + n4) mod 256)]) cs"
proof -
  have m: "n1 mod 64 = n1" "n2 mod 64 = n2" "n3 mod 64 = n3" "n4 mod 64 = n4" using assms by simp_all
  have l: "(n1 * 262144) mod 4294967296 = n1 * 262144"
    "(n1 * 262144 + n2 * 4096) mod 4294967296 = n1 * 262144 + n2 * 4096"
    "(n1 * 262144 + n2 * 4096 + n3 * 64) mod 4294967296 = n1 * 262144 + n2 * 4096 + n3 * 64"
    "(n1 * 262144 + n2 * 4096 + n3 * 64 + n4) mod 4294967296 = n1 * 262144 + n2 * 4096 + n3 * 64 + n4"
    using assms by simp_all
  have "Suc (Suc (Suc (4 * k))) \<noteq> 4" by presburger
  then show "decode_loop (Suc (Suc (Suc (4 * k)))) (n1 * 262144 + n2 * 4096 + n3 * 64) dec (b64_char n4 # cs) =
      decode_loop (Suc (Suc (Suc (Suc (4 * k))))) 0
        (dec @ [char_of ((n1 * 262144 + n2 * 4096 + n3 * 64 + n4) mod 256)]) cs"
    by (simp add: Let_def counter_mod4 m l)
  show "decode_loop (4 * k) 0 dec (b64_char n1 # b64_char n2 # cs) =
      decode_loop (Suc (Suc (4 * k))) (n1 * 262144 + n2 * 4096)
        (dec @ [char_of ((n1 * 262144 + n2 * 4096) div 65536 mod 256)]) cs"
    "decode_loop (Suc (Suc (4 * k))) (n1 * 262144 + n2 * 4096) dec (b64_char n3 # cs) =
      decode_loop (Suc (Suc (Suc (4 * k)))) (n1 * 262144 + n2 * 4096 + n3 * 64)
        (dec @ [char_of ((n1 * 262144 + n2 * 4096 + n3 * 64) div 256 mod 256)]) cs"
    by (simp_all add: Let_def counter_mod4 m l)
qed

lemma digit_bounds: "16 * (byte x mod 4) + byte y div 16 < 64" "4 * (byte y mod 16) + byte z div 64 < 64"
  "4 * (byte y mod 16) < 64" "16 * (byte x mod 4) < 64" "byte x div 4 < 64" "byte z mod 64 < 64"
  using byte_bounds [of x] byte_bounds [of y] byte_bounds [of z] by linarith+

lemma decode_group:
  "decode_loop (4 * k) 0 dec (quad (byte x) (byte y) (byte z) @ cs) =
     decode_loop (Suc (Suc (Suc (Suc (4 * k))))) 0 (dec @ [x, y, z]) cs"
proof -
  note d = dec_bytes [of "byte x mod 4" "byte y div 16" "byte y mod 16" "byte z div 64" "byte z mod 64" "byte x div 4",
      OF byte_split4(3) byte_split16(2,3) byte_split64(2,3) byte_split4(2),
      folded byte_split4(1) byte_split16(1) byte_split64(1)]
  show ?thesis
    unfolding quad_def append.simps decode_quad [OF digit_bounds(5,1,2,6)] d char_of_byte by simp
qed

lemma encode_tail:
  "encode_loop (3 * k) 0 0 enc [] = enc"
  "encode_loop (3 * k) 0 off enc [x] =
     enc @ [b64_char (byte x div 4), b64_char (16 * (byte x mod 4))] @ ''==''"
  "encode_loop (3 * k) 0 off enc [x, y] =
     enc @ [b64_char (byte x div 4), b64_char (16 * (byte x mod 4) + byte y div 16), b64_char (4 * (byte y mod 16))] @ ''=''"
proof -
  have "byte x * 65536 < 4294967296" "byte x * 65536 + byte y * 256 < 4294967296"
    using byte_less [of x] byte_less [of y] by linarith+
  then show "encode_loop (3 * k) 0 0 enc [] = enc"
    "encode_loop (3 * k) 0 off enc [x] = enc @ [b64_char (byte x div 4), b64_char (16 * (byte x mod 4))] @ ''==''"
    "encode_loop (3 * k) 0 off enc [x, y] =
     enc @ [b64_char (byte x div 4), b64_char (16 * (byte x mod 4) + byte y div 16), b64_char (4 * (byte y mod 16))] @ ''=''"
    using enc_bytes(5,6) by (simp_all add: Let_def counter_mod3 enc_bytes)
qed

lemma decode_tail:
  "decode_loop (4 * k) 0 dec ([b64_char (byte x div 4), b64_char (16 * (byte x mod 4))] @ ''=='') = dec @ [x]"
  "decode_loop (4 * k) 0 dec ([b64_char (byte x div 4), b64_char (16 * (byte x mod 4) + byte y div 16), b64_char (4 * (byte y mod 16))] @ ''='') = dec @ [x, y]"
proof -
  have z: "(0::nat) < 16" "(0::nat) < 4" "(0::nat) < 64" by simp_all
  note d1 = dec_bytes(1) [of "byte x mod 4" 0 0 0 0 "byte x div 4",
      OF byte_split4(3) z(1) z(1) z(2) z(3) byte_split4(2), folded byte_split4(1), unfolded add_0_right]
  note d2 = dec_bytes(1,2) [of "byte x mod 4" "byte y div 16" "byte y mod 16" 0 0 "byte x div 4",
      OF byte_split4(3) byte_split16(2,3) z(2) z(3) byte_split4(2), folded byte_split4(1) byte_split16(1), unfolded add_0_right]
  show "decode_loop (4 * k) 0 dec ([b64_char (byte x div 4), b64_char (16 * (byte x mod 4))] @ ''=='') = dec @ [x]"
    unfolding append.simps decode_quad(1) [OF digit_bounds(5,4) z(3) z(3)] d1 char_of_byte by simp
  show "decode_loop (4 * k) 0 dec ([b64_char (byte x div 4), b64_char (16 * (byte x mod 4) + byte y div 16), b64_char (4 * (byte y mod 16))] @ ''='') = dec @ [x, y]"
    unfolding append.simps decode_quad(1,2) [OF digit_bounds(5,1,3) z(3)] d2 char_of_byte by simp
qed

lemma encode_decode:
  "\<exists>t. encode_loop (3 * k) 0 0 enc s = enc @ t \<and> (\<forall>dec. decode_loop (4 * k) 0 dec t = dec @ s)"
proof (induction "length s" arbitrary: s k enc rule: less_induct)
  case less
  consider "s = []" | x where "s = [x]" | x y where "s = [x, y]" | x y z cs where "s = x # y # z # cs"
    by (metis list.exhaust)
  then show ?case
  proof cases
    case 1
    then show ?thesis by (intro exI [of _ "[]"]) simp
  next
    case (2 x)
    show ?thesis unfolding 2 encode_tail(2) using decode_tail(1) by blast
  next
    case (3 x y)
    show ?thesis unfolding 3 encode_tail(3) using decode_tail(2) by blast
  next
    case (4 x y z cs)
    have suc: "Suc (Suc (Suc (3 * k))) = 3 * Suc k" "Suc (Suc (Suc (Suc (4 * k)))) = 4 * Suc k" by simp_all
    obtain t where t: "encode_loop (3 * Suc k) 0 0 (enc @ quad (byte x) (byte y) (byte z)) cs = (enc @ quad (byte x) (byte y) (byte z)) @ t"
      "\<forall>dec. decode_loop (4 * Suc k) 0 dec t = dec @ cs"
      using less [of cs "Suc k" "enc @ quad (byte x) (byte y) (byte z)"] 4 by auto
    have "encode_loop (3 * k) 0 0 enc s = enc @ quad (byte x) (byte y) (byte z) @ t"
      unfolding 4 encode_group suc t(1) by simp
    moreover have "decode_loop (4 * k) 0 dec (quad (byte x) (byte y) (byte z) @ t) = dec @ s" for dec
      unfolding 4 decode_group suc using t(2) by simp
    ultimately show ?thesis by blast
  qed
qed

lemma from_to_base64: "from_base64 (to_base64 s) = s"
  using encode_decode [of 0 "[]" s] by (auto simp: from_base64_def to_base64_def)

end
