(* ===== verification/FileStore.thy ===== *)
theory FileStore
  imports Vfs
begin

text \<open>
  What a client relies on when it keeps named values in files: the interface of a store, what a
  sequence of its operations leaves behind, and the file system as an instance.
\<close>

locale file_store =
  fixes fetch :: "'s \<Rightarrow> 'k \<Rightarrow> 'v option"
    and store :: "'k \<Rightarrow> 'v \<Rightarrow> 's \<Rightarrow> 's option"
    and erase :: "'k \<Rightarrow> 's \<Rightarrow> 's"
    and inv :: "'s \<Rightarrow> bool"
    and valid :: "'k \<Rightarrow> bool"
  assumes fetch_store: "inv s \<Longrightarrow> valid k \<Longrightarrow> store k v s = Some s' \<Longrightarrow>
      fetch s' j = (if j = k then Some v else fetch s j)"
    and fetch_erase: "inv s \<Longrightarrow> valid k \<Longrightarrow> fetch s k \<noteq> None \<Longrightarrow>
      fetch (erase k s) j = (if j = k then None else fetch s j)"
    and inv_store: "inv s \<Longrightarrow> valid k \<Longrightarrow> store k v s = Some s' \<Longrightarrow> inv s'"
    and inv_erase: "inv s \<Longrightarrow> valid k \<Longrightarrow> fetch s k \<noteq> None \<Longrightarrow> inv (erase k s)"
begin

text \<open>A run of writes, refused when one of them is.\<close>

fun store_all :: "('k \<times> 'v) list \<Rightarrow> 's \<Rightarrow> 's option" where
  "store_all [] s = Some s"
| "store_all ((k, v) # kvs) s = Option.bind (store k v s) (store_all kvs)"

lemma store_all_last:
  "inv s \<Longrightarrow> \<forall>k \<in> fst ` set kvs. valid k \<Longrightarrow> store_all kvs s = Some s' \<Longrightarrow>
     inv s' \<and> fetch s' j = (case map_of (rev kvs) j of Some v \<Rightarrow> Some v | None \<Rightarrow> fetch s j)"
proof (induction kvs arbitrary: s)
  case (Cons kv kvs)
  obtain k v where kv: "kv = (k, v)" by force
  with Cons.prems obtain s1 where s1: "store k v s = Some s1" "store_all kvs s1 = Some s'"
    by (auto simp: bind_eq_Some_conv)
  have "inv s1" "fetch s1 j = (if j = k then Some v else fetch s j)"
    using Cons.prems kv s1 inv_store fetch_store by auto
  with Cons.IH [of s1] Cons.prems s1 kv show ?case
    by (auto simp: map_add_def split: option.splits)
qed simp

lemma store_erase: "inv s \<Longrightarrow> valid k \<Longrightarrow> store k v s = Some s' \<Longrightarrow> fetch s k = None \<Longrightarrow> fetch (erase k s') = fetch s"
proof
  fix j
  assume a: "inv s" "valid k" "store k v s = Some s'" "fetch s k = None"
  then have "inv s'" "fetch s' k \<noteq> None" using inv_store fetch_store by auto
  with a show "fetch (erase k s') j = fetch s j"
    by (simp add: fetch_erase fetch_store)
qed

end

subsection \<open>Regular files by location\<close>

definition file_at :: "'z osys_scheme \<Rightarrow> string list \<Rightarrow> string option" where
  "file_at w p = (case node_at w p of Some (FileN d) \<Rightarrow> Some d | _ \<Rightarrow> None)"

definition write_file :: "string list \<Rightarrow> string \<Rightarrow> 'z osys_scheme \<Rightarrow> 'z osys_scheme option" where
  "write_file p d w = write_at False d p w"

definition unlink :: "string list \<Rightarrow> 'z osys_scheme \<Rightarrow> 'z osys_scheme" where
  "unlink p w = drop_nodes (\<lambda>q. q = p) w"

definition clean_loc :: "string list \<Rightarrow> bool" where
  "clean_loc p \<longleftrightarrow> (\<forall>x \<in> set p. clean_name x)"

lemma map_of_filter_key: "map_of (filter (\<lambda>(q, n). \<not> P q) xs) = (\<lambda>q. if P q then None else map_of xs q)"
  by (induction xs) (auto simp: fun_eq_iff)

lemma node_at_unlink: "p \<noteq> [] \<Longrightarrow> node_at (unlink p w) q = (if q = p then None else node_at w q)"
  by (auto simp: unlink_def drop_nodes_def node_at_def map_of_filter_key)

text \<open>A regular file has nothing below it, so taking it away leaves a tree.\<close>

lemma wf_os_unlink:
  assumes wf: "wf_os w" and f: "node_at w p \<noteq> Some DirN" and p: "p \<noteq> []"
  shows "wf_os (unlink p w)"
proof -
  have "node_at (unlink p w) q = Some DirN" if "node_at w q = Some DirN" for q
    using that f by (auto simp: node_at_unlink [OF p])
  moreover have "set (os_nodes (unlink p w)) \<subseteq> set (os_nodes w)" "os_cwd (unlink p w) = os_cwd w"
    by (auto simp: unlink_def drop_nodes_def)
  moreover have "distinct (map fst (os_nodes (unlink p w)))"
    using wf by (auto simp: wf_os_def unlink_def drop_nodes_def distinct_map_filter)
  ultimately show ?thesis using wf unfolding wf_os_def by (auto 0 3)
qed

interpretation files: file_store file_at write_file unlink wf_os clean_loc
proof
  fix w w' :: "'a osys_scheme" and p v j
  assume wf: "wf_os w" and p: "clean_loc p"
  show "write_file p v w = Some w' \<Longrightarrow> file_at w' j = (if j = p then Some v else file_at w j)"
    unfolding write_file_def
    by (frule write_at_node [of False v p w w' j], erule write_at_cases)
      (auto simp: file_at_def split: option.splits node.splits)
  show "write_file p v w = Some w' \<Longrightarrow> wf_os w'"
    using wf p write_at_wf unfolding write_file_def clean_loc_def by blast
  assume f: "file_at w p \<noteq> None"
  then have ne: "p \<noteq> []" "node_at w p \<noteq> Some DirN"
    by (auto simp: file_at_def node_at_def split: option.splits node.splits)
  then show "file_at (unlink p w) j = (if j = p then None else file_at w j)"
    by (simp add: file_at_def node_at_unlink)
  show "wf_os (unlink p w)" using wf_os_unlink [OF wf] ne by blast
qed

end
