(* ===== verification/FsApi.thy ===== *)
theory FsApi
  imports Neuserver Base64 FileStore
begin

text \<open>
  The native methods of \<^verbatim>\<open>api/fs/fs.cpp\<close>: whole files, opened files, watchers, directories and
  moving. Every method that touches the file system first asks the scope check. \<^verbatim>\<open>getRelativePath\<close>,
  \<^verbatim>\<open>getPathParts\<close> and the events of watchers are in \<open>FsPaths\<close>; the methods on permission bits
  (\<^verbatim>\<open>getPermissions\<close>, \<^verbatim>\<open>setPermissions\<close>, \<^verbatim>\<open>access\<close>, \<^verbatim>\<open>chmod\<close>, \<^verbatim>\<open>chown\<close>) are in \<open>FsPerm\<close>.
\<close>

section \<open>Opened files\<close>

text \<open>
  The stream operations the code uses. \<^verbatim>\<open>peek\<close> resets the count of the last read and notices the
  end; a read that finds too little sets both flags; a directory can be opened but not read.
\<close>

definition good_reader :: "reader \<Rightarrow> bool" where
  "good_reader r \<longleftrightarrow> \<not> rd_eof r \<and> \<not> rd_fail r"

definition rd_peek :: "reader \<Rightarrow> char option \<times> reader" where
  "rd_peek r =
     (let r = r\<lparr>rd_gcount := 0\<rparr>
      in if \<not> good_reader r then (None, r\<lparr>rd_fail := True\<rparr>)
         else if rd_isDir r then (None, r\<lparr>rd_fail := True\<rparr>)
         else if rd_pos r < length (rd_data r) then (Some (rd_data r ! rd_pos r), r)
         else (None, r\<lparr>rd_eof := True\<rparr>))"

definition rd_read :: "nat \<Rightarrow> reader \<Rightarrow> string \<times> reader" where
  "rd_read n r =
     (if \<not> good_reader r then ([], r\<lparr>rd_gcount := 0, rd_fail := True\<rparr>)
      else let got = (if rd_isDir r then [] else take n (drop (rd_pos r) (rd_data r)))
           in (got, r\<lparr>rd_gcount := length got, rd_pos := rd_pos r + length got,
                       rd_eof := (length got < n \<and> \<not> rd_isDir r), rd_fail := (length got < n)\<rparr>))"

definition rd_seek :: "nat \<Rightarrow> reader \<Rightarrow> reader" where
  "rd_seek pos r = r\<lparr>rd_eof := False, rd_fail := False, rd_pos := pos\<rparr>"

definition rd_tell :: "reader \<Rightarrow> int \<times> reader" where
  "rd_tell r = (if good_reader r then (int (rd_pos r), r) else (-1, r\<lparr>rd_fail := True\<rparr>))"

record OpenedFileEvent =
  oe_id :: int
  oe_type :: string
  oe_pos :: int
  oe_size :: int

definition put_reader :: "int \<Rightarrow> reader \<Rightarrow> unit prog" where
  "put_reader i r = modS (\<lambda>w. w\<lparr>fs_openedFiles := upd i r (fs_openedFiles w)\<rparr>)"

definition dispatchOpenedFileEvt :: "int \<Rightarrow> string \<Rightarrow> json \<Rightarrow> unit prog" where
  "dispatchOpenedFileEvt virtualFileId action d =
     dispatch ''openedFile''
       (jput ''data'' d (jput ''action'' (JString action) (jput ''id'' (JInt virtualFileId) JNull)))"

text \<open>\<^verbatim>\<open>.*Binary$\<close>\<close>

definition binary_rx :: rx where
  "binary_rx = RSeq rdots (rlit ''Binary'')"

definition block_size :: "OpenedFileEvent \<Rightarrow> int" where
  "block_size evt = (if oe_size evt > -1 then oe_size evt else 256)"

definition readStreamBlock :: "OpenedFileEvent \<Rightarrow> reader \<Rightarrow> reader prog" where
  "readStreamBlock evt r =
     bindS (getS os_memory) (\<lambda>memory.
     if block_size evt > memory then throwS LengthError
     else let (result, r') = rd_read (nat (block_size evt)) r
          in thenS (put_reader (oe_id evt) r')
            (thenS (if regex_match binary_rx (oe_type evt)
                    then dispatchOpenedFileEvt (oe_id evt) ''dataBinary'' (JString (to_base64 result))
                    else dispatchOpenedFileEvt (oe_id evt) ''data'' (JString result))
                   (retS r')))"

text \<open>
  The loop reads blocks until the end, one block for a single read. A round that reads something
  brings the end nearer; the fuel is more than the rounds that can. Where it runs out, the loop
  goes on for ever.
\<close>

fun read_blocks :: "nat \<Rightarrow> OpenedFileEvent \<Rightarrow> reader \<Rightarrow> reader prog" where
  "read_blocks 0 evt r = throwS Diverges"
| "read_blocks (Suc fuel) evt r =
     (let (next, r1) = rd_peek r
      in thenS (put_reader (oe_id evt) r1)
         (if next = None then retS r1
          else bindS (readStreamBlock evt r1) (\<lambda>r2.
               if oe_type evt = ''read'' \<or> oe_type evt = ''readBinary'' then retS r2
               else read_blocks fuel evt r2)))"

definition stream_fuel :: "reader \<Rightarrow> nat" where
  "stream_fuel r = length (rd_data r) + 2"

definition readStream :: "OpenedFileEvent \<Rightarrow> reader \<Rightarrow> unit prog" where
  "readStream evt r =
     (if rd_eof r then dispatchOpenedFileEvt (oe_id evt) ''end'' JNull
      else bindS (read_blocks (stream_fuel r) evt r) (\<lambda>r'.
           if rd_eof r' then dispatchOpenedFileEvt (oe_id evt) ''end'' JNull else retS ()))"

definition openFile :: "string \<Rightarrow> int prog" where
  "openFile filename =
     bindS (getS (\<lambda>w. to_int (int (length (fs_openedFiles w))))) (\<lambda>virtualFileId.
     bindS (getS (\<lambda>w. open_in w filename)) (\<lambda>opened. case opened of
       None \<Rightarrow> retS (-1)
     | Some (_, content) \<Rightarrow>
         thenS (put_reader virtualFileId \<lparr>rd_data = (case content of None \<Rightarrow> [] | Some d \<Rightarrow> d),
                  rd_isDir = (content = None), rd_pos = 0, rd_eof = False, rd_fail = False, rd_gcount = 0\<rparr>)
               (retS virtualFileId)))"

definition is_read_event :: "string \<Rightarrow> bool" where
  "is_read_event t \<longleftrightarrow> t = ''read'' \<or> t = ''readAll'' \<or> t = ''readBinary'' \<or> t = ''readAllBinary''"

definition updateOpenedFile :: "OpenedFileEvent \<Rightarrow> bool prog" where
  "updateOpenedFile evt =
     bindS (getS (\<lambda>w. map_of (fs_openedFiles w) (oe_id evt))) (\<lambda>found. case found of
       None \<Rightarrow> retS False
     | Some r \<Rightarrow>
         if oe_type evt = ''close''
         then thenS (modS (\<lambda>w. w\<lparr>fs_openedFiles := del (oe_id evt) (fs_openedFiles w)\<rparr>)) (retS True)
         else if is_read_event (oe_type evt) then thenS (readStream evt r) (retS True)
         else if oe_type evt = ''seek''
         then thenS (put_reader (oe_id evt) (rd_seek (nat (if oe_pos evt > -1 then oe_pos evt else 0)) r)) (retS True)
         else retS False)"

section \<open>Watchers\<close>

definition createWatcher :: "string \<Rightarrow> int prog" where
  "createWatcher path =
     thenS (modS (\<lambda>w. w\<lparr>fs_fileWatcher := True\<rparr>))
    (bindS (getS (\<lambda>w. find (\<lambda>(wid, p). p = path) (fs_watchListeners w))) (\<lambda>found. case found of
       Some (wid, _) \<Rightarrow> retS wid
     | None \<Rightarrow>
         bindS (getS (\<lambda>w. os_addWatch w (fs_watchListeners w) path)) (\<lambda>watcherId.
         thenS (modS (\<lambda>w. w\<lparr>fs_watchListeners := upd watcherId path (fs_watchListeners w)\<rparr>))
               (retS watcherId))))"

definition removeWatcher :: "int \<Rightarrow> bool prog" where
  "removeWatcher watcherId =
     bindS (getS (\<lambda>w. \<not> fs_fileWatcher w \<or> \<not> has_key watcherId (fs_watchListeners w))) (\<lambda>missing.
     if missing then retS False
     else thenS (modS (\<lambda>w. w\<lparr>fs_watchListeners := del watcherId (fs_watchListeners w)\<rparr>)) (retS True))"

section \<open>Methods\<close>

text \<open>The scope guard, with the answer of a method that is refused.\<close>

definition scoped :: "string \<Rightarrow> FileSystemAccessPermission \<Rightarrow> json prog \<Rightarrow> json prog" where
  "scoped path perm body =
     bindS (readS (hasFileSystemPathAccess path perm)) (\<lambda>ok.
     if ok then body else retS (error_of NE_FS_SCOPERR path))"

abbreviation fsRead :: FileSystemAccessPermission where
  "fsRead \<equiv> FileSystemAccessPermissionRead"

abbreviation fsWrite :: FileSystemAccessPermission where
  "fsWrite \<equiv> FileSystemAccessPermissionWrite"

definition writeOrAppendFile :: "bool \<Rightarrow> native_method" where
  "writeOrAppendFile app input =
     require [''path'', ''data''] input (
     bindS (arg_string input ''path'') (\<lambda>filename.
     bindS (arg_string input ''data'') (\<lambda>d.
     scoped filename fsWrite (
     bindS (writeFile \<lparr>fw_filename = filename, fw_data = d, fw_append = app\<rparr>) (\<lambda>ok.
     retS (if ok then success_output else error_of NE_FS_FILWRER filename))))))"

definition writeOrAppendBinaryFile :: "bool \<Rightarrow> native_method" where
  "writeOrAppendBinaryFile app input =
     require [''path'', ''data''] input (
     bindS (arg_string input ''path'') (\<lambda>filename.
     bindS (arg_string input ''data'') (\<lambda>d.
     scoped filename fsWrite (
     bindS (writeFile \<lparr>fw_filename = filename, fw_data = from_base64 d, fw_append = app\<rparr>) (\<lambda>ok.
     retS (if ok then success_output else error_of NE_FS_FILWRER filename))))))"

definition fs_writeFile :: native_method where
  "fs_writeFile input = writeOrAppendFile False input"

definition fs_appendFile :: native_method where
  "fs_appendFile input = writeOrAppendFile True input"

definition fs_writeBinaryFile :: native_method where
  "fs_writeBinaryFile input = writeOrAppendBinaryFile False input"

definition fs_appendBinaryFile :: native_method where
  "fs_appendBinaryFile input = writeOrAppendBinaryFile True input"

definition fs_createDirectory :: native_method where
  "fs_createDirectory input =
     require [''path''] input (
     bindS (arg_string input ''path'') (\<lambda>path.
     scoped path fsWrite (
     bindS (create_directories path) (\<lambda>made.
     retS (if made then message_output (''Directory '' @ path @ '' was created'') else error_of NE_FS_DIRCRER path)))))"

definition fs_remove :: native_method where
  "fs_remove input =
     require [''path''] input (
     bindS (arg_string input ''path'') (\<lambda>path.
     scoped path fsWrite (
     bindS (remove_all path) (\<lambda>n.
     retS (if n \<noteq> 0 then message_output (path @ '' was removed'') else error_of NE_FS_REMVERR path)))))"

definition read_method :: "(string \<Rightarrow> string) \<Rightarrow> native_method" where
  "read_method encode input =
     require [''path''] input (
     bindS (opt_arg input ''pos'' (-1) arg_long) (\<lambda>pos.
     bindS (opt_arg input ''size'' (-1) arg_long) (\<lambda>len.
     bindS (arg_string input ''path'') (\<lambda>path.
     scoped path fsRead (
     bindS (readS (readFile path \<lparr>fo_pos = pos, fo_size = len\<rparr>)) (\<lambda>r.
     retS (if fr_status r \<noteq> NE_ST_OK then error_of (fr_status r) path
           else return_output (JString (encode (fr_data r))))))))))"

definition fs_readFile :: native_method where
  "fs_readFile input = read_method (\<lambda>d. d) input"

definition fs_readBinaryFile :: native_method where
  "fs_readBinaryFile input = read_method to_base64 input"

definition fs_openFile :: native_method where
  "fs_openFile input =
     require [''path''] input (
     bindS (arg_string input ''path'') (\<lambda>path.
     scoped path fsRead (
     bindS (openFile path) (\<lambda>fileId.
     retS (if fileId = -1 then error_of NE_FS_FILOPER path else return_output (JInt fileId))))))"

definition fs_updateOpenedFile :: native_method where
  "fs_updateOpenedFile input =
     require [''id'', ''event''] input (
     bindS (arg_int input ''id'') (\<lambda>i.
     bindS (arg_string input ''event'') (\<lambda>t.
     bindS (if hasField input ''data'' \<and> is_read_event t then arg_long input ''data'' else retS (-1)) (\<lambda>len.
     bindS (if hasField input ''data'' \<and> \<not> is_read_event t \<and> t = ''seek'' then arg_long input ''data'' else retS (-1)) (\<lambda>pos.
     bindS (updateOpenedFile \<lparr>oe_id = i, oe_type = t, oe_pos = pos, oe_size = len\<rparr>) (\<lambda>ok.
     retS (if ok then success_output else error_of NE_FS_UNLTOUP (to_string i))))))))"

definition fs_getOpenedFileInfo :: native_method where
  "fs_getOpenedFileInfo input =
     require [''id''] input (
     bindS (arg_int input ''id'') (\<lambda>fileId.
     bindS (getS (\<lambda>w. map_of (fs_openedFiles w) fileId)) (\<lambda>found. case found of
       None \<Rightarrow> retS (error_of NE_FS_UNLTFOP (to_string fileId))
     | Some r \<Rightarrow>
         let (pos, r') = rd_tell r
         in thenS (put_reader fileId r')
            (retS (return_output (jput ''lastRead'' (JInt (int (rd_gcount r'))) (jput ''pos'' (JInt pos)
               (jput ''eof'' (JBool (rd_eof r')) (jput ''id'' (JInt fileId) JNull)))))))))"

definition entry_json :: "DirReaderEntry \<Rightarrow> json" where
  "entry_json e = jobj [(''entry'', JString (de_name e)), (''path'', JString (de_path e)),
     (''type'', JString (case de_type e of EntryTypeDir \<Rightarrow> ''DIRECTORY'' | EntryTypeFile \<Rightarrow> ''FILE'' | EntryTypeOther \<Rightarrow> ''OTHER''))]"

text \<open>An output whose \<^verbatim>\<open>returnValue\<close> was set to an empty array at the start.\<close>

definition array_error :: "StatusCode \<Rightarrow> string \<Rightarrow> json" where
  "array_error code param = jput ''error'' (makeErrorPayload code param) (jput ''returnValue'' (JArray []) JNull)"

definition fs_readDirectory :: native_method where
  "fs_readDirectory input =
     (if \<not> hasRequiredFields input [''path''] then retS (array_error NE_RT_NATRTER ''path'')
      else bindS (arg_string input ''path'') (\<lambda>path.
           bindS (opt_arg input ''recursive'' False arg_bool) (\<lambda>recursive.
           bindS (readS (hasFileSystemPathAccess path fsRead)) (\<lambda>ok.
           if \<not> ok then retS (array_error NE_FS_SCOPERR path)
           else bindS (readS (readDirectory path recursive)) (\<lambda>dirResult.
                if dr_status dirResult \<noteq> NE_ST_OK then retS (array_error (dr_status dirResult) path)
                else retS (return_output (JArray (map entry_json (dr_entries dirResult)))))))))"

definition fs_move :: native_method where
  "fs_move input =
     require [''source'', ''destination''] input (
     bindS (arg_string input ''source'') (\<lambda>source.
     bindS (arg_string input ''destination'') (\<lambda>destination.
     scoped source fsWrite (
     scoped destination fsWrite (
     bindS (getS (rename source destination)) (\<lambda>moved. case moved of
       Some w' \<Rightarrow> thenS (modS (\<lambda>_. w')) (retS (message_output ''File move operation was successful''))
     | None \<Rightarrow> retS (error_of NE_FS_MOVEERR (source @ '' -> '' @ destination))))))))"

definition fs_getStats :: native_method where
  "fs_getStats input =
     require [''path''] input (
     bindS (arg_string input ''path'') (\<lambda>path.
     scoped path fsRead (
     bindS (getS (getStats path)) (\<lambda>st.
     retS (if st_status st = NE_ST_OK
           then return_output (jput ''modifiedAt'' (JInt (st_modifiedAt st)) (jput ''createdAt'' (JInt (st_createdAt st))
                (jput ''isDirectory'' (JBool (st_entryType st = EntryTypeDir))
                (jput ''isFile'' (JBool (st_entryType st = EntryTypeFile)) (jput ''size'' (JInt (st_size st)) JNull)))))
           else error_of (st_status st) path)))))"

definition fs_createWatcher :: native_method where
  "fs_createWatcher input =
     require [''path''] input (
     bindS (arg_string input ''path'') (\<lambda>path.
     scoped path fsWrite (
     bindS (createWatcher path) (\<lambda>watcherId.
     retS (if watcherId \<le> 0 then error_of NE_FS_UNLCWAT path else return_output (JInt watcherId))))))"

definition fs_removeWatcher :: native_method where
  "fs_removeWatcher input =
     require [''id''] input (
     bindS (arg_long input ''id'') (\<lambda>watcherId.
     bindS (removeWatcher watcherId) (\<lambda>ok.
     retS (if \<not> ok then error_of NE_FS_NOWATID (to_string watcherId) else return_output (JInt watcherId)))))"

definition fs_getWatchers :: native_method where
  "fs_getWatchers input =
     bindS (getS fs_watchListeners) (\<lambda>ws.
     retS (return_output (JArray (map (\<lambda>(wid, p). jobj [(''id'', JInt wid), (''path'', JString p)]) ws))))"

definition fs_getAbsolutePath :: native_method where
  "fs_getAbsolutePath input =
     require [''path''] input (
     bindS (arg_string input ''path'') (\<lambda>path.
     bindS (readS (\<lambda>w. absolute w path)) (\<lambda>absPath. retS (return_output (JString absPath)))))"

text \<open>\<^verbatim>\<open>joined /= p\<close>: an absolute path replaces what was joined so far.\<close>

definition path_append :: "string \<Rightarrow> string \<Rightarrow> string" where
  "path_append base p =
     (if path_is_abs p then p else if base = [] \<or> last base = CHR ''/'' then base @ p else base @ ''/'' @ p)"

definition fs_getJoinedPath :: native_method where
  "fs_getJoinedPath input =
     require [''paths''] input (
     bindS (liftS (bindR (jat input ''paths'') get_strings)) (\<lambda>paths.
     bindS (getS (\<lambda>w. weakly_canonical w (foldl path_append [] paths))) (\<lambda>p.
     retS (return_output (JString p)))))"

definition fs_getNormalizedPath :: native_method where
  "fs_getNormalizedPath input =
     require [''path''] input (
     bindS (arg_string input ''path'') (\<lambda>path.
     bindS (getS os_platform) (\<lambda>pf. retS (return_output (JString (normalizePath pf path))))))"

definition fs_getUnnormalizedPath :: native_method where
  "fs_getUnnormalizedPath input =
     require [''path''] input (
     bindS (arg_string input ''path'') (\<lambda>path.
     bindS (getS os_platform) (\<lambda>pf. retS (return_output (JString (unNormalizePath pf path))))))"

end
