(* ===== verification/Copy.thy ===== *)
theory Copy
  imports FsApi
begin

text \<open>
  \<^verbatim>\<open>filesystem::copy\<close> as \<^verbatim>\<open>libstdc++\<close> implements it, and the method \<^verbatim>\<open>filesystem.copy\<close> of
  \<^verbatim>\<open>api/fs/fs.cpp\<close>, which also serves the extraction of resources. A copy that fails leaves what it
  copied before. Where both \<^verbatim>\<open>skip_existing\<close> and \<^verbatim>\<open>overwrite_existing\<close> are set, which the standard does
  not allow and \<^verbatim>\<open>filesystem.copy\<close> does, an existing file is skipped.
\<close>

record copy_options =
  co_recursive :: bool
  co_overwrite :: bool
  co_skip :: bool

text \<open>A step that succeeds or sets the error code, and a list of such steps up to the first error.\<close>

fun all_ok :: "('a \<Rightarrow> 's \<Rightarrow> bool \<times> 's) \<Rightarrow> 'a list \<Rightarrow> 's \<Rightarrow> bool \<times> 's" where
  "all_ok f [] s = (True, s)"
| "all_ok f (x # xs) s = (case f x s of (ok, s') \<Rightarrow> if ok then all_ok f xs s' else (False, s'))"

definition copy_file_at :: "copy_options \<Rightarrow> string list \<Rightarrow> string list \<Rightarrow> world \<Rightarrow> bool \<times> world" where
  "copy_file_at opts p q w =
     (case node_at w p of
        Some (FileN d) \<Rightarrow>
          if node_at w q = Some DirN \<or> node_at w q = Some OtherN \<or> p = q then (False, w)
          else if node_at w q \<noteq> None \<and> co_skip opts then (True, w)
          else if node_at w q \<noteq> None \<and> \<not> co_overwrite opts then (False, w)
          else if os_unreadable w p then (False, w)
          else (case write_at False d q w of None \<Rightarrow> (False, w) | Some w' \<Rightarrow> (True, w'))
      | _ \<Rightarrow> (False, w))"

text \<open>
  Copying the node at \<open>p\<close> to \<open>q\<close>. Without \<^verbatim>\<open>recursive\<close> a directory is copied only when no option is set,
  and then without its subdirectories (\<open>inner\<close>); otherwise nothing happens. The depth is bounded by
  the length of a path the system accepts: a directory copied into itself fails there.
\<close>

fun copy_at :: "nat \<Rightarrow> copy_options \<Rightarrow> bool \<Rightarrow> string list \<Rightarrow> string list \<Rightarrow> world \<Rightarrow> bool \<times> world" where
  "copy_at 0 opts inner p q w = (False, w)"
| "copy_at (Suc n) opts inner p q w =
     (let f = node_at w p; t = node_at w q
      in if f = None \<or> f = Some OtherN \<or> t = Some OtherN \<or> p = q then (False, w)
         else if f \<noteq> Some DirN
         then copy_file_at opts p (if t = Some DirN then q @ [last p] else q) w
         else if t \<noteq> None \<and> t \<noteq> Some DirN then (False, w)
         else if co_recursive opts \<or> (\<not> co_overwrite opts \<and> \<not> co_skip opts \<and> \<not> inner)
         then (case (if t = None then mkdir_at q w else Some w) of
             None \<Rightarrow> (False, w)
           | Some w' \<Rightarrow>
               if os_unreadable w' p then (False, w')
               else all_ok (\<lambda>(r, _). copy_at n opts (inner \<or> \<not> co_recursive opts) r (q @ [last r])) (children w' p) w')
         else (True, w))"

definition copy_depth :: nat where
  "copy_depth = 4096"

text \<open>
  Where a new node would be made: a directory may be named with a separator at the end, a file
  may not.
\<close>

definition dir_location :: "world \<Rightarrow> string \<Rightarrow> string list option" where
  "dir_location w s = (let s = c_str s in if s = [] then None
     else walk_names w (path_is_abs s) (rev (dropWhile (\<lambda>n. n = []) (rev (path_names s)))))"

definition fs_copy_tree :: "copy_options \<Rightarrow> string \<Rightarrow> string \<Rightarrow> bool prog" where
  "fs_copy_tree opts source destination = (\<lambda>w.
     case locate w source of
       None \<Rightarrow> (Inr False, w)
     | Some p \<Rightarrow>
         let tree = (node_at w p = Some DirN)
         in if tree \<and> \<not> co_recursive opts \<and> (co_overwrite opts \<or> co_skip opts) \<and> locate w destination = None then (Inr True, w)
            else (case (if tree then dir_location w destination else locate w destination) of
                None \<Rightarrow> (Inr False, w)
              | Some q \<Rightarrow> (case copy_at copy_depth opts False p q w of (ok, w') \<Rightarrow> (Inr ok, w'))))"

definition fs_copy :: native_method where
  "fs_copy input =
     require [''source'', ''destination''] input (
     bindS (arg_string input ''source'') (\<lambda>source.
     bindS (arg_string input ''destination'') (\<lambda>destination.
     scoped source fsRead (
     scoped destination fsWrite (
     bindS (opt_arg input ''recursive'' True arg_bool) (\<lambda>recursive.
     bindS (opt_arg input ''overwrite'' True arg_bool) (\<lambda>overwrite.
     bindS (opt_arg input ''skip'' False arg_bool) (\<lambda>skip.
     bindS (fs_copy_tree \<lparr>co_recursive = recursive, co_overwrite = overwrite, co_skip = skip\<rparr> source destination) (\<lambda>ok.
     retS (if ok then message_output ''Copy operation was successful''
           else error_of NE_FS_COPYERR (source @ '' -> '' @ destination)))))))))))"

section \<open>What a copy changes\<close>

lemma all_ok_invariant:
  "(\<And>x s ok s'. x \<in> set xs \<Longrightarrow> f x s = (ok, s') \<Longrightarrow> I s \<Longrightarrow> I s') \<Longrightarrow> all_ok f xs s = (ok, s') \<Longrightarrow> I s \<Longrightarrow> I s'"
proof (induction xs arbitrary: s)
  case (Cons x xs)
  obtain b t where t: "f x s = (b, t)" by force
  then have "I t" using Cons.prems(1) [of x s b t] Cons.prems(3) by simp
  then show ?case using Cons.IH [of t] Cons.prems t by (cases b) auto
qed simp

text \<open>A copy consists of writes and new directories at or below the destination.\<close>

lemma copy_at_view:
  assumes wr: "\<And>d p w w'. prefix q0 p \<Longrightarrow> write_at False d p w = Some w' \<Longrightarrow> view w' = view w"
    and mk: "\<And>p w w'. prefix q0 p \<Longrightarrow> mkdir_at p w = Some w' \<Longrightarrow> view w' = view w"
  shows "copy_at n opts inner p q w = (ok, w') \<Longrightarrow> prefix q0 q \<Longrightarrow> view w' = view w"
proof (induction n arbitrary: inner p q w ok w')
  case (Suc n)
  let ?f = "node_at w p" and ?t = "node_at w q"
  have cf: "view w' = view w" if "copy_file_at opts p q' w = (ok, w')" "prefix q0 q'" for q'
    using that wr by (auto simp: copy_file_at_def split: option.splits node.splits if_splits)
  consider "w' = w" | "copy_file_at opts p (if ?t = Some DirN then q @ [last p] else q) w = (ok, w')"
    | v where "(if ?t = None then mkdir_at q w else Some w) = Some v" "w' = v \<or>
        all_ok (\<lambda>(r, _). copy_at n opts (inner \<or> \<not> co_recursive opts) r (q @ [last r])) (children v p) v = (ok, w')"
    using Suc.prems(1) by (auto simp: Let_def split: if_splits option.splits)
  then show ?case
  proof cases
    case 2
    moreover have "prefix q0 (if ?t = Some DirN then q @ [last p] else q)" using Suc.prems(2) by simp
    ultimately show ?thesis by (rule cf)
  next
    case 3
    have v: "view v = view w" using 3(1) Suc.prems(2) mk by (auto split: if_splits)
    have "view w' = view v" if "all_ok (\<lambda>(r, _). copy_at n opts (inner \<or> \<not> co_recursive opts) r (q @ [last r])) (children v p) v = (ok, w')"
    proof (rule all_ok_invariant [where I = "\<lambda>s. view s = view v", OF _ that])
      fix x s b s'
      assume "(case x of (r, _) \<Rightarrow> copy_at n opts (inner \<or> \<not> co_recursive opts) r (q @ [last r])) s = (b, s')" "view s = view v"
      then show "view s' = view v"
        using Suc.IH [of _ "fst x" "q @ [last (fst x)]" s b s'] Suc.prems(2) by (auto simp: split_beta prefix_append)
    qed simp
    with 3(2) v show ?thesis by metis
  qed simp
qed simp

text \<open>Nothing changes outside the destination, and no attribute.\<close>

lemma copy_at_frame:
  assumes "copy_at n opts inner p q w = (ok, w')" "\<not> prefix q r"
  shows "node_at w' r = node_at w r"
proof (rule copy_at_view [where view = "\<lambda>w. node_at w r", OF _ _ assms(1) prefix_order.refl])
  fix p :: "string list" and w w' :: world
  assume "prefix q p"
  then have r: "r \<noteq> p" using assms(2) by auto
  show "node_at w' r = node_at w r" if "write_at False d p w = Some w'" for d
    using write_at_node [OF that, of r] r by simp
  show "node_at w' r = node_at w r" if "mkdir_at p w = Some w'"
    using mkdir_at_node [OF that, of r] r by simp
qed

lemma write_at_attrs: "write_at a d p w = Some w' \<Longrightarrow> os_attrs w' = os_attrs w"
  by (erule write_at_cases) simp

lemma copy_at_attrs:
  assumes "copy_at n opts inner p q w = (ok, w')"
  shows "os_attrs w' = os_attrs w"
  by (rule copy_at_view [where view = os_attrs, OF _ _ assms prefix_order.refl])
    (erule write_at_attrs, auto simp: mkdir_at_def split: if_splits)

end
