(* ===== verification/Demo.thy ===== *)
theory Demo
  imports Vfs
begin

text \<open>
  A small machine and a program started on it, on which the general statements are exercised: a
  home directory with an application and one more user.
\<close>

definition no_image :: image_spec where
  "no_image =
    \<lparr>is_width = 0, is_height = 0, is_bits_per_pixel = 0, is_bytes_per_row = 0, is_red_mask = 0, is_green_mask = 0,
     is_blue_mask = 0, is_red_shift = 0, is_green_shift = 0, is_blue_shift = 0, is_alpha_mask = 0, is_alpha_shift = 0\<rparr>"

definition demo_devices :: devices where
  "demo_devices =
    \<lparr>dv_memory = \<lparr>physical_available = 1, physical_total = 2, virtual_available = 3, virtual_total = 4\<rparr>,
     dv_kernel = \<lparr>ki_variant = kernel_linux, ki_major = 6, ki_minor = 1, ki_patch = 0, ki_build_number = 0\<rparr>,
     dv_system = \<lparr>oi_name = ''Linux'', oi_full_name = ''Linux'', oi_major = 6, oi_minor = 1, oi_patch = 0, oi_build_number = 0\<rparr>,
     dv_cpu = \<lparr>cpu_vendor = ''v'', cpu_model_name = ''m'', cpu_frequency = 1000, cpu_logical = 2, cpu_physical = 2, cpu_packages = 1\<rparr>,
     dv_gpus = [], dv_displays = [], dv_disks = [], dv_hostname = Some ''host'', dv_machineId = [], dv_ifaddrs = None,
     dv_adapters = None, dv_xdisplay = True, dv_setsCursor = (\<lambda>_. True), dv_pointer = (\<lambda>_. (0, 0)), dv_grabs = (\<lambda>_. True),
     dv_clipTakes = (\<lambda>_. True), dv_clipHas = (\<lambda>_ _. False), dv_clipText = (\<lambda>_. []), dv_clipHtml = (\<lambda>_. []),
     dv_clipImage = (\<lambda>_. None), dv_clipSpec = (\<lambda>_. no_image), dv_http = (\<lambda>_. Inl (HttpOther ''Unknown''))\<rparr>"

definition demo_os :: osys where
  "demo_os =
    \<lparr>os_platform = Linux,
     os_nodes = [([''home''], DirN), ([''home'', ''app''], DirN), ([''home'', ''app'', ''a.txt''], FileN ''hello''),
       ([''home'', ''bob''], DirN), ([''home'', ''bob'', ''key''], FileN ''secret'')],
     os_cwd = [''home'', ''app''], os_env = [], 
     os_attrs = (\<lambda>_. \<lparr>at_mode = 0x1A4, at_owner = 1000, at_group = 1000\<rparr>), os_denyRead = (\<lambda>_ _. False),
     os_denyWrite = (\<lambda>_ _. False), os_denyExec = (\<lambda>_ _. False), os_chmod = (\<lambda>a m. Some (a\<lparr>at_mode := m\<rparr>)),
     os_chown = (\<lambda>a u g. None),
     os_dirEnd = (\<lambda>_. 0), os_times = (\<lambda>_. (0, 0)), os_dirSize = (\<lambda>_. 4096), os_memory = 1000000,
     os_parse = (\<lambda>_. None), os_dump = (\<lambda>_. []), os_dump_strict = (\<lambda>_. Inr []), os_folder = (\<lambda>_. Inr ''/home''),
     os_resource = None, os_addWatch = (\<lambda>ws _. int (length ws) + 1),
     os_exec = (\<lambda>_. \<lparr>cr_pid = 1, cr_exitCode = 0, cr_stdErr = [], cr_stdOut = []\<rparr>),
     os_pid = int, os_clocale = ''C'', os_pick = (\<lambda>_ _ _ _ _. []), os_answer = (\<lambda>_. ButtonOk), os_trash = (\<lambda>_. True),
     os_trayInit = True, os_selfPid = 42, os_build = (\<lambda>_. []),
     os_toolkit = \<lparr>tk_size = (\<lambda>_. (800, 600)), tk_position = (\<lambda>_. (0, 0)), tk_maximized = (\<lambda>_. False),
       tk_visible = (\<lambda>_. True), tk_title = (\<lambda>_. []), tk_workarea = (800, 600), tk_initCode = 0, tk_scale = 1, tk_snapshot = (\<lambda>_. True)\<rparr>,
     os_devices = demo_devices, os_devCalls = [], os_mouseTap = False,
     os_log = [], os_started = [], os_shown = [], os_stdin = [], os_stdout = [], os_stderr = []\<rparr>"

definition demo :: world where
  "demo = (initial_world demo_os)\<lparr>settings_appPath := ''/home/app''\<rparr>"

text \<open>The same with scopes: the application may read its own directory and write to it.\<close>

definition demo_scoped :: world where
  "demo_scoped = demo\<lparr>perm_shouldCheckScopesLists := True, perm_fileSystemReadScopes := [''/home/app''],
     perm_fileSystemWriteScopes := [''/home/app'']\<rparr>"

end
