(* ===== verification/FsPaths.thy ===== *)
theory FsPaths
  imports FsApi Demo
begin

text \<open>
  The methods of \<^verbatim>\<open>api/fs/fs.cpp\<close> that compute with paths, \<^verbatim>\<open>getRelativePath\<close> and
  \<^verbatim>\<open>getPathParts\<close>, and the events of a watcher. A relative path leads from its base back to the path.
\<close>

section \<open>Relative paths\<close>

text \<open>\<^verbatim>\<open>std::mismatch\<close>: what is left of two paths after their common beginning.\<close>

fun mismatch_names :: "string list \<Rightarrow> string list \<Rightarrow> string list \<times> string list" where
  "mismatch_names (a # as) (b # bs) = (if a = b then mismatch_names as bs else (a # as, b # bs))"
| "mismatch_names as bs = (as, bs)"

fun levels :: "string list \<Rightarrow> int" where
  "levels [] = 0"
| "levels (n # ns) = (if n = ''..'' then - 1 else if n = [] \<or> n = ''.'' then 0 else 1) + levels ns"

definition relative_names :: "string list \<Rightarrow> string list \<Rightarrow> string list" where
  "relative_names as bs =
     (let (a, b) = mismatch_names as bs; n = levels b
      in if a = [] \<and> b = [] then [''.'']
         else if n = 0 \<and> (a = [] \<or> hd a = []) then [''.'']
         else if n \<ge> 0 then replicate (nat n) ''..'' @ a
         else [])"

text \<open>\<^verbatim>\<open>path::lexically_relative\<close> and \<^verbatim>\<open>filesystem::relative\<close>.\<close>

definition lexically_relative :: "string \<Rightarrow> string \<Rightarrow> string" where
  "lexically_relative p base =
     (if path_is_abs p \<noteq> path_is_abs base then []
      else foldl path_append [] (relative_names (path_names p) (path_names base)))"

definition fs_relative :: "string \<Rightarrow> string \<Rightarrow> world \<Rightarrow> string" where
  "fs_relative p base w = lexically_relative (weakly_canonical w p) (weakly_canonical w base)"

definition fs_getRelativePath :: native_method where
  "fs_getRelativePath input =
     require [''path''] input (
     bindS (arg_string input ''path'') (\<lambda>path.
     bindS (getS getCurrentDirectory) (\<lambda>cwd.
     bindS (opt_arg input ''base'' cwd arg_string) (\<lambda>base.
     bindS (getS (fs_relative path base)) (\<lambda>relPath.
     retS (return_output (JString relPath)))))))"

section \<open>Parts of a path\<close>

definition path_root :: "string \<Rightarrow> string" where
  "path_root s = (if path_is_abs s then ''/'' else [])"

definition path_relative :: "string \<Rightarrow> string" where
  "path_relative s = dropWhile (\<lambda>c. c = CHR ''/'') s"

definition path_filename :: "string \<Rightarrow> string" where
  "path_filename s = rev (takeWhile (\<lambda>c. c \<noteq> CHR ''/'') (rev s))"

text \<open>The extension starts at the last dot, unless that is the first byte of the name.\<close>

definition path_extension :: "string \<Rightarrow> string" where
  "path_extension s =
     (let f = path_filename s; e = rev (takeWhile (\<lambda>c. c \<noteq> CHR ''.'') (rev f))
      in if is_dots f \<or> CHR ''.'' \<notin> set f \<or> length e + 1 = length f then [] else CHR ''.'' # e)"

definition path_stem :: "string \<Rightarrow> string" where
  "path_stem s = take (length (path_filename s) - length (path_extension s)) (path_filename s)"

definition fs_getPathParts :: native_method where
  "fs_getPathParts input =
     require [''path''] input (
     bindS (arg_string input ''path'') (\<lambda>path.
     retS (return_output (jobj [(''rootName'', JString []), (''rootDirectory'', JString (path_root path)),
       (''rootPath'', JString (path_root path)), (''relativePath'', JString (path_relative path)),
       (''parentPath'', JString (parent_path path)), (''filename'', JString (path_filename path)),
       (''stem'', JString (path_stem path)), (''extension'', JString (path_extension path))]))))"

section \<open>Watcher events\<close>

datatype watch_action = WatchAdd | WatchDelete | WatchModified | WatchMoved

fun action_fields :: "watch_action \<Rightarrow> string \<Rightarrow> (string \<times> json) list" where
  "action_fields WatchAdd old = [(''action'', JString ''add'')]"
| "action_fields WatchDelete old = [(''action'', JString ''delete'')]"
| "action_fields WatchModified old = [(''action'', JString ''modified'')]"
| "action_fields WatchMoved old = [(''action'', JString ''moved''), (''oldFilename'', JString old)]"

text \<open>What the watcher library reports, with the time of the report.\<close>

definition dispatchWatcherEvt :: "int \<Rightarrow> string \<Rightarrow> string \<Rightarrow> watch_action \<Rightarrow> string \<Rightarrow> string \<Rightarrow> unit prog" where
  "dispatchWatcherEvt watcherId dir filename action oldFilename timestamp =
     bindS (getS os_platform) (\<lambda>pf.
     dispatch ''watchFile'' (jobj ([(''id'', JInt watcherId), (''dir'', JString (normalizePath pf dir)),
       (''filename'', JString filename), (''timestamp'', JString timestamp)] @ action_fields action oldFilename)))"

section \<open>Properties\<close>

lemma mismatch_common:
  "mismatch_names as bs = (a, b) \<Longrightarrow> \<exists>c. as = c @ a \<and> bs = c @ b"
proof (induction as bs rule: mismatch_names.induct)
  case (1 x as y bs)
  show ?case
  proof (cases "x = y")
    case True
    with 1 obtain c where "as = c @ a" "bs = c @ b" by auto
    with True have "x # as = (x # c) @ a" "y # bs = (x # c) @ b" by simp_all
    then show ?thesis by blast
  qed (use 1 in auto)
qed auto

lemma levels_clean: "\<forall>x \<in> set ns. clean_name x \<Longrightarrow> levels ns = int (length ns)"
  by (induction ns) (auto simp: clean_name_def is_dots_def)

lemma norm_up: "\<forall>x \<in> set (c @ b). clean_name x \<Longrightarrow> norm_names True (c @ b) (replicate (length b) ''..'') = c"
proof (induction b rule: rev_induct)
  case (snoc x b)
  have "x \<noteq> ''..''" using snoc.prems by (simp add: clean_name_def is_dots_def)
  moreover have "norm_names True (c @ b) (replicate (length b) ''..'') = c" using snoc by simp
  ultimately show ?case by (simp del: append_assoc add: append_assoc [symmetric])
qed simp

text \<open>Going up from the base and then down by the rest reaches the path.\<close>

lemma norm_relative_names:
  assumes "\<forall>x \<in> set p. clean_name x" "\<forall>x \<in> set b. clean_name x"
  shows "norm_names True b (relative_names p b) = p"
proof -
  obtain ra rb where m: "mismatch_names p b = (ra, rb)" by force
  then obtain c where c: "p = c @ ra" "b = c @ rb" using mismatch_common by blast
  have n: "levels rb = int (length rb)" using assms(2) c by (simp add: levels_clean)
  have up: "norm_names True b (replicate (length rb) ''..'') = c" using norm_up [of c rb] assms(2) c by simp
  have down: "norm_names True c ra = p" using norm_names_clean_id [of ra True c] assms(1) c by simp
  consider "ra = []" "rb = []" | "rb \<noteq> []" | "rb = []" "ra \<noteq> []" by blast
  then show ?thesis
  proof cases
    case 1
    then show ?thesis using m c by (simp add: relative_names_def)
  next
    case 2
    then show ?thesis using m n up down by (simp add: relative_names_def norm_names_append)
  next
    case 3
    then have "hd ra \<noteq> []" using assms(1) c by (cases ra) (auto simp: clean_name_def)
    with 3 show ?thesis using m n c down by (simp add: relative_names_def)
  qed
qed

lemma path_names_join:
  "\<forall>x \<in> set ns. x \<noteq> [] \<and> CHR ''/'' \<notin> set x \<Longrightarrow> path_names (join_names ns) = ns"
proof (cases "ns = []")
  case False
  assume a: "\<forall>x \<in> set ns. x \<noteq> [] \<and> CHR ''/'' \<notin> set x"
  then have "filter (\<lambda>n. n \<noteq> []) ns = ns" by (simp add: filter_id_conv)
  moreover have "last ns \<noteq> []" using a False by simp
  ultimately show ?thesis using a False by (simp add: path_names_def split_on_join)
qed (simp add: path_names_def)

lemma path_names_slash: "path_names (CHR ''/'' # s) = path_names s"
  by (auto simp: path_names_def Let_def split: list.splits)

lemma path_names_loc: "\<forall>x \<in> set p. clean_name x \<Longrightarrow> path_names (loc_string p) = p"
  by (simp add: loc_string_def path_string_def path_names_slash path_names_join clean_name_def)

lemma join_names_last:
  "ns \<noteq> [] \<Longrightarrow> last ns \<noteq> [] \<Longrightarrow> join_names ns \<noteq> [] \<and> last (join_names ns) = last (last ns)"
  by (induction ns rule: join_names.induct) auto

lemma path_append_join:
  "\<forall>x \<in> set ns. x \<noteq> [] \<and> CHR ''/'' \<notin> set x \<Longrightarrow> foldl path_append [] ns = join_names ns"
proof (induction ns rule: rev_induct)
  case (snoc n ns)
  then have IH: "foldl path_append [] ns = join_names ns" and n: "n \<noteq> []" "CHR ''/'' \<notin> set n" by auto
  have na: "\<not> path_is_abs n" using n by (cases n) (auto simp: path_is_abs_def)
  show ?case
  proof (cases "ns = []")
    case False
    then have "last ns \<in> set ns" by simp
    with snoc.prems have l: "last ns \<noteq> []" "CHR ''/'' \<notin> set (last ns)" by auto
    then have "last (last ns) \<noteq> CHR ''/''" by (metis last_in_set)
    with l False join_names_last [of ns] have "path_append (join_names ns) n = join_names (ns @ [n])"
      by (simp add: path_append_def na join_names_snoc)
    then show ?thesis by (simp add: IH)
  qed (simp add: path_append_def na)
qed simp

lemma set_mismatch: "mismatch_names as bs = (a, b) \<Longrightarrow> set a \<subseteq> set as"
  using mismatch_common by fastforce

lemma relative_names_plain:
  assumes "\<forall>x \<in> set p. clean_name x"
  shows "\<forall>x \<in> set (relative_names p b). x \<noteq> [] \<and> CHR ''/'' \<notin> set x"
proof -
  obtain ra rb where m: "mismatch_names p b = (ra, rb)" by force
  from set_mismatch [OF m] assms have "\<forall>x \<in> set ra. x \<noteq> [] \<and> CHR ''/'' \<notin> set x"
    by (auto simp: clean_name_def)
  then show ?thesis using m by (auto simp: relative_names_def Let_def)
qed

lemma fs_relative_leads_back:
  assumes "weakly_canonical w path = loc_string p" "weakly_canonical w base = loc_string b"
    "\<forall>x \<in> set p. clean_name x" "\<forall>x \<in> set b. clean_name x"
  shows "norm_names True b (path_names (fs_relative path base w)) = p"
proof -
  have "path_is_abs (loc_string q)" for q by (simp add: loc_string_def path_string_def path_is_abs_def)
  then have "fs_relative path base w = join_names (relative_names p b)"
    using assms by (simp add: fs_relative_def lexically_relative_def path_names_loc
        path_append_join relative_names_plain)
  then show ?thesis
    using assms by (simp add: path_names_join relative_names_plain norm_relative_names)
qed

text \<open>
  C19. The path \<^verbatim>\<open>filesystem.getRelativePath\<close> answers leads from the base to the path: followed name by name
  from the location of the base, it ends at the location of the path.
\<close>

theorem getRelativePath_leads_back:
  assumes "jget input ''path'' = JString path" "jget input ''base'' = JString base"
    "weakly_canonical w path = loc_string p" "weakly_canonical w base = loc_string b"
    "\<forall>x \<in> set p. clean_name x" "\<forall>x \<in> set b. clean_name x"
  shows "\<exists>rel. fs_getRelativePath input w = (Inr (return_output (JString rel)), w) \<and>
    norm_names True b (path_names rel) = p"
proof -
  have "hasRequiredFields input [''path'']" "hasField input ''base''" using assms(1,2) by (simp_all add: hasField_iff)
  then have "fs_getRelativePath input w = (Inr (return_output (JString (fs_relative path base w))), w)"
    using assms(1,2) by (simp add: fs_getRelativePath_def require_step arg_string_step opt_arg_def)
  with fs_relative_leads_back [OF assms(3-6)] show ?thesis by blast
qed

theorem getRelativePath_leads_back_witness:
  "fs_getRelativePath (jobj [(''path'', JString ''/home/bob/key''), (''base'', JString ''/home/app'')]) demo =
     (Inr (return_output (JString ''../bob/key'')), demo) \<and>
   (\<exists>rel. norm_names True [''home'', ''app''] (path_names rel) = [''home'', ''bob'', ''key''])"
proof -
  let ?in = "jobj [(''path'', JString ''/home/bob/key''), (''base'', JString ''/home/app'')]"
  have "jget ?in ''path'' = JString ''/home/bob/key''" "jget ?in ''base'' = JString ''/home/app''"
    "weakly_canonical demo ''/home/bob/key'' = loc_string [''home'', ''bob'', ''key'']"
    "weakly_canonical demo ''/home/app'' = loc_string [''home'', ''app'']"
    "\<forall>x \<in> set [''home'', ''bob'', ''key'']. clean_name x" "\<forall>x \<in> set [''home'', ''app'']. clean_name x"
    by code_simp+
  moreover have "fst (fs_getRelativePath ?in demo) = Inr (return_output (JString ''../bob/key''))" by code_simp
  ultimately show ?thesis
    using getRelativePath_leads_back [of ?in "''/home/bob/key''" "''/home/app''" demo "[''home'', ''bob'', ''key'']" "[''home'', ''app'']"]
    by auto
qed

lemma stem_extension: "path_stem s @ path_extension s = path_filename s"
proof -
  let ?f = "path_filename s"
  let ?e = "rev (takeWhile (\<lambda>c. c \<noteq> CHR ''.'') (rev ?f))"
  have "CHR ''.'' \<in> set ?f \<Longrightarrow> suffix (CHR ''.'' # ?e) ?f"
  proof -
    assume "CHR ''.'' \<in> set ?f"
    then have "dropWhile (\<lambda>c. c \<noteq> CHR ''.'') (rev ?f) \<noteq> []" by (simp add: dropWhile_eq_Nil_conv)
    then obtain r where "dropWhile (\<lambda>c. c \<noteq> CHR ''.'') (rev ?f) = CHR ''.'' # r"
      using hd_dropWhile [of "\<lambda>c. c \<noteq> CHR ''.''" "rev ?f"] by (cases "dropWhile (\<lambda>c. c \<noteq> CHR ''.'') (rev ?f)") auto
    then have "rev ?f = takeWhile (\<lambda>c. c \<noteq> CHR ''.'') (rev ?f) @ CHR ''.'' # r"
      using takeWhile_dropWhile_id [of "\<lambda>c. c \<noteq> CHR ''.''" "rev ?f"] by simp
    from arg_cong [OF this, of rev] have "?f = rev r @ CHR ''.'' # ?e" by simp
    then show ?thesis by (rule suffixI)
  qed
  then have "suffix (path_extension s) ?f" by (auto simp: path_extension_def Let_def)
  then show ?thesis by (auto simp: path_stem_def suffix_def)
qed

lemma root_relative: "\<not> prefix ''//'' s \<Longrightarrow> path_root s @ path_relative s = s"
  by (cases s; cases "tl s") (auto simp: path_root_def path_relative_def path_is_abs_def)

end
