(* ===== verification/FsPerm.thy ===== *)
theory FsPerm
  imports FsApi Demo
begin

text \<open>
  The methods of \<^verbatim>\<open>api/fs/fs.cpp\<close> on the attributes of a node: \<^verbatim>\<open>getPermissions\<close>, \<^verbatim>\<open>setPermissions\<close>,
  \<^verbatim>\<open>access\<close>, \<^verbatim>\<open>chmod\<close> and \<^verbatim>\<open>chown\<close>. The kernel decides whether a change is allowed and what becomes of
  the other attributes; that is the environment \<open>os_chmod\<close> and \<open>os_chown\<close>.
\<close>

unbundle bit_operations_syntax

section \<open>Attributes\<close>

text \<open>A change of the attributes of the node a path names; whether it was made.\<close>

definition change_attrs :: "string \<Rightarrow> (attrs \<Rightarrow> attrs option) \<Rightarrow> bool prog" where
  "change_attrs path f = (\<lambda>w. case locate w path of
     None \<Rightarrow> (Inr False, w)
   | Some p \<Rightarrow> (case node_at w p of
       None \<Rightarrow> (Inr False, w)
     | Some n \<Rightarrow> (case f (os_attrs w p) of
         None \<Rightarrow> (Inr False, w)
       | Some a \<Rightarrow> (Inr True, w\<lparr>os_attrs := (os_attrs w)(p := a)\<rparr>))))"

datatype perm_options = perm_replace | perm_add | perm_remove

text \<open>\<^verbatim>\<open>filesystem::permissions\<close>: the bits are set, or added to or taken from the ones there are.\<close>

definition std_permissions :: "string \<Rightarrow> 12 word \<Rightarrow> perm_options \<Rightarrow> bool prog" where
  "std_permissions path prms opts =
     bindS (getS os_chmod) (\<lambda>chmod.
     change_attrs path (\<lambda>a. chmod a (case opts of
       perm_replace \<Rightarrow> prms | perm_add \<Rightarrow> at_mode a OR prms | perm_remove \<Rightarrow> at_mode a AND NOT prms)))"

text \<open>\<^verbatim>\<open>access(2)\<close>: the node exists and every right asked for is there; other bits are refused.\<close>

definition posix_access :: "string \<Rightarrow> int \<Rightarrow> world \<Rightarrow> bool" where
  "posix_access path mode w = (case locate w path of
     None \<Rightarrow> False
   | Some p \<Rightarrow> node_at w p \<noteq> None \<and> 0 \<le> mode \<and> mode \<le> 7 \<and>
       (bit mode 2 \<longrightarrow> \<not> os_unreadable w p) \<and> (bit mode 1 \<longrightarrow> \<not> os_unwritable w p) \<and>
       (bit mode 0 \<longrightarrow> \<not> os_denyExec w (os_attrs w) p))"

section \<open>Permission bits\<close>

text \<open>The names of the permissions and their bits, in the order \<^verbatim>\<open>setPermissions\<close> reads them.\<close>

definition perm_flags :: "(string \<times> 12 word) list" where
  "perm_flags =
    [(''all'', 0x1FF), (''ownerAll'', 0x1C0), (''groupAll'', 0x38), (''othersAll'', 0x7),
     (''ownerRead'', 0x100), (''ownerWrite'', 0x80), (''ownerExec'', 0x40),
     (''groupRead'', 0x20), (''groupWrite'', 0x10), (''groupExec'', 0x8),
     (''othersRead'', 0x4), (''othersWrite'', 0x2), (''othersExec'', 0x1)]"

text \<open>\<^verbatim>\<open>if(helpers::hasField(input, k) && input[k].get<bool>()) permissions |= b\<close>, for every flag.\<close>

fun arg_flags :: "json \<Rightarrow> (string \<times> 12 word) list \<Rightarrow> 12 word \<Rightarrow> 12 word prog" where
  "arg_flags input [] permissions = retS permissions"
| "arg_flags input ((k, b) # flags) permissions =
     bindS (opt_arg input k False arg_bool) (\<lambda>on.
     arg_flags input flags (if on then permissions OR b else permissions))"

definition permissions_json :: "12 word \<Rightarrow> json" where
  "permissions_json perms =
    jobj [(''all'', JBool (perms AND 0x1FF = 0x1FF)),
      (''ownerAll'', JBool (perms AND 0x1C0 = 0x1C0)),
      (''ownerRead'', JBool (perms AND 0x100 \<noteq> 0)),
      (''ownerWrite'', JBool (perms AND 0x80 \<noteq> 0)),
      (''ownerExec'', JBool (perms AND 0x40 \<noteq> 0)),
      (''groupAll'', JBool (perms AND 0x38 = 0x38)),
      (''groupRead'', JBool (perms AND 0x20 \<noteq> 0)),
      (''groupWrite'', JBool (perms AND 0x10 \<noteq> 0)),
      (''groupExec'', JBool (perms AND 0x8 \<noteq> 0)),
      (''othersAll'', JBool (perms AND 0x7 = 0x7)),
      (''othersRead'', JBool (perms AND 0x4 \<noteq> 0)),
      (''othersWrite'', JBool (perms AND 0x2 \<noteq> 0)),
      (''othersExec'', JBool (perms AND 0x1 \<noteq> 0))]"

section \<open>The methods\<close>

definition fs_getPermissions :: native_method where
  "fs_getPermissions input =
     require [''path''] input (
     bindS (arg_string input ''path'') (\<lambda>path.
     scoped path fsRead (
     bindS (getS (getStats path)) (\<lambda>fileStats.
     if st_status fileStats \<noteq> NE_ST_OK then retS (error_of (st_status fileStats) path)
     else bindS (getS (\<lambda>w. case locate w path of Some p \<Rightarrow> at_mode (os_attrs w p) | None \<Rightarrow> 0)) (\<lambda>perms.
          retS (return_output (permissions_json perms)))))))"

definition fs_setPermissions :: native_method where
  "fs_setPermissions input =
     require [''path''] input (
     bindS (arg_string input ''path'') (\<lambda>path.
     scoped path fsWrite (
     bindS (arg_flags input perm_flags 0) (\<lambda>permissions.
     bindS (opt_arg input ''mode'' [] arg_string) (\<lambda>mode.
     let permMode = (if mode = ''ADD'' then perm_add else if mode = ''REMOVE'' then perm_remove else perm_replace)
     in bindS (std_permissions path permissions permMode) (\<lambda>ok.
        retS (if ok then return_output (JInt (uint permissions)) else error_of NE_FS_UNLSTPR path)))))))"

definition fs_access :: native_method where
  "fs_access input =
     require [''path''] input (
     bindS (arg_string input ''path'') (\<lambda>path.
     scoped path fsRead (
     bindS (opt_arg input ''mode'' 0 arg_int) (\<lambda>mode.
     bindS (getS (posix_access path mode)) (\<lambda>ok.
     retS (if ok then success_output else error_of NE_FS_ACSFAIL path))))))"

definition fs_chmod :: native_method where
  "fs_chmod input =
     require [''path'', ''mode''] input (
     bindS (arg_string input ''path'') (\<lambda>path.
     scoped path fsWrite (
     bindS (arg_int input ''mode'') (\<lambda>mode.
     bindS (getS os_chmod) (\<lambda>chmod.
     bindS (change_attrs path (\<lambda>a. chmod a (word_of_int mode))) (\<lambda>ok.
     retS (if ok then success_output else error_of NE_FS_CHMDERR path)))))))"

text \<open>On Windows nothing is done.\<close>

definition fs_chown :: native_method where
  "fs_chown input =
     require [''path'', ''uid'', ''gid''] input (
     bindS (arg_string input ''path'') (\<lambda>path.
     scoped path fsWrite (
     bindS (arg_int input ''uid'') (\<lambda>uid.
     bindS (arg_int input ''gid'') (\<lambda>gid.
     bindS (getS os_platform) (\<lambda>pf.
     if pf = Windows then retS success_output
     else bindS (getS os_chown) (\<lambda>chown.
          bindS (change_attrs path (\<lambda>a. chown a (word_of_int uid) (word_of_int gid))) (\<lambda>ok.
          retS (if ok then success_output else error_of NE_FS_CHWNERR path)))))))))"

section \<open>Properties\<close>

subsection \<open>What changes\<close>

lemma change_attrs_changed:
  assumes "change_attrs s f w = (r, w')" "os_attrs w' p \<noteq> os_attrs w p"
  shows "locate w s = Some p"
  using assms by (auto simp: change_attrs_def split: option.splits if_splits)

lemma change_attrs_nodes: "change_attrs s f w = (r, w') \<Longrightarrow> os_nodes w' = os_nodes w"
  by (auto simp: change_attrs_def split: option.splits)

subsection \<open>Round trip\<close>

lemma jget_permissions:
  "jget (permissions_json m) ''all'' = JBool (m AND 0x1FF = 0x1FF)"
  "jget (permissions_json m) ''ownerAll'' = JBool (m AND 0x1C0 = 0x1C0)"
  "jget (permissions_json m) ''groupAll'' = JBool (m AND 0x38 = 0x38)"
  "jget (permissions_json m) ''othersAll'' = JBool (m AND 0x7 = 0x7)"
  "jget (permissions_json m) ''ownerRead'' = JBool (m AND 0x100 \<noteq> 0)"
  "jget (permissions_json m) ''ownerWrite'' = JBool (m AND 0x80 \<noteq> 0)"
  "jget (permissions_json m) ''ownerExec'' = JBool (m AND 0x40 \<noteq> 0)"
  "jget (permissions_json m) ''groupRead'' = JBool (m AND 0x20 \<noteq> 0)"
  "jget (permissions_json m) ''groupWrite'' = JBool (m AND 0x10 \<noteq> 0)"
  "jget (permissions_json m) ''groupExec'' = JBool (m AND 0x8 \<noteq> 0)"
  "jget (permissions_json m) ''othersRead'' = JBool (m AND 0x4 \<noteq> 0)"
  "jget (permissions_json m) ''othersWrite'' = JBool (m AND 0x2 \<noteq> 0)"
  "jget (permissions_json m) ''othersExec'' = JBool (m AND 0x1 \<noteq> 0)"
  "jget (permissions_json m) ''mode'' = JNull"
  by (simp_all add: permissions_json_def jobj_def jget_object)

text \<open>The union of the masks that lie within a mode.\<close>

definition masks_within :: "12 word \<Rightarrow> 12 word list \<Rightarrow> 12 word \<Rightarrow> 12 word" where
  "masks_within m bs a = foldl (\<lambda>acc b. if m AND b = b then acc OR b else acc) a bs"

lemma bit_masks_within:
  "bit (masks_within m bs a) n \<longleftrightarrow> bit a n \<or> (\<exists>b \<in> set bs. m AND b = b \<and> bit b n)"
  by (induction bs arbitrary: a) (auto simp: masks_within_def bit_or_iff)

lemma exp_within: "(m :: 12 word) AND 2 ^ n \<noteq> 0 \<longleftrightarrow> m AND 2 ^ n = 2 ^ n" if "n < 12"
proof (cases "bit m n")
  case True
  then have "m AND 2 ^ n = 2 ^ n" by (intro bit_word_eqI) (auto simp: bit_and_iff bit_exp_iff)
  then show ?thesis using that by simp
next
  case False
  then show ?thesis using that by (simp add: and_exp_eq_0_iff_not_bit [THEN iffD2])
qed

lemma masks_within_rwx:
  assumes "\<forall>b \<in> set bs. b AND 0x1FF = b" "\<forall>n < 9. 2 ^ n \<in> set bs"
  shows "masks_within m bs 0 = m AND 0x1FF"
proof (rule bit_word_eqI)
  fix n :: nat assume "n < LENGTH(12)"
  have mask: "bit (0x1FF :: 12 word) n \<longleftrightarrow> n < 9"
    using \<open>n < LENGTH(12)\<close> bit_mask_iff [where 'a = "12 word", of 9 n] by (simp add: mask_eq_exp_minus_1)
  have "bit m n \<and> n < 9" if "b \<in> set bs" "m AND b = b" "bit b n" for b
    using that assms(1) mask by (metis bit_and_iff)
  moreover have "\<exists>b \<in> set bs. m AND b = b \<and> bit b n" if "bit m n" "n < 9"
    using that assms(2) exp_within [of n m] by (intro bexI [of _ "2 ^ n"]) (auto simp: and_exp_eq_0_iff_not_bit bit_exp_iff)
  ultimately show "bit (masks_within m bs 0) n = bit (m AND 0x1FF) n"
    using mask by (auto simp: bit_masks_within bit_and_iff)
qed

lemma arg_flags_masks:
  assumes "\<And>k b. (k, b) \<in> set flags \<Longrightarrow> jget input k = JBool (m AND b = b)"
  shows "arg_flags input flags a = retS (masks_within m (map snd flags) a)"
  using assms
proof (induction flags arbitrary: a)
  case (Cons f flags)
  obtain k b where f: "f = (k, b)" by force
  have "jget input k = JBool (m AND b = b)" using Cons.prems f by simp
  then have "opt_arg input k False arg_bool = retS (m AND b = b)"
    by (auto simp: opt_arg_def hasField_iff arg_bool_def hasField_jat liftS_def retS_def)
  with Cons f show ?case by (auto simp: masks_within_def bindS_def retS_def fun_eq_iff)
qed (simp add: masks_within_def)

text \<open>Attributes have no part in the resolution of paths and in the scopes.\<close>

lemma node_at_attrs [simp]: "node_at (w\<lparr>os_attrs := a\<rparr>) = node_at w"
  by (simp add: node_at_def fun_eq_iff)

lemma walk_attrs [simp]: "walk (w\<lparr>os_attrs := a\<rparr>) cur ns = walk w cur ns"
  by (induction ns arbitrary: cur) simp_all

lemma walk_names_attrs [simp]: "walk_names (w\<lparr>os_attrs := a\<rparr>) ab ns = walk_names w ab ns"
  by (simp add: walk_names_def)

lemma locate_attrs [simp]: "locate (w\<lparr>os_attrs := a\<rparr>) s = locate w s"
  by (simp add: locate_def Let_def)

lemma existing_attrs [simp]: "existing (w\<lparr>os_attrs := a\<rparr>) ab pre ns = existing w ab pre ns"
  by (induction ns arbitrary: pre) (simp_all add: names_exist_def)

lemma os_getPath_attrs [simp]: "os_getPath n (w\<lparr>os_attrs := a\<rparr>) = os_getPath n w"
  by (simp add: os_getPath_def)

lemma constants_attrs [simp]: "apply_constants names s (w\<lparr>os_attrs := a\<rparr>) = apply_constants names s w"
  by (induction names arbitrary: s) simp_all

lemma normalizeScopePath_attrs [simp]: "normalizeScopePath s (w\<lparr>os_attrs := a\<rparr>) = normalizeScopePath s w"
  by (simp add: normalizeScopePath_def applyPathConstants_def weakly_canonical_def absolute_def Let_def cong: if_cong)

lemma any_scope_attrs [simp]: "any_scope s scopes (w\<lparr>os_attrs := a\<rparr>) = any_scope s scopes w"
  by (induction scopes) (simp_all add: isPathInScope_def cong: if_cong)

lemma access_attrs [simp]: "hasFileSystemPathAccess s perm (w\<lparr>os_attrs := a\<rparr>) = hasFileSystemPathAccess s perm w"
  by (simp add: hasFileSystemPathAccess_def Let_def)

lemma getStats_status: "locate w s = Some p \<Longrightarrow> node_at w p \<noteq> None \<Longrightarrow> st_status (getStats s w) = NE_ST_OK"
  by (auto simp: getStats_def)

definition path_input :: "string \<Rightarrow> json" where
  "path_input path = jobj [(''path'', JString path)]"

lemma getPermissions_step:
  assumes "hasFileSystemPathAccess s fsRead w = Inr True" "locate w s = Some p" "node_at w p \<noteq> None"
  shows "fs_getPermissions (path_input s) w = (Inr (return_output (permissions_json (at_mode (os_attrs w p)))), w)"
  using assms getStats_status [OF assms(2,3)]
  by (simp add: fs_getPermissions_def path_input_def jobj_def jget_object require_step arg_string_step hasField_iff scoped_def bindS_def)

lemma setPermissions_step:
  assumes "jget input ''path'' = JString s" "jget input ''mode'' = JNull" "arg_flags input perm_flags 0 = retS m"
    "hasFileSystemPathAccess s fsWrite w = Inr True" "locate w s = Some p" "node_at w p \<noteq> None"
    "os_chmod w (os_attrs w p) m = Some a"
  shows "fs_setPermissions input w = (Inr (return_output (JInt (uint m))), w\<lparr>os_attrs := (os_attrs w)(p := a)\<rparr>)"
  using assms
  by (auto simp: fs_setPermissions_def require_step arg_string_step hasField_iff scoped_def bindS_def opt_arg_def
      std_permissions_def change_attrs_def)

lemma permissions_json_rwx: "permissions_json (m AND 0x1FF) = permissions_json m"
  by (simp add: permissions_json_def and.assoc)

lemma perm_flags_within:
  "(k, b) \<in> set perm_flags \<Longrightarrow> jget (jput ''path'' v (permissions_json m)) k = JBool (m AND b = b)"
proof -
  have one: "m AND 0x100 \<noteq> 0 \<longleftrightarrow> m AND 0x100 = 0x100" "m AND 0x80 \<noteq> 0 \<longleftrightarrow> m AND 0x80 = 0x80"
    "m AND 0x40 \<noteq> 0 \<longleftrightarrow> m AND 0x40 = 0x40" "m AND 0x20 \<noteq> 0 \<longleftrightarrow> m AND 0x20 = 0x20"
    "m AND 0x10 \<noteq> 0 \<longleftrightarrow> m AND 0x10 = 0x10" "m AND 0x8 \<noteq> 0 \<longleftrightarrow> m AND 0x8 = 0x8"
    "m AND 0x4 \<noteq> 0 \<longleftrightarrow> m AND 0x4 = 0x4" "m AND 0x2 \<noteq> 0 \<longleftrightarrow> m AND 0x2 = 0x2" "m AND 0x1 \<noteq> 0 \<longleftrightarrow> m AND 0x1 = 0x1"
    using exp_within [of 8 m] exp_within [of 7 m] exp_within [of 6 m] exp_within [of 5 m] exp_within [of 4 m]
      exp_within [of 3 m] exp_within [of 2 m] exp_within [of 1 m] exp_within [of 0 m] by simp_all
  have put: "jget (jput ''path'' v (permissions_json m)) k' = (if k' = ''path'' then v else jget (permissions_json m) k')" for k'
    by (rule jget_jput) (simp add: permissions_json_def jobj_def)
  assume "(k, b) \<in> set perm_flags"
  then show ?thesis unfolding put perm_flags_def by (auto simp only: list.set insert_iff empty_iff prod.inject one jget_permissions) simp_all
qed

lemma arg_flags_permissions:
  "arg_flags (jput ''path'' v (permissions_json m)) perm_flags 0 = retS (m AND 0x1FF)"
proof -
  have "2 ^ n \<in> set (map snd perm_flags)" if "n < 9" for n
    using that by (auto simp: perm_flags_def numeral_eq_Suc less_Suc_eq)
  moreover have "\<forall>b \<in> set (map snd perm_flags). b AND 0x1FF = b" by (simp add: perm_flags_def)
  ultimately have "masks_within m (map snd perm_flags) 0 = m AND 0x1FF" by (intro masks_within_rwx) blast+
  then show ?thesis using arg_flags_masks [of perm_flags "jput ''path'' v (permissions_json m)" m 0] perm_flags_within by metis
qed

text \<open>
  C4. The permissions \<^verbatim>\<open>filesystem.getPermissions\<close> reports for a mode can be handed to
  \<^verbatim>\<open>filesystem.setPermissions\<close> as they are: the node gets the nine permission bits of that mode, the
  attributes of no other node change, and \<^verbatim>\<open>getPermissions\<close> then reports the same object. Both scopes grant the
  path, which names an existing node, and the kernel sets the mode it is asked for.
\<close>

theorem permissions_round_trip:
  assumes "hasFileSystemPathAccess s fsWrite w = Inr True" "hasFileSystemPathAccess s fsRead w = Inr True"
    "locate w s = Some p" "node_at w p \<noteq> None" "os_chmod w (os_attrs w p) (m AND 0x1FF) = Some a" "at_mode a = m AND 0x1FF"
  shows "\<exists>w'. fs_setPermissions (jput ''path'' (JString s) (permissions_json m)) w =
      (Inr (return_output (JInt (uint (m AND 0x1FF)))), w') \<and> os_attrs w' = (os_attrs w)(p := a) \<and>
    fs_getPermissions (path_input s) w' = (Inr (return_output (permissions_json m)), w')"
proof -
  let ?i = "jput ''path'' (JString s) (permissions_json m)" and ?w = "w\<lparr>os_attrs := (os_attrs w)(p := a)\<rparr>"
  have "jget ?i ''path'' = JString s" "jget ?i ''mode'' = JNull"
    by (simp_all add: jget_jput permissions_json_def jobj_def jget_object jput_def)
  then have "fs_setPermissions ?i w = (Inr (return_output (JInt (uint (m AND 0x1FF)))), ?w)"
    using setPermissions_step [OF _ _ arg_flags_permissions assms(1,3,4,5)] by simp
  moreover have "fs_getPermissions (path_input s) ?w = (Inr (return_output (permissions_json m)), ?w)"
    using getPermissions_step [of s ?w p] assms(2-4,6) by (simp add: permissions_json_rwx)
  ultimately show ?thesis by simp
qed

theorem permissions_round_trip_witness:
  "\<exists>w'. fs_setPermissions (jput ''path'' (JString ''a.txt'') (permissions_json 0xFC0)) demo =
      (Inr (return_output (JInt 0x1C0)), w') \<and> fs_getPermissions (path_input ''a.txt'') w' = (Inr (return_output (permissions_json 0xFC0)), w')"
proof -
  have "locate demo ''a.txt'' = Some [''home'', ''app'', ''a.txt'']" "node_at demo [''home'', ''app'', ''a.txt''] = Some (FileN ''hello'')"
    by (simp_all add: demo_def initial_world_def demo_os_def locate_def walk_names_def c_names_def node_at_def c_str_def path_is_abs_def path_names_def)
  then show ?thesis
    using permissions_round_trip [of "''a.txt''" demo "[''home'', ''app'', ''a.txt'']" "0xFC0"
        "\<lparr>at_mode = 0x1C0, at_owner = 1000, at_group = 1000\<rparr>"]
    by (simp add: demo_def initial_world_def demo_os_def hasFileSystemPathAccess_def) blast
qed

end
