(* ===== verification/FsScope.thy ===== *)
theory FsScope
  imports Copy FsPaths FsPerm
begin

text \<open>
  What the scope check is worth: the methods of \<^verbatim>\<open>filesystem\<close> that write to a path change nodes
  below a write scope only, the ones that read answer from below a read scope only, for paths
  without a dollar sign (a path constant) and without a zero byte.
\<close>

definition plain_path :: "string \<Rightarrow> bool" where
  "plain_path s \<longleftrightarrow> CHR 0x00 \<notin> set s \<and> CHR ''$'' \<notin> set s"

definition in_scopes :: "string list list \<Rightarrow> string list \<Rightarrow> bool" where
  "in_scopes qs p \<longleftrightarrow> (\<exists>q \<in> set qs. prefix q p)"

text \<open>The scopes are on, and are the strings of the locations \<open>rs\<close> (to read) and \<open>ws\<close> (to write).\<close>

definition confined :: "string list list \<Rightarrow> string list list \<Rightarrow> world \<Rightarrow> bool" where
  "confined rs ws w \<longleftrightarrow> wf_os w \<and> os_platform w \<noteq> Windows \<and> perm_shouldCheckScopesLists w \<and>
     perm_fileSystemReadScopes w = map loc_string rs \<and> perm_fileSystemWriteScopes w = map loc_string ws \<and>
     (\<forall>q \<in> set (rs @ ws). clean_loc q)"

definition scopes_for :: "FileSystemAccessPermission \<Rightarrow> string list list \<Rightarrow> string list list \<Rightarrow> string list list" where
  "scopes_for perm rs ws = (if perm = FileSystemAccessPermissionWrite then ws else rs)"

subsection \<open>The check\<close>

lemma no_constant:
  assumes "CHR ''$'' \<notin> set s"
  shows "regex_replace (rlit (''${'' @ u)) f s = s"
proof (rule regex_replace_no_match)
  fix p v q
  assume "s = p @ v @ q" "rxl (rlit (''${'' @ u)) v"
  then have "s = p @ (''${'' @ u) @ q" by (simp only: rxl_rlit)
  then show "v = []" using assms by simp
qed

lemma apply_constants_plain:
  assumes "CHR ''$'' \<notin> set s"
  shows "apply_constants names s w = Inr t \<Longrightarrow> t = s"
proof (induction names)
  case (Cons n names)
  have "regex_replace (constant_rx n) p s = s" for p
    using no_constant [OF assms, of "''NL_OS'' @ map toupper n @ ''PATH}''"] by (simp add: constant_rx_def)
  with Cons show ?case by (auto simp: bindR_eq_Inr)
qed simp

lemma applyPathConstants_plain: "plain_path s \<Longrightarrow> applyPathConstants s w = Inr t \<Longrightarrow> t = s"
  using no_constant [of s "''NL_PATH}''"] by (simp add: plain_path_def applyPathConstants_def apply_constants_plain)

lemma access_in_scopes:
  assumes c: "confined rs ws w" and s: "plain_path s" and p: "locate w s = Some p"
    and a: "hasFileSystemPathAccess s perm w = Inr True"
  shows "in_scopes (scopes_for perm rs ws) p"
proof -
  let ?qs = "scopes_for perm rs ws"
  have z: "CHR 0x00 \<notin> set s" and w: "wf_os w" "os_platform w \<noteq> Windows"
    using c s by (simp_all add: confined_def plain_path_def)
  have any: "any_scope s (map loc_string ?qs) w = Inr True" and ne: "?qs \<noteq> []"
    using c a by (auto simp: hasFileSystemPathAccess_def confined_def scopes_for_def Let_def split: if_splits)
  then obtain t where "applyPathConstants s w = Inr t"
    by (cases ?qs; cases "applyPathConstants s w") (auto simp: isPathInScope_def normalizeScopePath_def bindR_eq_Inr)
  then have "normalizeScopePath s w = Inr (loc_string p)"
    using applyPathConstants_plain [OF s] normalizeScopePath_locate [OF w z p] by auto
  from any_scope_locate [OF this, of "map loc_string ?qs"] any
  obtain q where q: "q \<in> set ?qs" "in_scope (loc_string p) (loc_string q)" by auto
  have "\<forall>n \<in> set q. clean_name n"
    using c q(1) by (auto simp: confined_def scopes_for_def clean_loc_def split: if_splits)
  with q in_scope_loc [OF locate_clean [OF w(1) z p]] show ?thesis by (auto simp: in_scopes_def)
qed

lemma access_below:
  assumes "confined rs ws w" "plain_path s" "locate w s = Some p" "hasFileSystemPathAccess s fsWrite w = Inr True"
    "prefix p q"
  shows "in_scopes ws q"
proof -
  obtain r where "r \<in> set ws" "prefix r p"
    using access_in_scopes [OF assms(1-4)] by (auto simp: in_scopes_def scopes_for_def)
  with assms(5) prefix_order.trans show ?thesis unfolding in_scopes_def by blast
qed

lemma scoped_cases:
  assumes "scoped path perm body w = (r, w')"
  obtains "hasFileSystemPathAccess path perm w = Inr True" "body w = (r, w')"
  | "w' = w" "r = Inr (error_of NE_FS_SCOPERR path)" "hasFileSystemPathAccess path perm w = Inr False"
  | e where "w' = w" "r = Inl e"
  using assms by (auto simp: scoped_def bindS_def split: sum.splits if_splits)

subsection \<open>Writing\<close>

lemma node_at_root [simp]: "node_at w [] = Some DirN"
  by (simp add: node_at_def)

text \<open>A location changed: the node there, or its attributes.\<close>

definition changed :: "world \<Rightarrow> world \<Rightarrow> string list \<Rightarrow> bool" where
  "changed w w' p \<longleftrightarrow> node_at w' p \<noteq> node_at w p \<or> os_attrs w' p \<noteq> os_attrs w p"

lemma writeFile_changed:
  "writeFile opts w = (r, w') \<Longrightarrow> changed w w' p \<Longrightarrow> locate w (fw_filename opts) = Some p"
  by (auto simp: writeFile_def write_out_def changed_def write_at_node write_at_attrs split: option.splits if_splits)

lemma node_at_drop: "p \<noteq> [] \<Longrightarrow> \<not> P p \<Longrightarrow> node_at (drop_nodes P w) p = node_at w p"
  by (auto simp: drop_nodes_def node_at_def map_of_filter_key)

lemma remove_all_changed:
  assumes r: "remove_all s w = (r, w')" and q: "changed w w' q"
  shows "\<exists>p. locate w s = Some p \<and> prefix p q"
proof -
  have "w' \<noteq> w" using q by (auto simp: changed_def)
  then obtain p where p: "locate w s = Some p" "w' = drop_nodes (below p) w \<or> w' = drop_nodes (prefix p) w"
    using r by (auto simp: remove_all_def split: option.splits if_splits)
  moreover from this have "q \<noteq> []" using q by (auto simp: changed_def drop_nodes_def)
  ultimately have "below p q \<or> prefix p q"
    using q node_at_drop [of q "below p" w] node_at_drop [of q "prefix p" w] by (auto simp: changed_def drop_nodes_def)
  with p(1) show ?thesis by (auto simp: below_def strict_prefix_def)
qed

lemma map_of_rekey:
  assumes "\<And>k. f k = r \<longleftrightarrow> k = r"
  shows "map_of (map (\<lambda>(k, n). (f k, n)) xs) r = map_of xs r"
  using assms by (induction xs) (simp_all add: split_beta fun_upd_apply eq_commute [of r])

lemma map_of_rename:
  assumes "\<not> prefix p r" "\<not> prefix q r"
  shows "map_of (rename_nodes p q nodes) r = map_of nodes r"
proof -
  have "(if prefix p k then q @ drop (length p) k else k) = r \<longleftrightarrow> k = r" for k
    using assms by auto
  moreover have "r \<noteq> q" using assms(2) by auto
  ultimately show ?thesis
    by (simp add: rename_nodes_def map_of_rekey map_of_filter_key)
qed

lemma rename_changed:
  assumes "rename s t w = Some w'" "changed w w' r"
  obtains p where "locate w s = Some p" "prefix p r" | q where "locate w t = Some q" "prefix q r"
proof -
  obtain p q where pq: "locate w s = Some p" "locate w t = Some q" "w' = w\<lparr>os_nodes := rename_nodes p q (os_nodes w)\<rparr>"
    using assms(1) by (auto simp: rename_def split: option.splits if_splits)
  have "node_at w' r = node_at w r" if "\<not> (prefix p r \<or> prefix q r)"
    using that pq(3) map_of_rename [of p r q "os_nodes w"] by (simp add: node_at_def)
  then have "prefix p r \<or> prefix q r" using assms(2) pq(3) by (auto simp: changed_def)
  with pq that show ?thesis by metis
qed


text \<open>The methods that write, and the locations they can change.\<close>

definition write_methods :: "native_method list" where
  "write_methods = [fs_writeFile, fs_appendFile, fs_writeBinaryFile, fs_appendBinaryFile, fs_remove, fs_copy, fs_move,
     fs_setPermissions, fs_chmod, fs_chown]"

lemma jget_arg:
  assumes "bindR (jat input k) get_string = Inr s"
  shows "jget input k = JString s"
proof -
  obtain v where v: "jat input k = Inr v" "get_string v = Inr s" using assms by (auto simp: bindR_eq_Inr)
  then have "jget input k = v"
    by (cases input) (simp_all add: jat_def jget_def split: option.split_asm)
  moreover have "v = JString s" using v(2) by (cases v) (simp_all add: get_string_def)
  ultimately show ?thesis by simp
qed

text \<open>From a given state, a step changes nodes with a property only. The rules follow the shape of a method.\<close>

definition only :: "(string list \<Rightarrow> bool) \<Rightarrow> 'a prog \<Rightarrow> world \<Rightarrow> bool" where
  "only P m w \<longleftrightarrow> (\<forall>p. changed w (snd (m w)) p \<longrightarrow> P p)"

lemma only_ret: "only P (retS x) w"
  by (simp add: only_def changed_def)

lemma only_require: "only P body w \<Longrightarrow> only P (require keys input body) w"
  by (auto simp: only_def require_def changed_def split: option.splits)

lemma only_arg:
  "(\<And>s. jget input k = JString s \<Longrightarrow> only P (f s) w) \<Longrightarrow> only P (bindS (arg_string input k) f) w"
  by (cases "bindR (jat input k) get_string") (auto simp: only_def arg_string_def bindS_def changed_def dest: jget_arg)

lemma only_scoped:
  "(hasFileSystemPathAccess path perm w = Inr True \<Longrightarrow> only P body w) \<Longrightarrow> only P (scoped path perm body) w"
  by (cases "hasFileSystemPathAccess path perm w") (auto simp: only_def scoped_def bindS_def changed_def)

lemma only_answer:
  "(\<And>r w' p. m w = (r, w') \<Longrightarrow> changed w w' p \<Longrightarrow> P p) \<Longrightarrow> only P (bindS m (\<lambda>v. retS (g v))) w"
  by (cases "m w") (auto simp: only_def bindS_def split: sum.splits)

lemmas only_rules = only_require only_arg only_scoped

lemma only_write:
  assumes c: "confined rs ws w" and s: "\<And>s. jget input ''path'' = JString s \<Longrightarrow> plain_path s"
  shows "only (in_scopes ws) (require [''path'', ''data''] input (
     bindS (arg_string input ''path'') (\<lambda>filename.
     bindS (arg_string input ''data'') (\<lambda>d.
     scoped filename fsWrite (
     bindS (writeFile \<lparr>fw_filename = filename, fw_data = g d, fw_append = app\<rparr>) (\<lambda>ok.
     retS (if ok then success_output else error_of NE_FS_FILWRER filename))))))) w"
  using access_in_scopes [OF c s] writeFile_changed
  by (intro only_rules only_answer) (fastforce simp: scopes_for_def)

lemma only_remove:
  assumes c: "confined rs ws w" and s: "\<And>s. jget input ''path'' = JString s \<Longrightarrow> plain_path s"
  shows "only (in_scopes ws) (fs_remove input) w"
  unfolding fs_remove_def
proof (intro only_rules only_answer)
  fix path r w' p
  assume a: "jget input ''path'' = JString path" "hasFileSystemPathAccess path fsWrite w = Inr True"
    "remove_all path w = (r, w')" "changed w w' p"
  from remove_all_changed [OF a(3,4)] access_below [OF c s [OF a(1)] _ a(2)] show "in_scopes ws p" by blast
qed

lemma only_move:
  assumes c: "confined rs ws w" and s: "\<And>s. jget input ''source'' = JString s \<Longrightarrow> plain_path s"
    and t: "\<And>s. jget input ''destination'' = JString s \<Longrightarrow> plain_path s"
  shows "only (in_scopes ws) (fs_move input) w"
  unfolding fs_move_def
proof (intro only_rules)
  fix source destination
  assume a: "jget input ''source'' = JString source" "jget input ''destination'' = JString destination"
    "hasFileSystemPathAccess source fsWrite w = Inr True" "hasFileSystemPathAccess destination fsWrite w = Inr True"
  have "in_scopes ws q" if "rename source destination w = Some w'" "changed w w' q" for w' q
    using rename_changed [OF that] access_below [OF c s [OF a(1)] _ a(3)] access_below [OF c t [OF a(2)] _ a(4)]
    by metis
  then show "only (in_scopes ws) (bindS (getS (rename source destination)) (\<lambda>moved. case moved of
       Some w' \<Rightarrow> thenS (modS (\<lambda>_. w')) (retS (message_output ''File move operation was successful''))
     | None \<Rightarrow> retS (error_of NE_FS_MOVEERR (source @ '' -> '' @ destination)))) w"
    by (cases "rename source destination w") (simp_all add: only_def changed_def)
qed

subsection \<open>Destinations named as directories\<close>

lemma existing_append:
  "existing w ab pre ns < length pre + length ns \<Longrightarrow> existing w ab pre (ns @ ms) = existing w ab pre ns"
proof (induction ns arbitrary: pre)
  case (Cons n ns)
  then show ?case using Cons.IH [of "pre @ [n]"] by auto
qed simp

lemma lexically_normal_slash:
  assumes "\<forall>x \<in> set p. clean_name x" "p \<noteq> []"
  shows "lexically_normal ab (p @ [[]]) = lexically_normal ab p @ ''/''"
proof -
  have "norm_names ab [] (p @ [[]]) = p" by (simp add: norm_names_append norm_names_clean_id [OF assms(1)])
  moreover have "last p \<noteq> ''..''" using clean_last [OF assms(1)] assms(2) by blast
  ultimately have "lexically_normal ab (p @ [[]]) = path_string ab (p @ [[]])"
    using assms(2) by (simp add: lexically_normal_def Let_def)
  then show ?thesis using assms by (simp add: lexically_normal_clean path_string_def join_names_snoc)
qed

text \<open>A new directory named with a separator at the end is judged as if it had none.\<close>

lemma weakly_canonical_slash:
  assumes wf: "wf_os w" and z: "CHR 0x00 \<notin> set s" "CHR 0x00 \<notin> set t" and t: "locate w t = Some q" "node_at w q = None"
    and s: "path_is_abs s = path_is_abs t" "path_names s = path_names t @ [[]]"
  shows "weakly_canonical w s = weakly_canonical w t @ ''/''"
proof -
  let ?ab = "path_is_abs t" and ?ns = "path_names t"
  define k where "k = existing w ?ab [] ?ns"
  have walk: "walk w (if ?ab then [] else os_cwd w) ?ns = Some q" using locate_walk [OF z(2) t(1)] by blast
  have "\<not> names_exist w ?ab ?ns"
    using walk_names_take [OF z(2), of w ?ab "length ?ns"] walk t(2) by (simp add: names_exist_def)
  moreover have "names_exist w ?ab ?ns" if "k = length ?ns" "?ns \<noteq> []"
    using existing_exists [of "[]" w ?ab ?ns] that by (simp add: k_def)
  moreover have "?ns \<noteq> []" using walk t(2) wf_os_cwd [OF wf] by (auto split: if_splits)
  moreover have "k \<le> length ?ns" using existing_bounds [of "[]" w ?ab ?ns] by (simp add: k_def)
  ultimately have k: "k < length ?ns" by force
  then have k': "existing w ?ab [] (?ns @ [[]]) = k" using existing_append [of w ?ab "[]" ?ns "[[]]"] by (simp add: k_def)
  obtain q0 n where n: "?ns = take k ?ns @ [n]" "walk w (if ?ab then [] else os_cwd w) (take k ?ns) = Some q0"
    "q = q0 @ [n]" "clean_name n" "\<forall>x \<in> set q0. clean_name x"
    by (rule locate_last_missing [OF wf z(2) t(1) k_def k])
  have d: "drop k ?ns = [n]" using n(1) k by (metis append_eq_conv_conj append_take_drop_id same_append_eq)
  have w0: "walk_names w ?ab (take k ?ns) = Some q0" using walk_names_take [OF z(2), of w ?ab k] n(2) by simp
  have wt: "weakly_canonical w t = (if k = 0 then lexically_normal ?ab ?ns else lexically_normal True (q0 @ [n]))"
    using k d w0 by (simp add: weakly_canonical_def Let_def k_def [symmetric])
  have ws: "weakly_canonical w s = (if k = 0 then lexically_normal ?ab (?ns @ [[]]) else lexically_normal True ((q0 @ [n]) @ [[]]))"
    using k d w0 k' by (simp add: weakly_canonical_def Let_def s)
  show ?thesis
  proof (cases "k = 0")
    case True
    then have "?ns = [n]" using n(1) by simp
    then show ?thesis using lexically_normal_slash [of "[n]" ?ab] n(4) True wt ws by simp
  next
    case False
    then show ?thesis using lexically_normal_slash [of "q0 @ [n]" True] n(4,5) wt ws by simp
  qed
qed

lemma dir_location_cases:
  assumes z: "CHR 0x00 \<notin> set s" and q: "dir_location w s = Some q"
  shows "locate w s = Some q \<or> (node_at w q \<noteq> Some DirN \<and> (\<exists>t. CHR 0x00 \<notin> set t \<and> locate w t = Some q \<and>
    path_is_abs s = path_is_abs t \<and> path_names s = path_names t @ [[]]))"
proof -
  let ?ab = "path_is_abs s" and ?ns = "path_names s" and ?strip = "\<lambda>ns. rev (dropWhile (\<lambda>n. n = []) (rev ns)) :: string list"
  have s: "s \<noteq> []" "walk_names w ?ab (?strip ?ns) = Some q" using z q by (auto simp: dir_location_def Let_def split: if_splits)
  define ms where "ms = filter (\<lambda>n. n \<noteq> []) (split_on (CHR ''/'') s)"
  have ms: "\<forall>x \<in> set ms. x \<noteq> [] \<and> CHR ''/'' \<notin> set x" using split_on_no_sep by (auto simp: ms_def)
  have id: "?strip ms = ms" using ms by (cases ms rule: rev_cases) simp_all
  have "?ns = ms \<or> ?ns = ms @ [[]] \<and> ms \<noteq> []" by (simp add: path_names_def ms_def Let_def)
  then consider "?ns = ms" | "?ns = ms @ [[]]" "ms \<noteq> []" by blast
  then show ?thesis
  proof cases
    case 1
    then show ?thesis using s id z by (simp add: locate_def)
  next
    case 2
    have w: "walk_names w ?ab ms = Some q" using s(2) 2(1) id by simp
    define t where "t = path_string ?ab ms"
    have j: "join_names ms \<noteq> [] \<and> \<not> path_is_abs (join_names ms)"
      using 2(2) ms by (cases ms rule: join_names.cases) (auto simp: path_is_abs_def prefix_def append_eq_Cons_conv)
    then have t: "path_is_abs t = ?ab" "path_names t = ms" "t \<noteq> []"
      using ms by (auto simp: t_def path_string_def path_is_abs_def path_names_slash path_names_join)
    have "set (join_names xs) \<subseteq> insert (CHR ''/'') (\<Union> (set ` set xs))" for xs by (induction xs rule: join_names.induct) auto
    moreover have "\<Union> (set ` set ms) \<subseteq> set s" using path_names_chars [of _ s] 2(1) by auto
    ultimately have zt: "CHR 0x00 \<notin> set t" using z by (auto simp: t_def path_string_def)
    have lt: "locate w t = Some q" using w t zt by (simp add: locate_def)
    show ?thesis
    proof (cases "node_at w q = Some DirN")
      case True
      have "walk w (if ?ab then [] else os_cwd w) ms = Some q" using locate_walk [OF zt lt] t by simp
      then have "walk w (if ?ab then [] else os_cwd w) (ms @ [[]]) = Some q" using True by (simp add: walk_append)
      then have "walk_names w ?ab ?ns = Some q" using walk_names_take [OF z, of w ?ab "length ?ns"] 2(1) by simp
      then show ?thesis using s(1) z by (simp add: locate_def)
    next
      case False
      then show ?thesis using lt zt t 2(1) by metis
    qed
  qed
qed

lemma normalizeScopePath_dir:
  assumes c: "confined rs ws w" and s: "plain_path s" "applyPathConstants s w = Inr s" and q: "dir_location w s = Some q"
    "node_at w q = None \<or> node_at w q = Some DirN"
  shows "normalizeScopePath s w = Inr (loc_string q) \<and> (\<forall>x \<in> set q. clean_name x)"
proof -
  have z: "CHR 0x00 \<notin> set s" and wf: "wf_os w" "os_platform w \<noteq> Windows" using c s by (simp_all add: confined_def plain_path_def)
  from dir_location_cases [OF z q(1)] show ?thesis
  proof
    assume "locate w s = Some q"
    then show ?thesis using normalizeScopePath_locate [OF wf z _ s(2)] locate_clean [OF wf(1) z] by blast
  next
    assume "node_at w q \<noteq> Some DirN \<and> (\<exists>t. CHR 0x00 \<notin> set t \<and> locate w t = Some q \<and>
      path_is_abs s = path_is_abs t \<and> path_names s = path_names t @ [[]])"
    then obtain t where t: "CHR 0x00 \<notin> set t" "locate w t = Some q" "node_at w q = None"
      "path_is_abs s = path_is_abs t" "path_names s = path_names t @ [[]]" using q(2) by blast
    have e: "weakly_canonical w s = weakly_canonical w t @ ''/''"
      by (rule weakly_canonical_slash [OF wf(1) z t(1-3) t(4,5)])
    have a: "absolute w (weakly_canonical w t) = Inr (loc_string q)" by (rule weakly_canonical_locate [OF wf(1) t(1,2)])
    then have "absolute w (weakly_canonical w s) = Inr (loc_string q @ ''/'')"
      unfolding e by (auto simp: absolute_def path_is_abs_def split: if_splits)
    moreover have "normalizePath (os_platform w) (loc_string q @ ''/'') = loc_string q"
      using wf(2) by (simp add: normalizePath_unix loc_string_def path_string_def)
    ultimately show ?thesis using s(2) locate_clean [OF wf(1) t(1,2)] by (simp add: normalizeScopePath_def)
  qed
qed

lemma access_dir:
  assumes c: "confined rs ws w" and s: "plain_path s" and q: "dir_location w s = Some q" "node_at w q = None \<or> node_at w q = Some DirN"
    and a: "hasFileSystemPathAccess s fsWrite w = Inr True"
  shows "in_scopes ws q"
proof -
  have any: "any_scope s (map loc_string ws) w = Inr True" and ne: "ws \<noteq> []"
    using c a by (auto simp: hasFileSystemPathAccess_def confined_def Let_def split: if_splits)
  then obtain t where "applyPathConstants s w = Inr t"
    by (cases ws; cases "applyPathConstants s w") (auto simp: isPathInScope_def normalizeScopePath_def bindR_eq_Inr)
  then have n: "normalizeScopePath s w = Inr (loc_string q) \<and> (\<forall>x \<in> set q. clean_name x)"
    using applyPathConstants_plain [OF s] normalizeScopePath_dir [OF c s _ q] by metis
  then obtain r where r: "r \<in> set ws" "in_scope (loc_string q) (loc_string r)"
    using any_scope_locate [of s w "loc_string q" "map loc_string ws"] any by auto
  have "\<forall>n \<in> set r. clean_name n" using c r(1) by (auto simp: confined_def clean_loc_def)
  with r n in_scope_loc [of q r] show ?thesis by (auto simp: in_scopes_def)
qed

lemma copy_at_directory:
  "copy_at n opts inner p q w = (ok, w') \<Longrightarrow> w' \<noteq> w \<Longrightarrow> node_at w p = Some DirN \<Longrightarrow> node_at w q = None \<or> node_at w q = Some DirN"
  by (cases n) (auto simp: Let_def split: if_splits)

lemma fs_copy_tree_changed:
  assumes "fs_copy_tree opts s t w = (r, w')" "changed w w' x"
  obtains q where "prefix q x" "locate w t = Some q \<or> (dir_location w t = Some q \<and> (node_at w q = None \<or> node_at w q = Some DirN))"
proof -
  have "w' \<noteq> w" using assms(2) by (auto simp: changed_def)
  then obtain p q ok where q: "copy_at copy_depth opts False p q w = (ok, w')"
    "(if node_at w p = Some DirN then dir_location w t else locate w t) = Some q"
    using assms(1) by (auto simp: fs_copy_tree_def Let_def split: option.splits if_splits prod.splits)
  have "prefix q x" using copy_at_frame [OF q(1)] copy_at_attrs [OF q(1)] assms(2) by (auto simp: changed_def)
  moreover have "node_at w q = None \<or> node_at w q = Some DirN" if "node_at w p = Some DirN"
    by (rule copy_at_directory [OF q(1) \<open>w' \<noteq> w\<close> that])
  ultimately show ?thesis using that q(2) by (auto split: if_splits)
qed

lemma only_bind_keeps:
  assumes "keeps (\<lambda>w. w) m" "\<And>v. only P (f v) w"
  shows "only P (bindS m f) w"
proof (cases "m w")
  case (Pair r w')
  then have "w' = w" using keepsD' [OF assms(1)] by blast
  with Pair assms(2) show ?thesis by (cases r) (auto simp: only_def changed_def)
qed

lemma only_copy:
  assumes c: "confined rs ws w" and t: "\<And>s. jget input ''destination'' = JString s \<Longrightarrow> plain_path s"
  shows "only (in_scopes ws) (fs_copy input) w"
  unfolding fs_copy_def
proof (intro only_rules, (rule only_bind_keeps, intro keeps_opt_arg keeps_args)+, rule only_answer)
  fix source destination recursive overwrite skip r w' p
  assume a: "jget input ''destination'' = JString destination" "hasFileSystemPathAccess destination fsWrite w = Inr True"
    "fs_copy_tree \<lparr>co_recursive = recursive, co_overwrite = overwrite, co_skip = skip\<rparr> source destination w = (r, w')" "changed w w' p"
  obtain q where q: "prefix q p" "locate w destination = Some q \<or>
      (dir_location w destination = Some q \<and> (node_at w q = None \<or> node_at w q = Some DirN))"
    by (rule fs_copy_tree_changed [OF a(3,4)])
  have "in_scopes ws q"
    using q(2) access_below [OF c t [OF a(1)] _ a(2), of q q] access_dir [OF c t [OF a(1)] _ _ a(2), of q] by auto
  then show "in_scopes ws p" using q(1) prefix_order.trans unfolding in_scopes_def by blast
qed

lemma only_change_attrs:
  assumes c: "confined rs ws w" and s: "plain_path s" and a: "hasFileSystemPathAccess s fsWrite w = Inr True"
  shows "only (in_scopes ws) (bindS (change_attrs s f) (\<lambda>v. retS (g v))) w"
proof (rule only_answer)
  fix r w' p
  assume "change_attrs s f w = (r, w')" "changed w w' p"
  then have "locate w s = Some p"
    using change_attrs_changed change_attrs_nodes by (auto simp: changed_def node_at_def)
  then show "in_scopes ws p" using access_in_scopes [OF c s _ a] by (simp add: scopes_for_def)
qed

lemma only_getS: "only P (bindS (getS h) g) w \<longleftrightarrow> only P (g (h w)) w"
  by (simp add: only_def)

lemma only_permissions:
  "only P (bindS (std_permissions s prms opts) g) w \<longleftrightarrow> only P (bindS (change_attrs s (\<lambda>a. os_chmod w a (case opts of
     perm_replace \<Rightarrow> prms | perm_add \<Rightarrow> at_mode a OR prms | perm_remove \<Rightarrow> at_mode a AND NOT prms))) g) w"
  by (simp add: only_def std_permissions_def bindS_def [of "bindS _ _"] bindS_def [of "change_attrs _ _"])

lemma keeps_arg_flags [simp]: "keeps v (arg_flags input flags a)"
  by (induction flags arbitrary: a) (auto intro!: keeps_bindS keeps_opt_arg)

lemma only_attrs:
  assumes c: "confined rs ws w" and s: "\<And>s. jget input ''path'' = JString s \<Longrightarrow> plain_path s"
  shows "only (in_scopes ws) (fs_setPermissions input) w" "only (in_scopes ws) (fs_chmod input) w"
    "only (in_scopes ws) (fs_chown input) w"
proof -
  note step = only_change_attrs [OF c s]
  show "only (in_scopes ws) (fs_setPermissions input) w" unfolding fs_setPermissions_def Let_def
    by (intro only_rules; (rule only_bind_keeps, intro keeps_opt_arg keeps_args keeps_arg_flags)+) (simp only: only_permissions step)
  show "only (in_scopes ws) (fs_chmod input) w" unfolding fs_chmod_def
    by (intro only_rules; (rule only_bind_keeps, simp)+) (simp only: step)
  show "only (in_scopes ws) (fs_chown input) w" unfolding fs_chown_def
    by (intro only_rules; (rule only_bind_keeps, simp)+) (simp add: only_ret only_getS step)
qed

subsection \<open>All methods that write\<close>

lemma write_methods_only:
  assumes c: "confined rs ws w"
    and s: "\<And>k s. k \<in> {''path'', ''source'', ''destination''} \<Longrightarrow> jget input k = JString s \<Longrightarrow> plain_path s"
    and m: "m \<in> set write_methods"
  shows "only (in_scopes ws) (m input) w"
proof -
  have p: "\<And>s. jget input ''path'' = JString s \<Longrightarrow> plain_path s"
    and q: "\<And>s. jget input ''source'' = JString s \<Longrightarrow> plain_path s"
    and r: "\<And>s. jget input ''destination'' = JString s \<Longrightarrow> plain_path s" using s by blast+
  note defs = fs_writeFile_def fs_appendFile_def fs_writeBinaryFile_def fs_appendBinaryFile_def
    writeOrAppendFile_def writeOrAppendBinaryFile_def
  have "only (in_scopes ws) (fs_writeFile input) w" "only (in_scopes ws) (fs_appendFile input) w"
    "only (in_scopes ws) (fs_writeBinaryFile input) w" "only (in_scopes ws) (fs_appendBinaryFile input) w"
    unfolding defs using only_write [OF c p, where g = "\<lambda>d. d"] only_write [OF c p, where g = from_base64] by blast+
  with m only_remove [OF c p] only_copy [OF c r] only_move [OF c q r] only_attrs [OF c p] show ?thesis
    by (auto simp: write_methods_def)
qed

subsection \<open>Reading\<close>

lemma jget_hasRequired:
  "hasRequiredFields input ks \<longleftrightarrow> (\<forall>k \<in> set ks. jget input k \<noteq> JNull)"
  by (induction ks) (auto simp: hasField_iff)

text \<open>A method that reads one path answers without an error only for a location in a read scope.\<close>

lemma read_method_scope:
  assumes c: "confined rs ws w" and s: "jget input ''path'' = JString s" "plain_path s"
    and r: "read_method enc input w = (Inr out, w')" and ok: "jget out ''error'' = JNull"
  shows "w' = w \<and> (\<exists>p. locate w s = Some p \<and> in_scopes rs p)"
proof -
  have "hasRequiredFields input [''path'']" using s(1) by (simp add: jget_hasRequired)
  then obtain pos len where b: "scoped s fsRead (bindS (readS (readFile s \<lparr>fo_pos = pos, fo_size = len\<rparr>)) (\<lambda>r.
     retS (if fr_status r \<noteq> NE_ST_OK then error_of (fr_status r) s
           else return_output (JString (enc (fr_data r)))))) w = (Inr out, w')"
    using r s(1) by (auto simp: read_method_def require_step arg_string_step bindS_cases opt_arg_def arg_long_def
        split: if_splits)
  then show ?thesis
  proof (rule scoped_cases)
    assume a: "hasFileSystemPathAccess s fsRead w = Inr True"
      and "bindS (readS (readFile s \<lparr>fo_pos = pos, fo_size = len\<rparr>)) (\<lambda>r.
         retS (if fr_status r \<noteq> NE_ST_OK then error_of (fr_status r) s
               else return_output (JString (enc (fr_data r))))) w = (Inr out, w')"
    then obtain f where f: "readFile s \<lparr>fo_pos = pos, fo_size = len\<rparr> w = Inr f" "w' = w"
      "out = (if fr_status f \<noteq> NE_ST_OK then error_of (fr_status f) s else return_output (JString (enc (fr_data f))))"
      by (auto simp: bindS_cases)
    then have "fr_status f = NE_ST_OK" using ok by (auto split: if_splits)
    with f obtain p where "locate w s = Some p"
      by (auto simp: readFile_def open_in_def split: option.splits)
    with access_in_scopes [OF c s(2) _ a] f(2) show ?thesis by (simp add: scopes_for_def)
  qed (use ok in simp_all)
qed

subsection \<open>Round trip\<close>

text \<open>What a write left in a file is what a read of the same path returns.\<close>

lemma write_then_open:
  assumes "write_out False d s w = Some w'" "\<forall>p. locate w s = Some p \<longrightarrow> \<not> os_unreadable w p"
  shows "open_in w' s = Some (int (length d), Some d)"
proof -
  obtain p where p: "locate w s = Some p" "write_at False d p w = Some w'"
    using assms(1) by (auto simp: write_out_def split: option.splits)
  then have "locate w' s = Some p" "os_unreadable w' = os_unreadable w"
    using write_at_locate write_at_frame by fastforce+
  moreover have "node_at w' p = Some (FileN d)"
    using write_at_node [OF p(2)] by (auto split: option.splits node.splits)
  ultimately show ?thesis using assms(2) p(1) by (simp add: open_in_def)
qed

lemma write_out_world: "write_out a d s w = Some w' \<Longrightarrow> \<exists>ns. w' = w\<lparr>os_nodes := ns\<rparr>"
  by (auto simp: write_out_def write_at_def split: option.splits node.splits if_splits)

lemma writer_result:
  assumes "hasRequiredFields input [''path'', ''data'']" "jget input ''path'' = JString s" "jget input ''data'' = JString d"
    and "bindS (arg_string input ''path'') (\<lambda>filename. bindS (arg_string input ''data'') (\<lambda>d.
     scoped filename fsWrite (
     bindS (writeFile \<lparr>fw_filename = filename, fw_data = g d, fw_append = app\<rparr>) (\<lambda>ok.
     retS (if ok then success_output else error_of NE_FS_FILWRER filename))))) w = (Inr success_output, w')"
  shows "write_out app (g d) s w = Some w'"
  using assms(4) unfolding arg_string_step [OF assms(2)] arg_string_step [OF assms(3)] bindS_simps
proof (rule scoped_cases)
  assume "bindS (writeFile \<lparr>fw_filename = s, fw_data = g d, fw_append = app\<rparr>) (\<lambda>ok.
     retS (if ok then success_output else error_of NE_FS_FILWRER s)) w = (Inr success_output, w')"
  then have "writeFile \<lparr>fw_filename = s, fw_data = g d, fw_append = app\<rparr> w = (Inr True, w')"
    by (auto simp: bindS_cases split: if_splits)
  then show ?thesis by (simp add: writeFile_step)
qed simp_all

lemma read_method_returns:
  assumes "jget input ''path'' = JString s" "jget input ''pos'' = JNull" "jget input ''size'' = JNull"
    "hasFileSystemPathAccess s fsRead w = Inr True" "open_in w s = Some (int (length d), Some d)"
    "int (length d) \<le> os_memory w"
  shows "read_method enc input w = (Inr (return_output (JString (enc d))), w)"
proof -
  have "readFile s \<lparr>fo_pos = -1, fo_size = -1\<rparr> w = Inr \<lparr>fr_status = NE_ST_OK, fr_data = d, fr_size = int (length d)\<rparr>"
    using readFile_whole [OF assms(5,6)] by (simp add: default_options_def)
  with assms show ?thesis
    by (simp add: read_method_def require_step jget_hasRequired opt_arg_def hasField_iff arg_string_step scoped_def)
qed

lemma require_success:
  "require keys input body w = (Inr success_output, w') \<Longrightarrow> hasRequiredFields input keys \<and> body w = (Inr success_output, w')"
  by (cases "missingRequiredField input keys")
    (auto simp: require_def missingRequiredField_None error_of_def [symmetric] makeMissingArgErrorPayload_def)

section \<open>Results\<close>


lemma demo_confined: "confined [[''home'', ''app'']] [[''home'', ''app'']] demo_scoped"
  by code_simp

definition put_input :: "string \<Rightarrow> string \<Rightarrow> json" where
  "put_input path d = jobj [(''path'', JString path), (''data'', JString d)]"





text \<open>
  The path constants are expanded for the check only: \<^verbatim>\<open>${NL_PATH}/x\<close> is granted as a path below
  the application, and the directory is then made under a name that starts with a dollar sign,
  wherever the program runs.
\<close>

theorem path_constant_not_expanded:
  "\<exists>w p. confined [[''home'', ''app'']] [[''home'', ''app'']] w \<and>
     fst (fs_createDirectory (path_input ''${NL_PATH}/x'') w) = Inr (message_output ''Directory ${NL_PATH}/x was created'') \<and>
     node_at (snd (fs_createDirectory (path_input ''${NL_PATH}/x'') w)) p \<noteq> node_at w p \<and>
     \<not> in_scopes [[''home'', ''app'']] p"
proof (intro exI conjI)
  let ?w = "demo_scoped\<lparr>os_cwd := [''home'']\<rparr>"
  show "confined [[''home'', ''app'']] [[''home'', ''app'']] ?w" by code_simp
  show "fst (fs_createDirectory (path_input ''${NL_PATH}/x'') ?w) = Inr (message_output ''Directory ${NL_PATH}/x was created'')"
    by code_simp
  show "node_at (snd (fs_createDirectory (path_input ''${NL_PATH}/x'') ?w)) [''home'', ''${NL_PATH}''] \<noteq>
    node_at ?w [''home'', ''${NL_PATH}'']" by code_simp
  show "\<not> in_scopes [[''home'', ''app'']] [''home'', ''${NL_PATH}'']" by code_simp
qed

text \<open>
  C5. Round trip: what \<^verbatim>\<open>filesystem.writeFile\<close> stored under a path is what \<^verbatim>\<open>filesystem.readFile\<close> of the
  same path returns, and the bytes behind a base64 text written by \<^verbatim>\<open>writeBinaryFile\<close> come back from
  \<^verbatim>\<open>readBinaryFile\<close> in base64.
\<close>

theorem write_read_round_trip:
  assumes "jget input ''path'' = JString s" "jget input ''data'' = JString d"
    "jget rinput ''path'' = JString s" "jget rinput ''pos'' = JNull" "jget rinput ''size'' = JNull"
    "\<forall>p. locate w s = Some p \<longrightarrow> \<not> os_unreadable w p" "int (length bytes) \<le> os_memory w"
    "d = (if binary then to_base64 bytes else bytes)"
    "(if binary then fs_writeBinaryFile else fs_writeFile) input w = (Inr success_output, w')"
    "hasFileSystemPathAccess s fsRead w' = Inr True"
  shows "(if binary then fs_readBinaryFile else fs_readFile) rinput w' = (Inr (return_output (JString d)), w')"
proof -
  define g where "g = (if binary then from_base64 else (\<lambda>d. d))"
  have "hasRequiredFields input [''path'', ''data'']" using assms(1,2) by (simp add: jget_hasRequired)
  then have w: "write_out False (g d) s w = Some w'"
    using assms(9) writer_result [OF _ assms(1,2), of g False w w']
    by (auto simp: g_def fs_writeBinaryFile_def fs_writeFile_def writeOrAppendFile_def writeOrAppendBinaryFile_def
        require_step split: if_splits)
  have gd: "g d = bytes" using assms(8) by (simp add: g_def from_to_base64)
  have o: "open_in w' s = Some (int (length bytes), Some bytes)"
    using write_then_open [OF w assms(6)] gd by simp
  have "os_memory w' = os_memory w" using write_out_world [OF w] by auto
  with read_method_returns [OF assms(3-5,10) o, of "if binary then to_base64 else (\<lambda>d. d)"] assms(7,8)
  show ?thesis by (cases binary) (simp_all add: fs_readBinaryFile_def fs_readFile_def)
qed

theorem write_read_round_trip_witness:
  "fst (fs_readFile (path_input ''b'') (snd (fs_writeFile (put_input ''b'' ''x'') demo_scoped))) =
     Inr (return_output (JString ''x''))"
proof -
  let ?w' = "snd (fs_writeFile (put_input ''b'' ''x'') demo_scoped)"
  have "fst (fs_writeFile (put_input ''b'' ''x'') demo_scoped) = Inr success_output" by code_simp
  then have w: "fs_writeFile (put_input ''b'' ''x'') demo_scoped = (Inr success_output, ?w')"
    by (simp add: prod_eq_iff)
  have "jget (put_input ''b'' ''x'') ''path'' = JString ''b''" "jget (put_input ''b'' ''x'') ''data'' = JString ''x''"
    "jget (path_input ''b'') ''path'' = JString ''b''" "jget (path_input ''b'') ''pos'' = JNull"
    "jget (path_input ''b'') ''size'' = JNull" "int (length ''x'') \<le> os_memory demo_scoped"
    "hasFileSystemPathAccess ''b'' fsRead ?w' = Inr True" by code_simp+
  moreover have "\<forall>p. locate demo_scoped ''b'' = Some p \<longrightarrow> \<not> os_unreadable demo_scoped p"
    by (simp add: demo_scoped_def demo_def initial_world_def demo_os_def)
  ultimately have "fs_readFile (path_input ''b'') ?w' = (Inr (return_output (JString ''x'')), ?w')"
    using write_read_round_trip [where binary = False and bytes = "''x''"] w by simp
  then show ?thesis by simp
qed

end
