(* ===== verification/FsStream.thy ===== *)
theory FsStream
  imports FsApi Demo
begin

text \<open>
  Opened files: a read of the whole stream delivers its bytes once, in order, and then the end;
  a block size of zero never returns; and the identifiers \<^verbatim>\<open>openFile\<close> hands out.
\<close>

section \<open>Events\<close>

definition all_conns :: "world \<Rightarrow> (nat \<times> opcode) list" where
  "all_conns w = map (\<lambda>h. (h, opText)) (srv_appConnections w) @ map (\<lambda>(_, h). (h, op_for h w)) (srv_extConnections w)"

definition all_alive :: "world \<Rightarrow> bool" where
  "all_alive w \<longleftrightarrow> (\<forall>h \<in> set (map fst (all_conns w)). srv_alive w h)"

text \<open>The state after messages have gone out to every client, and with the file at a given point.\<close>

definition delivered :: "json list \<Rightarrow> world \<Rightarrow> world" where
  "delivered ms w = w\<lparr>srv_outbox := srv_outbox w @ concat (map (\<lambda>m. sent_to w m (all_conns w)) ms)\<rparr>"

definition with_reader :: "int \<Rightarrow> reader \<Rightarrow> world \<Rightarrow> world" where
  "with_reader i r w = w\<lparr>fs_openedFiles := upd i r (fs_openedFiles w)\<rparr>"

lemma op_for_unchanged [simp]:
  "op_for h (w\<lparr>srv_outbox := x\<rparr>) = op_for h w" "op_for h (w\<lparr>fs_openedFiles := y\<rparr>) = op_for h w"
  by (simp_all add: op_for_def)

lemma all_conns_unchanged [simp]:
  "all_conns (delivered ms w) = all_conns w" "all_conns (with_reader i r w) = all_conns w"
  "all_alive (delivered ms w) = all_alive w" "all_alive (with_reader i r w) = all_alive w"
  "os_memory (delivered ms w) = os_memory w" "os_memory (with_reader i r w) = os_memory w"
  by (simp_all add: all_conns_def all_alive_def delivered_def with_reader_def split_beta)

lemma sent_to_unchanged [simp]:
  "sent_to (delivered ms w) m cs = sent_to w m cs" "sent_to (with_reader i r w) m cs = sent_to w m cs"
  by (simp_all add: sent_to_def delivered_def with_reader_def)

lemma upd_twice [simp]: "upd k v (upd k v' kvs) = upd k v kvs"
  by (induction k v kvs rule: upd.induct) auto

lemma delivered_simps [simp]:
  "delivered [] w = w"
  "delivered ms (delivered ms' w) = delivered (ms' @ ms) w"
  "with_reader i r (delivered ms w) = delivered ms (with_reader i r w)"
  "with_reader i r (with_reader i r' w) = with_reader i r w"
proof -
  show "delivered ms (delivered ms' w) = delivered (ms' @ ms) w"
    unfolding delivered_def [of ms "delivered ms' w"] delivered_def [of "ms' @ ms"]
    by simp (simp add: delivered_def)
  show "with_reader i r (delivered ms w) = delivered ms (with_reader i r w)"
    unfolding delivered_def by (simp add: sent_to_def) (simp add: with_reader_def)
qed (simp_all add: delivered_def with_reader_def)

lemma dispatch_delivered: "all_alive w \<Longrightarrow> dispatch e d w = (Inr (), delivered [makeEventPayload e d] w)"
  unfolding dispatch_def
  by (subst broadcast_alive) (simp_all add: all_alive_def all_conns_def delivered_def image_image split_beta)

lemma put_reader_step: "put_reader i r w = (Inr (), with_reader i r w)"
  by (simp add: put_reader_def with_reader_def)

definition file_event :: "OpenedFileEvent \<Rightarrow> string \<Rightarrow> json \<Rightarrow> json" where
  "file_event evt action d = makeEventPayload ''openedFile''
     (jput ''data'' d (jput ''action'' (JString action) (jput ''id'' (JInt (oe_id evt)) JNull)))"

definition data_event :: "OpenedFileEvent \<Rightarrow> string \<Rightarrow> json" where
  "data_event evt c =
     (if regex_match binary_rx (oe_type evt) then file_event evt ''dataBinary'' (JString (to_base64 c))
      else file_event evt ''data'' (JString c))"

lemma dispatchOpenedFileEvt_step:
  "all_alive w \<Longrightarrow> dispatchOpenedFileEvt (oe_id evt) a d w = (Inr (), delivered [file_event evt a d] w)"
  by (simp add: dispatchOpenedFileEvt_def dispatch_delivered file_event_def)

section \<open>Blocks\<close>

text \<open>A stream that can be read: not a directory, no error so far.\<close>

definition readable :: "reader \<Rightarrow> bool" where
  "readable r \<longleftrightarrow> \<not> rd_isDir r \<and> good_reader r"

definition rest_of :: "reader \<Rightarrow> string" where
  "rest_of r = drop (rd_pos r) (rd_data r)"

fun chunks :: "nat \<Rightarrow> string \<Rightarrow> string list" where
  "chunks n s = (if n = 0 \<or> s = [] then [] else take n s # chunks n (drop n s))"

declare chunks.simps [simp del]

lemma concat_chunks: "0 < n \<Longrightarrow> concat (chunks n s) = s"
  by (induction n s rule: chunks.induct) (subst chunks.simps, simp)

lemma readStreamBlock_step:
  assumes "all_alive w" "block_size evt \<le> os_memory w" "readable r"
  shows "readStreamBlock evt r w =
    (let r' = snd (rd_read (nat (block_size evt)) r)
     in (Inr r', with_reader (oe_id evt) r' (delivered [data_event evt (take (nat (block_size evt)) (rest_of r))] w)))"
proof -
  let ?n = "nat (block_size evt)"
  define r' where "r' = snd (rd_read ?n r)"
  have rd: "rd_read ?n r = (take ?n (rest_of r), r')"
    using assms(3) by (simp add: r'_def rd_read_def readable_def rest_of_def)
  have fits: "(block_size evt > os_memory w) = False" using assms(2) by simp
  have "readStreamBlock evt r w = bindS (put_reader (oe_id evt) r') (\<lambda>_.
      thenS (if regex_match binary_rx (oe_type evt)
        then dispatchOpenedFileEvt (oe_id evt) ''dataBinary'' (JString (to_base64 (take ?n (rest_of r))))
        else dispatchOpenedFileEvt (oe_id evt) ''data'' (JString (take ?n (rest_of r)))) (retS r')) w"
    by (simp only: readStreamBlock_def rd fits bindS_simps Let_def prod.case thenS_def if_False)
  also have "\<dots> = (Inr r', delivered [data_event evt (take ?n (rest_of r))] (with_reader (oe_id evt) r' w))"
    using assms(1) by (cases "regex_match binary_rx (oe_type evt)")
      (simp_all add: put_reader_step dispatchOpenedFileEvt_step data_event_def)
  finally show ?thesis by (simp add: r'_def Let_def)
qed

text \<open>One block read: the position moves on, or the end is reached and the stream is spent.\<close>

lemma rd_read_effect:
  assumes "readable r"
  shows "rest_of (snd (rd_read n r)) = drop n (rest_of r)"
    "n \<le> length (rest_of r) \<Longrightarrow> readable (snd (rd_read n r))"
    "length (rest_of r) < n \<Longrightarrow> rd_eof (snd (rd_read n r)) \<and> rd_fail (snd (rd_read n r))"
  using assms by (auto simp: rd_read_def readable_def rest_of_def good_reader_def min_def add.commute)

lemma rd_peek_some:
  assumes "readable r" "rest_of r \<noteq> []"
  shows "rd_peek r = (Some (hd (rest_of r)), r\<lparr>rd_gcount := 0\<rparr>)"
  using assms by (simp add: rd_peek_def readable_def rest_of_def good_reader_def hd_drop_conv_nth)

lemma rd_peek_none:
  assumes "rd_eof r \<or> readable r \<and> rest_of r = []"
  shows "fst (rd_peek r) = None \<and> rd_eof (snd (rd_peek r))"
  using assms by (auto simp: rd_peek_def readable_def rest_of_def good_reader_def)

lemma gcount_irrelevant [simp]:
  "readable (r\<lparr>rd_gcount := x\<rparr>) = readable r" "rest_of (r\<lparr>rd_gcount := x\<rparr>) = rest_of r"
  by (simp_all add: readable_def rest_of_def good_reader_def)

definition reads_all :: "OpenedFileEvent \<Rightarrow> bool" where
  "reads_all evt \<longleftrightarrow> oe_type evt = ''readAll'' \<or> oe_type evt = ''readAllBinary''"

lemma read_blocks_end:
  assumes "rd_eof r \<or> readable r \<and> rest_of r = []" "0 < fuel"
  shows "\<exists>r'. rd_eof r' \<and> read_blocks fuel evt r w = (Inr r', with_reader (oe_id evt) r' w)"
  using rd_peek_none [OF assms(1)] assms(2)
  by (cases fuel) (auto simp: split_beta put_reader_step)

lemma read_blocks_all:
  assumes "0 < block_size evt" "block_size evt \<le> os_memory w" "reads_all evt" "all_alive w" "readable r"
    "length (rest_of r) + 1 < fuel"
  shows "\<exists>r'. rd_eof r' \<and> read_blocks fuel evt r w =
    (Inr r', with_reader (oe_id evt) r' (delivered (map (data_event evt) (chunks (nat (block_size evt)) (rest_of r))) w))"
  using assms
proof (induction fuel arbitrary: r w)
  case (Suc fuel)
  let ?n = "nat (block_size evt)" and ?s = "rest_of r"
  show ?case
  proof (cases "?s = []")
    case True
    with read_blocks_end [of r "Suc fuel" evt w] Suc.prems show ?thesis by (simp add: chunks.simps)
  next
    case False
    define r2 where "r2 = snd (rd_read ?n (r\<lparr>rd_gcount := 0\<rparr>))"
    define w2 where "w2 = with_reader (oe_id evt) r2 (delivered [data_event evt (take ?n ?s)] w)"
    have "oe_type evt \<noteq> ''read''" "oe_type evt \<noteq> ''readBinary''"
      using Suc.prems(3) by (auto simp: reads_all_def)
    then have step: "read_blocks (Suc fuel) evt r w = read_blocks fuel evt r2 w2"
      using Suc.prems False readStreamBlock_step [of "with_reader (oe_id evt) (r\<lparr>rd_gcount := 0\<rparr>) w" evt "r\<lparr>rd_gcount := 0\<rparr>"]
      by (simp add: rd_peek_some put_reader_step r2_def w2_def Let_def)
    have cs: "chunks ?n ?s = take ?n ?s # chunks ?n (drop ?n ?s)"
      using False Suc.prems(1) by (subst chunks.simps) simp
    have rest: "rest_of r2 = drop ?n ?s"
      using Suc.prems rd_read_effect(1) [of "r\<lparr>rd_gcount := 0\<rparr>"] by (simp add: r2_def)
    show ?thesis
    proof (cases "?n \<le> length ?s")
      case True
      then have "readable r2" using Suc.prems rd_read_effect(2) [of "r\<lparr>rd_gcount := 0\<rparr>"] by (simp add: r2_def)
      moreover have "length (rest_of r2) + 1 < fuel" using rest Suc.prems(1,6) True by simp
      ultimately show ?thesis
        using Suc.IH [of w2 r2] Suc.prems step by (auto simp: w2_def rest cs)
    next
      case False
      then have "rd_eof r2" using Suc.prems rd_read_effect(3) [of "r\<lparr>rd_gcount := 0\<rparr>" ?n] by (simp add: r2_def)
      moreover have "chunks ?n (drop ?n ?s) = []" using False by (simp add: chunks.simps)
      moreover have "0 < fuel" using Suc.prems(6) by simp
      ultimately show ?thesis
        using read_blocks_end [of r2 fuel evt w2] step cs by (auto simp: w2_def)
    qed
  qed
qed simp

text \<open>A block of no bytes brings the end no nearer.\<close>

lemma read_blocks_stuck:
  assumes "block_size evt = 0" "0 \<le> os_memory w" "reads_all evt" "all_alive w" "readable r" "rest_of r \<noteq> []"
  shows "fst (read_blocks fuel evt r w) = Inl Diverges"
  using assms
proof (induction fuel arbitrary: r w)
  case (Suc fuel)
  let ?r = "r\<lparr>rd_gcount := 0\<rparr>" and ?w = "with_reader (oe_id evt) (r\<lparr>rd_gcount := 0\<rparr>) w"
  define r2 where "r2 = snd (rd_read 0 ?r)"
  define w2 where "w2 = with_reader (oe_id evt) r2 (delivered [data_event evt []] ?w)"
  have "oe_type evt \<noteq> ''read''" "oe_type evt \<noteq> ''readBinary''"
    using Suc.prems(3) by (auto simp: reads_all_def)
  then have "read_blocks (Suc fuel) evt r w = read_blocks fuel evt r2 w2"
    using Suc.prems readStreamBlock_step [of ?w evt ?r]
    by (simp add: rd_peek_some put_reader_step r2_def w2_def Let_def)
  moreover have "readable r2" "rest_of r2 \<noteq> []"
    using Suc.prems rd_read_effect(1,2) [of ?r 0] by (simp_all add: r2_def)
  ultimately show ?case using Suc.IH [of w2 r2] Suc.prems by (simp add: w2_def)
qed simp

section \<open>Results\<close>

text \<open>
  C6. Reading an opened file to its end: with a positive block size that fits in memory, and clients
  that are all connected, \<^verbatim>\<open>updateOpenedFile\<close> returns, and what the clients received are the data
  events of the bytes left in the file, cut into blocks, followed by one end event; the blocks make
  up exactly the bytes that were left.
\<close>

theorem readAll_delivers:
  assumes "map_of (fs_openedFiles w) (oe_id evt) = Some r" "reads_all evt" "readable r"
    "0 < block_size evt" "block_size evt \<le> os_memory w" "all_alive w"
  shows "concat (chunks (nat (block_size evt)) (rest_of r)) = rest_of r \<and>
    (\<exists>r'. rd_eof r' \<and> updateOpenedFile evt w =
      (Inr True, with_reader (oe_id evt) r' (delivered
        (map (data_event evt) (chunks (nat (block_size evt)) (rest_of r)) @ [file_event evt ''end'' JNull]) w)))"
proof -
  have "length (rest_of r) + 1 < stream_fuel r" by (simp add: stream_fuel_def rest_of_def)
  then obtain r' where r': "rd_eof r'" "read_blocks (stream_fuel r) evt r w = (Inr r', with_reader (oe_id evt) r'
      (delivered (map (data_event evt) (chunks (nat (block_size evt)) (rest_of r))) w))"
    using read_blocks_all [OF assms(4,5,2,6,3)] by blast
  have "\<not> rd_eof r" using assms(3) by (simp add: readable_def good_reader_def)
  with r' assms(6) have "readStream evt r w = (Inr (), with_reader (oe_id evt) r' (delivered
      (map (data_event evt) (chunks (nat (block_size evt)) (rest_of r)) @ [file_event evt ''end'' JNull]) w))"
    by (simp add: readStream_def dispatchOpenedFileEvt_step)
  moreover have "oe_type evt \<noteq> ''close''" "is_read_event (oe_type evt)"
    using assms(2) by (auto simp: reads_all_def is_read_event_def)
  ultimately have "updateOpenedFile evt w = (Inr True, with_reader (oe_id evt) r' (delivered
      (map (data_event evt) (chunks (nat (block_size evt)) (rest_of r)) @ [file_event evt ''end'' JNull]) w))"
    using assms(1) by (simp add: updateOpenedFile_def)
  with r'(1) concat_chunks [of "nat (block_size evt)" "rest_of r"] assms(4) show ?thesis by auto
qed

definition demo_reader :: reader where
  "demo_reader = \<lparr>rd_data = ''hello'', rd_isDir = False, rd_pos = 1, rd_eof = False, rd_fail = False, rd_gcount = 0\<rparr>"

definition demo_reading :: world where
  "demo_reading = demo\<lparr>fs_openedFiles := [(0, demo_reader)], srv_appConnections := [7]\<rparr>"

definition demo_read :: "int \<Rightarrow> OpenedFileEvent" where
  "demo_read n = \<lparr>oe_id = 0, oe_type = ''readAll'', oe_pos = -1, oe_size = n\<rparr>"

lemma demo_reading_facts:
  "map_of (fs_openedFiles demo_reading) (oe_id (demo_read n)) = Some demo_reader" "reads_all (demo_read n)"
  "readable demo_reader" "all_alive demo_reading" "rest_of demo_reader = ''ello''"
  "os_memory demo_reading = 1000000"
  by (simp_all add: demo_reading_def demo_read_def reads_all_def readable_def demo_reader_def good_reader_def
      all_alive_def all_conns_def demo_def initial_world_def demo_os_def rest_of_def)

theorem readAll_delivers_witness:
  "fst (updateOpenedFile (demo_read 3) demo_reading) = Inr True \<and> chunks 3 ''ello'' = [''ell'', ''o'']"
proof -
  have "chunks 3 ''ello'' = [''ell'', ''o'']" by (simp add: chunks.simps)
  with readAll_delivers [of demo_reading "demo_read 3" demo_reader] demo_reading_facts show ?thesis
    by (auto simp: block_size_def demo_read_def)
qed

text \<open>
  C7. A block size of zero: as long as bytes are left to read, \<^verbatim>\<open>readAll\<close> never returns, while the lock of
  the opened files is held.
\<close>

theorem readAll_zero_diverges:
  assumes "map_of (fs_openedFiles w) (oe_id evt) = Some r" "reads_all evt" "readable r" "rest_of r \<noteq> []"
    "block_size evt = 0" "0 \<le> os_memory w" "all_alive w"
  shows "fst (read_blocks fuel evt r w) = Inl Diverges \<and> fst (updateOpenedFile evt w) = Inl Diverges"
proof -
  have d: "fst (read_blocks fuel evt r w) = Inl Diverges" for fuel
    using read_blocks_stuck [OF assms(5,6,2,7,3,4)] .
  then obtain w' where "read_blocks (stream_fuel r) evt r w = (Inl Diverges, w')" by (metis prod.collapse)
  moreover have "\<not> rd_eof r" using assms(3) by (simp add: readable_def good_reader_def)
  ultimately have "readStream evt r w = (Inl Diverges, w')" by (simp add: readStream_def)
  moreover have "oe_type evt \<noteq> ''close''" "is_read_event (oe_type evt)"
    using assms(2) by (auto simp: reads_all_def is_read_event_def)
  ultimately show ?thesis using d assms(1) by (simp add: updateOpenedFile_def)
qed

theorem readAll_zero_diverges_witness: "fst (updateOpenedFile (demo_read 0) demo_reading) = Inl Diverges"
  using readAll_zero_diverges [of demo_reading "demo_read 0" demo_reader] demo_reading_facts
  by (simp add: block_size_def demo_read_def)

section \<open>Identifiers\<close>

text \<open>
  C8. The identifier of a newly opened file is the number of open files. While the open ones are
  numbered without a gap it is a new one; after an earlier file was closed it is the number of a file
  that is still open, whose stream is replaced.
\<close>

theorem openFile_identifier:
  assumes "open_in w f = Some (n, Some d)" "sorted_keys (fs_openedFiles w)"
    "fst ` set (fs_openedFiles w) = {0..<k} - gone" "gone \<subseteq> {0..<k}" "card gone = c" "k < 2 ^ 31" "0 \<le> k"
  shows "\<exists>w'. openFile f w = (Inr (k - int c), w') \<and>
    map_of (fs_openedFiles w') (k - int c) =
      Some \<lparr>rd_data = d, rd_isDir = False, rd_pos = 0, rd_eof = False, rd_fail = False, rd_gcount = 0\<rparr> \<and>
    (map_of (fs_openedFiles w) (k - int c) = None \<longleftrightarrow> k - int c \<in> insert k gone)"
proof -
  have fin: "finite gone" using assms(4) finite_subset by blast
  have "length (fs_openedFiles w) = card (fst ` set (fs_openedFiles w))"
    using sorted_keys_distinct [OF assms(2)] by (metis distinct_card length_map list.set_map)
  also have "\<dots> = nat k - c" using assms(3-5) fin by (simp add: card_Diff_subset)
  finally have len: "length (fs_openedFiles w) = nat k - c" .
  have c: "c \<le> nat k" using assms(4,5) card_mono [of "{0..<k}" gone] by simp
  with len assms(6,7) have i: "to_int (int (length (fs_openedFiles w))) = k - int c"
    by (subst to_int_id) auto
  have "map_of (fs_openedFiles w) (k - int c) = None \<longleftrightarrow> k - int c \<notin> {0..<k} - gone"
    using assms(3) by (simp add: map_of_eq_None_iff)
  also have "\<dots> \<longleftrightarrow> k - int c \<in> insert k gone" using c assms(7) by auto
  finally show ?thesis using assms(1) i by (simp add: openFile_def put_reader_def)
qed

theorem openFile_identifier_witness:
  "\<exists>w'. openFile ''a.txt'' (demo\<lparr>fs_openedFiles := [(1, demo_reader)]\<rparr>) = (Inr 1, w') \<and>
     map_of (fs_openedFiles w') 1 =
      Some \<lparr>rd_data = ''hello'', rd_isDir = False, rd_pos = 0, rd_eof = False, rd_fail = False, rd_gcount = 0\<rparr>"
proof -
  have "open_in (demo\<lparr>fs_openedFiles := [(1, demo_reader)]\<rparr>) ''a.txt'' = Some (5, Some ''hello'')" by code_simp
  moreover have "{0..<2} - {0} = {1 :: int}" by auto
  ultimately show ?thesis
    using openFile_identifier [of "demo\<lparr>fs_openedFiles := [(1, demo_reader)]\<rparr>" "''a.txt''" 5 "''hello''" 2 "{0}" 1]
    by (auto simp: sorted_keys_def)
qed

end
