(* ===== verification/Storage.thy ===== *)
theory Storage
  imports FsScope
begin

text \<open>
  \<^verbatim>\<open>api/storage/storage.cpp\<close>: a bucket per key, a file in the storage directory. The properties
  show that the buckets are a map from keys to values and that no key leads out of the directory.
\<close>

definition NEU_STORAGE_EXT :: string where
  "NEU_STORAGE_EXT = ''.neustorage''"

definition key_char :: "char \<Rightarrow> bool" where
  "key_char c \<longleftrightarrow> isalnum c \<or> c = CHR ''-'' \<or> c = CHR ''_''"

definition storage_key_rx :: rx where
  "storage_key_rx = rrep (RSet key_char) 1 49"

definition storage_init :: "unit prog" where
  "storage_init =
     bindS (getOptionForCurrentMode ''storageLocation'') (\<lambda>jLoc.
     bindS (if \<not> is_null jLoc then liftS (get_string jLoc) else retS ''app'') (\<lambda>storageLoc.
     modS (\<lambda>w. w\<lparr>storage_path := (if storageLoc = ''system'' then joinSystemDataPath ''/.storage'' w
                                  else joinAppPath ''/.storage'' w)\<rparr>)))"

definition validateStorageBucket :: "string \<Rightarrow> json" where
  "validateStorageBucket key =
     (if regex_match storage_key_rx key then JNull else error_of NE_ST_INVSTKY ''^[a-zA-Z-_0-9]{1,50}$'')"

definition bucket_file :: "string \<Rightarrow> world \<Rightarrow> string" where
  "bucket_file key w = storage_path w @ ''/'' @ key @ NEU_STORAGE_EXT"

definition removeStorageBucket :: "string \<Rightarrow> json prog" where
  "removeStorageBucket key =
     bindS (getS (bucket_file key)) (\<lambda>filename.
     bindS (remove_one filename) (\<lambda>removed.
     retS (if \<not> removed then error_of NE_ST_STKEYRE key
           else message_output (''Storage key '' @ key @ '' was removed''))))"

text \<open>The guard of the methods that take a key.\<close>

definition with_key :: "json \<Rightarrow> (string \<Rightarrow> json prog) \<Rightarrow> json prog" where
  "with_key input body =
     require [''key''] input (
     bindS (arg_string input ''key'') (\<lambda>key.
     let errorPayload = validateStorageBucket key
     in if \<not> is_null errorPayload then retS errorPayload else body key))"

definition storage_getData :: native_method where
  "storage_getData input = with_key input (\<lambda>key.
     bindS (getS (bucket_file key)) (\<lambda>filename.
     bindS (readS (readFile filename default_options)) (\<lambda>r.
     retS (if fr_status r \<noteq> NE_ST_OK then error_of NE_ST_NOSTKEX key else return_output (JString (fr_data r))))))"

definition storage_setData :: native_method where
  "storage_setData input = with_key input (\<lambda>key.
     bindS (getS storage_path) (\<lambda>storagePath.
     bindS (create_directories storagePath) (\<lambda>_.
     if \<not> hasField input ''data'' then removeStorageBucket key
     else bindS (arg_string input ''data'') (\<lambda>d.
          bindS (getS (bucket_file key)) (\<lambda>filename.
          bindS (writeFile \<lparr>fw_filename = filename, fw_data = d, fw_append = False\<rparr>) (\<lambda>ok.
          retS (if ok then success_output else error_of NE_ST_STKEYWE key)))))))"

definition storage_removeData :: native_method where
  "storage_removeData input = with_key input removeStorageBucket"

text \<open>The patterns \<^verbatim>\<open>.*neustorage$\<close> and \<^verbatim>\<open>.neustorage\<close>, in which the dot is any byte of a line.\<close>

definition storage_entry_rx :: rx where
  "storage_entry_rx = RSeq rdots (rlit ''neustorage'')"

definition storage_ext_rx :: rx where
  "storage_ext_rx = RSeq rdot (rlit ''neustorage'')"

definition storage_getKeys :: native_method where
  "storage_getKeys input =
     bindS (getS storage_path) (\<lambda>storagePath.
     bindS (readS (readDirectory storagePath False)) (\<lambda>dirResult.
     if dr_status dirResult \<noteq> NE_ST_OK then retS (array_error NE_ST_NOSTDIR storagePath)
     else retS (return_output (JArray (map (\<lambda>e. JString (regex_replace storage_ext_rx [] (de_name e)))
            (filter (\<lambda>e. de_type e = EntryTypeFile \<and> regex_match storage_entry_rx (de_name e)) (dr_entries dirResult)))))))"

definition storage_clear :: native_method where
  "storage_clear input =
     bindS (getS storage_path) (\<lambda>storagePath.
     bindS (remove_all storagePath) (\<lambda>_. retS (message_output ''Storage was cleared'')))"

section \<open>Properties\<close>

subsection \<open>Keys and files\<close>

lemma valid_key_iff:
  "validateStorageBucket key = JNull \<longleftrightarrow> 1 \<le> length key \<and> length key \<le> 50 \<and> (\<forall>c \<in> set key. key_char c)"
proof -
  have "rxl storage_key_rx key \<longleftrightarrow> 1 \<le> length key \<and> length key \<le> 50 \<and> (\<forall>c \<in> set key. key_char c)"
    unfolding storage_key_rx_def rxl_rrep_set by simp
  moreover have "error_of c p \<noteq> JNull" for c p by (simp add: error_of_def error_output_def jput_def)
  ultimately show ?thesis unfolding validateStorageBucket_def regex_match_lang by simp
qed

definition valid_key :: "string \<Rightarrow> bool" where
  "valid_key key \<longleftrightarrow> validateStorageBucket key = JNull"

lemma key_char_safe: "key_char c \<Longrightarrow> c \<noteq> CHR ''/'' \<and> c \<noteq> CHR 0x00 \<and> c \<noteq> CHR ''.''"
  by (auto simp: key_char_def isalnum_def isupper_def islower_def isdigit_def byte_def)

definition entry_name :: "string \<Rightarrow> string" where
  "entry_name key = key @ NEU_STORAGE_EXT"

lemma entry_name_safe:
  assumes "valid_key key"
  shows "clean_name (entry_name key)" "CHR 0x00 \<notin> set (entry_name key)"
proof -
  have k: "key \<noteq> []" "CHR ''/'' \<notin> set key" "CHR 0x00 \<notin> set key" "CHR ''.'' \<notin> set key"
    using assms key_char_safe unfolding valid_key_def valid_key_iff by auto
  then show "CHR 0x00 \<notin> set (entry_name key)" by (simp add: entry_name_def NEU_STORAGE_EXT_def)
  have "length (entry_name key) > 2" using k(1) by (simp add: entry_name_def NEU_STORAGE_EXT_def)
  then have "\<not> is_dots (entry_name key)" by (auto simp: is_dots_def)
  with k show "clean_name (entry_name key)" by (simp add: clean_name_def entry_name_def NEU_STORAGE_EXT_def)
qed

lemma entry_name_inj: "entry_name k = entry_name k' \<longleftrightarrow> k = k'"
  by (simp add: entry_name_def)

text \<open>The path of a bucket is the entry of the storage directory with its name.\<close>

lemma path_names_snoc:
  assumes "n \<noteq> []" "CHR ''/'' \<notin> set n"
  shows "path_names (s @ ''/'' @ n) = filter (\<lambda>m. m \<noteq> []) (path_names s) @ [n]"
proof -
  have "split_on (CHR ''/'') (s @ ''/'' @ n) = split_on (CHR ''/'') s @ [n]"
    using assms by (simp add: split_on_sep split_on_absent)
  with assms show ?thesis by (simp add: path_names_def Let_def)
qed

lemma walk_no_empty:
  "walk w cur ns = Some p \<Longrightarrow> walk w cur (filter (\<lambda>m. m \<noteq> []) ns) = Some p"
  by (induction w cur ns rule: walk.induct) (auto split: if_splits)

lemma locate_entry:
  assumes "CHR 0x00 \<notin> set s" "CHR 0x00 \<notin> set n" "clean_name n" "locate w s = Some p" "node_at w p = Some DirN"
  shows "locate w (s @ ''/'' @ n) = Some (p @ [n])"
proof -
  let ?start = "if path_is_abs s then [] else os_cwd w"
  have n: "n \<noteq> []" "CHR ''/'' \<notin> set n" "\<not> is_dots n" using assms(3) by (simp_all add: clean_name_def)
  have s: "s \<noteq> []" "walk w ?start (path_names s) = Some p"
    using assms(1,4) by (auto simp: locate_def walk_names_def split: if_splits)
  have abs: "path_is_abs (s @ ''/'' @ n) = path_is_abs s" using s(1) by (cases s) (simp_all add: path_is_abs_def)
  have z: "CHR 0x00 \<notin> set (s @ ''/'' @ n)" using assms(1,2) by simp
  have "walk w ?start (path_names (s @ ''/'' @ n)) = Some (p @ [n])"
    using walk_no_empty [OF s(2)] n assms(5)
    by (simp only: path_names_snoc [OF n(1,2)] walk_append) (simp add: is_dots_def)
  then show ?thesis using z s(1) abs by (simp add: locate_def walk_names_def Let_def)
qed

text \<open>The storage directory exists, at a given location.\<close>

definition storage_at :: "string list \<Rightarrow> world \<Rightarrow> bool" where
  "storage_at p w \<longleftrightarrow> wf_os w \<and> CHR 0x00 \<notin> set (storage_path w) \<and> locate w (storage_path w) = Some p \<and>
     node_at w p = Some DirN"

lemma locate_bucket:
  "storage_at p w \<Longrightarrow> valid_key key \<Longrightarrow> locate w (bucket_file key w) = Some (p @ [entry_name key])"
  using locate_entry [of "storage_path w" "entry_name key" w p] entry_name_safe [of key]
  by (simp add: storage_at_def bucket_file_def entry_name_def)

lemma storage_clean_loc: "storage_at p w \<Longrightarrow> valid_key key \<Longrightarrow> clean_loc (p @ [entry_name key])"
  using wf_os_clean [of w p] entry_name_safe(1) by (auto simp: storage_at_def clean_loc_def)

lemma storage_at_write:
  assumes "storage_at p w" "valid_key key" "write_file (p @ [entry_name key]) d w = Some w'"
  shows "storage_at p w'"
proof -
  have wf: "wf_os w'" using assms files.inv_store storage_clean_loc by (metis storage_at_def)
  have w: "write_at False d (p @ [entry_name key]) w = Some w'" using assms(3) by (simp add: write_file_def)
  have "node_at w' p = Some DirN" using write_at_node [OF w, of p] assms(1) by (simp add: storage_at_def)
  moreover have "storage_path w' = storage_path w" using w by (auto elim!: write_at_cases)
  ultimately show ?thesis using wf assms(1) write_at_locate [OF w] by (simp add: storage_at_def)
qed

lemma storage_at_unlink:
  assumes "storage_at p w" "valid_key key" "file_at w (p @ [entry_name key]) = Some d"
  shows "storage_at p (unlink (p @ [entry_name key]) w)"
proof -
  let ?q = "p @ [entry_name key]" and ?w = "unlink (p @ [entry_name key]) w"
  have wf: "wf_os ?w" using assms files.inv_erase storage_clean_loc by (metis option.distinct(1) storage_at_def)
  have q: "node_at w ?q \<noteq> Some DirN" using assms(3) by (auto simp: file_at_def)
  have n: "node_at ?w r = (if r = ?q then None else node_at w r)" for r by (simp add: node_at_unlink)
  have cwd: "os_cwd ?w = os_cwd w" by (simp add: unlink_def drop_nodes_def)
  have "node_at ?w r = Some DirN \<longleftrightarrow> node_at w r = Some DirN" for r using n q by auto
  then have "locate ?w s = locate w s" for s by (intro locate_cong cwd)
  moreover have "storage_path ?w = storage_path w" by (simp add: unlink_def drop_nodes_def)
  ultimately show ?thesis using wf assms(1) n by (simp add: storage_at_def)
qed

subsection \<open>The methods on an existing directory\<close>

text \<open>What the storage holds: a partial map from keys to values.\<close>

definition bucket :: "string list \<Rightarrow> world \<Rightarrow> string \<Rightarrow> string option" where
  "bucket p w key = (if valid_key key then file_at w (p @ [entry_name key]) else None)"

definition has_arg :: "json \<Rightarrow> string \<Rightarrow> string \<Rightarrow> bool" where
  "has_arg input k s \<longleftrightarrow> jget input k = JString s"

lemma with_key_step:
  assumes "has_arg input ''key'' key" "valid_key key"
  shows "with_key input body = body key"
proof -
  have "hasRequiredFields input [''key'']" using assms(1) by (simp add: has_arg_def jget_hasRequired)
  with assms show ?thesis
    by (intro ext) (simp add: with_key_def require_step has_arg_def arg_string_step valid_key_def is_null_def)
qed

lemma with_key_invalid:
  assumes "has_arg input ''key'' key" "\<not> valid_key key"
  shows "with_key input body w = (Inr (error_of NE_ST_INVSTKY ''^[a-zA-Z-_0-9]{1,50}$''), w)"
proof -
  have "hasRequiredFields input [''key'']" using assms(1) by (simp add: has_arg_def jget_hasRequired)
  with assms show ?thesis
    by (auto simp: with_key_def require_step has_arg_def arg_string_step valid_key_def is_null_def
        validateStorageBucket_def error_of_def error_output_def jput_def split: if_splits)
qed

lemma select_convs_storage: "storage_path (w\<lparr>os_nodes := ns\<rparr>) = storage_path w"
  by simp

lemma create_existing: "storage_at p w \<Longrightarrow> create_directories (storage_path w) w = (Inr False, w)"
  unfolding storage_at_def create_directories_def fs_is_directory_def status_of_def
  by (cases "storage_path w = []") (simp_all add: locate_def [of w "[]"] c_str_def)

lemma setData_write:
  assumes "storage_at p w" "valid_key key" "has_arg input ''key'' key" "has_arg input ''data'' d"
  shows "storage_setData input w = (case write_file (p @ [entry_name key]) d w of
     Some w' \<Rightarrow> (Inr success_output, w') | None \<Rightarrow> (Inr (error_of NE_ST_STKEYWE key), w))"
proof -
  have "hasField input ''data''" using assms(4) by (simp add: has_arg_def hasField_iff)
  then have "storage_setData input w = bindS (writeFile \<lparr>fw_filename = bucket_file key w, fw_data = d, fw_append = False\<rparr>)
      (\<lambda>ok. retS (if ok then success_output else error_of NE_ST_STKEYWE key)) w"
    using assms arg_string_step [of input "''data''" d] create_existing [OF assms(1)]
    by (simp add: storage_setData_def with_key_step has_arg_def)
  then show ?thesis
    using locate_bucket [OF assms(1,2)] by (simp add: bindS_def writeFile_def write_out_def write_file_def split: option.splits)
qed

lemma last_name_entry:
  assumes "clean_name n"
  shows "\<not> last_name_dots (s @ ''/'' @ n)"
  using assms path_names_snoc [of n s] by (simp add: last_name_dots_def Let_def clean_name_def)

lemma removeBucket_step:
  assumes "storage_at p w" "valid_key key" "file_at w (p @ [entry_name key]) = Some d" "\<not> os_unwritable w p"
  shows "removeStorageBucket key w =
    (Inr (message_output (''Storage key '' @ key @ '' was removed'')), unlink (p @ [entry_name key]) w)"
proof -
  have n: "node_at w (p @ [entry_name key]) = Some (FileN d)"
    using assms(3) by (auto simp: file_at_def split: option.splits node.splits)
  have "CHR 0x00 \<notin> set (bucket_file key w)"
    using assms(1) entry_name_safe [OF assms(2)] by (simp add: storage_at_def bucket_file_def entry_name_def)
  moreover have "\<not> last_name_dots (bucket_file key w)"
    using last_name_entry [OF entry_name_safe(1) [OF assms(2)]] by (simp add: bucket_file_def entry_name_def)
  ultimately show ?thesis
    using n locate_bucket [OF assms(1,2)] assms(4)
    by (simp add: removeStorageBucket_def remove_one_def unlink_def)
qed

lemma removeBucket_missing:
  assumes "storage_at p w" "valid_key key" "node_at w (p @ [entry_name key]) = None"
  shows "removeStorageBucket key w = (Inr (error_of NE_ST_STKEYRE key), w)"
  using locate_bucket [OF assms(1,2)] assms(3) by (simp add: removeStorageBucket_def remove_one_def)

lemma getData_found:
  assumes "storage_at p w" "valid_key key" "has_arg input ''key'' key" "file_at w (p @ [entry_name key]) = Some d"
    "\<not> os_unreadable w (p @ [entry_name key])" "int (length d) \<le> os_memory w"
  shows "storage_getData input w = (Inr (return_output (JString d)), w)"
proof -
  have "open_in w (bucket_file key w) = Some (int (length d), Some d)"
    using assms(4,5) locate_bucket [OF assms(1,2)] by (auto simp: open_in_def file_at_def split: option.splits node.splits)
  with readFile_whole assms show ?thesis by (simp add: storage_getData_def with_key_step)
qed

lemma getData_missing:
  assumes "storage_at p w" "valid_key key" "has_arg input ''key'' key" "node_at w (p @ [entry_name key]) = None"
  shows "storage_getData input w = (Inr (error_of NE_ST_NOSTKEX key), w)"
  using assms locate_bucket [OF assms(1,2)]
  by (simp add: storage_getData_def with_key_step readFile_def open_in_def)

subsection \<open>The storage as a map\<close>

text \<open>The calls a client makes, and what they mean on a map from keys to values.\<close>

datatype storage_op = SetData string string | UnsetData string | RemoveData string | GetData string

fun run_op :: "storage_op \<Rightarrow> json prog" where
  "run_op (SetData k d) = storage_setData (jobj [(''key'', JString k), (''data'', JString d)])"
| "run_op (UnsetData k) = storage_setData (jobj [(''key'', JString k)])"
| "run_op (RemoveData k) = storage_removeData (jobj [(''key'', JString k)])"
| "run_op (GetData k) = storage_getData (jobj [(''key'', JString k)])"

fun run_ops :: "storage_op list \<Rightarrow> json list prog" where
  "run_ops [] = retS []"
| "run_ops (op # ops) = bindS (run_op op) (\<lambda>out. bindS (run_ops ops) (\<lambda>outs. retS (out # outs)))"

fun op_key :: "storage_op \<Rightarrow> string" where
  "op_key (SetData k d) = k" | "op_key (UnsetData k) = k" | "op_key (RemoveData k) = k" | "op_key (GetData k) = k"

definition spec_remove :: "string \<Rightarrow> (string \<rightharpoonup> string) \<Rightarrow> json \<times> (string \<rightharpoonup> string)" where
  "spec_remove k m =
     (if m k = None then (error_of NE_ST_STKEYRE k, m)
      else (message_output (''Storage key '' @ k @ '' was removed''), m(k := None)))"

definition spec_op :: "storage_op \<Rightarrow> (string \<rightharpoonup> string) \<Rightarrow> json \<times> (string \<rightharpoonup> string)" where
  "spec_op op m =
     (if \<not> valid_key (op_key op) then (error_of NE_ST_INVSTKY ''^[a-zA-Z-_0-9]{1,50}$'', m)
      else case op of
        SetData k d \<Rightarrow> (success_output, m(k \<mapsto> d))
      | UnsetData k \<Rightarrow> spec_remove k m
      | RemoveData k \<Rightarrow> spec_remove k m
      | GetData k \<Rightarrow> (case m k of None \<Rightarrow> (error_of NE_ST_NOSTKEX k, m) | Some d \<Rightarrow> (return_output (JString d), m)))"

fun spec_ops :: "storage_op list \<Rightarrow> (string \<rightharpoonup> string) \<Rightarrow> json list \<times> (string \<rightharpoonup> string)" where
  "spec_ops [] m = ([], m)"
| "spec_ops (op # ops) m =
     (let (out, m1) = spec_op op m; (outs, m2) = spec_ops ops m1 in (out # outs, m2))"

text \<open>
  The directory is usable: the process may read and write what is in it, the entries of keys are
  regular files, and the values fit in memory.
\<close>

definition usable :: "string list \<Rightarrow> world \<Rightarrow> bool" where
  "usable p w \<longleftrightarrow> storage_at p w \<and> (\<forall>q. prefix p q \<longrightarrow> \<not> os_unreadable w q \<and> \<not> os_unwritable w q) \<and>
     (\<forall>k. valid_key k \<longrightarrow> node_at w (p @ [entry_name k]) = None \<or>
        (\<exists>d. node_at w (p @ [entry_name k]) = Some (FileN d) \<and> int (length d) \<le> os_memory w))"

fun op_fits :: "world \<Rightarrow> storage_op \<Rightarrow> bool" where
  "op_fits w (SetData k d) \<longleftrightarrow> int (length d) \<le> os_memory w"
| "op_fits w _ \<longleftrightarrow> True"

lemma usable_file: "usable p w \<Longrightarrow> valid_key k \<Longrightarrow>
    node_at w (p @ [entry_name k]) = (case bucket p w k of None \<Rightarrow> None | Some d \<Rightarrow> Some (FileN d))"
  unfolding usable_def bucket_def file_at_def by (cases "node_at w (p @ [entry_name k])") fastforce+

lemma usable_bucket_fits: "usable p w \<Longrightarrow> bucket p w k = Some d \<Longrightarrow> int (length d) \<le> os_memory w"
  using usable_file [of p w k] unfolding usable_def bucket_def by (fastforce split: if_splits)

lemma usable_write:
  assumes u: "usable p w" and k: "valid_key k" and d: "int (length d) \<le> os_memory w"
  obtains w' where "write_file (p @ [entry_name k]) d w = Some w'" "usable p w'" "bucket p w' = (bucket p w)(k \<mapsto> d)"
    "os_memory w' = os_memory w"
proof -
  let ?q = "p @ [entry_name k]"
  have s: "storage_at p w" and p: "node_at w p = Some DirN" "\<not> os_unwritable w p" "\<not> os_unwritable w ?q"
    using u by (auto simp: usable_def storage_at_def)
  have n: "node_at w ?q = None \<or> (\<exists>e. node_at w ?q = Some (FileN e))" using u k by (auto simp: usable_def)
  then obtain w' where w': "write_file ?q d w = Some w'"
    using p by (auto simp: write_file_def write_at_def may_create_def)
  then have at: "write_at False d ?q w = Some w'" by (simp add: write_file_def)
  have m: "os_memory w' = os_memory w" using at by (auto elim!: write_at_cases)
  have node: "node_at w' r = (if r = ?q then Some (FileN d) else node_at w r)" for r
    using write_at_node [OF at, of r] n by (auto split: option.splits)
  have "usable p w'"
    using u storage_at_write [OF s k w'] write_at_frame [OF at] m d unfolding usable_def
    by (auto simp: node entry_name_inj)
  moreover have "bucket p w' = (bucket p w)(k \<mapsto> d)"
    using k files.fetch_store [OF _ storage_clean_loc [OF s k] w'] s
    by (auto simp: bucket_def fun_eq_iff entry_name_inj storage_at_def)
  ultimately show ?thesis using that w' m by blast
qed

lemma usable_unlink:
  assumes u: "usable p w" and k: "bucket p w k = Some d"
  shows "usable p (unlink (p @ [entry_name k]) w)" "bucket p (unlink (p @ [entry_name k]) w) = (bucket p w)(k := None)"
proof -
  let ?q = "p @ [entry_name k]" and ?w = "unlink (p @ [entry_name k]) w"
  have s: "storage_at p w" using u by (simp add: usable_def)
  have v: "valid_key k" "file_at w ?q = Some d" using k by (auto simp: bucket_def split: if_splits)
  have frame: "os_unreadable ?w = os_unreadable w" "os_unwritable ?w = os_unwritable w" "os_memory ?w = os_memory w"
    by (simp_all add: unlink_def drop_nodes_def)
  show "usable p ?w"
    using u storage_at_unlink [OF s v] frame unfolding usable_def by (auto simp: node_at_unlink entry_name_inj)
  show "bucket p ?w = (bucket p w)(k := None)"
    using files.fetch_erase [of w "p @ [entry_name k]", OF _ storage_clean_loc [OF s v(1)]] s v
    by (auto simp: bucket_def fun_eq_iff entry_name_inj storage_at_def)
qed

lemma usable_remove:
  assumes u: "usable p w" and k: "valid_key k"
  obtains w' where "removeStorageBucket k w = (Inr (fst (spec_remove k (bucket p w))), w')" "usable p w'"
    "bucket p w' = snd (spec_remove k (bucket p w))" "os_memory w' = os_memory w"
proof (cases "bucket p w k")
  case None
  have s: "storage_at p w" using u by (simp add: usable_def)
  have "node_at w (p @ [entry_name k]) = None" using usable_file [OF u k] None by simp
  then have "removeStorageBucket k w = (Inr (error_of NE_ST_STKEYRE k), w)"
    using removeBucket_missing [OF s k] by simp
  with that [of w] None u show ?thesis by (simp add: spec_remove_def)
next
  case (Some d)
  have s: "storage_at p w" "\<not> os_unwritable w p" using u by (auto simp: usable_def)
  have "file_at w (p @ [entry_name k]) = Some d" using Some k by (simp add: bucket_def)
  with removeBucket_step [OF s(1) k _ s(2)] that [of "unlink (p @ [entry_name k]) w"] usable_unlink [OF u Some] Some
  show ?thesis by (simp add: spec_remove_def unlink_def drop_nodes_def)
qed

lemma op_input_args [simp]:
  "has_arg (jobj [(''key'', JString k), (''data'', JString d)]) ''key'' k"
  "has_arg (jobj [(''key'', JString k), (''data'', JString d)]) ''data'' d"
  "has_arg (jobj [(''key'', JString k)]) ''key'' k" "\<not> hasField (jobj [(''key'', JString k)]) ''data''"
  by (simp_all add: has_arg_def jobj_def jget_object hasField_iff)

lemma run_op_simulates:
  assumes u: "usable p w" and f: "op_fits w op"
  obtains w' where "run_op op w = (Inr (fst (spec_op op (bucket p w))), w')" "usable p w'"
    "bucket p w' = snd (spec_op op (bucket p w))" "os_memory w' = os_memory w"
proof (cases "valid_key (op_key op)")
  case False
  then have "run_op op w = (Inr (error_of NE_ST_INVSTKY ''^[a-zA-Z-_0-9]{1,50}$''), w)"
    by (cases op) (simp_all add: storage_setData_def storage_removeData_def storage_getData_def with_key_invalid [of _ "op_key op"])
  with that [of w] False u show ?thesis by (simp add: spec_op_def)
next
  case True
  have s: "storage_at p w" using u by (simp add: usable_def)
  show ?thesis
  proof (cases op)
    case (SetData k d)
    with True f have k: "valid_key k" "int (length d) \<le> os_memory w" by simp_all
    from usable_write [OF u k] obtain w' where w': "write_file (p @ [entry_name k]) d w = Some w'" "usable p w'"
      "bucket p w' = (bucket p w)(k \<mapsto> d)" "os_memory w' = os_memory w" by blast
    have "run_op op w = (Inr (fst (spec_op op (bucket p w))), w')"
      using setData_write [OF s k(1), of "jobj [(''key'', JString k), (''data'', JString d)]" d] w'(1) SetData True by (simp add: spec_op_def)
    then show ?thesis by (rule that) (use w' SetData True in \<open>simp_all add: spec_op_def\<close>)
  next
    case (UnsetData k)
    with True usable_remove [OF u, of k] obtain w' where w': "removeStorageBucket k w = (Inr (fst (spec_remove k (bucket p w))), w')"
      "usable p w'" "bucket p w' = snd (spec_remove k (bucket p w))" "os_memory w' = os_memory w" by auto
    have "run_op op w = removeStorageBucket k w"
      using UnsetData True create_existing [OF s] by (simp add: storage_setData_def with_key_step [of _ k])
    with that [of w'] w' UnsetData True show ?thesis by (simp add: spec_op_def)
  next
    case (RemoveData k)
    with True usable_remove [OF u, of k] obtain w' where w': "removeStorageBucket k w = (Inr (fst (spec_remove k (bucket p w))), w')"
      "usable p w'" "bucket p w' = snd (spec_remove k (bucket p w))" "os_memory w' = os_memory w" by auto
    with that [of w'] RemoveData True show ?thesis by (simp add: spec_op_def storage_removeData_def with_key_step [of _ k])
  next
    case (GetData k)
    then have k: "valid_key k" using True by simp
    show ?thesis
    proof (cases "bucket p w k")
      case None
      with usable_file [OF u k] getData_missing [OF s k] that [of w] GetData k u show ?thesis by (simp add: spec_op_def)
    next
      case (Some d)
      then have "file_at w (p @ [entry_name k]) = Some d" using k by (simp add: bucket_def)
      moreover have "\<not> os_unreadable w (p @ [entry_name k])" using u by (simp add: usable_def)
      ultimately show ?thesis
        using getData_found [OF s k] usable_bucket_fits [OF u Some] that [of w] GetData k u Some by (simp add: spec_op_def)
    qed
  qed
qed

lemma op_fits_memory: "os_memory w' = os_memory w \<Longrightarrow> op_fits w' op = op_fits w op"
  by (cases op) simp_all

lemma run_ops_simulates:
  "usable p w \<Longrightarrow> \<forall>op \<in> set ops. op_fits w op \<Longrightarrow>
     \<exists>w'. run_ops ops w = (Inr (fst (spec_ops ops (bucket p w))), w') \<and> usable p w' \<and>
       bucket p w' = snd (spec_ops ops (bucket p w))"
proof (induction ops arbitrary: w)
  case (Cons op ops)
  from Cons.prems have "op_fits w op" by simp
  from run_op_simulates [OF Cons.prems(1) this] obtain w1 where w1:
    "run_op op w = (Inr (fst (spec_op op (bucket p w))), w1)" "usable p w1"
    "bucket p w1 = snd (spec_op op (bucket p w))" "os_memory w1 = os_memory w" .
  have "\<forall>op \<in> set ops. op_fits w1 op" using Cons.prems(2) op_fits_memory [OF w1(4)] by simp
  from Cons.IH [OF w1(2) this] w1 show ?case by (auto simp: split_beta)
qed simp

subsection \<open>Listing\<close>

lemma neustorage_split:
  assumes "prefix ''neustorage'' (u @ ''.neustorage'')"
  shows "sublist ''neustorage'' u"
proof (cases "length u < 10")
  case True
  from assms obtain v where v: "u @ ''.neustorage'' = ''neustorage'' @ v" by (auto simp: prefix_def)
  have "(u @ ''.neustorage'') ! length u = CHR ''.''" by (simp add: nth_append)
  then have "CHR ''.'' = (''neustorage'' @ v) ! length u" using v by metis
  also have "\<dots> = ''neustorage'' ! length u" using True by (intro nth_append_left) simp
  finally have "CHR ''.'' = ''neustorage'' ! length u" .
  moreover have "''neustorage'' ! length u \<in> set ''neustorage''" using True by (intro nth_mem) simp
  ultimately have "CHR ''.'' \<in> set ''neustorage''" by metis
  then show ?thesis by simp
next
  case False
  have "prefix ''neustorage'' u"
    using assms unfolding prefix_append
  proof
    assume "\<exists>us. ''neustorage'' = u @ us \<and> prefix us ''.neustorage''"
    then obtain us where us: "''neustorage'' = u @ us" by blast
    then have "length ''neustorage'' = length u + length us" by (metis length_append)
    then have "10 = length u + length us" by simp
    then have "length us = 0" using False by linarith
    then show ?thesis using us by simp
  qed
  then show ?thesis by (simp add: prefix_imp_sublist)
qed

lemma rests_ext: "rests storage_ext_rx (c # s) = (if dot c \<and> prefix ''neustorage'' s then [drop 10 s] else [])"
proof -
  have "rests (rlit t) s = (if prefix t s then [drop (length t) s] else [])" for t s
    by (induction t arbitrary: s) (auto split: list.splits)
  from this [of "''neustorage''" s] show ?thesis
    by (simp add: storage_ext_rx_def rdot_def eval_nat_numeral del: rlit.simps)
qed

lemma replace_ext:
  "\<not> sublist ''neustorage'' u \<Longrightarrow> replace_from storage_ext_rx [] pre (u @ ''.neustorage'') = pre @ u"
proof (induction u arbitrary: pre)
  case Nil
  then show ?case by (simp add: rests_ext dot_def)
next
  case (Cons c u)
  have "\<not> sublist ''neustorage'' u" using Cons.prems by (meson sublist_Cons_right)
  moreover from this have "\<not> prefix ''neustorage'' (u @ ''.neustorage'')" using neustorage_split by blast
  ultimately show ?case using Cons.IH by (simp add: rests_ext)
qed

lemma key_of_entry: "\<not> sublist ''neustorage'' key \<Longrightarrow> regex_replace storage_ext_rx [] (entry_name key) = key"
  using replace_ext [of key "[]"] by (simp add: regex_replace_def entry_name_def NEU_STORAGE_EXT_def)

section \<open>Results\<close>

text \<open>
  C9. The storage refines a map from keys to values: on a usable directory any sequence of
  \<^verbatim>\<open>setData\<close>, \<^verbatim>\<open>removeData\<close> and \<^verbatim>\<open>getData\<close> calls returns, answers call by call what the map answers
  (with the errors for an invalid, a missing and a removed key), and leaves files that stand for the
  map's final value.
\<close>

theorem storage_refines_map:
  assumes "usable p w" "\<forall>op \<in> set ops. op_fits w op"
  shows "\<exists>w'. run_ops ops w = (Inr (fst (spec_ops ops (bucket p w))), w') \<and> usable p w' \<and>
    bucket p w' = snd (spec_ops ops (bucket p w))"
  using run_ops_simulates [OF assms] .

definition demo_storage :: world where
  "demo_storage = demo\<lparr>storage_path := ''/home/app''\<rparr>"

lemma demo_storage_nodes:
  "valid_key k \<Longrightarrow> node_at demo_storage ([''home'', ''app''] @ [entry_name k]) = None"
  using entry_name_inj
  by (auto simp: demo_storage_def demo_def initial_world_def demo_os_def node_at_def entry_name_def NEU_STORAGE_EXT_def
      dest!: arg_cong [where f = rev])

lemma demo_usable: "usable [''home'', ''app''] demo_storage"
proof -
  have "storage_at [''home'', ''app''] demo_storage" by code_simp
  moreover have "\<not> os_unreadable demo_storage q \<and> \<not> os_unwritable demo_storage q" for q
    by (simp add: demo_storage_def demo_def initial_world_def demo_os_def)
  ultimately show ?thesis using demo_storage_nodes by (auto simp: usable_def)
qed

theorem storage_refines_map_witness:
  "fst (run_ops [SetData ''k'' ''v'', GetData ''k'', RemoveData ''k'', GetData ''k'', GetData ''/''] demo_storage) =
     Inr [success_output, return_output (JString ''v''), message_output ''Storage key k was removed'',
       error_of NE_ST_NOSTKEX ''k'', error_of NE_ST_INVSTKY ''^[a-zA-Z-_0-9]{1,50}$'']"
proof -
  have v: "valid_key ''k''" "\<not> valid_key ''/''"
    by (simp_all add: valid_key_def valid_key_iff key_char_def isalnum_def islower_def isupper_def isdigit_def byte_def)
  have "int (length ''v'') \<le> os_memory demo_storage"
    by (simp add: demo_storage_def demo_def initial_world_def demo_os_def)
  then show ?thesis
    using storage_refines_map [OF demo_usable, of "[SetData ''k'' ''v'', GetData ''k'', RemoveData ''k'', GetData ''k'', GetData ''/'']"] v
    by (auto simp: spec_op_def spec_remove_def)
qed



text \<open>
  The first \<^verbatim>\<open>setData\<close> makes the directory: whenever it succeeds, the storage directory exists
  afterwards and the entry of the key holds the value.
\<close>

theorem setData_creates:
  assumes "wf_os w" "CHR 0x00 \<notin> set (storage_path w)" "valid_key key" "has_arg input ''key'' key" "has_arg input ''data'' d"
    "storage_setData input w = (Inr success_output, w')"
  shows "\<exists>p. storage_at p w' \<and> bucket p w' key = Some d"
proof -
  have "hasField input ''data''" using assms(5) by (simp add: has_arg_def hasField_iff)
  then obtain b w1 where w1: "create_directories (storage_path w) w = (Inr b, w1)"
    and wr: "bindS (writeFile \<lparr>fw_filename = bucket_file key w1, fw_data = d, fw_append = False\<rparr>) (\<lambda>ok.
      retS (if ok then success_output else error_of NE_ST_STKEYWE key)) w1 = (Inr success_output, w')"
    using assms(3-6) arg_string_step [of input "''data''" d]
    by (auto simp: storage_setData_def with_key_step has_arg_def bindS_cases)
  have "storage_path w1 = storage_path w"
  proof -
    have "w1 = w \<or> w1 = w\<lparr>os_nodes := os_nodes w1\<rparr>"
      using w1 make_prefixes_frame unfolding create_directories_def by (auto split: if_splits)
    then show ?thesis by (metis select_convs_storage)
  qed
  with create_directories_dir [OF w1 assms(1,2)] assms(2) obtain p where s: "storage_at p w1"
    by (auto simp: storage_at_def fs_is_directory_def status_of_def bind_eq_Some_conv)
  then have "write_file (p @ [entry_name key]) d w1 = Some w'"
    using wr locate_bucket [OF s assms(3)]
    by (auto simp: bindS_cases writeFile_def write_out_def write_file_def split: option.splits if_splits)
  then have "storage_at p w'" "file_at w' (p @ [entry_name key]) = Some d"
    using storage_at_write [OF s assms(3)] files.fetch_store [of w1 "p @ [entry_name key]" d w', OF _ storage_clean_loc [OF s assms(3)]] s
    by (auto simp: storage_at_def)
  then show ?thesis using assms(3) by (auto simp: bucket_def)
qed

theorem setData_creates_witness:
  "\<exists>p. bucket p (snd (run_op (SetData ''k'' ''v'') (demo\<lparr>storage_path := ''/home/app/.storage''\<rparr>))) ''k'' = Some ''v''"
proof -
  let ?w = "demo\<lparr>storage_path := ''/home/app/.storage''\<rparr>"
  have "fst (run_op (SetData ''k'' ''v'') ?w) = Inr success_output" by code_simp
  then have "storage_setData (jobj [(''key'', JString ''k''), (''data'', JString ''v'')]) ?w =
      (Inr success_output, snd (run_op (SetData ''k'' ''v'') ?w))" by (simp add: prod_eq_iff)
  moreover have "wf_os ?w" "CHR 0x00 \<notin> set (storage_path ?w)" "valid_key ''k''" by code_simp+
  ultimately show ?thesis using setData_creates op_input_args(1,2) by blast
qed

text \<open>
  \<^verbatim>\<open>getKeys\<close> turns an entry back into its key for every key that does not contain
  \<^verbatim>\<open>neustorage\<close>; the pattern it deletes is not anchored and its dot is any byte, so other keys come
  back damaged.
\<close>

theorem getKeys_entry:
  "(\<not> sublist ''neustorage'' key \<longrightarrow> regex_replace storage_ext_rx [] (entry_name key) = key) \<and>
   valid_key ''my-neustorage'' \<and> regex_replace storage_ext_rx [] (entry_name ''my-neustorage'') = ''my''"
proof -
  have "valid_key ''my-neustorage''" "regex_replace storage_ext_rx [] (entry_name ''my-neustorage'') = ''my''"
    by code_simp+
  then show ?thesis using key_of_entry by blast
qed

theorem getKeys_entry_witness:
  "\<not> sublist ''neustorage'' ''a'' \<and> regex_replace storage_ext_rx [] (entry_name ''a'') = ''a''"
proof -
  have n: "\<not> sublist ''neustorage'' ''a''" by (auto dest: sublist_length_le)
  from getKeys_entry [of "''a''"] n show ?thesis by blast
qed

end
