(* ===== verification/Os.thy ===== *)
theory Os
  imports FsApi
begin

text \<open>
  \<^verbatim>\<open>api/os/os.cpp\<close>: child processes, environment variables, dialogs, the tray and known folders.
  Child processes are what the process library makes of a request; their output and their end
  arrive as the separate steps \<open>processOutput\<close> and \<open>processExited\<close>.
\<close>

section \<open>Child processes\<close>

record ChildProcessOptions =
  cp_background :: bool
  cp_events :: bool
  cp_cwd :: string
  cp_stdIn :: string
  cp_envs :: "(string \<times> string) list"

definition default_child_options :: ChildProcessOptions where
  "default_child_options = \<lparr>cp_background = False, cp_events = True, cp_cwd = [], cp_stdIn = [], cp_envs = []\<rparr>"

record SpawnedProcessEvent =
  se_id :: int
  se_type :: string
  se_stdIn :: string

definition dispatchSpawnedProcessEvt :: "int \<Rightarrow> string \<Rightarrow> json \<Rightarrow> unit prog" where
  "dispatchSpawnedProcessEvt virtualPid action d =
     dispatch ''spawnedProcess''
       (jput ''data'' d (jput ''action'' (JString action) (jput ''id'' (JInt virtualPid) JNull)))"

definition start_process :: "string \<Rightarrow> ChildProcessOptions \<Rightarrow> string \<Rightarrow> proc_request" where
  "start_process command opts stdIn = \<lparr>pr_command = command, pr_cwd = cp_cwd opts, pr_envs = cp_envs opts,
     pr_stdIn = stdIn, pr_background = cp_background opts\<rparr>"

text \<open>On Windows the command is handed to the command interpreter.\<close>

definition shell_line :: "platform \<Rightarrow> string \<Rightarrow> string" where
  "shell_line pf command =
     (if pf = Windows then ''cmd.exe /c '' @ [CHR 0x22] @ command @ [CHR 0x22] else command)"

definition execCommand :: "string \<Rightarrow> ChildProcessOptions \<Rightarrow> CommandResult prog" where
  "execCommand command opts =
     bindS (getS os_platform) (\<lambda>pf.
     (let request = start_process (shell_line pf command) opts (cp_stdIn opts)
      in bindS (getS (\<lambda>w. os_exec w request)) (\<lambda>res.
         thenS (modS (\<lambda>w. w\<lparr>os_started := os_started w @ [request]\<rparr>))
               (retS (if cp_background opts then \<lparr>cr_pid = cr_pid res, cr_exitCode = -1, cr_stdErr = [], cr_stdOut = []\<rparr>
                      else res)))))"

definition next_pid :: "int \<Rightarrow> int" where
  "next_pid virtualPid = (if virtualPid = 2 ^ 31 - 1 then 0 else virtualPid + 1)"

definition spawnProcess :: "string \<Rightarrow> ChildProcessOptions \<Rightarrow> (int \<times> int) prog" where
  "spawnProcess command opts =
     bindS (getS (\<lambda>w. (ops_nextVirtualPid w, os_pid w (length (os_started w))))) (\<lambda>(virtualPid, pid).
     thenS (modS (\<lambda>w. w\<lparr>ops_nextVirtualPid := next_pid virtualPid,
              os_started := os_started w @ [start_process (shell_line (os_platform w) command) opts []],
              ops_spawnedProcesses := upd virtualPid
                \<lparr>ch_pid = pid, ch_killed = False, ch_stdin = [], ch_stdinOpen = True\<rparr> (ops_spawnedProcesses w)\<rparr>))
           (retS (virtualPid, pid)))"

text \<open>The handlers of a spawned process: output on one of its streams, and its end.\<close>

definition processOutput :: "int \<Rightarrow> bool \<Rightarrow> string \<Rightarrow> string \<Rightarrow> unit prog" where
  "processOutput virtualPid evts stream bytes =
     (if evts then dispatchSpawnedProcessEvt virtualPid stream (JString bytes) else retS ())"

definition processExited :: "int \<Rightarrow> bool \<Rightarrow> int \<Rightarrow> unit prog" where
  "processExited virtualPid evts exitCode =
     thenS (if evts then dispatchSpawnedProcessEvt virtualPid ''exit'' (JInt exitCode) else retS ())
           (modS (\<lambda>w. w\<lparr>ops_spawnedProcesses := del virtualPid (ops_spawnedProcesses w)\<rparr>))"

definition put_child :: "int \<Rightarrow> child \<Rightarrow> unit prog" where
  "put_child i c = modS (\<lambda>w. w\<lparr>ops_spawnedProcesses := upd i c (ops_spawnedProcesses w)\<rparr>)"

definition updateSpawnedProcess :: "SpawnedProcessEvent \<Rightarrow> bool prog" where
  "updateSpawnedProcess evt =
     bindS (getS (\<lambda>w. map_of (ops_spawnedProcesses w) (se_id evt))) (\<lambda>found. case found of
       None \<Rightarrow> retS False
     | Some c \<Rightarrow>
         if se_type evt = ''exit'' then thenS (put_child (se_id evt) (c\<lparr>ch_killed := True\<rparr>)) (retS True)
         else if se_type evt = ''stdIn''
         then thenS (put_child (se_id evt) (if ch_stdinOpen c then c\<lparr>ch_stdin := ch_stdin c @ se_stdIn evt\<rparr> else c)) (retS True)
         else if se_type evt = ''stdInEnd'' then thenS (put_child (se_id evt) (c\<lparr>ch_stdinOpen := False\<rparr>)) (retS True)
         else retS False)"

definition open_command :: "platform \<Rightarrow> string \<Rightarrow> string" where
  "open_command pf url = (if pf = Darwin then ''open '' else ''xdg-open '') @ [CHR 0x22] @ url @ [CHR 0x22]"

definition os_open_url :: "string \<Rightarrow> unit prog" where
  "os_open_url url =
     bindS (getS os_platform) (\<lambda>pf.
     if pf = Windows then retS ()
     else bindS (execCommand (open_command pf url) (default_child_options\<lparr>cp_background := True\<rparr>)) (\<lambda>_. retS ()))"

section \<open>Environment variables\<close>

definition getEnv :: "string \<Rightarrow> world \<Rightarrow> string" where
  "getEnv key w = (case map_of (os_env w) (c_str key) of None \<Rightarrow> [] | Some v \<Rightarrow> v)"

definition env_put :: "string \<Rightarrow> string \<Rightarrow> (string \<times> string) list \<Rightarrow> (string \<times> string) list" where
  "env_put k v env =
     (if map_of env k = None then env @ [(k, v)] else map (\<lambda>(k', v'). if k' = k then (k', v) else (k', v')) env)"

text \<open>\<^verbatim>\<open>setenv\<close> refuses an empty name and one with an equals sign.\<close>

definition setEnv :: "string \<Rightarrow> string \<Rightarrow> bool prog" where
  "setEnv key val =
     (if c_str key = [] \<or> CHR ''='' \<in> set (c_str key) then retS False
      else thenS (modS (\<lambda>w. w\<lparr>os_env := env_put (c_str key) (c_str val) (os_env w)\<rparr>)) (retS True))"

section \<open>Tray\<close>

definition isTrayInitialized :: "world \<Rightarrow> bool" where
  "isTrayInitialized w = ops_trayInitialized w"

definition cleanupTray :: "unit prog" where
  "cleanupTray =
     bindS (getS isTrayInitialized) (\<lambda>b.
     if \<not> b then retS () else modS (\<lambda>w. w\<lparr>ops_trayInitialized := False, ops_trayIcon := None\<rparr>))"

section \<open>Methods\<close>

text \<open>\<^verbatim>\<open>for (auto &filter: filters)\<close>: the values of a document, one by one.\<close>

definition values_of :: "json \<Rightarrow> json list" where
  "values_of j = map snd (items j)"

definition filter_extensions :: "json \<Rightarrow> string list result" where
  "filter_extensions exts = (case exts of
     JArray vs \<Rightarrow> mapR get_string vs
   | _ \<Rightarrow> if jsize exts = 0 then Inr [] else Inl TypeError)"

fun extensionsToVector :: "json list \<Rightarrow> string list result" where
  "extensionsToVector [] = Inr []"
| "extensionsToVector (flt # flts) =
     bindR (bindR (jat flt ''name'') get_string) (\<lambda>name.
     bindR (bindR (jat flt ''extensions'') filter_extensions) (\<lambda>exts.
     bindR (extensionsToVector flts) (\<lambda>rest.
     Inr (name # unwords (map (\<lambda>e. ''*.'' @ e) exts) # rest))))"

text \<open>The options both ways of running a command take.\<close>

definition arg_envs :: "json \<Rightarrow> (string \<times> string) list prog" where
  "arg_envs input =
     (if hasField input ''envs''
      then liftS (bindR (jat input ''envs'') (\<lambda>envs.
             bindR (mapR (\<lambda>(k, v). bindR (get_string v) (\<lambda>s. Inr (k, s))) (items envs)) (\<lambda>kvs.
             Inr (foldl (\<lambda>m (k, v). upd k v m) [] kvs))))
      else retS [])"

definition guarded_command :: "json \<Rightarrow> (string \<Rightarrow> json prog) \<Rightarrow> json prog" where
  "guarded_command input body =
     require [''command''] input (
     bindS (arg_string input ''command'') (\<lambda>command.
     bindS (getS (hasCommandExecutionAccess command)) (\<lambda>ok.
     if \<not> ok then retS (error_of NE_OS_CMDNALW command) else body command)))"

definition os_execCommand :: native_method where
  "os_execCommand input = guarded_command input (\<lambda>command.
     bindS (opt_arg input ''stdIn'' [] arg_string) (\<lambda>stdIn.
     bindS (opt_arg input ''background'' False arg_bool) (\<lambda>background.
     bindS (opt_arg input ''cwd'' [] arg_string) (\<lambda>cwd.
     bindS (arg_envs input) (\<lambda>envs.
     bindS (execCommand command \<lparr>cp_background = background, cp_events = True, cp_cwd = cwd, cp_stdIn = stdIn, cp_envs = envs\<rparr>) (\<lambda>r.
     retS (return_output (jobj [(''pid'', JInt (cr_pid r)), (''exitCode'', JInt (cr_exitCode r)),
       (''stdOut'', JString (cr_stdOut r)), (''stdErr'', JString (cr_stdErr r))]))))))))"

definition os_spawnProcess :: native_method where
  "os_spawnProcess input = guarded_command input (\<lambda>command.
     bindS (opt_arg input ''cwd'' [] arg_string) (\<lambda>cwd.
     bindS (arg_envs input) (\<lambda>envs.
     bindS (spawnProcess command (default_child_options\<lparr>cp_cwd := cwd, cp_envs := envs\<rparr>)) (\<lambda>(virtualPid, pid).
     retS (return_output (jobj [(''id'', JInt virtualPid), (''pid'', JInt pid)]))))))"

definition os_updateSpawnedProcess :: native_method where
  "os_updateSpawnedProcess input =
     require [''id'', ''event''] input (
     bindS (arg_int input ''id'') (\<lambda>i.
     bindS (arg_string input ''event'') (\<lambda>t.
     bindS (if hasField input ''data'' \<and> t = ''stdIn'' then arg_string input ''data'' else retS []) (\<lambda>stdIn.
     bindS (updateSpawnedProcess \<lparr>se_id = i, se_type = t, se_stdIn = stdIn\<rparr>) (\<lambda>ok.
     retS (if ok then success_output else error_of NE_OS_UNLTOUP (to_string i)))))))"

definition os_getSpawnedProcesses :: native_method where
  "os_getSpawnedProcesses input =
     bindS (getS ops_spawnedProcesses) (\<lambda>ps.
     retS (return_output (JArray (map (\<lambda>(i, c). jobj [(''id'', JInt i), (''pid'', JInt (ch_pid c))]) ps))))"

definition os_getEnv :: native_method where
  "os_getEnv input =
     require [''key''] input (
     bindS (arg_string input ''key'') (\<lambda>key.
     bindS (getS (getEnv key)) (\<lambda>v. retS (return_output (JString v)))))"

definition os_setEnv :: native_method where
  "os_setEnv input =
     require [''key'', ''value''] input (
     bindS (arg_string input ''key'') (\<lambda>key.
     bindS (arg_string input ''value'') (\<lambda>val.
     bindS (setEnv key val) (\<lambda>ok.
     retS (if ok then success_output else error_of NE_OS_UNLTOUV [])))))"

text \<open>Each variable is split again at the first equals sign; a value with a line break is lost.\<close>

definition env_entry :: "string \<times> string \<Rightarrow> (string \<times> string) result" where
  "env_entry e = (case splitTwo (fst e @ ''='' @ snd e) (CHR ''='') of
     [] \<Rightarrow> Inl Undefined
   | key # rest \<Rightarrow> Inr (key, case rest of [v] \<Rightarrow> v | _ \<Rightarrow> []))"

definition os_getEnvs :: native_method where
  "os_getEnvs input =
     bindS (getS os_env) (\<lambda>env.
     bindS (liftS (mapR env_entry env)) (\<lambda>kvs.
     retS (if kvs = [] then success_output
           else return_output (foldl (\<lambda>j (k, v). jput k (JString v) j) JNull kvs))))"

definition os_getLocaleInfo :: native_method where
  "os_getLocaleInfo input =
     bindS (getS getLocaleInfo) (\<lambda>l.
     retS (return_output (jobj [(''locale'', JString (lc_locale l)), (''language'', JString (lc_language l)),
       (''region'', JString (lc_region l))])))"

section \<open>Dialogs\<close>

definition default_filters :: "string list" where
  "default_filters = [''All files'', ''*'']"

definition arg_filters :: "json \<Rightarrow> string list prog" where
  "arg_filters input =
     (if hasField input ''filters''
      then liftS (bindR (jat input ''filters'') (\<lambda>flts. extensionsToVector (values_of flts)))
      else retS default_filters)"

definition arg_defaultPath :: "json \<Rightarrow> string prog" where
  "arg_defaultPath input =
     (if hasField input ''defaultPath''
      then bindS (arg_string input ''defaultPath'') (\<lambda>p. getS (\<lambda>w. unNormalizePath (os_platform w) p))
      else retS [])"

definition arg_flag :: "json \<Rightarrow> string \<Rightarrow> bool prog" where
  "arg_flag input k = opt_arg input k False arg_bool"

definition picked :: "string list \<Rightarrow> string" where
  "picked entries = (case entries of [] \<Rightarrow> [] | e # _ \<Rightarrow> e)"

definition os_showOpenDialog :: native_method where
  "os_showOpenDialog input =
     bindS (opt_arg input ''title'' ''Open a file'' arg_string) (\<lambda>title.
     bindS (arg_flag input ''multiSelections'') (\<lambda>multiselect.
     bindS (arg_filters input) (\<lambda>filters.
     bindS (arg_defaultPath input) (\<lambda>defaultPath.
     bindS (getS (\<lambda>w. map (normalizePath (os_platform w)) (os_pick w ''open'' title defaultPath filters multiselect))) (\<lambda>entries.
     retS (return_output (JArray (map JString entries))))))))"

definition os_showFolderDialog :: native_method where
  "os_showFolderDialog input =
     bindS (opt_arg input ''title'' ''Select a folder'' arg_string) (\<lambda>title.
     bindS (arg_defaultPath input) (\<lambda>defaultPath.
     bindS (getS (\<lambda>w. normalizePath (os_platform w) (picked (os_pick w ''folder'' title defaultPath [] False)))) (\<lambda>entry.
     retS (return_output (JString entry)))))"

definition os_showSaveDialog :: native_method where
  "os_showSaveDialog input =
     bindS (opt_arg input ''title'' ''Save a file'' arg_string) (\<lambda>title.
     bindS (arg_flag input ''forceOverwrite'') (\<lambda>overwrite.
     bindS (arg_filters input) (\<lambda>filters.
     bindS (arg_defaultPath input) (\<lambda>defaultPath.
     bindS (getS (\<lambda>w. normalizePath (os_platform w) (picked (os_pick w ''save'' title defaultPath filters overwrite)))) (\<lambda>entry.
     retS (return_output (JString entry)))))))"

definition iconMap :: "string list" where
  "iconMap = [''INFO'', ''WARNING'', ''ERROR'', ''QUESTION'']"

definition choiceMap :: "string list" where
  "choiceMap = [''OK'', ''OK_CANCEL'', ''YES_NO'', ''YES_NO_CANCEL'', ''RETRY_CANCEL'', ''ABORT_RETRY_IGNORE'']"

definition os_show :: "shown \<Rightarrow> unit prog" where
  "os_show s = modS (\<lambda>w. w\<lparr>os_shown := os_shown w @ [s]\<rparr>)"

definition os_showNotification :: native_method where
  "os_showNotification input =
     require [''title'', ''content''] input (
     bindS (arg_string input ''title'') (\<lambda>title.
     bindS (arg_string input ''content'') (\<lambda>content.
     bindS (opt_arg input ''icon'' ''INFO'' arg_string) (\<lambda>icon.
     if icon \<notin> set iconMap then retS (error_of NE_OS_INVNOTA icon)
     else thenS (os_show (Notification title content icon)) (retS success_output)))))"

fun selectedBtn :: "button \<Rightarrow> string" where
  "selectedBtn ButtonCancel = ''CANCEL''"
| "selectedBtn ButtonOk = ''OK''"
| "selectedBtn ButtonYes = ''YES''"
| "selectedBtn ButtonNo = ''NO''"
| "selectedBtn ButtonAbort = ''ABORT''"
| "selectedBtn ButtonRetry = ''RETRY''"
| "selectedBtn ButtonIgnore = ''IGNORE''"

definition os_showMessageBox :: native_method where
  "os_showMessageBox input =
     require [''title'', ''content''] input (
     bindS (arg_string input ''title'') (\<lambda>title.
     bindS (arg_string input ''content'') (\<lambda>content.
     bindS (opt_arg input ''icon'' ''INFO'' arg_string) (\<lambda>icon.
     bindS (opt_arg input ''choice'' ''OK'' arg_string) (\<lambda>choice.
     if choice \<in> set choiceMap \<and> icon \<in> set iconMap
     then let msg = Message title content choice icon
          in thenS (os_show msg) (bindS (getS (\<lambda>w. os_answer w msg)) (\<lambda>b. retS (return_output (JString (selectedBtn b)))))
     else retS (error_of NE_OS_INVMSGA (choice @ ''/'' @ icon)))))))"

section \<open>Tray menu\<close>

definition NEU_MAX_TRAY_MENU_ITEMS :: nat where
  "NEU_MAX_TRAY_MENU_ITEMS = 50"

definition menu_item :: "json \<Rightarrow> tray_item prog" where
  "menu_item menuItem =
     bindS (arg_string menuItem ''text'') (\<lambda>text.
     bindS (opt_arg menuItem ''id'' None (\<lambda>j k. bindS (arg_string j k) (\<lambda>s. retS (Some (c_str s))))) (\<lambda>i.
     bindS (arg_flag menuItem ''isDisabled'') (\<lambda>disabled.
     bindS (arg_flag menuItem ''isChecked'') (\<lambda>checked.
     retS \<lparr>ti_id = i, ti_text = Some (c_str text), ti_disabled = disabled, ti_checked = checked\<rparr>))))"

definition set_menu :: "nat \<Rightarrow> tray_item \<Rightarrow> unit prog" where
  "set_menu i item = modS (\<lambda>w. w\<lparr>ops_menus := (ops_menus w)[i := item]\<rparr>)"

definition setTray_menus :: "json \<Rightarrow> unit prog" where
  "setTray_menus menuItems =
     (let menuCount = min (jsize menuItems) NEU_MAX_TRAY_MENU_ITEMS
      in thenS (forS (enumerate 0 (take menuCount (values_of menuItems))) (\<lambda>(i, menuItem).
                  bindS (menu_item menuItem) (set_menu i)))
               (if menuCount < NEU_MAX_TRAY_MENU_ITEMS then set_menu menuCount no_item else retS ()))"

definition setTray_icon :: "string \<Rightarrow> unit prog" where
  "setTray_icon iconPath =
     bindS (getS (\<lambda>w. w)) (\<lambda>w.
     if os_platform w = FreeBSD then retS ()
     else if os_platform w \<noteq> Linux
     then bindS (resources_getFile iconPath default_options) (\<lambda>r. modS (\<lambda>w. w\<lparr>ops_trayIcon := Some (fr_data r)\<rparr>))
     else if isDirMode w
     then bindS (readS (\<lambda>w. absolute w (joinAppPath iconPath w))) (\<lambda>full. modS (\<lambda>w. w\<lparr>ops_trayIcon := Some full\<rparr>))
     else thenS (modS (\<lambda>w. w\<lparr>ops_useOtherTempTrayIcon := \<not> ops_useOtherTempTrayIcon w\<rparr>))
         (bindS (getS (\<lambda>w. joinAppDataPath (if ops_useOtherTempTrayIcon w then ''/.tmp/tray_icon_linux_01.png''
                             else ''/.tmp/tray_icon_linux_02.png'') w)) (\<lambda>tempIconPath.
          bindS (resources_extractFile iconPath tempIconPath) (\<lambda>_.
          bindS (readS (\<lambda>w. absolute w tempIconPath)) (\<lambda>full.
          modS (\<lambda>w. w\<lparr>ops_trayIcon := Some full\<rparr>))))))"

definition os_setTray :: native_method where
  "os_setTray input =
     thenS (if hasField input ''menuItems'' then bindS (liftS (jat input ''menuItems'')) setTray_menus else retS ())
    (thenS (if hasField input ''icon'' then bindS (arg_string input ''icon'') setTray_icon else retS ())
    (thenS (modS (\<lambda>w. if \<not> ops_trayInitialized w then w\<lparr>ops_trayInitialized := os_trayInit w\<rparr> else w))
    (bindS (getS ops_trayInitialized) (\<lambda>ok.
     retS (if ok then success_output else error_of NE_OS_TRAYIER [])))))"

definition handleTrayMenuItem :: "tray_item \<Rightarrow> unit prog" where
  "handleTrayMenuItem item = (case ti_id item of
     None \<Rightarrow> retS ()
   | Some i \<Rightarrow> (case ti_text item of
       None \<Rightarrow> throwS Undefined
     | Some text \<Rightarrow> dispatch ''trayMenuItemClicked''
         (jobj [(''id'', JString i), (''text'', JString text), (''isChecked'', JBool (ti_checked item)),
                (''isDisabled'', JBool (ti_disabled item))])))"

section \<open>Other methods\<close>

definition os_open :: native_method where
  "os_open input =
     require [''url''] input (
     bindS (arg_string input ''url'') (\<lambda>url.
     thenS (os_open_url url) (retS success_output)))"

definition os_getPathMethod :: native_method where
  "os_getPathMethod input =
     require [''name''] input (
     bindS (arg_string input ''name'') (\<lambda>name.
     bindS (readS (os_getPath name)) (\<lambda>path.
     retS (if path \<noteq> [] then return_output (JString path) else error_of NE_OS_INVKNPT name))))"

definition os_trashItem :: native_method where
  "os_trashItem input =
     require [''path''] input (
     bindS (arg_string input ''path'') (\<lambda>path.
     bindS (getS (\<lambda>w. os_trash w (c_str path))) (\<lambda>ok.
     retS (if ok then message_output (path @ '' was moved to trash'') else error_of NE_OS_UNLTRAS path))))"

end
