(* ===== verification/Guard.thy ===== *)
theory Guard
  imports Prelude
begin

text \<open>
  The contract of a guarded operation, shared by the gate of the router and the command allow list:
  a request that is not allowed leaves a view of the state as it was. Of a sequence of requests
  that changed the view, one was allowed in the state it met.
\<close>

definition run_all :: "('r \<Rightarrow> ('s, 'a) comp) \<Rightarrow> 'r list \<Rightarrow> 's \<Rightarrow> 's" where
  "run_all run rs s = foldl (\<lambda>s r. snd (run r s)) s rs"

lemma run_all_simps [simp]:
  "run_all run [] s = s"
  "run_all run (rs @ [r]) s = snd (run r (run_all run rs s))"
  by (simp_all add: run_all_def)

locale guarded =
  fixes allowed :: "'r \<Rightarrow> 's \<Rightarrow> bool" and run :: "'r \<Rightarrow> ('s, 'a) comp" and view :: "'s \<Rightarrow> 'v"
  assumes refused: "\<not> allowed r s \<Longrightarrow> view (snd (run r s)) = view s"
begin

lemma changed_by_allowed:
  "view (run_all run rs s) \<noteq> view s \<Longrightarrow> \<exists>pre r post. rs = pre @ r # post \<and> allowed r (run_all run pre s)"
proof (induction rs rule: rev_induct)
  case (snoc r rs)
  show ?case
  proof (cases "allowed r (run_all run rs s)")
    case False
    with snoc.prems have "view (run_all run rs s) \<noteq> view s" using refused by simp
    with snoc.IH obtain pre x post where "rs = pre @ x # post" "allowed x (run_all run pre s)" by blast
    then show ?thesis by (metis append_Cons append_assoc)
  qed blast
qed simp

lemma all_refused:
  "(\<And>pre r post. rs = pre @ r # post \<Longrightarrow> \<not> allowed r (run_all run pre s)) \<Longrightarrow> view (run_all run rs s) = view s"
  using changed_by_allowed by blast

end

end
