(* ===== verification/OsProps.thy ===== *)
theory OsProps
  imports Os Demo Guard
begin

text \<open>
  Properties of \<^verbatim>\<open>api/os/os.cpp\<close>: which commands are started, the identifiers of child processes,
  environment variables, and the menu of the tray.
\<close>

section \<open>Commands\<close>

text \<open>
  From a state, a step starts processes with a property only, and the rules that follow the shape
  of a method.
\<close>

definition starts :: "(proc_request \<Rightarrow> bool) \<Rightarrow> 'a prog \<Rightarrow> world \<Rightarrow> bool" where
  "starts P m w \<longleftrightarrow> (\<exists>rs. os_started (snd (m w)) = os_started w @ rs \<and> (\<forall>r \<in> set rs. P r))"

lemma starts_none: "keeps os_started m \<Longrightarrow> starts P m w"
  by (auto simp: starts_def keeps_def intro!: exI [of _ "[]"])

lemma starts_bind_keeps:
  assumes "keeps (\<lambda>w. w) m" "\<And>v. starts P (f v) w"
  shows "starts P (bindS m f) w"
proof (cases "m w")
  case (Pair r w')
  then have "w' = w" using assms(1) keepsD' by metis
  with Pair assms(2) show ?thesis by (cases r) (auto simp: starts_def)
qed

lemma keeps_world_opt_arg: "(\<And>i k. keeps (\<lambda>w. w) (g i k)) \<Longrightarrow> keeps (\<lambda>w. w) (opt_arg i k d g)"
  by (rule keeps_opt_arg)

lemma keeps_arg_envs [simp]: "keeps v (arg_envs input)"
  by (simp add: arg_envs_def)

lemma starts_exec: "starts (\<lambda>r. pr_command r = shell_line (os_platform w) command) (bindS (execCommand command opts) (\<lambda>r. retS (g r))) w"
  by (simp add: starts_def execCommand_def start_process_def Let_def)

lemma starts_spawn: "starts (\<lambda>r. pr_command r = shell_line (os_platform w) command) (bindS (spawnProcess command opts) (\<lambda>(v, p). retS (g v p))) w"
  by (simp add: starts_def spawnProcess_def start_process_def split_beta)

lemma guarded_cases:
  assumes "guarded_command input body w = (r, w')"
  obtains command where "jget input ''command'' = JString command" "hasCommandExecutionAccess command w" "body command w = (r, w')"
  | "w' = w"
proof (cases "jget input ''command''")
  case (JString command)
  then have "hasRequiredFields input [''command'']" by (simp add: hasField_iff)
  with JString assms have "(if \<not> hasCommandExecutionAccess command w then retS (error_of NE_OS_CMDNALW command) else body command) w = (r, w')"
    by (simp add: guarded_command_def require_step arg_string_step)
  then show ?thesis using that JString by (cases "hasCommandExecutionAccess command w") auto
qed (use assms that in \<open>auto simp: guarded_command_def require_def arg_string_def bindS_cases bindR_eq_Inr get_string_def
      hasField_jat hasField_iff jget_def jat_def split: option.splits json.splits\<close>)

lemma body_starts:
  "starts (\<lambda>r. pr_command r = shell_line (os_platform w) command)
     (bindS (opt_arg input ''stdIn'' [] arg_string) (\<lambda>stdIn.
      bindS (opt_arg input ''background'' False arg_bool) (\<lambda>background.
      bindS (opt_arg input ''cwd'' [] arg_string) (\<lambda>cwd.
      bindS (arg_envs input) (\<lambda>envs.
      bindS (execCommand command \<lparr>cp_background = background, cp_events = True, cp_cwd = cwd, cp_stdIn = stdIn, cp_envs = envs\<rparr>)
        (\<lambda>r. retS (g r))))))) w"
  "starts (\<lambda>r. pr_command r = shell_line (os_platform w) command)
     (bindS (opt_arg input ''cwd'' [] arg_string) (\<lambda>cwd.
      bindS (arg_envs input) (\<lambda>envs.
      bindS (spawnProcess command (default_child_options\<lparr>cp_cwd := cwd, cp_envs := envs\<rparr>)) (\<lambda>(v, p). retS (h v p))))) w"
  by (intro starts_bind_keeps keeps_world_opt_arg keeps_args keeps_arg_envs starts_exec starts_spawn;
      simp add: start_process_def)+

lemma guarded_starts:
  assumes "\<And>command. starts (\<lambda>r. pr_command r = shell_line (os_platform w) command) (body command) w"
    "os_started (snd (guarded_command input body w)) \<noteq> os_started w"
  shows "\<exists>command rs. jget input ''command'' = JString command \<and> hasCommandExecutionAccess command w \<and>
    os_started (snd (guarded_command input body w)) = os_started w @ rs \<and> (\<forall>r \<in> set rs. pr_command r = shell_line (os_platform w) command)"
proof -
  obtain r w' where rw: "guarded_command input body w = (r, w')" by force
  from rw show ?thesis
  proof (rule guarded_cases)
    fix command
    assume c: "jget input ''command'' = JString command" "hasCommandExecutionAccess command w" "body command w = (r, w')"
    with assms(1) [of command] obtain rs where "os_started w' = os_started w @ rs" "\<forall>r \<in> set rs. pr_command r = shell_line (os_platform w) command"
      by (auto simp: starts_def)
    with c rw show ?thesis by auto
  next
    assume "w' = w"
    then show ?thesis using assms(2) rw by simp
  qed
qed

lemma command_methods_start:
  assumes "m = os_execCommand \<or> m = os_spawnProcess" "os_started (snd (m input w)) \<noteq> os_started w"
  shows "\<exists>command rs. jget input ''command'' = JString command \<and> hasCommandExecutionAccess command w \<and>
    os_started (snd (m input w)) = os_started w @ rs \<and> (\<forall>r \<in> set rs. pr_command r = shell_line (os_platform w) command)"
  using assms(1)
proof
  assume m: "m = os_execCommand"
  show ?thesis using assms(2) unfolding m os_execCommand_def by (rule guarded_starts [rotated]) (rule body_starts(1))
next
  assume m: "m = os_spawnProcess"
  show ?thesis using assms(2) unfolding m os_spawnProcess_def by (rule guarded_starts [rotated]) (rule body_starts(2))
qed

text \<open>
  The command allow list is a gate in the sense of \<open>guarded\<close>: of a sequence of requests to the two methods that
  started anything, one was granted in the state it met.
\<close>

datatype command_request = ExecCommand json | SpawnProcess json

fun run_command :: "command_request \<Rightarrow> json prog" where
  "run_command (ExecCommand input) = os_execCommand input"
| "run_command (SpawnProcess input) = os_spawnProcess input"

fun command_granted :: "command_request \<Rightarrow> world \<Rightarrow> bool" where
  "command_granted (ExecCommand input) w = (case jget input ''command'' of JString command \<Rightarrow> hasCommandExecutionAccess command w | _ \<Rightarrow> False)"
| "command_granted (SpawnProcess input) w = (case jget input ''command'' of JString command \<Rightarrow> hasCommandExecutionAccess command w | _ \<Rightarrow> False)"

interpretation commands: guarded command_granted run_command os_started
proof
  fix r w
  assume "\<not> command_granted r w"
  then show "os_started (snd (run_command r w)) = os_started w"
    using command_methods_start [of os_execCommand _ w] command_methods_start [of os_spawnProcess _ w]
    by (cases r) (fastforce split: json.splits)+
qed

lemma started_by_granted:
  "os_started (run_all run_command rs w) \<noteq> os_started w \<Longrightarrow>
     \<exists>pre r post. rs = pre @ r # post \<and> command_granted r (run_all run_command pre w)"
  by (rule commands.changed_by_allowed)

text \<open>
  C13. With a command allow list configured, \<^verbatim>\<open>os.execCommand\<close> and \<^verbatim>\<open>os.spawnProcess\<close> start nothing but
  the command that was asked for (on Windows, through its interpreter), and only when its first token matches one of the patterns.
\<close>

theorem command_allow_list:
  assumes "perm_shouldCheckCommandAllowList w" "perm_allowedCommandPatterns w \<noteq> []"
    "m = os_execCommand \<or> m = os_spawnProcess" "os_started (snd (m input w)) \<noteq> os_started w"
  shows "\<exists>command rs. jget input ''command'' = JString command \<and> os_started (snd (m input w)) = os_started w @ rs \<and>
    (\<forall>r \<in> set rs. pr_command r = shell_line (os_platform w) command) \<and> tokenizeCommand command \<noteq> [] \<and>
    (\<exists>pat \<in> set (perm_allowedCommandPatterns w). glob pat (hd (tokenizeCommand command)))"
  using command_methods_start [OF assms(3,4)] unfolding command_access_iff [OF assms(1,2)] by blast

definition demo_commands :: world where
  "demo_commands = demo\<lparr>perm_shouldCheckCommandAllowList := True, perm_allowedCommandPatterns := [''ls'']\<rparr>"

definition command_input :: "string \<Rightarrow> json" where
  "command_input c = jobj [(''command'', JString c)]"

theorem command_allow_list_witness:
  "\<exists>command. jget (command_input ''ls -l'') ''command'' = JString command \<and> tokenizeCommand command \<noteq> []"
proof -
  have "os_started (snd (os_execCommand (command_input ''ls -l'') demo_commands)) \<noteq> os_started demo_commands"
    "perm_shouldCheckCommandAllowList demo_commands" "perm_allowedCommandPatterns demo_commands \<noteq> []"
    by code_simp+
  with command_allow_list [of demo_commands os_execCommand "command_input ''ls -l''"] show ?thesis by auto
qed


section \<open>Identifiers of child processes\<close>

text \<open>What can happen to the table of child processes; \<open>n\<close> counts the processes spawned so far.\<close>

inductive proc_reach :: "nat \<Rightarrow> world \<Rightarrow> bool" where
  proc_start: "ops_spawnedProcesses w = [] \<Longrightarrow> ops_nextVirtualPid w = 0 \<Longrightarrow> proc_reach 0 w"
| proc_spawn: "proc_reach n w \<Longrightarrow> spawnProcess command opts w = (r, w') \<Longrightarrow> proc_reach (Suc n) w'"
| proc_update: "proc_reach n w \<Longrightarrow> updateSpawnedProcess evt w = (r', w') \<Longrightarrow> proc_reach n w'"
| proc_exited: "proc_reach n w \<Longrightarrow> processExited i evts code w = (r'', w') \<Longrightarrow> proc_reach n w'"
| proc_other: "proc_reach n w \<Longrightarrow> ops_spawnedProcesses w' = ops_spawnedProcesses w \<Longrightarrow>
    ops_nextVirtualPid w' = ops_nextVirtualPid w \<Longrightarrow> proc_reach n w'"

definition procs_ok :: "nat \<Rightarrow> world \<Rightarrow> bool" where
  "procs_ok n w \<longleftrightarrow> sorted_keys (ops_spawnedProcesses w) \<and> ops_nextVirtualPid w = int n \<and>
     (\<forall>i. has_key i (ops_spawnedProcesses w) \<longrightarrow> 0 \<le> i \<and> i < int n)"

lemma spawnProcess_step:
  "spawnProcess command opts w = (Inr (ops_nextVirtualPid w, os_pid w (length (os_started w))),
     w\<lparr>ops_nextVirtualPid := next_pid (ops_nextVirtualPid w),
       os_started := os_started w @ [start_process (shell_line (os_platform w) command) opts []],
       ops_spawnedProcesses := upd (ops_nextVirtualPid w)
         \<lparr>ch_pid = os_pid w (length (os_started w)), ch_killed = False, ch_stdin = [], ch_stdinOpen = True\<rparr>
         (ops_spawnedProcesses w)\<rparr>)"
  by (simp add: spawnProcess_def)

lemma dispatchSpawned_keeps: "keeps no_outbox (dispatchSpawnedProcessEvt i a d)"
  by (simp add: dispatchSpawnedProcessEvt_def keeps_dispatch)

lemma procs_ok_spawn:
  assumes "procs_ok n w" "n < 2 ^ 31 - 1" "spawnProcess command opts w = (r, w')"
  shows "procs_ok (Suc n) w'"
proof -
  have "next_pid (int n) = int (Suc n)" using assms(2) by (simp add: next_pid_def)
  with assms show ?thesis by (fastforce simp: spawnProcess_step procs_ok_def sorted_keys_upd)
qed

lemma procs_ok_update:
  assumes "procs_ok n w" "updateSpawnedProcess evt w = (r, w')"
  shows "procs_ok n w'"
proof (cases "map_of (ops_spawnedProcesses w) (se_id evt)")
  case None
  with assms show ?thesis by (simp add: updateSpawnedProcess_def)
next
  case (Some c)
  then have k: "0 \<le> se_id evt" "se_id evt < int n"
    using assms(1) Some by (simp_all add: procs_ok_def has_key_def)
  have "w' = w \<or> (\<exists>c'. w' = w\<lparr>ops_spawnedProcesses := upd (se_id evt) c' (ops_spawnedProcesses w)\<rparr>)"
    using assms(2) Some by (auto simp: updateSpawnedProcess_def put_child_def split: if_splits)
  then show ?thesis
    using assms(1) k by (auto simp: procs_ok_def sorted_keys_upd)
qed

lemma procs_ok_exited:
  assumes "procs_ok n w" "processExited i evts code w = (r, w')"
  shows "procs_ok n w'"
proof -
  obtain w1 r1 where w1: "(if evts then dispatchSpawnedProcessEvt i ''exit'' (JInt code) else retS ()) w = (r1, w1)" by force
  have "keeps no_outbox (if evts then dispatchSpawnedProcessEvt i ''exit'' (JInt code) else retS ())"
    using dispatchSpawned_keeps by simp
  then have "no_outbox w1 = no_outbox w" using w1 by (rule keepsD')
  note same = no_outbox_field [OF this, of ops_spawnedProcesses] no_outbox_field [OF this, of ops_nextVirtualPid]
  have "w' = w1 \<or> w' = w1\<lparr>ops_spawnedProcesses := del i (ops_spawnedProcesses w1)\<rparr>"
    using assms(2) w1 by (cases r1) (simp_all add: processExited_def)
  then show ?thesis
    using assms(1) same by (auto simp: procs_ok_def sorted_keys_del)
qed

lemma proc_reach_ok: "proc_reach n w \<Longrightarrow> n < 2 ^ 31 \<Longrightarrow> procs_ok n w"
proof (induction rule: proc_reach.induct)
  case (proc_spawn n w command opts r w')
  then show ?case using procs_ok_spawn [of n w] by simp
next
  case (proc_start w)
  then show ?case by (simp add: procs_ok_def has_key_def)
next
  case (proc_update n w evt r' w')
  then show ?case using procs_ok_update [of n w] by blast
next
  case (proc_exited n w i evts code r'' w')
  then show ?case using procs_ok_exited [of n w] by blast
next
  case (proc_other n w w')
  then show ?case by (simp add: procs_ok_def)
qed



section \<open>Environment variables\<close>

lemma map_of_set_all: "map_of (map (\<lambda>(k', v'). if k' = k then (k', v) else (k', v')) env) x =
    (if x = k then map_option (\<lambda>_. v) (map_of env k) else map_of env x)"
  by (induction env) auto

lemma map_of_env_put: "map_of (env_put k v env) = (map_of env)(k \<mapsto> v)"
proof
  fix x
  show "map_of (env_put k v env) x = ((map_of env)(k \<mapsto> v)) x"
    by (cases "map_of env k") (auto simp: env_put_def map_of_set_all map_add_def split: option.splits)
qed



section \<open>Tray menu\<close>

lemma menu_item_text: "menu_item j w = (Inr item, w') \<Longrightarrow> w' = w \<and> ti_text item \<noteq> None"
proof -
  assume m: "menu_item j w = (Inr item, w')"
  have "keeps (\<lambda>w. w) (menu_item j)"
    unfolding menu_item_def arg_flag_def by (intro keeps_intros keeps_args keeps_opt_arg)
  from keepsD' [OF this m] have "w' = w" by simp
  with m show ?thesis by (auto simp: menu_item_def bindS_cases)
qed

lemma menu_loop:
  "forS (enumerate k js) (\<lambda>(i, j). bindS (menu_item j) (set_menu i)) w = (Inr (), w') \<Longrightarrow>
     length (ops_menus w') = length (ops_menus w) \<and>
     (\<forall>i < length (ops_menus w). k \<le> i \<and> i < k + length js \<longrightarrow> ti_text (ops_menus w' ! i) \<noteq> None) \<and>
     (\<forall>i < length (ops_menus w). i < k \<longrightarrow> ops_menus w' ! i = ops_menus w ! i)"
proof (induction js arbitrary: k w)
  case (Cons j js)
  obtain item where item: "menu_item j w = (Inr item, w)"
    and rest: "forS (enumerate (Suc k) js) (\<lambda>(i, j). bindS (menu_item j) (set_menu i))
      (w\<lparr>ops_menus := (ops_menus w)[k := item]\<rparr>) = (Inr (), w')"
    using Cons.prems menu_item_text [of j w] by (auto simp: thenS_def bindS_cases set_menu_def [of k])
  have t: "ti_text item \<noteq> None" using menu_item_text [OF item] by simp
  note IH = Cons.IH [OF rest]
  have "ti_text (ops_menus w' ! i) \<noteq> None" if "i < length (ops_menus w)" "k \<le> i" "i < k + length (j # js)" for i
    using IH t that by (cases "i = k") auto
  moreover have "ops_menus w' ! i = ops_menus w ! i" if "i < length (ops_menus w)" "i < k" for i
    using IH that by simp
  ultimately show ?case using IH by simp
qed auto

text \<open>
  C17. The tray library walks the menu until an entry without text. A menu of fewer than fifty items
  ends with such an entry; one of fifty or more fills the whole array, so no entry ends it.
\<close>

theorem tray_menu_terminated:
  assumes "length (ops_menus w) = NEU_MAX_TRAY_MENU_ITEMS" "setTray_menus (JArray js) w = (Inr (), w')"
  shows "length (ops_menus w') = NEU_MAX_TRAY_MENU_ITEMS \<and>
    (if length js < NEU_MAX_TRAY_MENU_ITEMS then ti_text (ops_menus w' ! length js) = None
     else \<forall>i < NEU_MAX_TRAY_MENU_ITEMS. ti_text (ops_menus w' ! i) \<noteq> None)"
proof -
  let ?n = "min (length js) NEU_MAX_TRAY_MENU_ITEMS"
  have vs: "jsize (JArray js) = length js" "length (values_of (JArray js)) = length js"
    by (simp_all add: jsize_def values_of_def items_def)
  with assms(2) obtain w1 where w1: "forS (enumerate 0 (take ?n (values_of (JArray js))))
      (\<lambda>(i, j). bindS (menu_item j) (set_menu i)) w = (Inr (), w1)"
    and w': "(if ?n < NEU_MAX_TRAY_MENU_ITEMS then set_menu ?n no_item else retS ()) w1 = (Inr (), w')"
    by (auto simp: setTray_menus_def Let_def thenS_def bindS_cases)
  note loop = menu_loop [OF w1]
  show ?thesis
  proof (cases "length js < NEU_MAX_TRAY_MENU_ITEMS")
    case True
    then show ?thesis using w' loop assms(1) by (auto simp: set_menu_def no_item_def)
  next
    case False
    then have "w' = w1" "?n = NEU_MAX_TRAY_MENU_ITEMS" using w' by auto
    then show ?thesis using loop assms(1) vs(2) False by simp
  qed
qed

theorem tray_menu_terminated_witness:
  "\<exists>w'. setTray_menus (JArray [jobj [(''text'', JString ''a'')]]) demo = (Inr (), w') \<and> ti_text (ops_menus w' ! 1) = None"
proof -
  have "fst (setTray_menus (JArray [jobj [(''text'', JString ''a'')]]) demo) = Inr ()" by code_simp
  then obtain w' where w': "setTray_menus (JArray [jobj [(''text'', JString ''a'')]]) demo = (Inr (), w')"
    by (metis prod.collapse)
  moreover have "length (ops_menus demo) = NEU_MAX_TRAY_MENU_ITEMS"
    by (simp add: demo_def initial_world_def NEU_MAX_TRAY_MENU_ITEMS_def)
  from tray_menu_terminated [OF this w'] have "ti_text (ops_menus w' ! 1) = None"
    by (simp add: NEU_MAX_TRAY_MENU_ITEMS_def)
  ultimately show ?thesis by blast
qed

end
