(* ===== verification/Res.thy ===== *)
theory Res
  imports FsPaths Copy
begin

text \<open>
  \<^verbatim>\<open>api/res/res.cpp\<close>: the methods that list, read and extract the resources of the application, from the
  archive's file tree or from the resource directory.
\<close>

section \<open>The file tree\<close>

text \<open>The paths of all entries of the tree, a directory before what it holds.\<close>

function bundle_files :: "string \<Rightarrow> json \<Rightarrow> string list" where
  "bundle_files basePath d =
     (if \<not> hasField d ''files'' then []
      else concat (map (\<lambda>(childPath, childData).
             let path = basePath @ ''/'' @ childPath in path # bundle_files path childData) (items (jget d ''files''))))"
  by pat_completeness auto

lemma size_child: "hasField d k \<Longrightarrow> (c, v) \<in> set (items (jget d k)) \<Longrightarrow> size v < size d"
  using size_jget [of d k] size_items [of c v "jget d k"] by simp

termination bundle_files
  by (relation "measure (\<lambda>(p, d). size d)") (auto dest: size_child)

declare bundle_files.simps [simp del]

definition getAllFiles :: "world \<Rightarrow> string list" where
  "getAllFiles w = bundle_files [] (getFileTree w)"

text \<open>The files below a path; directories that cannot lead there are not entered.\<close>

function files_below :: "string \<Rightarrow> string \<Rightarrow> json \<Rightarrow> string list" where
  "files_below rootPath path d =
     (if \<not> hasField d ''files'' then (if prefix rootPath path then [path] else [])
      else if \<not> prefix path rootPath \<and> \<not> prefix rootPath path then []
      else concat (map (\<lambda>(childPath, childData). files_below rootPath (path @ ''/'' @ childPath) childData)
             (items (jget d ''files''))))"
  by pat_completeness auto

termination files_below
  by (relation "measure (\<lambda>(r, p, d). size d)") (auto dest: size_child)

declare files_below.simps [simp del]

definition res_getFilesBelow :: "string \<Rightarrow> world \<Rightarrow> string list" where
  "res_getFilesBelow rootPath w = files_below rootPath [] (getFileTree w)"

text \<open>
  \<^verbatim>\<open>__getStats\<close>: each segment descends through \<^verbatim>\<open>json["files"][segment]\<close>; a path that leads nowhere
  has the size \<^verbatim>\<open>-1\<close>, as an unsigned number.
\<close>

fun stat_seek :: "json \<Rightarrow> string list \<Rightarrow> json result" where
  "stat_seek j [] = Inr j"
| "stat_seek j (seg # segs) =
     (if seg = [] then stat_seek j segs
      else if is_null j then Inr j
      else bindR (jrefs [''files'', seg] j) (\<lambda>(v, _). stat_seek v segs))"

definition res_stats :: "string \<Rightarrow> world \<Rightarrow> (int \<times> bool) result" where
  "res_stats path w =
     bindR (stat_seek (getFileTree w) (split path (CHR ''/''))) (\<lambda>j.
     if is_null j then Inr (to_ulong (- 1), False)
     else bindR (jref j ''files'') (\<lambda>(files, j').
          if is_null files then bindR (jref j' ''size'') (\<lambda>(v, _). bindR (get_ulong v) (\<lambda>n. Inr (n, True)))
          else Inr (4096, False)))"

definition getResourcesDirectory :: "string prog" where
  "getResourcesDirectory =
     bindS (readS (\<lambda>w. jrefs [''cli'', ''resourcesPath''] (getConfig w))) (\<lambda>(jResourcesPath, _).
     bindS (if \<not> is_null jResourcesPath then liftS (get_string jResourcesPath) else retS []) (\<lambda>resourcesPath.
     getS (joinAppPath resourcesPath)))"

definition convertPath :: "string \<Rightarrow> world \<Rightarrow> string" where
  "convertPath path w = ''/'' @ normalizePath (os_platform w) (fs_relative path (getAppPath w) w)"

section \<open>Methods\<close>

definition json_strings :: "string list \<Rightarrow> json" where
  "json_strings ss = JArray (map JString ss)"

definition res_getFiles :: native_method where
  "res_getFiles input =
     bindS (getS (\<lambda>w. isBundleMode w \<or> isEmbeddedMode w)) (\<lambda>archived.
     if archived then bindS (getS getAllFiles) (\<lambda>files. retS (return_output (json_strings files)))
     else bindS getResourcesDirectory (\<lambda>resourcesPath.
          bindS (getS (\<lambda>w. [getConfigFile w, convertPath resourcesPath w])) (\<lambda>first.
          bindS (readS (readDirectory resourcesPath True)) (\<lambda>dirResult.
          bindS (getS (\<lambda>w. map (\<lambda>e. convertPath (de_path e) w) (dr_entries dirResult))) (\<lambda>entries.
          retS (return_output (json_strings (first @ entries))))))))"

definition stats_output :: "int \<Rightarrow> bool \<Rightarrow> bool \<Rightarrow> json" where
  "stats_output sz isFile isDirectory =
     return_output (jobj [(''size'', JInt sz), (''isFile'', JBool isFile), (''isDirectory'', JBool isDirectory)])"

definition res_getStats :: native_method where
  "res_getStats input =
     require [''path''] input (
     bindS (arg_string input ''path'') (\<lambda>path.
     bindS (getS (\<lambda>w. isBundleMode w \<or> isEmbeddedMode w)) (\<lambda>archived.
     if archived
     then bindS (readS (res_stats path)) (\<lambda>(sz, isFile).
          retS (if sz \<noteq> to_ulong (- 1) then stats_output sz isFile (\<not> isFile) else error_of NE_RS_NOPATHE path))
     else bindS (getS (joinAppPath path)) (\<lambda>full.
          bindS (getS (getStats full)) (\<lambda>st.
          retS (if st_status st = NE_ST_OK
                then stats_output (st_size st) (st_entryType st = EntryTypeFile) (st_entryType st = EntryTypeDir)
                else error_of (st_status st) full))))))"

definition res_read :: "(string \<Rightarrow> string) \<Rightarrow> native_method" where
  "res_read encode input =
     require [''path''] input (
     bindS (arg_string input ''path'') (\<lambda>path.
     bindS (resources_getFile path default_options) (\<lambda>r.
     retS (if fr_status r \<noteq> NE_ST_OK then error_of (fr_status r) path
           else return_output (JString (encode (fr_data r)))))))"

definition res_readFile :: native_method where
  "res_readFile = res_read (\<lambda>s. s)"

definition res_readBinaryFile :: native_method where
  "res_readBinaryFile = res_read to_base64"

text \<open>
  Extraction. From a directory the resources are copied, existing files are overwritten. The
  results of the single extractions of \<^verbatim>\<open>extractDirectory\<close> are ignored; \<^verbatim>\<open>substr\<close> raises where the
  position is past the end.
\<close>

definition extract_options :: copy_options where
  "extract_options = \<lparr>co_recursive = True, co_overwrite = True, co_skip = False\<rparr>"

definition extract_tree :: "StatusCode \<Rightarrow> string \<Rightarrow> string \<Rightarrow> json prog" where
  "extract_tree code path destination =
     bindS (getS (joinAppPath path)) (\<lambda>source.
     bindS (fs_copy_tree extract_options source destination) (\<lambda>ok.
     retS (if ok then success_output else error_of code destination)))"

definition res_extractFile :: native_method where
  "res_extractFile input =
     require [''path'', ''destination''] input (
     bindS (arg_string input ''path'') (\<lambda>path.
     bindS (arg_string input ''destination'') (\<lambda>destination.
     bindS (getS isDirMode) (\<lambda>dir.
     if \<not> dir
     then bindS (resources_extractFile path destination) (\<lambda>ok.
          retS (if ok then success_output else error_of NE_RS_FILEXTF destination))
     else extract_tree NE_RS_FILEXTF path destination))))"

definition extract_one :: "string \<Rightarrow> string \<Rightarrow> string \<Rightarrow> unit prog" where
  "extract_one path destination resPath =
     bindS (getS (\<lambda>w. normalizePath (os_platform w) resPath)) (\<lambda>norm.
     let start = (if path = ''/'' then 1 else length path + 1)
     in if start > length norm then throwS OutOfRange
        else bindS (resources_extractFile resPath (path_append destination (drop start norm))) (\<lambda>_. retS ()))"

definition res_extractDirectory :: native_method where
  "res_extractDirectory input =
     require [''path'', ''destination''] input (
     bindS (arg_string input ''path'') (\<lambda>path.
     bindS (arg_string input ''destination'') (\<lambda>destination.
     bindS (getS isDirMode) (\<lambda>dir.
     if \<not> dir
     then bindS (getS (res_getFilesBelow path)) (\<lambda>resPaths.
          thenS (forS resPaths (extract_one path destination)) (retS success_output))
     else extract_tree NE_RS_DIREXTF path destination))))"

end
