(* ===== verification/Window.thy ===== *)
theory Window
  imports Os
begin

text \<open>
  \<^verbatim>\<open>api/window/window.cpp\<close> in the GTK builds, together with \<^verbatim>\<open>app::exit\<close>, which closing the window
  calls and which closes the window: the saved window state, the handlers of window events, and the
  methods. The toolkit is a parameter: the calls made to it are recorded, and what it reports may
  depend on all of them. The main menu, the creation of the window and its methods
  are in \<open>WindowApi\<close>.
\<close>

section \<open>The toolkit\<close>

definition wcall :: "win_call \<Rightarrow> unit prog" where
  "wcall c = modS (\<lambda>w. w\<lparr>win_calls := win_calls w @ [c]\<rparr>)"

text \<open>A call through the pointer \<^verbatim>\<open>nativeWindow\<close>.\<close>

definition ncall :: "win_call \<Rightarrow> unit prog" where
  "ncall c = bindS (getS win_native) (\<lambda>b. if b then wcall c else throwS Undefined)"

definition window_isMaximized :: "world \<Rightarrow> bool" where
  "window_isMaximized w = tk_maximized (os_toolkit w) (win_calls w)"

definition window_maximize :: "unit prog" where
  "window_maximize = bindS (getS window_isMaximized) (\<lambda>b. if b then retS () else wcall Maximize)"

definition window_unmaximize :: "unit prog" where
  "window_unmaximize = bindS (getS window_isMaximized) (\<lambda>b. if \<not> b then retS () else wcall Unmaximize)"

definition window_unminimize :: "unit prog" where
  "window_unminimize = wcall Present"

definition window_isMinimized :: "world \<Rightarrow> bool" where
  "window_isMinimized w = win_isMinimized w"

definition window_isVisible :: "world \<Rightarrow> bool" where
  "window_isVisible w = tk_visible (os_toolkit w) (win_calls w)"

definition window_focus :: "unit prog" where
  "window_focus = wcall Present"

definition window_isFullScreen :: "world \<Rightarrow> bool" where
  "window_isFullScreen w = win_isFullScreen w"

definition window_setFullScreen :: "unit prog" where
  "window_setFullScreen = bindS (getS window_isFullScreen) (\<lambda>b. if b then retS () else wcall FullScreen)"

definition window_exitFullScreen :: "unit prog" where
  "window_exitFullScreen = bindS (getS window_isFullScreen) (\<lambda>b. if \<not> b then retS () else wcall UnfullScreen)"

definition window_setIcon :: "string \<Rightarrow> unit prog" where
  "window_setIcon iconFile = bindS (resources_getFile iconFile default_options) (\<lambda>r. wcall (SetIcon (fr_data r)))"

definition window_move :: "int \<Rightarrow> int \<Rightarrow> unit prog" where
  "window_move x y = wcall (MoveTo x y)"

text \<open>The size the toolkit reports, in logical pixels where these are used; it is kept in the options.\<close>

definition tdiv :: "int \<Rightarrow> int \<Rightarrow> int" where
  "tdiv a b = sgn a * sgn b * (\<bar>a\<bar> div \<bar>b\<bar>)"

definition window_getSize :: "SizeOptions prog" where
  "window_getSize = (\<lambda>w.
     let (width, height) = tk_size (os_toolkit w) (win_calls w);
         scale = tk_scale (os_toolkit w);
         logical = wo_useLogicalPixels (win_props w);
         sz = (wo_sizeOptions (win_props w))\<lparr>sz_width := (if logical then tdiv width scale else width),
                sz_height := (if logical then tdiv height scale else height)\<rparr>
     in (Inr sz, w\<lparr>win_props := (win_props w)\<lparr>wo_sizeOptions := sz\<rparr>\<rparr>))"

definition window_getPosition :: "world \<Rightarrow> int \<times> int" where
  "window_getPosition w = tk_position (os_toolkit w) (win_calls w)"

definition getCenterPos :: "bool \<Rightarrow> (int \<times> int) prog" where
  "getCenterPos useConfigSizes =
     bindS (if useConfigSizes then getS (\<lambda>w. wo_sizeOptions (win_props w)) else window_getSize) (\<lambda>sz.
     getS (\<lambda>w. let (sw, sh) = tk_workarea (os_toolkit w)
                in (tdiv (sw - sz_width sz) 2, tdiv (sh - sz_height sz) 2)))"

definition window_center :: "bool \<Rightarrow> unit prog" where
  "window_center useConfigSizes = bindS (getCenterPos useConfigSizes) (\<lambda>(x, y). window_move x y)"

section \<open>Saved state\<close>

definition NEU_WIN_CONFIG_FILE :: string where
  "NEU_WIN_CONFIG_FILE = ''/.tmp/window_state.config.json''"

definition sizeOptionsToJson :: "SizeOptions \<Rightarrow> json" where
  "sizeOptionsToJson opt = jobj [(''width'', JInt (sz_width opt)), (''height'', JInt (sz_height opt)),
     (''minWidth'', JInt (sz_minWidth opt)), (''minHeight'', JInt (sz_minHeight opt)),
     (''maxWidth'', JInt (sz_maxWidth opt)), (''maxHeight'', JInt (sz_maxHeight opt)),
     (''resizable'', JBool (sz_resizable opt))]"

definition window_state :: "SizeOptions \<Rightarrow> int \<Rightarrow> int \<Rightarrow> bool \<Rightarrow> json" where
  "window_state sz x y maximized =
     jput ''maximize'' (JBool maximized) (jput ''y'' (JInt y) (jput ''x'' (JInt x) (sizeOptionsToJson sz)))"

definition saveWindowProps :: "unit prog" where
  "saveWindowProps =
     bindS window_getSize (\<lambda>sz.
     bindS (getS window_getPosition) (\<lambda>(x, y).
     bindS (getS window_isMaximized) (\<lambda>m.
     bindS (getS (joinAppDataPath ''/.tmp'')) (\<lambda>dir.
     bindS (create_directories dir) (\<lambda>_.
     bindS (getS (joinAppDataPath NEU_WIN_CONFIG_FILE)) (\<lambda>filename.
     bindS (jsonToString (window_state sz x y m)) (\<lambda>text.
     bindS (writeFile \<lparr>fw_filename = filename, fw_data = text, fw_append = False\<rparr>) (\<lambda>_. retS ()))))))))"

definition modP :: "(WindowOptions \<Rightarrow> WindowOptions) \<Rightarrow> unit prog" where
  "modP f = modS (\<lambda>w. w\<lparr>win_props := f (win_props w)\<rparr>)"

definition jfield :: "json \<Rightarrow> string \<Rightarrow> (json \<Rightarrow> 'a result) \<Rightarrow> 'a prog" where
  "jfield j k get = liftS (bindR (jref j k) (\<lambda>(v, _). get v))"

definition loadSavedWindowProps :: "bool prog" where
  "loadSavedWindowProps =
     bindS (getS (joinAppDataPath NEU_WIN_CONFIG_FILE)) (\<lambda>filename.
     bindS (readS (readFile filename default_options)) (\<lambda>r.
     if fr_status r \<noteq> NE_ST_OK then retS False
     else catchS
       (bindS (json_parse (fr_data r)) (\<lambda>opts.
        bindS (jfield opts ''x'' get_int) (\<lambda>x. thenS (modP (\<lambda>p. p\<lparr>wo_x := x\<rparr>))
       (bindS (jfield opts ''y'' get_int) (\<lambda>y. thenS (modP (\<lambda>p. p\<lparr>wo_y := y\<rparr>))
       (bindS (jfield opts ''maximize'' get_bool) (\<lambda>m. thenS (modP (\<lambda>p. p\<lparr>wo_maximize := m\<rparr>))
       (bindS (jfield opts ''width'' get_int) (\<lambda>width.
        thenS (modP (\<lambda>p. p\<lparr>wo_sizeOptions := (wo_sizeOptions p)\<lparr>sz_width := width\<rparr>\<rparr>))
       (bindS (jfield opts ''height'' get_int) (\<lambda>height.
        thenS (modP (\<lambda>p. p\<lparr>wo_sizeOptions := (wo_sizeOptions p)\<lparr>sz_height := height\<rparr>\<rparr>))
        (retS True))))))))))))
       (thenS (debug_log LogTypeError (makeErrorMsg NE_CF_UNBLWCF NEU_WIN_CONFIG_FILE)) (retS False))))"

definition window_close :: "int \<Rightarrow> unit prog" where
  "window_close exitCode =
     bindS (getS (\<lambda>w. w)) (\<lambda>w.
     if win_native w
     then thenS (if wo_useSavedState (win_props w) then saveWindowProps else retS ())
         (thenS (wcall (Terminate exitCode)) (modS (\<lambda>w. w\<lparr>win_native := False\<rparr>)))
     else retS ())"

definition isSavedStateLoaded :: "world \<Rightarrow> bool" where
  "isSavedStateLoaded w = win_savedState w"

section \<open>Leaving the application\<close>

text \<open>
  \<^verbatim>\<open>std::exit\<close> runs the cleanup that \<^verbatim>\<open>main.cpp\<close> registers; before it is registered there is no tray to
  give back.
\<close>

definition std_exit :: "int \<Rightarrow> unit prog" where
  "std_exit code = thenS cleanupTray (throwS (Exits code))"

definition app_exit :: "int \<Rightarrow> unit prog" where
  "app_exit code =
     bindS (getS neuserver_isInitialized) (\<lambda>srv.
     thenS (if srv then neuserver_stop else retS ())
    (bindS settings_getMode (\<lambda>m.
     if m = AppModeWindow then thenS cleanupTray (window_close code) else std_exit code)))"

section \<open>Window events\<close>

datatype window_event =
    WEBVIEW_WINDOW_CLOSE | WEBVIEW_WINDOW_FOCUS | WEBVIEW_WINDOW_BLUR | WEBVIEW_WINDOW_FULLSCREEN
  | WEBVIEW_WINDOW_UNFULLSCREEN | WEBVIEW_WINDOW_MINIMIZED | WEBVIEW_WINDOW_RESTORED | WEBVIEW_WINDOW_SHOW
  | WEBVIEW_WINDOW_HIDE | WEBVIEW_WINDOW_MAXIMIZE | WEBVIEW_WINDOW_ACTIVATE

text \<open>The access to the API is asked only when the first two conditions leave it open.\<close>

definition closes_process :: "bool prog" where
  "closes_process =
     bindS (getS (\<lambda>w. wo_exitProcessOnClose (win_props w) \<or> \<not> neuserver_isInitialized w)) (\<lambda>b.
     if b then retS True else bindS hasAPIAccess (\<lambda>a. retS (\<not> a)))"

fun windowStateChange :: "window_event \<Rightarrow> unit prog" where
  "windowStateChange WEBVIEW_WINDOW_CLOSE =
     bindS closes_process (\<lambda>b. if b then app_exit 0 else dispatch ''windowClose'' JNull)"
| "windowStateChange WEBVIEW_WINDOW_FOCUS = dispatch ''windowFocus'' JNull"
| "windowStateChange WEBVIEW_WINDOW_BLUR = dispatch ''windowBlur'' JNull"
| "windowStateChange WEBVIEW_WINDOW_FULLSCREEN =
     thenS (modS (\<lambda>w. w\<lparr>win_isFullScreen := True\<rparr>)) (dispatch ''windowFullScreenEnter'' JNull)"
| "windowStateChange WEBVIEW_WINDOW_UNFULLSCREEN =
     thenS (modS (\<lambda>w. w\<lparr>win_isFullScreen := False\<rparr>)) (dispatch ''windowFullScreenExit'' JNull)"
| "windowStateChange WEBVIEW_WINDOW_MINIMIZED =
     thenS (modS (\<lambda>w. w\<lparr>win_isMinimized := True\<rparr>)) (dispatch ''windowMinimize'' JNull)"
| "windowStateChange WEBVIEW_WINDOW_RESTORED =
     thenS (modS (\<lambda>w. w\<lparr>win_isMinimized := False\<rparr>)) (dispatch ''windowRestore'' JNull)"
| "windowStateChange WEBVIEW_WINDOW_SHOW = dispatch ''windowShow'' JNull"
| "windowStateChange WEBVIEW_WINDOW_HIDE = dispatch ''windowHide'' JNull"
| "windowStateChange WEBVIEW_WINDOW_MAXIMIZE = dispatch ''windowMaximize'' JNull"
| "windowStateChange WEBVIEW_WINDOW_ACTIVATE = window_focus"

definition decideNewWindowPolicy :: "string \<Rightarrow> bool prog" where
  "decideNewWindowPolicy url =
     bindS (getS (\<lambda>w. wo_newWindowPolicy (win_props w))) (\<lambda>policy. case policy of
       NewWindowPolicySystem \<Rightarrow> retS False
     | NewWindowPolicyBrowser \<Rightarrow> thenS (os_open_url url) (retS True)
     | NewWindowPolicyCustom \<Rightarrow> thenS (dispatch ''newWindowRequest'' (JString url)) (retS True))"

definition window_show :: "unit prog" where
  "window_show =
     bindS (getS window_isVisible) (\<lambda>b.
     if b then retS () else thenS (wcall Show) (windowStateChange WEBVIEW_WINDOW_SHOW))"

definition window_hide :: "unit prog" where
  "window_hide =
     bindS (getS window_isVisible) (\<lambda>b.
     if \<not> b then retS () else thenS (wcall Hide) (windowStateChange WEBVIEW_WINDOW_HIDE))"

section \<open>Sizes\<close>

definition jsonToSizeOptions :: "json \<Rightarrow> bool \<Rightarrow> SizeOptions prog" where
  "jsonToSizeOptions input useDefaultRect =
     bindS (opt_arg input ''width'' (if useDefaultRect then 800 else -1) arg_int) (\<lambda>width.
     bindS (opt_arg input ''height'' (if useDefaultRect then 600 else -1) arg_int) (\<lambda>height.
     bindS (opt_arg input ''minWidth'' (-1) arg_int) (\<lambda>minWidth.
     bindS (opt_arg input ''minHeight'' (-1) arg_int) (\<lambda>minHeight.
     bindS (opt_arg input ''maxWidth'' (-1) arg_int) (\<lambda>maxWidth.
     bindS (opt_arg input ''maxHeight'' (-1) arg_int) (\<lambda>maxHeight.
     bindS (opt_arg input ''resizable'' True arg_bool) (\<lambda>resizable.
     retS \<lparr>sz_width = width, sz_height = height, sz_minWidth = minWidth, sz_minHeight = minHeight,
           sz_maxWidth = maxWidth, sz_maxHeight = maxHeight, sz_resizable = resizable\<rparr>)))))))"

text \<open>A logical size in device pixels; a product outside the range of \<^verbatim>\<open>int\<close> has no defined value.\<close>

definition scaled :: "int \<Rightarrow> int \<Rightarrow> int result" where
  "scaled scale n =
     (if n > 0 then (if n * scale < 2 ^ 31 then Inr (n * scale) else Inl Undefined) else Inr n)"

definition apply_size :: "unit prog" where
  "apply_size =
     bindS (getS (\<lambda>w. w)) (\<lambda>w.
     let sz = wo_sizeOptions (win_props w); scale = tk_scale (os_toolkit w)
     in bindS (if wo_useLogicalPixels (win_props w) then liftS (scaled scale (sz_width sz)) else retS (sz_width sz)) (\<lambda>width.
        bindS (if wo_useLogicalPixels (win_props w) then liftS (scaled scale (sz_height sz)) else retS (sz_height sz)) (\<lambda>height.
        ncall (SetSize width height sz))))"

end
