(* ===== verification/App.thy ===== *)
theory App
  imports Window
begin

text \<open>
  The small components behind the methods of \<^verbatim>\<open>api/app\<close>, \<^verbatim>\<open>api/debug\<close>, \<^verbatim>\<open>api/events\<close>,
  \<^verbatim>\<open>api/extensions\<close> and \<^verbatim>\<open>api/custom\<close>, and the loader of extensions, \<^verbatim>\<open>extensions_loader.cpp\<close>.
\<close>

section \<open>Common\<close>

definition arg_json :: "json \<Rightarrow> string \<Rightarrow> json prog" where
  "arg_json input key = liftS (jat input key)"

text \<open>The methods that send an event: the event's name, its optional data, and how it is sent.\<close>

definition event_method :: "(string \<Rightarrow> json \<Rightarrow> unit prog) \<Rightarrow> native_method" where
  "event_method deliver input =
     require [''event''] input (
     bindS (arg_string input ''event'') (\<lambda>event.
     bindS (opt_arg input ''data'' JNull arg_json) (\<lambda>d.
     thenS (deliver event d) (retS success_output))))"

section \<open>\<open>api/app\<close>\<close>

definition app_getProcessId :: "world \<Rightarrow> int" where
  "app_getProcessId w = os_selfPid w mod 2 ^ 32"

definition app_exitMethod :: native_method where
  "app_exitMethod input =
     bindS (opt_arg input ''code'' 0 arg_int) (\<lambda>code.
     thenS (app_exit code) (retS JNull))"

text \<open>
  A signal ends the process through the handler of \<^verbatim>\<open>main.cpp\<close>; \<^verbatim>\<open>SIGINT\<close> is 2.
\<close>

definition signalHandler :: "int \<Rightarrow> unit prog" where
  "signalHandler sig = thenS cleanupTray (throwS (Exits (128 + sig)))"

definition app_killProcess :: native_method where
  "app_killProcess input =
     thenS cleanupTray
    (bindS (getS os_platform) (\<lambda>pf.
     thenS (if pf = Windows then throwS (Exits 137) else signalHandler 2) (retS JNull)))"

definition app_getProcessIdMethod :: native_method where
  "app_getProcessIdMethod input = bindS (getS app_getProcessId) (\<lambda>pid. retS (return_output (JInt pid)))"

definition app_getConfig :: native_method where
  "app_getConfig input = bindS (getS getConfig) (\<lambda>cfg. retS (return_output cfg))"

definition app_broadcast :: native_method where
  "app_broadcast = event_method dispatchToAllApps"

text \<open>
  \<^verbatim>\<open>while(getline(cin, line) && !line.empty())\<close> on the rest of the standard input: the text
  collected and what is left.
\<close>

fun read_lines :: "bool \<Rightarrow> string \<Rightarrow> string \<Rightarrow> string \<times> string" where
  "read_lines readAll lines [] = (lines, [])"
| "read_lines readAll lines (c # cs) =
     (let line = takeWhile (\<lambda>x. x \<noteq> CHR 0x0A) (c # cs);
          rest = drop (Suc (length line)) (c # cs)
      in if line = [] then (lines, rest)
         else if \<not> readAll then (lines @ line, rest)
         else read_lines readAll (lines @ line @ [CHR 0x0A]) rest)"

definition app_readProcessInput :: native_method where
  "app_readProcessInput input =
     bindS (opt_arg input ''readAll'' False arg_bool) (\<lambda>readAll.
     bindS (getS (\<lambda>w. read_lines readAll [] (os_stdin w))) (\<lambda>(lines, rest).
     thenS (modS (\<lambda>w. w\<lparr>os_stdin := rest\<rparr>)) (retS (return_output (JString lines)))))"

definition write_out_stream :: "string \<Rightarrow> unit prog" where
  "write_out_stream d = modS (\<lambda>w. w\<lparr>os_stdout := os_stdout w @ d\<rparr>)"

definition write_err_stream :: "string \<Rightarrow> unit prog" where
  "write_err_stream d = modS (\<lambda>w. w\<lparr>os_stderr := os_stderr w @ d\<rparr>)"

definition app_writeProcessOutput :: native_method where
  "app_writeProcessOutput input =
     require [''data''] input (
     bindS (arg_string input ''data'') (\<lambda>d.
     thenS (write_out_stream d) (retS (message_output ''Wrote data to stdout''))))"

definition app_writeProcessError :: native_method where
  "app_writeProcessError input =
     require [''data''] input (
     bindS (arg_string input ''data'') (\<lambda>d.
     thenS (write_err_stream d) (retS (message_output ''Wrote data to stderr''))))"

section \<open>\<open>api/debug\<close>\<close>

definition log_type :: "string \<Rightarrow> LogType" where
  "log_type type =
     (if type = ''ERROR'' then LogTypeError else if type = ''WARNING'' then LogTypeWarning
      else if type = ''DEBUG'' then LogTypeDebug else LogTypeInfo)"

definition debug_logMethod :: native_method where
  "debug_logMethod input =
     require [''message''] input (
     bindS (opt_arg input ''type'' ''INFO'' arg_string) (\<lambda>type.
     bindS (arg_string input ''message'') (\<lambda>message.
     thenS (debug_log (log_type type) message) (retS (message_output ''Wrote to the log file: neutralino.log'')))))"

section \<open>\<open>api/events\<close> and \<open>api/extensions\<close>\<close>

definition events_broadcast :: native_method where
  "events_broadcast = event_method dispatch"

definition extensions_dispatch :: native_method where
  "extensions_dispatch input =
     require [''extensionId'', ''event''] input (
     bindS (arg_string input ''extensionId'') (\<lambda>extensionId.
     bindS (arg_string input ''event'') (\<lambda>event.
     bindS (opt_arg input ''data'' JNull arg_json) (\<lambda>d.
     bindS (dispatchToExtension extensionId event d) (\<lambda>ok.
     retS (if ok then success_output else error_of NE_EX_EXTNOTC extensionId))))))"

definition extensions_broadcast :: native_method where
  "extensions_broadcast = event_method dispatchToAllExtensions"

definition extensions_getStats :: native_method where
  "extensions_getStats input =
     bindS (getS (\<lambda>w. (getLoaded w, getConnectedExtensions w))) (\<lambda>(loaded, connected).
     retS (return_output (jobj [(''loaded'', JArray (map JString loaded)), (''connected'', JArray (map JString connected))])))"

section \<open>\<open>api/custom\<close>\<close>

text \<open>\<^verbatim>\<open>(^custom\.)(.*)\<close>, and the second group of a match; the names are the keys of the method map.\<close>

definition cmethod_rx :: rx where
  "cmethod_rx = RSeq (rlit ''custom.'') rdots"

definition custom_methods :: "string list \<Rightarrow> string list" where
  "custom_methods names =
     map (drop 7) (filter (\<lambda>methodName. methodName \<noteq> ''custom.getMethods'' \<and> regex_match cmethod_rx methodName) names)"

definition custom_getMethods :: "string list \<Rightarrow> native_method" where
  "custom_getMethods names input = retS (return_output (JArray (map JString (custom_methods names))))"

section \<open>The loader of extensions\<close>

definition buildExtensionProcessInput :: "string \<Rightarrow> json prog" where
  "buildExtensionProcessInput extensionId =
     bindS (getOptionForCurrentMode ''port'') (\<lambda>jPort.
     bindS (liftS (get_int jPort)) (\<lambda>port.
     getS (\<lambda>w. jobj [(''nlPort'', JString (to_string port)), (''nlToken'', JString (getTokenInternal w)),
       (''nlConnectToken'', JString (getConnectTokenInternal w)), (''nlExtensionId'', JString extensionId)])))"

definition start_extension :: "string \<Rightarrow> json \<Rightarrow> string \<Rightarrow> unit prog" where
  "start_extension commandKey ext extensionId =
     bindS (arg_string ext (if hasField ext commandKey then commandKey else ''command'')) (\<lambda>command0.
     bindS (readS (applyPathConstants command0)) (\<lambda>command.
     bindS (spawnProcess command (default_child_options\<lparr>cp_events := False\<rparr>)) (\<lambda>(virtualPid, _).
     bindS (buildExtensionProcessInput extensionId) (\<lambda>stdIn.
     bindS (jsonToString stdIn) (\<lambda>text.
     bindS (updateSpawnedProcess \<lparr>se_id = virtualPid, se_type = ''stdIn'', se_stdIn = text\<rparr>) (\<lambda>_.
     bindS (updateSpawnedProcess \<lparr>se_id = virtualPid, se_type = ''stdInEnd'', se_stdIn = []\<rparr>) (\<lambda>_. retS ())))))))"

definition load_extension :: "json \<Rightarrow> unit prog" where
  "load_extension ext =
     (if \<not> hasField ext ''id'' then retS ()
      else bindS (arg_string ext ''id'') (\<lambda>extensionId.
           bindS (getS (\<lambda>w. ''command'' @ NEU_OS_NAME (os_platform w))) (\<lambda>commandKey.
           thenS (if hasField ext ''command'' \<or> hasField ext commandKey
                  then start_extension commandKey ext extensionId else retS ())
                 (loadOne extensionId))))"

definition extensions_init :: "unit prog" where
  "extensions_init =
     bindS (getOptionForCurrentMode ''extensions'') (\<lambda>jExtensions.
     if is_null jExtensions then retS ()
     else bindS (liftS (get_array jExtensions)) (\<lambda>exts.
          thenS (forS exts load_extension) (modS (\<lambda>w. w\<lparr>ext_initialized := True\<rparr>))))"

text \<open>Output of an extension goes to the streams of the process.\<close>

definition extensionOutput :: "bool \<Rightarrow> string \<Rightarrow> unit prog" where
  "extensionOutput isErr bytes = (if isErr then write_err_stream bytes else write_out_stream bytes)"

end
