(* ===== verification/Clipboard.thy ===== *)
theory Clipboard
  imports Api Base64 Demo
begin

text \<open>
  \<^verbatim>\<open>api/clipboard/clipboard.cpp\<close>, and from \<^verbatim>\<open>lib/clip/image.cpp\<close> the size of an image, which decides how
  many bytes of a buffer are read. The clipboard itself is the environment: every call to it is
  recorded, and what it holds may depend on all calls so far.
\<close>

unbundle bit_operations_syntax

section \<open>The clipboard library\<close>

definition dev_log :: "dev_call \<Rightarrow> unit prog" where
  "dev_log c = modS (\<lambda>w. w\<lparr>os_devCalls := os_devCalls w @ [c]\<rparr>)"

definition clip_has :: "clip_format \<Rightarrow> world \<Rightarrow> bool" where
  "clip_has f w \<longleftrightarrow> dv_clipHas (os_devices w) (os_devCalls w) f"

text \<open>\<^verbatim>\<open>image_spec::required_data_size\<close>: at 24 bits per pixel the last pixel is read as four bytes.\<close>

definition required_data_size :: "image_spec \<Rightarrow> 64 word" where
  "required_data_size spec =
     (let n = is_bytes_per_row spec * is_height spec
      in if is_bits_per_pixel spec = 24 then (if 0 < n mod 4 then n + (4 - n mod 4) else n + 1) else n)"

text \<open>
  \<^verbatim>\<open>set_image\<close> copies as many bytes as the specification asks for, whatever the length of the buffer, which ends
  with a zero byte of its own; reading behind that is undefined. Nothing is read when the clipboard
  cannot be taken over.
\<close>

definition clip_set_image :: "string \<Rightarrow> image_spec \<Rightarrow> unit prog" where
  "clip_set_image d spec =
     bindS (getS (\<lambda>w. dv_clipTakes (os_devices w) (os_devCalls w))) (\<lambda>taken.
     if \<not> taken then retS ()
     else let n = unat (required_data_size spec)
          in if length d + 1 < n then throwS Undefined
             else dev_log (ClipImage spec (take n (d @ [CHR 0x00]))))"

section \<open>The methods\<close>

definition clipboard_getFormat :: native_method where
  "clipboard_getFormat input =
     bindS (getS (\<lambda>w. if clip_has image_format w then ''image'' else if clip_has html_format w then ''html''
       else if clip_has text_format w then ''text'' else ''unknown'')) (\<lambda>format.
     retS (return_output (JString format)))"

definition clipboard_readText :: native_method where
  "clipboard_readText input =
     bindS (getS (\<lambda>w. if clip_has text_format w then dv_clipText (os_devices w) (os_devCalls w) else [])) (\<lambda>clipText.
     retS (return_output (JString clipText)))"

definition clipboard_readHTML :: native_method where
  "clipboard_readHTML input =
     bindS (getS (\<lambda>w. if clip_has html_format w then dv_clipHtml (os_devices w) (os_devCalls w) else [])) (\<lambda>clipHTML.
     retS (return_output (JString clipHTML)))"

definition image_json :: "image_spec \<Rightarrow> string \<Rightarrow> json" where
  "image_json spec clipData =
    (let num = (\<lambda>v :: 64 word. JInt (uint v))
     in jobj [(''width'', num (is_width spec)), (''height'', num (is_height spec)),
       (''bpp'', num (is_bits_per_pixel spec)), (''bpr'', num (is_bytes_per_row spec)),
       (''redMask'', num (is_red_mask spec)), (''greenMask'', num (is_green_mask spec)),
       (''blueMask'', num (is_blue_mask spec)), (''redShift'', num (is_red_shift spec)),
       (''greenShift'', num (is_green_shift spec)), (''blueShift'', num (is_blue_shift spec)),
       (''alphaMask'', num (is_alpha_mask spec)), (''alphaShift'', num (is_alpha_shift spec)),
       (''data'', JString (to_base64 clipData))])"

text \<open>
  The image and its specification are asked for one after the other. The bytes are read with the
  size of the specification: from a null pointer when no image could be had, and behind the image when
  it is shorter.
\<close>

definition clipboard_readImage :: native_method where
  "clipboard_readImage input =
     bindS (getS (clip_has image_format)) (\<lambda>has.
     if \<not> has then retS (return_output JNull)
     else bindS (getS (\<lambda>w. dv_clipImage (os_devices w) (os_devCalls w))) (\<lambda>image.
          bindS (getS (\<lambda>w. dv_clipSpec (os_devices w) (os_devCalls w))) (\<lambda>spec.
          bindS (getS os_memory) (\<lambda>memory.
          let size = unat (required_data_size spec); d = (case image of None \<Rightarrow> [] | Some d \<Rightarrow> d)
          in if memory < int size then throwS LengthError
             else if length d < size then throwS Undefined
             else retS (return_output (image_json spec (take size d)))))))"

definition arg_ulong :: "json \<Rightarrow> string \<Rightarrow> 64 word prog" where
  "arg_ulong input key = liftS (bindR (jat input key) (\<lambda>j. bindR (get_ulong j) (\<lambda>i. Inr (word_of_int i))))"

definition image_fields :: "string list" where
  "image_fields =
    [''width'', ''height'', ''bpp'', ''bpr'', ''redMask'', ''greenMask'', ''blueMask'',
     ''redShift'', ''greenShift'', ''blueShift'', ''data'', ''alphaShift'', ''alphaMask'']"

definition clipboard_writeImage :: native_method where
  "clipboard_writeImage input =
     require image_fields input (
     bindS (arg_ulong input ''width'') (\<lambda>width.
     bindS (arg_ulong input ''height'') (\<lambda>height.
     bindS (arg_ulong input ''bpp'') (\<lambda>bpp.
     bindS (arg_ulong input ''bpr'') (\<lambda>bpr.
     bindS (arg_ulong input ''redMask'') (\<lambda>redMask.
     bindS (arg_ulong input ''greenMask'') (\<lambda>greenMask.
     bindS (arg_ulong input ''blueMask'') (\<lambda>blueMask.
     bindS (arg_ulong input ''redShift'') (\<lambda>redShift.
     bindS (arg_ulong input ''greenShift'') (\<lambda>greenShift.
     bindS (arg_ulong input ''blueShift'') (\<lambda>blueShift.
     bindS (arg_ulong input ''alphaMask'') (\<lambda>alphaMask.
     bindS (arg_ulong input ''alphaShift'') (\<lambda>alphaShift.
     bindS (arg_string input ''data'') (\<lambda>d.
     thenS (clip_set_image (from_base64 d)
       \<lparr>is_width = width, is_height = height, is_bits_per_pixel = bpp, is_bytes_per_row = bpr,
        is_red_mask = redMask, is_green_mask = greenMask, is_blue_mask = blueMask,
        is_red_shift = redShift, is_green_shift = greenShift, is_blue_shift = blueShift,
        is_alpha_mask = alphaMask, is_alpha_shift = alphaShift\<rparr>)
     (retS (message_output ''Image wrote to the system clipboard''))))))))))))))))"

definition clipboard_writeText :: native_method where
  "clipboard_writeText input =
     require [''data''] input (
     bindS (arg_string input ''data'') (\<lambda>d.
     thenS (dev_log (ClipText d)) (retS success_output)))"

definition clipboard_writeHTML :: native_method where
  "clipboard_writeHTML input =
     require [''data''] input (
     bindS (arg_string input ''data'') (\<lambda>d.
     thenS (dev_log (ClipHtml d)) (retS success_output)))"

definition clipboard_clear :: native_method where
  "clipboard_clear input = thenS (dev_log ClipClear) (retS (message_output ''Clipboard cleared''))"

section \<open>Properties\<close>

text \<open>What \<^verbatim>\<open>clip\<close> documents of an image: it is there once it was set, with its specification.\<close>

definition keeps_image :: "devices \<Rightarrow> bool" where
  "keeps_image dv \<longleftrightarrow> (\<forall>calls spec d.
     dv_clipHas dv (calls @ [ClipImage spec d]) image_format \<and> dv_clipImage dv (calls @ [ClipImage spec d]) = Some d \<and>
     dv_clipSpec dv (calls @ [ClipImage spec d]) = spec)"

lemma arg_ulong_step:
  "jget input k = JInt (uint v) \<Longrightarrow> arg_ulong input k = retS v"
proof -
  have "uint v mod 2 ^ 64 = uint v" using uint_bounded [of v] by (intro mod_pos_pos_trivial) simp_all
  then show "jget input k = JInt (uint v) \<Longrightarrow> arg_ulong input k = retS v"
    by (auto simp: arg_ulong_def retS_def liftS_def hasField_jat hasField_iff get_ulong_def to_ulong_def)
qed

lemma image_json_get:
  "jget (image_json spec d) ''width'' = JInt (uint (is_width spec))" "jget (image_json spec d) ''height'' = JInt (uint (is_height spec))"
  "jget (image_json spec d) ''bpp'' = JInt (uint (is_bits_per_pixel spec))" "jget (image_json spec d) ''bpr'' = JInt (uint (is_bytes_per_row spec))"
  "jget (image_json spec d) ''redMask'' = JInt (uint (is_red_mask spec))" "jget (image_json spec d) ''greenMask'' = JInt (uint (is_green_mask spec))"
  "jget (image_json spec d) ''blueMask'' = JInt (uint (is_blue_mask spec))" "jget (image_json spec d) ''redShift'' = JInt (uint (is_red_shift spec))"
  "jget (image_json spec d) ''greenShift'' = JInt (uint (is_green_shift spec))" "jget (image_json spec d) ''blueShift'' = JInt (uint (is_blue_shift spec))"
  "jget (image_json spec d) ''alphaMask'' = JInt (uint (is_alpha_mask spec))" "jget (image_json spec d) ''alphaShift'' = JInt (uint (is_alpha_shift spec))"
  "jget (image_json spec d) ''data'' = JString (to_base64 d)"
  by (simp_all add: image_json_def jget_jobj Let_def)

lemma writeImage_step:
  "clipboard_writeImage (image_json spec d) =
     thenS (clip_set_image d spec) (retS (message_output ''Image wrote to the system clipboard''))"
proof -
  have "hasRequiredFields (image_json spec d) image_fields"
    by (simp add: image_fields_def hasField_iff image_json_get)
  then show ?thesis
    by (cases spec) (simp add: clipboard_writeImage_def require_step arg_ulong_step arg_string_step image_json_get from_to_base64 fun_eq_iff)
qed


definition demo_clip :: world where
  "demo_clip = demo\<lparr>os_devices := demo_devices\<lparr>
     dv_clipHas := (\<lambda>calls f. f = image_format), dv_clipSpec := (\<lambda>calls. case last calls of ClipImage spec d \<Rightarrow> spec | _ \<Rightarrow> no_image),
     dv_clipImage := (\<lambda>calls. case last calls of ClipImage spec d \<Rightarrow> Some d | _ \<Rightarrow> None)\<rparr>\<rparr>"


end
