(* ===== verification/Computer.thy ===== *)
theory Computer
  imports Os Clipboard
begin

text \<open>
  \<^verbatim>\<open>api/computer/computer.cpp\<close>: what the machine is, the pointer, the keyboard and the network
  interfaces. The libraries that look at the hardware, X11 and \<^verbatim>\<open>getifaddrs\<close> are environment.
\<close>

section \<open>Pointer and keyboard\<close>

definition isWayland :: "world \<Rightarrow> bool" where
  "isWayland w \<longleftrightarrow> getEnv ''XDG_SESSION_TYPE'' w = ''wayland''"

text \<open>Linux and FreeBSD: an X11 display that can be opened.\<close>

definition has_display :: "world \<Rightarrow> bool" where
  "has_display w \<longleftrightarrow> \<not> isWayland w \<and> dv_xdisplay (os_devices w)"

text \<open>On FreeBSD no branch sets the position: uninitialized variables are returned.\<close>

definition getMousePosition :: "(int \<times> int) prog" where
  "getMousePosition =
     bindS (getS os_platform) (\<lambda>pf.
     if pf = FreeBSD then throwS Undefined else getS (\<lambda>w. dv_pointer (os_devices w) (os_devCalls w)))"

definition setMousePosition :: "int \<Rightarrow> int \<Rightarrow> bool prog" where
  "setMousePosition x y =
     bindS (getS os_platform) (\<lambda>pf.
     if pf = Windows then
       bindS (getS (\<lambda>w. dv_setsCursor (os_devices w) (os_devCalls w))) (\<lambda>ok.
       if ok then thenS (dev_log (WarpPointer x y)) (retS True) else retS False)
     else if pf = Darwin then thenS (dev_log (WarpPointer x y)) (retS True)
     else bindS (getS has_display) (\<lambda>display.
          if \<not> display then retS False else thenS (dev_log (WarpPointer x y)) (retS True)))"

text \<open>
  Confining the pointer to the window. On macOS an event tap is kept while it is confined; on the
  X11 systems the window has to exist.
\<close>

definition setMouseGrabbing :: "bool \<Rightarrow> bool prog" where
  "setMouseGrabbing grabbing =
     bindS (getS (\<lambda>w. (os_platform w, dv_grabs (os_devices w) (os_devCalls w)))) (\<lambda>(pf, grabs).
     if pf = Windows then
       if grabs then thenS (dev_log (if grabbing then GrabPointer else UngrabPointer)) (retS True) else retS False
     else if pf = Darwin then
       (if grabbing then
          thenS (modS (\<lambda>w. w\<lparr>os_mouseTap := grabs\<rparr>))
            (if grabs then thenS (dev_log GrabPointer) (retS True) else retS False)
        else bindS (getS os_mouseTap) (\<lambda>tap.
          if \<not> tap then retS False
          else thenS (dev_log UngrabPointer) (thenS (modS (\<lambda>w. w\<lparr>os_mouseTap := False\<rparr>)) (retS True))))
     else bindS (getS (\<lambda>w. (isWayland w, win_native w))) (\<lambda>(wayland, native).
       if wayland then retS False
       else if \<not> native then throwS Undefined
       else if grabbing then (if grabs then thenS (dev_log GrabPointer) (retS True) else retS False)
       else thenS (dev_log UngrabPointer) (retS True)))"

datatype SendKeyState = SendKeyStatePress | SendKeyStateDown | SendKeyStateUp

text \<open>The code of a key has 16 bits on Windows and macOS and 32 bits elsewhere.\<close>

definition key_code :: "platform \<Rightarrow> int \<Rightarrow> int" where
  "key_code pf key = key mod (if pf = Windows \<or> pf = Darwin then 2 ^ 16 else 2 ^ 32)"

definition sendKey :: "int \<Rightarrow> SendKeyState \<Rightarrow> bool prog" where
  "sendKey keyCode keyState =
     bindS (getS (\<lambda>w. (os_platform w, has_display w))) (\<lambda>(pf, display).
     if pf \<noteq> Windows \<and> pf \<noteq> Darwin \<and> \<not> display then retS False
     else thenS (if keyState = SendKeyStatePress \<or> keyState = SendKeyStateDown then dev_log (FakeKey (key_code pf keyCode) True) else retS ())
         (thenS (if keyState = SendKeyStatePress \<or> keyState = SendKeyStateUp then dev_log (FakeKey (key_code pf keyCode) False) else retS ())
         (retS True)))"

definition computer_getMousePosition :: native_method where
  "computer_getMousePosition input =
     bindS getMousePosition (\<lambda>pos. retS (return_output (jobj [(''x'', JInt (fst pos)), (''y'', JInt (snd pos))])))"

definition computer_setMousePosition :: native_method where
  "computer_setMousePosition input =
     require [''x'', ''y''] input (
     bindS (arg_int input ''x'') (\<lambda>x.
     bindS (arg_int input ''y'') (\<lambda>y.
     bindS (setMousePosition x y) (\<lambda>ok.
     retS (if ok then success_output else error_of NE_CO_UNLTOSC [])))))"

definition computer_setMouseGrabbing :: native_method where
  "computer_setMouseGrabbing input =
     bindS (opt_arg input ''grabbing'' True arg_bool) (\<lambda>grabbing.
     bindS (setMouseGrabbing grabbing) (\<lambda>ok.
     retS (if ok then success_output else error_of NE_CO_UNLTOMG [])))"

definition computer_sendKey :: native_method where
  "computer_sendKey input =
     require [''key''] input (
     bindS (arg_int input ''key'') (\<lambda>key.
     bindS (opt_arg input ''state'' [] arg_string) (\<lambda>st.
     bindS (sendKey key (if st = ''down'' then SendKeyStateDown else if st = ''up'' then SendKeyStateUp else SendKeyStatePress)) (\<lambda>ok.
     retS (if ok then success_output else error_of NE_CO_UNLTOSK [])))))"

section \<open>The machine\<close>

text \<open>The first file that can be read holds the identifier on Linux.\<close>

fun first_readable :: "string list \<Rightarrow> world \<Rightarrow> string result" where
  "first_readable [] w = Inr []"
| "first_readable (path # paths) w =
     bindR (readFile path \<lparr>fo_pos = -1, fo_size = -1\<rparr> w) (\<lambda>r.
     if fr_status r = NE_ST_OK then Inr (trimRight (fr_data r)) else first_readable paths w)"

definition getMachineId :: "string prog" where
  "getMachineId = readS (\<lambda>w.
     if os_platform w = Linux then first_readable [''/etc/machine-id'', ''/var/lib/dbus/machine-id''] w
     else if os_platform w = FreeBSD then Inr []
     else Inr (dv_machineId (os_devices w)))"

definition computer_getMachineId :: native_method where
  "computer_getMachineId input = bindS getMachineId (\<lambda>i. retS (return_output (JString i)))"

definition computer_getHostname :: native_method where
  "computer_getHostname input =
     bindS (getS (\<lambda>w. dv_hostname (os_devices w))) (\<lambda>h.
     retS (return_output (JString (case h of None \<Rightarrow> [] | Some name \<Rightarrow> name))))"

definition computer_getMemoryInfo :: native_method where
  "computer_getMemoryInfo input =
     bindS (getS (\<lambda>w. dv_memory (os_devices w))) (\<lambda>memory.
     retS (return_output (jobj
       [(''physical'', jobj [(''total'', JInt (physical_total memory)), (''available'', JInt (physical_available memory))]),
        (''virtual'', jobj [(''total'', JInt (virtual_total memory)), (''available'', JInt (virtual_available memory))])])))"

definition getKernelVariant :: "kernel_t \<Rightarrow> string" where
  "getKernelVariant variant = (case variant of
     kernel_windows_nt \<Rightarrow> ''Windows NT'' | kernel_linux \<Rightarrow> ''Linux'' | kernel_darwin \<Rightarrow> ''Darwin'' | kernel_unknown \<Rightarrow> ''Unknown'')"

definition version_string :: "int \<Rightarrow> int \<Rightarrow> int \<Rightarrow> int \<Rightarrow> string" where
  "version_string major minor patch build =
     to_string major @ ''.'' @ to_string minor @ ''.'' @ to_string patch @ ''-'' @ to_string build"

definition computer_getKernelInfo :: native_method where
  "computer_getKernelInfo input =
     bindS (getS (\<lambda>w. dv_kernel (os_devices w))) (\<lambda>k.
     retS (return_output (jobj
       [(''variant'', JString (getKernelVariant (ki_variant k))),
        (''version'', JString (version_string (ki_major k) (ki_minor k) (ki_patch k) (ki_build_number k)))])))"

definition computer_getOSInfo :: native_method where
  "computer_getOSInfo input =
     bindS (getS (\<lambda>w. dv_system (os_devices w))) (\<lambda>i.
     retS (return_output (jobj
       [(''name'', JString (oi_name i)), (''description'', JString (oi_full_name i)),
        (''version'', JString (version_string (oi_major i) (oi_minor i) (oi_patch i) (oi_build_number i)))])))"

definition computer_getArch :: "world \<Rightarrow> string" where
  "computer_getArch w =
     (let architecture = os_build w ''architecture''
      in if architecture = ''x64'' then ''x64'' else if architecture = ''arm'' then ''arm''
         else if architecture = ''itanium'' then ''itanium'' else if architecture = ''x86'' then ''ia32''
         else ''unknown'')"

definition computer_getArchMethod :: native_method where
  "computer_getArchMethod input = bindS (getS computer_getArch) (\<lambda>arch. retS (return_output (JString arch)))"

definition computer_getCPUInfo :: native_method where
  "computer_getCPUInfo input =
     bindS (getS (\<lambda>w. (dv_cpu (os_devices w), computer_getArch w))) (\<lambda>(cpu, arch).
     retS (return_output (jobj
       [(''vendor'', JString (cpu_vendor cpu)), (''model'', JString (cpu_model_name cpu)),
        (''frequency'', JInt (cpu_frequency cpu)), (''architecture'', JString arch),
        (''logicalThreads'', JInt (cpu_logical cpu)), (''physicalCores'', JInt (cpu_physical cpu)),
        (''physicalUnits'', JInt (cpu_packages cpu))])))"

text \<open>Graphics cards and displays are numbered in the order they are reported.\<close>

definition gpu_json :: "nat \<times> GPU \<Rightarrow> json" where
  "gpu_json = (\<lambda>(gpuId, gpu).
     jobj [(''id'', JInt (int gpuId)), (''deviceId'', JString (gpu_device_id gpu)),
       (''vendorId'', JString (gpu_vendor_id gpu)), (''vendor'', JString (gpu_vendor gpu)),
       (''dedicatedMemory'', JInt (gpu_dedicated_memory gpu)), (''sharedMemory'', JInt (gpu_shared_memory gpu))])"

definition computer_getGPUs :: native_method where
  "computer_getGPUs input =
     bindS (getS (\<lambda>w. dv_gpus (os_devices w))) (\<lambda>gpus.
     retS (return_output (JArray (map gpu_json (List.enumerate 0 gpus)))))"

definition display_json :: "nat \<times> display_t \<Rightarrow> json" where
  "display_json = (\<lambda>(displayId, display).
     jobj [(''id'', JInt (int displayId)),
       (''resolution'', jobj [(''width'', JInt (dp_width display)), (''height'', JInt (dp_height display))]),
       (''dpi'', JInt (dp_dpi display)), (''bpp'', JInt (dp_bpp display)), (''refreshRate'', JFloat (dp_refresh_rate display))])"

definition computer_getDisplays :: native_method where
  "computer_getDisplays input =
     bindS (getS (\<lambda>w. dv_displays (os_devices w))) (\<lambda>displays.
     retS (return_output (JArray (map display_json (List.enumerate 0 displays)))))"

definition disk_json :: "Disk \<Rightarrow> json" where
  "disk_json disk =
     jobj [(''id'', JInt (disk_id disk)), (''vendor'', JString (disk_vendor disk)), (''model'', JString (disk_model disk)),
       (''serial'', JString (disk_serial disk)),
       (''mountPoint'', JString (case disk_mount_points disk of [] \<Rightarrow> [] | p # _ \<Rightarrow> p)),
       (''total'', JInt (disk_size disk)), (''free'', JInt (disk_free disk))]"

definition computer_getDisks :: native_method where
  "computer_getDisks input =
     bindS (getS (\<lambda>w. dv_disks (os_devices w))) (\<lambda>disks.
     retS (return_output (JArray (map disk_json disks))))"

section \<open>Network interfaces\<close>

definition hex_lower :: "nat \<Rightarrow> char" where
  "hex_lower n = char_of (if n < 10 then 48 + n else 87 + n)"

text \<open>Two digits for each byte, and colons in between.\<close>

fun format_mac :: "8 word list \<Rightarrow> string" where
  "format_mac [] = []"
| "format_mac [b] = [hex_lower (unat b div 16), hex_lower (unat b mod 16)]"
| "format_mac (b # bs) = hex_lower (unat b div 16) # hex_lower (unat b mod 16) # CHR '':'' # format_mac bs"

type_synonym interfaces = "(string \<times> json list) list"

text \<open>\<^verbatim>\<open>interfaces[name].push_back(info)\<close>\<close>

definition add_info :: "string \<Rightarrow> json \<Rightarrow> interfaces \<Rightarrow> interfaces" where
  "add_info name info ifs = upd name ((case map_of ifs name of None \<Rightarrow> [] | Some infos \<Rightarrow> infos) @ [info]) ifs"

definition interfaces_json :: "interfaces \<Rightarrow> json" where
  "interfaces_json ifs = JObject (map (\<lambda>(name, infos). (name, JArray infos)) ifs)"

text \<open>The entry for an internet address; other addresses and missing ones are skipped.\<close>

definition interface_info :: "ifaddrs \<Rightarrow> json option" where
  "interface_info ifa =
     (let entry = (\<lambda>address family. Some (jobj [(''isInternal'', JBool (ifa_loopback ifa)),
        (''address'', JString address), (''family'', JString family)]))
      in case ifa_addr ifa of AddrInet a \<Rightarrow> entry a ''ipv4'' | AddrInet6 a \<Rightarrow> entry a ''ipv6'' | _ \<Rightarrow> None)"

fun collect_addresses :: "ifaddrs list \<Rightarrow> interfaces \<Rightarrow> interfaces" where
  "collect_addresses [] ifs = ifs"
| "collect_addresses (ifa # ifap) ifs = collect_addresses ifap
     (case interface_info ifa of None \<Rightarrow> ifs | Some info \<Rightarrow> add_info (ifa_name ifa) info ifs)"

text \<open>The name that is passed along is not looked at.\<close>

definition updateMac :: "string \<Rightarrow> string \<Rightarrow> interfaces \<Rightarrow> interfaces" where
  "updateMac name mac ifs = map (\<lambda>(key, arr). (key, map (\<lambda>item. jput ''mac'' (JString mac) item) arr)) ifs"

text \<open>The second walk reads the family of every entry, also of one without an address.\<close>

fun collect_macs :: "ifaddrs list \<Rightarrow> interfaces \<Rightarrow> interfaces result" where
  "collect_macs [] ifs = Inr ifs"
| "collect_macs (ifa # ifap) ifs = (case ifa_addr ifa of
     AddrNull \<Rightarrow> Inl Undefined
   | AddrPacket bytes \<Rightarrow>
       collect_macs ifap (if length bytes = 6 then updateMac (ifa_name ifa) (format_mac bytes) ifs else ifs)
   | _ \<Rightarrow> collect_macs ifap ifs)"

text \<open>Windows lists adapters instead, and has other keys.\<close>

definition adapter_info :: "adapter \<Rightarrow> sockaddr \<Rightarrow> json" where
  "adapter_info ad sa =
     (let info = jobj [(''isInternal'', JBool (ad_loopback ad)), (''mac'', JString (format_mac (ad_physical ad)))]
      in case sa of AddrInet ip \<Rightarrow> jput ''ipv4'' (JString ip) info | AddrInet6 ip \<Rightarrow> jput ''ipv6'' (JString ip) info | _ \<Rightarrow> info)"

definition collect_adapters :: "adapter list \<Rightarrow> interfaces" where
  "collect_adapters ads =
     foldl (\<lambda>ifs ad. foldl (\<lambda>ifs ua. add_info (ad_name ad) (adapter_info ad ua) ifs) ifs (ad_unicast ad)) [] ads"

definition computer_getNetworkInterfaces :: native_method where
  "computer_getNetworkInterfaces input =
     bindS (getS (\<lambda>w. (os_platform w, os_devices w))) (\<lambda>(pf, dv).
     if pf = Windows then
       retS (case dv_adapters dv of
           None \<Rightarrow> error_of NE_CO_UNLTONI []
         | Some ads \<Rightarrow> return_output (interfaces_json (collect_adapters ads)))
     else case dv_ifaddrs dv of
         None \<Rightarrow> retS (error_of NE_CO_UNLTONI [])
       | Some ifap \<Rightarrow> bindS (liftS (collect_macs ifap (collect_addresses ifap []))) (\<lambda>ifs.
           retS (return_output (interfaces_json ifs))))"

section \<open>Properties\<close>

text \<open>The hardware address that is left on an entry: the one of the last interface that has one.\<close>

definition link_macs :: "ifaddrs list \<Rightarrow> string list" where
  "link_macs ifap = concat (map (\<lambda>ifa. case ifa_addr ifa of AddrPacket bytes \<Rightarrow> if length bytes = 6 then [format_mac bytes] else [] | _ \<Rightarrow> []) ifap)"

definition infos_of :: "string \<Rightarrow> ifaddrs list \<Rightarrow> json list" where
  "infos_of name ifap = concat (map (\<lambda>ifa. if ifa_name ifa = name then (case interface_info ifa of None \<Rightarrow> [] | Some i \<Rightarrow> [i]) else []) ifap)"

definition with_mac :: "string list \<Rightarrow> json \<Rightarrow> json" where
  "with_mac macs info = (if macs = [] then info else jput ''mac'' (JString (last macs)) info)"

definition infos_at :: "string \<Rightarrow> interfaces \<Rightarrow> json list" where
  "infos_at name ifs = (case map_of ifs name of None \<Rightarrow> [] | Some infos \<Rightarrow> infos)"

lemma infos_at_add [simp]:
  "infos_at name (add_info k info ifs) = infos_at name ifs @ (if name = k then [info] else [])"
  by (simp add: infos_at_def add_info_def split: option.splits)

lemma infos_at_addresses: "infos_at name (collect_addresses ifap ifs) = infos_at name ifs @ infos_of name ifap"
  by (induction ifap arbitrary: ifs) (auto simp: infos_of_def split: option.splits)

lemma map_of_map_snd: "map_of (map (\<lambda>(k, v). (k, f v)) xs) k = map_option f (map_of xs k)"
  by (induction xs) auto

lemma upd_upd [simp]: "upd k v (upd k u kvs) = upd k v kvs"
  by (induction kvs) auto

lemma jput_jput [simp]: "jput k v (jput k u j) = jput k v j"
  by (simp add: jput_def split: json.splits)

lemma with_mac_snoc: "jput ''mac'' (JString m) (with_mac macs info) = with_mac (macs @ [m]) info"
  by (simp add: with_mac_def)

text \<open>The walk through the hardware addresses turns into one assignment at the end.\<close>

lemma collect_macs_eq:
  assumes "\<forall>ifa \<in> set ifap. ifa_addr ifa \<noteq> AddrNull"
  shows "collect_macs ifap (map (\<lambda>(k, arr). (k, map (with_mac macs) arr)) ifs) =
    Inr (map (\<lambda>(k, arr). (k, map (with_mac (macs @ link_macs ifap)) arr)) ifs)"
  using assms
proof (induction ifap arbitrary: macs)
  case Nil
  then show ?case by (simp add: link_macs_def)
next
  case (Cons ifa ifap)
  have u: "updateMac n m (map (\<lambda>(k, arr). (k, map (with_mac macs) arr)) ifs) =
      map (\<lambda>(k, arr). (k, map (with_mac (macs @ [m])) arr)) ifs" for n m
    by (auto simp: updateMac_def with_mac_snoc)
  show ?case
  proof (cases "ifa_addr ifa")
    case (AddrPacket bytes)
    then show ?thesis using Cons.IH [of "macs @ [format_mac bytes]"] Cons.IH [of macs] Cons.prems
      by (simp add: u link_macs_def)
  qed (use Cons in \<open>simp_all add: link_macs_def\<close>)
qed

lemma collect_macs_null:
  "\<exists>ifa \<in> set ifap. ifa_addr ifa = AddrNull \<Longrightarrow> collect_macs ifap ifs = Inl Undefined"
  by (induction ifap arbitrary: ifs) (auto split: sockaddr.splits)

lemma with_no_mac: "map (\<lambda>(k, arr). (k, map (with_mac []) arr)) ifs = ifs"
  by (induction ifs) (auto simp: with_mac_def)

lemma jget_interfaces:
  "jget (interfaces_json ifs) name = (case map_of ifs name of None \<Rightarrow> JNull | Some infos \<Rightarrow> JArray infos)"
  by (auto simp: interfaces_json_def jget_object map_of_map_snd split: option.splits)

lemma collect_addresses_nonempty: "[] \<notin> snd ` set ifs \<Longrightarrow> [] \<notin> snd ` set (collect_addresses ifap ifs)"
proof (induction ifap arbitrary: ifs)
  case (Cons ifa ifap)
  have "[] \<notin> snd ` set (add_info n i ifs)" for n i
    using Cons.prems set_upd [of n _ ifs] by (fastforce simp: add_info_def)
  then show ?case using Cons by (cases "interface_info ifa") simp_all
qed simp

text \<open>
  C12. \<^verbatim>\<open>computer.getNetworkInterfaces\<close> off Windows: under each name stand the entries of the internet addresses
  of that interface, in order, and every entry of every interface carries the hardware address of the
  last interface in the list that has one of six bytes, whichever interface that is. An entry without
  an address, which \<^verbatim>\<open>getifaddrs\<close> may report, makes the second walk read through a null pointer.
\<close>

theorem network_interfaces:
  assumes "os_platform w \<noteq> Windows" "dv_ifaddrs (os_devices w) = Some ifap"
  shows "if \<exists>ifa \<in> set ifap. ifa_addr ifa = AddrNull
    then computer_getNetworkInterfaces input w = (Inl Undefined, w)
    else \<exists>ifs. computer_getNetworkInterfaces input w = (Inr (return_output ifs), w) \<and>
      (\<forall>name. jget ifs name = (if infos_of name ifap = [] then JNull
         else JArray (map (with_mac (link_macs ifap)) (infos_of name ifap))))"
proof (cases "\<exists>ifa \<in> set ifap. ifa_addr ifa = AddrNull")
  case True
  then show ?thesis using assms by (simp add: computer_getNetworkInterfaces_def collect_macs_null bindS_def)
next
  case False
  let ?a = "collect_addresses ifap []"
  let ?ifs = "map (\<lambda>(k, arr). (k, map (with_mac (link_macs ifap)) arr)) ?a"
  have "collect_macs ifap ?a = Inr ?ifs"
    using collect_macs_eq [of ifap "[]" ?a] False by (simp add: with_no_mac)
  then have "computer_getNetworkInterfaces input w = (Inr (return_output (interfaces_json ?ifs)), w)"
    using assms by (simp add: computer_getNetworkInterfaces_def bindS_def)
  moreover have "jget (interfaces_json ?ifs) name = (if infos_of name ifap = [] then JNull
      else JArray (map (with_mac (link_macs ifap)) (infos_of name ifap)))" for name
    using infos_at_addresses [of name ifap "[]"] collect_addresses_nonempty [of "[]" ifap]
    by (auto simp: jget_interfaces map_of_map_snd infos_at_def image_iff dest!: map_of_SomeD split: option.splits)
  ultimately show ?thesis using False by auto
qed

definition demo_network :: world where
  "demo_network = demo\<lparr>os_devices := demo_devices\<lparr>dv_ifaddrs := Some
     [\<lparr>ifa_name = ''eth0'', ifa_loopback = False, ifa_addr = AddrPacket [1, 2, 3, 4, 5, 6]\<rparr>,
      \<lparr>ifa_name = ''wlan0'', ifa_loopback = False, ifa_addr = AddrPacket [0xAA, 2, 3, 4, 5, 7]\<rparr>,
      \<lparr>ifa_name = ''eth0'', ifa_loopback = False, ifa_addr = AddrInet ''10.0.0.2''\<rparr>]\<rparr>\<rparr>"

text \<open>The wired interface is reported with the address of the wireless one.\<close>

theorem network_interfaces_witness:
  "\<exists>ifs. computer_getNetworkInterfaces JNull demo_network = (Inr (return_output ifs), demo_network) \<and>
     jget ifs ''eth0'' = JArray [jobj [(''isInternal'', JBool False), (''address'', JString ''10.0.0.2''),
       (''family'', JString ''ipv4''), (''mac'', JString ''aa:02:03:04:05:07'')]]"
proof -
  let ?l = "the (dv_ifaddrs (os_devices demo_network))"
  have p: "os_platform demo_network \<noteq> Windows" "dv_ifaddrs (os_devices demo_network) = Some ?l"
    by (simp_all add: demo_network_def demo_def initial_world_def demo_os_def)
  have l: "\<not> (\<exists>ifa \<in> set ?l. ifa_addr ifa = AddrNull)" "infos_of ''eth0'' ?l \<noteq> []"
    "map (with_mac (link_macs ?l)) (infos_of ''eth0'' ?l) = [jobj [(''isInternal'', JBool False), (''address'', JString ''10.0.0.2''),
       (''family'', JString ''ipv4''), (''mac'', JString ''aa:02:03:04:05:07'')]]"
    by code_simp+
  from network_interfaces [OF p, of JNull] l show ?thesis by auto
qed

end
