(* ===== verification/WindowApi.thy ===== *)
theory WindowApi
  imports App Computer
begin

text \<open>
  The rest of \<^verbatim>\<open>api/window/window.cpp\<close> in the GTK builds: the main menu, the creation of the window
  from its options, and the methods; and \<^verbatim>\<open>settings::getGlobalVars\<close>, the script with the variables of
  the client, which a new window and the server inject.
\<close>

section \<open>Global variables\<close>

text \<open>The names of the native methods, as \<^verbatim>\<open>router.cpp\<close> lists them.\<close>

definition method_names :: "string list" where
  "method_names =
    [''app.exit'', ''app.killProcess'', ''app.getProcessId'', ''app.getConfig'', ''app.broadcast'',
     ''app.readProcessInput'', ''app.writeProcessOutput'', ''app.writeProcessError'', ''window.setTitle'',
     ''window.getTitle'', ''window.maximize'', ''window.isMaximized'', ''window.unmaximize'',
     ''window.minimize'', ''window.unminimize'', ''window.isMinimized'', ''window.isVisible'',
     ''window.show'', ''window.hide'', ''window.isFullScreen'', ''window.setFullScreen'',
     ''window.exitFullScreen'', ''window.focus'', ''window.setIcon'', ''window.setBadge'', ''window.move'',
     ''window.beginDrag'', ''window.center'', ''window.setSize'', ''window.getSize'', ''window.getPosition'',
     ''window.setAlwaysOnTop'', ''window.setBorderless'', ''window.snapshot'', ''window.setMainMenu'',
     ''window.print'', ''computer.getMemoryInfo'', ''computer.getArch'', ''computer.getKernelInfo'',
     ''computer.getOSInfo'', ''computer.getCPUInfo'', ''computer.getGPUs'', ''computer.getDisplays'',
     ''computer.getDisks'', ''computer.getMousePosition'', ''computer.getHostname'',
     ''computer.getMachineId'', ''computer.setMousePosition'', ''computer.setMouseGrabbing'',
     ''computer.sendKey'', ''computer.getNetworkInterfaces'', ''debug.log'', ''filesystem.createDirectory'',
     ''filesystem.remove'', ''filesystem.readFile'', ''filesystem.readBinaryFile'', ''filesystem.writeFile'',
     ''filesystem.writeBinaryFile'', ''filesystem.appendFile'', ''filesystem.appendBinaryFile'',
     ''filesystem.openFile'', ''filesystem.createWatcher'', ''filesystem.removeWatcher'',
     ''filesystem.getWatchers'', ''filesystem.updateOpenedFile'', ''filesystem.getOpenedFileInfo'',
     ''filesystem.readDirectory'', ''filesystem.copy'', ''filesystem.move'', ''filesystem.getStats'',
     ''filesystem.getAbsolutePath'', ''filesystem.getRelativePath'', ''filesystem.getPathParts'',
     ''filesystem.getPermissions'', ''filesystem.setPermissions'', ''filesystem.getJoinedPath'',
     ''filesystem.getNormalizedPath'', ''filesystem.getUnnormalizedPath'', ''filesystem.access'',
     ''filesystem.chmod'', ''filesystem.chown'', ''os.execCommand'', ''os.spawnProcess'',
     ''os.updateSpawnedProcess'', ''os.getSpawnedProcesses'', ''os.getEnv'', ''os.setEnv'', ''os.getEnvs'',
     ''os.getLocaleInfo'', ''os.showOpenDialog'', ''os.showFolderDialog'', ''os.showSaveDialog'',
     ''os.showNotification'', ''os.showMessageBox'', ''os.setTray'', ''os.open'', ''os.getPath'',
     ''os.trashItem'', ''storage.setData'', ''storage.getData'', ''storage.removeData'', ''storage.getKeys'',
     ''storage.clear'', ''events.broadcast'', ''extensions.dispatch'', ''extensions.broadcast'',
     ''extensions.getStats'', ''clipboard.getFormat'', ''clipboard.readText'', ''clipboard.readImage'',
     ''clipboard.writeText'', ''clipboard.writeHTML'', ''clipboard.readHTML'', ''clipboard.writeImage'',
     ''clipboard.clear'', ''resources.getFiles'', ''resources.getStats'', ''resources.extractFile'',
     ''resources.extractDirectory'', ''resources.readFile'', ''resources.readBinaryFile'', ''server.mount'',
     ''server.unmount'', ''server.getMounts'', ''net.request'', ''custom.getMethods'']"

definition js_string :: "string \<Rightarrow> string \<Rightarrow> string" where
  "js_string name v = ''var '' @ name @ [CHR ''='', CHR 0x27] @ v @ [CHR 0x27, CHR '';'']"

definition js_value :: "string \<Rightarrow> string \<Rightarrow> string" where
  "js_value name v = ''var '' @ name @ ''='' @ v @ '';''"

definition js_parsed :: "string \<Rightarrow> string \<Rightarrow> string" where
  "js_parsed name v = ''var '' @ name @ ''=JSON.parse('' @ [CHR 0x27] @ v @ [CHR 0x27] @ '');''"

definition getGlobalVars :: "string prog" where
  "getGlobalVars =
     bindS (getS (\<lambda>w. js_string ''NL_OS'' (NEU_OS_NAME (os_platform w)) @ js_string ''NL_ARCH'' (computer_getArch w) @
       js_string ''NL_VERSION'' (os_build w ''NEU_VERSION'') @ js_string ''NL_COMMIT'' (os_build w ''NEU_COMMIT''))) (\<lambda>s1.
     bindS getAppId (\<lambda>appId.
     bindS (opt_ref [''version'']) (\<lambda>version.
     bindS (if \<not> is_null version then bindS (liftS (get_string version)) (\<lambda>v. retS (js_string ''NL_APPVERSION'' v)) else retS []) (\<lambda>s2.
     bindS (getOptionForCurrentMode ''port'') (\<lambda>jPort.
     bindS (liftS (get_int jPort)) (\<lambda>port.
     bindS settings_getMode (\<lambda>mode.
     bindS getToken (\<lambda>token.
     bindS (getS (\<lambda>w. js_string ''NL_CWD'' (getCurrentDirectory w) @
       js_value ''NL_ARGS'' (os_dump w (JArray (map JString (settings_globalArgs w)))) @
       js_string ''NL_PATH'' (settings_appPath w) @ js_string ''NL_DATAPATH'' (settings_appDataPath w) @
       js_value ''NL_PID'' (to_string (app_getProcessId w)) @ js_string ''NL_RESMODE'' (getModeString w) @
       js_value ''NL_EXTENABLED'' (os_dump w (JBool (isInitialized w))) @
       js_value ''NL_CMETHODS'' (os_dump w (JArray (map JString (custom_methods (sort method_names))))) @
       js_value ''NL_WSAVSTLOADED'' (os_dump w (JBool (isSavedStateLoaded w))) @
       js_string ''NL_CONFIGFILE'' (getConfigFile w) @ js_string ''NL_LOCALE'' (settings_localeName w) @
       js_string ''NL_COMPDATA'' (os_build w ''NEU_COMPILATION_DATA''))) (\<lambda>s3.
     bindS (getOptionForCurrentMode ''globalVariables'') (\<lambda>jGlobalVariables.
     bindS (getS (\<lambda>w. concat (map (\<lambda>(k, v). js_parsed (''NL_'' @ k) (os_dump w v)) (items jGlobalVariables)))) (\<lambda>s4.
     retS (s1 @ js_string ''NL_APPID'' appId @ s2 @ js_value ''NL_PORT'' (to_string port) @
           js_string ''NL_MODE'' (appModeToStr mode) @ js_string ''NL_TOKEN'' token @ s3 @ s4))))))))))))"

section \<open>Main menu\<close>

definition handleMainMenuItem :: "WindowMenuItem \<Rightarrow> unit prog" where
  "handleMainMenuItem item =
     dispatch ''mainMenuItemClicked''
       (jobj [(''id'', JString (mi_id item)), (''text'', JString (mi_text item)),
              (''isChecked'', JBool (mi_checked item)), (''isDisabled'', JBool (mi_disabled item))])"

definition field_or :: "json \<Rightarrow> string \<Rightarrow> 'a \<Rightarrow> (json \<Rightarrow> 'a result) \<Rightarrow> 'a result" where
  "field_or j k d get = (if hasField j k then bindR (jat j k) get else Inr d)"

definition menuItem_of :: "json \<Rightarrow> WindowMenuItem result" where
  "menuItem_of j =
     bindR (field_or j ''id'' [] get_string) (\<lambda>i.
     bindR (field_or j ''text'' [] get_string) (\<lambda>text.
     bindR (field_or j ''isDisabled'' False get_bool) (\<lambda>disabled.
     bindR (field_or j ''isChecked'' False get_bool) (\<lambda>checked.
     bindR (field_or j ''shortcut'' [] get_string) (\<lambda>shortcut.
     Inr \<lparr>mi_id = i, mi_text = (if hasField j ''shortcut'' then text @ [CHR 0x09, CHR 0x09] @ shortcut else text),
           mi_disabled = disabled, mi_checked = checked, mi_shortcut = shortcut\<rparr>)))))"

function createMenu :: "json \<Rightarrow> menu_widget list result" where
  "createMenu menu =
     mapR (\<lambda>jMenuItem.
       bindR (menuItem_of jMenuItem) (\<lambda>menuItem.
       if mi_text menuItem = ''-'' then Inr MenuSeparator
       else if hasField jMenuItem ''menuItems''
       then bindR (createMenu (jget jMenuItem ''menuItems'')) (\<lambda>sub. Inr (MenuSub menuItem sub))
       else Inr (MenuLeaf menuItem))) (values_of menu)"
  by pat_completeness auto

lemma size_values_of: "v \<in> set (values_of j) \<Longrightarrow> size v \<le> size j"
  by (auto simp: values_of_def dest: size_items)

termination createMenu
  by (relation "measure size") (auto dest!: size_jget size_values_of)

declare createMenu.simps [simp del]

text \<open>The menu there was is taken away first, and stays away when the new one is malformed.\<close>

definition window_setMainMenu :: "json \<Rightarrow> unit prog" where
  "window_setMainMenu menu =
     thenS (bindS (getS win_menuContainer) (\<lambda>b. if b then wcall RemoveMenu else retS ()))
    (thenS (modS (\<lambda>w. w\<lparr>win_menuContainer := True\<rparr>))
    (bindS (liftS (createMenu menu)) (\<lambda>m. wcall (MainMenu m))))"

section \<open>The window\<close>

definition window_setAlwaysOnTop :: "bool \<Rightarrow> unit prog" where
  "window_setAlwaysOnTop onTop = wcall (KeepAbove onTop)"

definition window_setBorderless :: "bool \<Rightarrow> unit prog" where
  "window_setBorderless borderless = wcall (Decorated (\<not> borderless))"

definition window_setSkipTaskbar :: "bool \<Rightarrow> unit prog" where
  "window_setSkipTaskbar skip = wcall (SkipTaskbar skip)"

definition onlyIf :: "bool \<Rightarrow> unit prog \<Rightarrow> unit prog" where
  "onlyIf b m = (if b then m else retS ())"

definition injectClientLibrary :: "unit prog" where
  "injectClientLibrary =
     bindS (readS (\<lambda>w. jrefs [''cli'', ''clientLibrary''] (getConfig w))) (\<lambda>(jClientLibrary, _).
     if is_null jClientLibrary then retS ()
     else bindS (liftS (get_string jClientLibrary)) (\<lambda>clientLibPath.
          bindS (resources_getFile clientLibPath default_options) (\<lambda>r.
          if fr_status r = NE_ST_OK
          then bindS getGlobalVars (\<lambda>vars. ncall (InitScript (vars @ ''var NL_CINJECTED = true;'' @ fr_data r)))
          else retS ())))"

definition injectScript :: "unit prog" where
  "injectScript =
     bindS (getOptionForCurrentMode ''injectScript'') (\<lambda>jInjectScript.
     if is_null jInjectScript then retS ()
     else bindS (liftS (get_string jInjectScript)) (\<lambda>script.
          bindS (resources_getFile script default_options) (\<lambda>r.
          if fr_status r = NE_ST_OK then ncall (InitScript (''var NL_SINJECTED = true;'' @ fr_data r)) else retS ())))"

definition file_drop :: "string list \<Rightarrow> unit prog" where
  "file_drop droppedPaths = dispatch ''filesDropped'' (JArray (map JString droppedPaths))"

definition props :: "(WindowOptions \<Rightarrow> 'a) \<Rightarrow> ('a \<Rightarrow> 'b prog) \<Rightarrow> 'b prog" where
  "props f body = bindS (getS (\<lambda>w. f (win_props w))) body"

definition createWindow :: "bool prog" where
  "createWindow =
     bindS (props wo_useSavedState (\<lambda>b. if b then loadSavedWindowProps else retS False)) (\<lambda>saved.
     thenS (modS (\<lambda>w. w\<lparr>win_savedState := saved, win_native := True\<rparr>))
    (bindS (getS (\<lambda>w. tk_initCode (os_toolkit w))) (\<lambda>code.
     if code = 1 then retS False
     else
     thenS (props wo_title (\<lambda>title. ncall (SetTitle title)))
    (thenS (props wo_extendUserAgentWith (\<lambda>agent. onlyIf (agent \<noteq> []) (ncall (ExtendUserAgent agent))))
    (thenS apply_size
    (thenS (props wo_injectGlobals (\<lambda>b. onlyIf b (bindS getGlobalVars (\<lambda>vars. ncall (InitScript (vars @ ''var NL_GINJECTED = true;''))))))
    (thenS (props wo_injectClientLibrary (\<lambda>b. onlyIf b injectClientLibrary))
    (thenS (props wo_injectScript (\<lambda>s. onlyIf (s \<noteq> []) injectScript))
    (thenS (bindS (getS isSavedStateLoaded) (\<lambda>loaded. props (\<lambda>p. p) (\<lambda>p.
              if \<not> loaded \<and> wo_center p then window_center True else window_move (wo_x p) (wo_y p))))
    (thenS (props wo_hidden (\<lambda>b. onlyIf b window_hide))
    (thenS (props wo_maximize (\<lambda>b. onlyIf b window_maximize))
    (thenS (props wo_fullScreen (\<lambda>b. onlyIf b window_setFullScreen))
    (thenS (props wo_icon (\<lambda>icon. onlyIf (icon \<noteq> []) (window_setIcon icon)))
    (thenS (props wo_alwaysOnTop (\<lambda>b. onlyIf b (window_setAlwaysOnTop True)))
    (thenS (props wo_borderless (\<lambda>b. onlyIf b (window_setBorderless True)))
    (thenS (props wo_skipTaskbar (\<lambda>b. onlyIf b (window_setSkipTaskbar True)))
    (thenS (props wo_url (\<lambda>url. ncall (Navigate url)))
           (retS True))))))))))))))))))"

definition opt_set :: "json \<Rightarrow> string \<Rightarrow> (json \<Rightarrow> string \<Rightarrow> 'a prog) \<Rightarrow> ('a \<Rightarrow> WindowOptions \<Rightarrow> WindowOptions) \<Rightarrow> unit prog" where
  "opt_set input key get f = (if hasField input key then bindS (get input key) (\<lambda>v. modP (f v)) else retS ())"

definition policy_of :: "string \<Rightarrow> WindowOptions \<Rightarrow> WindowOptions" where
  "policy_of policy p =
     (if policy = ''browser'' then p\<lparr>wo_newWindowPolicy := NewWindowPolicyBrowser\<rparr>
      else if policy = ''custom'' then p\<lparr>wo_newWindowPolicy := NewWindowPolicyCustom\<rparr> else p)"

definition read_window_options :: "json \<Rightarrow> unit prog" where
  "read_window_options input =
     thenS (bindS (jsonToSizeOptions input True) (\<lambda>sz. modP (\<lambda>p. p\<lparr>wo_sizeOptions := sz\<rparr>)))
    (thenS (opt_set input ''x'' arg_int (\<lambda>v p. p\<lparr>wo_x := v\<rparr>))
    (thenS (opt_set input ''useLogicalPixels'' arg_bool (\<lambda>v p. p\<lparr>wo_useLogicalPixels := v\<rparr>))
    (thenS (opt_set input ''y'' arg_int (\<lambda>v p. p\<lparr>wo_y := v\<rparr>))
    (thenS (opt_set input ''fullScreen'' arg_bool (\<lambda>v p. p\<lparr>wo_fullScreen := v\<rparr>))
    (thenS (opt_set input ''alwaysOnTop'' arg_bool (\<lambda>v p. p\<lparr>wo_alwaysOnTop := v\<rparr>))
    (thenS (opt_set input ''title'' arg_string (\<lambda>v p. p\<lparr>wo_title := v\<rparr>))
    (thenS (opt_set input ''url'' arg_string (\<lambda>v p. p\<lparr>wo_url := v\<rparr>))
    (thenS (opt_set input ''icon'' arg_string (\<lambda>v p. p\<lparr>wo_icon := v\<rparr>))
    (thenS (opt_set input ''extendUserAgentWith'' arg_string (\<lambda>v p. p\<lparr>wo_extendUserAgentWith := v\<rparr>))
    (thenS (opt_set input ''injectScript'' arg_string (\<lambda>v p. p\<lparr>wo_injectScript := v\<rparr>))
    (thenS (opt_set input ''enableInspector'' arg_bool (\<lambda>v p. p\<lparr>wo_enableInspector := v\<rparr>))
    (thenS (opt_set input ''openInspectorOnStartup'' arg_bool (\<lambda>v p. p\<lparr>wo_openInspectorOnStartup := v\<rparr>))
    (thenS (opt_set input ''borderless'' arg_bool (\<lambda>v p. p\<lparr>wo_borderless := v\<rparr>))
    (thenS (opt_set input ''maximize'' arg_bool (\<lambda>v p. p\<lparr>wo_maximize := v\<rparr>))
    (thenS (opt_set input ''hidden'' arg_bool (\<lambda>v p. p\<lparr>wo_hidden := v\<rparr>))
    (thenS (opt_set input ''center'' arg_bool (\<lambda>v p. p\<lparr>wo_center := v\<rparr>))
    (thenS (opt_set input ''transparent'' arg_bool (\<lambda>v p. p\<lparr>wo_transparent := v\<rparr>))
    (thenS (opt_set input ''exitProcessOnClose'' arg_bool (\<lambda>v p. p\<lparr>wo_exitProcessOnClose := v\<rparr>))
    (thenS (opt_set input ''useSavedState'' arg_bool (\<lambda>v p. p\<lparr>wo_useSavedState := v\<rparr>))
    (thenS (opt_set input ''injectGlobals'' arg_bool (\<lambda>v p. p\<lparr>wo_injectGlobals := v\<rparr>))
    (thenS (opt_set input ''injectClientLibrary'' arg_bool (\<lambda>v p. p\<lparr>wo_injectClientLibrary := v\<rparr>))
    (thenS (opt_set input ''webviewArgs'' arg_string (\<lambda>v p. p\<lparr>wo_webviewArgs := v\<rparr>))
    (thenS (opt_set input ''skipTaskbar'' arg_bool (\<lambda>v p. p\<lparr>wo_skipTaskbar := v\<rparr>))
    (thenS (opt_set input ''emitDropEvents'' arg_bool (\<lambda>v p. p\<lparr>wo_emitDropEvents := v\<rparr>))
      (opt_set input ''newWindowPolicy'' arg_string policy_of)))))))))))))))))))))))))"

text \<open>The native loop that \<^verbatim>\<open>run\<close> enters is the sequence of events that follow.\<close>

definition window_init :: "json \<Rightarrow> bool prog" where
  "window_init windowOptions = thenS (read_window_options windowOptions) createWindow"

section \<open>Methods\<close>

definition do_window :: "unit prog \<Rightarrow> native_method" where
  "do_window m input = thenS m (retS success_output)"

definition ask_window :: "(world \<Rightarrow> json) \<Rightarrow> native_method" where
  "ask_window f input = bindS (getS f) (\<lambda>v. retS (return_output v))"

definition win_setTitle :: native_method where
  "win_setTitle input = bindS (opt_arg input ''title'' [] arg_string) (\<lambda>title. do_window (ncall (SetTitle title)) input)"

definition win_getTitle :: native_method where
  "win_getTitle input =
     bindS (getS win_native) (\<lambda>b.
     if b then ask_window (\<lambda>w. JString (tk_title (os_toolkit w) (win_calls w))) input else throwS Undefined)"

definition win_maximize :: native_method where
  "win_maximize = do_window window_maximize"

definition win_unmaximize :: native_method where
  "win_unmaximize = do_window window_unmaximize"

definition win_isMaximized :: native_method where
  "win_isMaximized = ask_window (\<lambda>w. JBool (window_isMaximized w))"

definition win_minimize :: native_method where
  "win_minimize = do_window (wcall Iconify)"

definition win_unminimize :: native_method where
  "win_unminimize = do_window window_unminimize"

definition win_isMinimizedMethod :: native_method where
  "win_isMinimizedMethod = ask_window (\<lambda>w. JBool (window_isMinimized w))"

definition win_show :: native_method where
  "win_show = do_window (bindS (getS win_native) (\<lambda>b. if b then window_show else throwS Undefined))"

definition win_hide :: native_method where
  "win_hide = do_window window_hide"

definition win_isVisible :: native_method where
  "win_isVisible = ask_window (\<lambda>w. JBool (window_isVisible w))"

definition win_setFullScreen :: native_method where
  "win_setFullScreen = do_window window_setFullScreen"

definition win_exitFullScreen :: native_method where
  "win_exitFullScreen = do_window window_exitFullScreen"

definition win_isFullScreenMethod :: native_method where
  "win_isFullScreenMethod = ask_window (\<lambda>w. JBool (window_isFullScreen w))"

definition win_focus :: native_method where
  "win_focus = do_window window_focus"

definition win_setIcon :: native_method where
  "win_setIcon input =
     require [''icon''] input (
     bindS (arg_string input ''icon'') (\<lambda>icon. do_window (window_setIcon icon) input))"

text \<open>A badge has no effect in the GTK builds, but its argument is checked.\<close>

definition win_setBadge :: native_method where
  "win_setBadge input =
     (if \<not> hasRequiredFields input [''count''] \<or> \<not> is_number_integer (jget input ''count'')
      then retS (error_output (makeMissingArgErrorPayload ''count''))
      else bindS (arg_int input ''count'') (\<lambda>count.
           if count < 0 then retS (error_output (makeMissingArgErrorPayload ''count'')) else retS success_output))"

definition win_move :: native_method where
  "win_move input =
     require [''x'', ''y''] input (
     bindS (arg_int input ''x'') (\<lambda>x.
     bindS (arg_int input ''y'') (\<lambda>y. do_window (window_move x y) input)))"

definition win_center :: native_method where
  "win_center = do_window (window_center False)"

definition win_setSize :: native_method where
  "win_setSize input =
     bindS (jsonToSizeOptions input False) (\<lambda>sz.
     do_window (thenS (modP (\<lambda>p. p\<lparr>wo_sizeOptions := sz\<rparr>)) apply_size) input)"

definition win_getSize :: native_method where
  "win_getSize input = bindS window_getSize (\<lambda>sz. retS (return_output (sizeOptionsToJson sz)))"

definition win_setAlwaysOnTop :: native_method where
  "win_setAlwaysOnTop input =
     bindS (opt_arg input ''onTop'' True arg_bool) (\<lambda>onTop. do_window (window_setAlwaysOnTop onTop) input)"

definition win_setBorderless :: native_method where
  "win_setBorderless input =
     bindS (opt_arg input ''borderless'' True arg_bool) (\<lambda>borderless. do_window (window_setBorderless borderless) input)"

definition win_getPosition :: native_method where
  "win_getPosition =
     ask_window (\<lambda>w. let (x, y) = window_getPosition w in jobj [(''x'', JInt x), (''y'', JInt y)])"

definition win_snapshot :: native_method where
  "win_snapshot input =
     require [''path''] input (
     bindS (arg_string input ''path'') (\<lambda>imageFile.
     bindS (getS (\<lambda>w. tk_snapshot (os_toolkit w) (c_str imageFile))) (\<lambda>ok.
     retS (if ok then success_output else error_of NE_WI_UNBSWSR imageFile))))"

definition win_setMainMenu :: native_method where
  "win_setMainMenu input = do_window (window_setMainMenu input) input"

definition win_beginDrag :: native_method where
  "win_beginDrag = do_window (wcall BeginDrag)"

definition win_print :: native_method where
  "win_print = do_window (ncall PrintDialog)"

end
