(* ===== verification/Net.thy ===== *)
theory Net
  imports Clipboard Regex
begin

text \<open>
  \<^verbatim>\<open>api/net/net.cpp\<close>: the arguments of \<^verbatim>\<open>net.request\<close>, the request that is made of them, and the answer.
  The client of \<^verbatim>\<open>httplib\<close> is environment: the configured request is recorded, and its result may
  depend on all calls so far.
\<close>

section \<open>The address\<close>

text \<open>\<^verbatim>\<open>^(https?)://([^/]+)(/.*)?$\<close>\<close>

definition url_regex :: rx where
  "url_regex =
    rseq [rlit ''http'', RAlt (rlit ''s'') REps, rlit ''://'', rplus (RSet (\<lambda>c. c \<noteq> CHR ''/'')),
      RAlt (RSeq (rlit ''/'') rdots) REps]"

text \<open>The three groups of a match; an unmatched third group is the empty string.\<close>

definition url_parts :: "string \<Rightarrow> (string \<times> string \<times> string) option" where
  "url_parts url =
     (if \<not> regex_match url_regex url then None
      else let protocol = (if prefix ''https'' url then ''https'' else ''http'');
               rest = drop (length protocol + 3) url
           in Some (protocol, takeWhile (\<lambda>c. c \<noteq> CHR ''/'') rest, dropWhile (\<lambda>c. c \<noteq> CHR ''/'') rest))"

section \<open>The request\<close>

text \<open>The string members of an object, the others are left out.\<close>

definition string_items :: "json \<Rightarrow> (string \<times> string) list" where
  "string_items j = concat (map (\<lambda>(key, value). case value of JString s \<Rightarrow> [(key, s)] | _ \<Rightarrow> []) (items j))"

definition field_items :: "json \<Rightarrow> string \<Rightarrow> (string \<times> string) list" where
  "field_items input key = (if hasField input key then string_items (jget input key) else [])"

definition arg_auth :: "json \<Rightarrow> (string \<times> string) option prog" where
  "arg_auth input =
     (let auth = jget input ''auth''
      in if hasField input ''auth'' \<and> hasField auth ''username'' \<and> hasField auth ''password''
         then bindS (arg_string auth ''username'') (\<lambda>username.
              bindS (arg_string auth ''password'') (\<lambda>password. retS (Some (username, password))))
         else retS None)"

definition some_arg :: "(json \<Rightarrow> string \<Rightarrow> 'a prog) \<Rightarrow> json \<Rightarrow> string \<Rightarrow> 'a option prog" where
  "some_arg get input key = bindS (get input key) (\<lambda>v. retS (Some v))"

text \<open>What is sent along, by the method; \<open>None\<close> for a method for which nothing is done.\<close>

definition http_payload_of :: "string \<Rightarrow> string \<Rightarrow> string \<Rightarrow> (string \<times> string) list \<Rightarrow> http_payload option" where
  "http_payload_of method body contentType params =
     (let body_or = (\<lambda>other. Some (if body \<noteq> [] then Body body contentType else other))
      in if method = ''GET'' then Some (QueryParams params)
         else if method = ''POST'' then body_or (if params \<noteq> [] then FormParams params else NoBody)
         else if method = ''HEAD'' \<or> method = ''OPTIONS'' then Some NoBody
         else if method = ''PUT'' \<or> method = ''PATCH'' \<or> method = ''DELETE'' then body_or NoBody
         else None)"

text \<open>The parameters are kept in a \<^verbatim>\<open>multimap\<close>, sorted by key.\<close>

definition read_request :: "json \<Rightarrow> string \<Rightarrow> string \<Rightarrow> string \<Rightarrow> http_request option prog" where
  "read_request input protocol host path =
     bindS (opt_arg input ''timeout'' None (some_arg arg_int)) (\<lambda>timeout.
     bindS (arg_auth input) (\<lambda>auth.
     bindS (opt_arg input ''body'' [] arg_string) (\<lambda>body.
     bindS (opt_arg input ''allowRedirects'' False arg_bool) (\<lambda>follow.
     bindS (opt_arg input ''encodePath'' True arg_bool) (\<lambda>encode.
     bindS (opt_arg input ''keepAlive'' False arg_bool) (\<lambda>keepAlive.
     bindS (opt_arg input ''contentType'' None (some_arg arg_string)) (\<lambda>contentType.
     bindS (opt_arg input ''method'' ''GET'' arg_string) (\<lambda>method.
     let content = (case contentType of None \<Rightarrow> [] | Some t \<Rightarrow> if t = [] then ''application/json'' else t)
     in retS (map_option (\<lambda>payload.
          \<lparr>hr_method = method, hr_origin = protocol @ ''://'' @ host, hr_path = path,
           hr_headers = field_items input ''headers'', hr_payload = payload, hr_systemCA = (protocol = ''https''),
           hr_timeout = timeout, hr_auth = auth, hr_followLocation = follow, hr_pathEncode = encode,
           hr_keepAlive = keepAlive\<rparr>)
        (http_payload_of method body content (sort_key fst (field_items input ''params''))))))))))))"

text \<open>For an unknown method no call is made and the result is the default one.\<close>

definition http_send :: "http_request option \<Rightarrow> http_result prog" where
  "http_send req = (case req of
     None \<Rightarrow> retS (Inl (HttpOther ''Unknown''))
   | Some r \<Rightarrow> thenS (dev_log (HttpCall r)) (getS (\<lambda>w. dv_http (os_devices w) (os_devCalls w))))"

section \<open>The answer\<close>

text \<open>An object made of a multimap keeps the first value of a key.\<close>

definition headers_json :: "(string \<times> string) list \<Rightarrow> json" where
  "headers_json hs = JObject (foldl (\<lambda>kvs (k, v). if has_key k kvs then kvs else upd k (JString v) kvs) [] hs)"

definition tolower :: "char \<Rightarrow> char" where
  "tolower c = (if isupper c then char_of (byte c + 32) else c)"

text \<open>A header is looked up without regard to case and is returned as a C string.\<close>

definition get_header_value :: "(string \<times> string) list \<Rightarrow> string \<Rightarrow> string" where
  "get_header_value hs key = (case find (\<lambda>(k, v). map tolower k = map tolower key) hs of None \<Rightarrow> [] | Some (k, v) \<Rightarrow> c_str v)"

definition http_answer :: "http_result \<Rightarrow> json" where
  "http_answer res = (case res of
     Inl (SSLConnection n) \<Rightarrow> error_of NE_NW_SSLCONN (to_string n)
   | Inl (SSLLoadingCerts n) \<Rightarrow> error_of NE_NW_SSLLOAD (to_string n)
   | Inl (SSLServerVerification n) \<Rightarrow> error_of NE_NW_SSLVERI (to_string n)
   | Inl (SSLServerHostnameVerification n) \<Rightarrow> error_of NE_NW_SSLHOST (to_string n)
   | Inl (HttpOther s) \<Rightarrow> error_of NE_NW_HTTPERR s
   | Inr r \<Rightarrow> return_output (jobj
       [(''status'', JInt (hs_status r)), (''statusText'', JString (hs_reason r)), (''body'', JString (hs_body r)),
        (''headers'', headers_json (hs_headers r)), (''cookies'', JString (get_header_value (hs_headers r) ''Set-Cookie'')),
        (''contentType'', JString (get_header_value (hs_headers r) ''Content-Type'')),
        (''location'', JString (hs_location r)), (''version'', JString (hs_version r))]))"

definition net_request :: native_method where
  "net_request input =
     require [''url''] input (
     bindS (arg_string input ''url'') (\<lambda>url.
     case url_parts url of
       None \<Rightarrow> retS (error_output (makeMissingArgErrorPayload ''url''))
     | Some (protocol, host, path) \<Rightarrow>
         bindS (read_request input protocol host (if path = [] then ''/'' else path)) (\<lambda>req.
         bindS (http_send req) (\<lambda>res. retS (http_answer res)))))"

section \<open>Properties\<close>

lemma span_slash:
  "CHR ''/'' \<notin> set h \<Longrightarrow> p = [] \<or> hd p = CHR ''/'' \<Longrightarrow>
     takeWhile (\<lambda>c. c \<noteq> CHR ''/'') (h @ p) = h \<and> dropWhile (\<lambda>c. c \<noteq> CHR ''/'') (h @ p) = p"
  by (induction h) (cases p; auto)+

lemma rxl_rseq5:
  "rxl (rseq [a, b, c, d, e]) w \<longleftrightarrow>
    (\<exists>p q r s t. w = p @ q @ r @ s @ t \<and> rxl a p \<and> rxl b q \<and> rxl c r \<and> rxl d s \<and> rxl e t)"
proof
  assume "rxl (rseq [a, b, c, d, e]) w"
  then obtain p w1 where p: "w = p @ w1" "rxl a p" "rxl (rseq [b, c, d, e]) w1"
    unfolding rseq.simps rxl_seq_iff [of a] by blast
  then obtain q w2 where q: "w1 = q @ w2" "rxl b q" "rxl (rseq [c, d, e]) w2"
    unfolding rseq.simps rxl_seq_iff [of b] by blast
  then obtain r w3 where r: "w2 = r @ w3" "rxl c r" "rxl (rseq [d, e]) w3"
    unfolding rseq.simps rxl_seq_iff [of c] by blast
  then obtain s t where s: "w3 = s @ t" "rxl d s" "rxl e t"
    unfolding rseq.simps rxl_seq_iff [of d] rxl_seq_iff [of e] by auto
  have "w = p @ q @ r @ s @ t" using p(1) q(1) r(1) s(1) by simp
  with p(2) q(2) r(2) s(2,3) show "\<exists>p q r s t. w = p @ q @ r @ s @ t \<and> rxl a p \<and> rxl b q \<and> rxl c r \<and> rxl d s \<and> rxl e t" by blast
next
  assume "\<exists>p q r s t. w = p @ q @ r @ s @ t \<and> rxl a p \<and> rxl b q \<and> rxl c r \<and> rxl d s \<and> rxl e t"
  then obtain p q r s t where x: "rxl a p" "rxl b q" "rxl c r" "rxl d s" "rxl e t" and "w = p @ q @ r @ s @ t" by blast
  then have w: "w = p @ q @ r @ s @ t @ []" by simp
  show "rxl (rseq [a, b, c, d, e]) w" unfolding w rseq.simps by (intro rxl.seq rxl.eps x)
qed

text \<open>The groups are the only way to read the address.\<close>

lemma rxl_url:
  "rxl url_regex url \<longleftrightarrow> (\<exists>protocol \<in> {''http'', ''https''}. \<exists>host path. url = protocol @ ''://'' @ host @ path \<and>
     host \<noteq> [] \<and> CHR ''/'' \<notin> set host \<and> (path = [] \<or> hd path = CHR ''/'' \<and> (\<forall>c \<in> set path. dot c)))" (is "_ = ?R")
proof -
  have path: "rxl (RAlt (RSeq (rlit ''/'') rdots) REps) p \<longleftrightarrow> p = [] \<or> hd p = CHR ''/'' \<and> (\<forall>c \<in> set p. dot c)" for p
    by (cases p) (auto simp: rxl_seq_iff dot_def)
  have s: "rxl (RAlt (rlit ''s'') REps) q \<longleftrightarrow> q = ''s'' \<or> q = []" for q by simp
  have host: "rxl (rplus (RSet (\<lambda>c. c \<noteq> CHR ''/''))) h \<longleftrightarrow> h \<noteq> [] \<and> CHR ''/'' \<notin> set h" for h
    unfolding rxl_rplus_set by auto
  show ?thesis
  proof
    assume "rxl url_regex url"
    then obtain q h p where "url = ''http'' @ q @ ''://'' @ h @ p" "q = ''s'' \<or> q = []" "h \<noteq> [] \<and> CHR ''/'' \<notin> set h"
      "p = [] \<or> hd p = CHR ''/'' \<and> (\<forall>c \<in> set p. dot c)"
      unfolding url_regex_def rxl_rseq5 rxl_rlit path s host by blast
    then show ?R by (intro bexI [of _ "''http'' @ q"] exI [of _ h] exI [of _ p]) auto
  next
    assume ?R
    then obtain protocol h p where u: "protocol \<in> {''http'', ''https''}" "url = protocol @ ''://'' @ h @ p"
      "h \<noteq> [] \<and> CHR ''/'' \<notin> set h" "p = [] \<or> hd p = CHR ''/'' \<and> (\<forall>c \<in> set p. dot c)" by blast
    then obtain q where "protocol = ''http'' @ q" "q = ''s'' \<or> q = []" by auto
    with u show "rxl url_regex url"
      unfolding url_regex_def rxl_rseq5 rxl_rlit path s host
      by (intro exI [of _ "''http''"] exI [of _ q] exI [of _ "''://''"] exI [of _ h] exI [of _ p]) simp
  qed
qed

lemma url_parts_iff:
  "url_parts url = Some (protocol, host, path) \<longleftrightarrow> protocol \<in> {''http'', ''https''} \<and> url = protocol @ ''://'' @ host @ path \<and>
     host \<noteq> [] \<and> CHR ''/'' \<notin> set host \<and> (path = [] \<or> hd path = CHR ''/'' \<and> (\<forall>c \<in> set path. dot c))" (is "?L = ?R protocol host path")
proof -
  have r: "url_parts url = Some (a, h, p)" if "?R a h p" for a h p
  proof -
    have "regex_match url_regex url" using that unfolding regex_match_lang rxl_url by blast
    moreover have "(if prefix ''https'' url then ''https'' else ''http'') = a" using that by auto
    moreover have "drop (length a + 3) url = h @ p" using that by auto
    moreover have "takeWhile (\<lambda>c. c \<noteq> CHR ''/'') (h @ p) = h \<and> dropWhile (\<lambda>c. c \<noteq> CHR ''/'') (h @ p) = p"
      using span_slash [of h p] that by blast
    ultimately show ?thesis unfolding url_parts_def Let_def by (simp only: if_True not_True_eq_False if_False simp_thms)
  qed
  show ?thesis
  proof
    assume l: ?L
    then have "rxl url_regex url" by (auto simp: url_parts_def regex_match_lang split: if_splits)
    then obtain a h p where "?R a h p" unfolding rxl_url by blast
    with r [OF this] l show "?R protocol host path" by simp
  qed (rule r)
qed

lemma http_payload_methods:
  "http_payload_of method body ct params = Some payload \<Longrightarrow>
     method \<in> {''GET'', ''POST'', ''HEAD'', ''OPTIONS'', ''PUT'', ''PATCH'', ''DELETE''}"
  by (auto simp: http_payload_of_def Let_def split: if_splits)

lemma read_request_keeps: "read_request input protocol host path w = (r, w') \<Longrightarrow> w' = w"
proof -
  have k: "keeps (\<lambda>w. w) (read_request input protocol host path)"
    unfolding read_request_def arg_auth_def some_arg_def Let_def
    by (intro keeps_bindS keeps_opt_arg keeps_if) (simp_all add: keeps_bindS)
  then show "read_request input protocol host path w = (r, w') \<Longrightarrow> w' = w" using keepsD' by metis
qed

lemma error_payload [simp]: "makeErrorPayload c p \<noteq> JNull" "makeMissingArgErrorPayload k \<noteq> JNull"
  by (simp_all add: makeMissingArgErrorPayload_def makeErrorPayload_def jput_def)

lemma missing_payload [simp]: "jget (error_output p) ''error'' = p"
  by (simp add: error_output_def jput_def jget_object)

lemma opt_bool_true: "opt_arg input k False arg_bool s = (Inr True, s') \<Longrightarrow> jget input k = JBool True"
  by (auto simp: opt_arg_def arg_bool_def bindR_eq_Inr dest: jat_jget split: if_splits)

lemma read_request_fields:
  assumes "read_request input protocol host path w = (Inr (Some r), w')"
  shows "hr_origin r = protocol @ ''://'' @ host \<and> hr_path r = path \<and> (hr_systemCA r \<longleftrightarrow> protocol = ''https'') \<and>
    hr_method r \<in> {''GET'', ''POST'', ''HEAD'', ''OPTIONS'', ''PUT'', ''PATCH'', ''DELETE''} \<and>
    (hr_followLocation r \<longrightarrow> jget input ''allowRedirects'' = JBool True)"
proof -
  obtain follow s s' b c ps payload where f: "opt_arg input ''allowRedirects'' False arg_bool s = (Inr follow, s')"
    "hr_followLocation r = follow" and o: "hr_origin r = protocol @ ''://'' @ host" "hr_path r = path"
    "hr_systemCA r \<longleftrightarrow> protocol = ''https''" "http_payload_of (hr_method r) b c ps = Some payload"
    using assms unfolding read_request_def Let_def bindS_cases by (auto simp del: insert_iff)
  have "follow \<longrightarrow> jget input ''allowRedirects'' = JBool True" using f(1) opt_bool_true by (cases follow) auto
  with f(2) o http_payload_methods [OF o(4)] show ?thesis by simp
qed

text \<open>
  C11. When \<^verbatim>\<open>net.request\<close> makes a call at all, it makes exactly one, for the address given: the
  address is \<^verbatim>\<open>http\<close> or \<^verbatim>\<open>https\<close>, a host without a slash and a path, and this is the only way to read it; the
  call goes to that host with that path, \<^verbatim>\<open>/\<close> when there is none, by one of seven methods, checks the
  certificates of the system exactly for \<^verbatim>\<open>https\<close>, and follows a redirection only if \<^verbatim>\<open>allowRedirects\<close> is true.
  The answer is that of the result, and an unknown method or a malformed address is answered with an error.
\<close>

theorem net_request_calls:
  assumes "net_request input w = (r, w')"
  shows "w' = w \<and> (case r of Inr out \<Rightarrow> jget out ''error'' \<noteq> JNull | Inl e \<Rightarrow> True) \<or>
    (\<exists>url protocol host path req. jget input ''url'' = JString url \<and> protocol \<in> {''http'', ''https''} \<and>
       url = protocol @ ''://'' @ host @ path \<and> host \<noteq> [] \<and> CHR ''/'' \<notin> set host \<and> (path = [] \<or> hd path = CHR ''/'') \<and>
       w' = w\<lparr>os_devCalls := os_devCalls w @ [HttpCall req]\<rparr> \<and>
       r = Inr (http_answer (dv_http (os_devices w) (os_devCalls w'))) \<and>
       hr_origin req = protocol @ ''://'' @ host \<and> hr_path req = (if path = [] then ''/'' else path) \<and>
       (hr_systemCA req \<longleftrightarrow> protocol = ''https'') \<and>
       hr_method req \<in> {''GET'', ''POST'', ''HEAD'', ''OPTIONS'', ''PUT'', ''PATCH'', ''DELETE''} \<and>
       (hr_followLocation req \<longrightarrow> jget input ''allowRedirects'' = JBool True))"
proof (cases "jget input ''url''")
  case (JString url)
  then have h: "hasRequiredFields input [''url'']" by (simp add: hasField_iff)
  show ?thesis
  proof (cases "url_parts url")
    case None
    with h JString assms show ?thesis by (auto simp: net_request_def require_step arg_string_step missing_payload)
  next
    case (Some parts)
    obtain protocol host path where p: "parts = (protocol, host, path)" by (cases parts)
    let ?path = "if path = [] then ''/'' else path"
    obtain q v where v: "read_request input protocol host ?path w = (q, v)" by force
    have vw: "v = w" by (rule read_request_keeps [OF v])
    have run: "net_request input w = (case q of Inl e \<Rightarrow> (Inl e, w) | Inr req \<Rightarrow> bindS (http_send req) (\<lambda>res. retS (http_answer res)) w)"
      using h JString Some v vw p by (auto simp: net_request_def require_step arg_string_step bindS_def split: sum.splits)
    show ?thesis
    proof (cases q)
      case (Inl e)
      with run assms show ?thesis by simp
    next
      case (Inr req)
      show ?thesis
      proof (cases req)
        case None
        with run Inr assms show ?thesis by (auto simp: http_send_def http_answer_def error_payload)
      next
        case (Some rq)
        have u: "protocol \<in> {''http'', ''https''} \<and> url = protocol @ ''://'' @ host @ path \<and> host \<noteq> [] \<and>
            CHR ''/'' \<notin> set host \<and> (path = [] \<or> hd path = CHR ''/'')"
          using \<open>url_parts url = Some parts\<close> p url_parts_iff by blast
        have "w' = w\<lparr>os_devCalls := os_devCalls w @ [HttpCall rq]\<rparr>" "r = Inr (http_answer (dv_http (os_devices w) (os_devCalls w')))"
          using run Inr Some assms by (auto simp: http_send_def dev_log_def bindS_def)
        with JString u read_request_fields [of input protocol host ?path w rq v] v Inr Some show ?thesis by blast
      qed
    qed
  qed
qed (use assms in \<open>auto simp: net_request_def require_def arg_string_def bindS_cases bindR_eq_Inr missing_payload hasField_iff
      dest!: jat_jget split: option.splits\<close>)

definition demo_url :: json where
  "demo_url = jobj [(''url'', JString ''https://api.github.com'')]"

theorem net_request_calls_witness:
  "\<exists>req. snd (net_request demo_url demo) = demo\<lparr>os_devCalls := [HttpCall req]\<rparr> \<and> \<not> hr_followLocation req"
proof -
  obtain r w' where run: "net_request demo_url demo = (r, w')" by force
  have "os_devCalls (snd (net_request demo_url demo)) \<noteq> os_devCalls demo" by code_simp
  then have ne: "w' \<noteq> demo" using run by auto
  have i: "jget demo_url ''allowRedirects'' \<noteq> JBool True" "os_devCalls demo = []" by code_simp+
  from net_request_calls [OF run] ne i(1) obtain req where
    "w' = demo\<lparr>os_devCalls := os_devCalls demo @ [HttpCall req]\<rparr>" "\<not> hr_followLocation req"
    by blast
  then show ?thesis using i(2) run by auto
qed

end
