(* ===== verification/Router.thy ===== *)
theory Router
  imports Res Storage WindowApi FsPerm Net
begin

text \<open>
  \<^verbatim>\<open>server/router.cpp\<close> and \<^verbatim>\<open>api/server/server.cpp\<close>: the method map and the gate in front of it, the
  mounted directories, and the files the server answers with.
\<close>

section \<open>Mounted directories\<close>

definition isMounted :: "string \<Rightarrow> world \<Rightarrow> bool" where
  "isMounted path w \<longleftrightarrow> has_key path (rt_mountedPaths w)"

definition mount_point :: "platform \<Rightarrow> string \<Rightarrow> string" where
  "mount_point pf path = (let path = normalizePath pf path in if path = [] then ''/'' else path)"

definition mountPath :: "string \<Rightarrow> string \<Rightarrow> StatusCode prog" where
  "mountPath path target =
     bindS (getS (\<lambda>w. w)) (\<lambda>w.
     if \<not> fs_exists w target then retS NE_FS_NOPATHE
     else if \<not> fs_is_directory w target then retS NE_FS_NOTADIR
     else if isMounted path w then retS NE_SR_MPINUSE
     else thenS (modS (\<lambda>w. w\<lparr>rt_mountedPaths := upd path target (rt_mountedPaths w)\<rparr>)) (retS NE_ST_OK))"

definition unmountPath :: "string \<Rightarrow> bool prog" where
  "unmountPath path =
     bindS (getS (isMounted path)) (\<lambda>b.
     if \<not> b then retS False
     else thenS (modS (\<lambda>w. w\<lparr>rt_mountedPaths := del path (rt_mountedPaths w)\<rparr>)) (retS True))"

definition getMounts :: "world \<Rightarrow> (string \<times> string) list" where
  "getMounts w = rt_mountedPaths w"

text \<open>The methods; the paths are normalized in place, so the messages show the normalized ones.\<close>

definition server_mount :: native_method where
  "server_mount input =
     require [''path'', ''target''] input (
     bindS (arg_string input ''path'') (\<lambda>path0.
     bindS (arg_string input ''target'') (\<lambda>target0.
     bindS (getS (\<lambda>w. (mount_point (os_platform w) path0, normalizePath (os_platform w) target0))) (\<lambda>(path, target).
     bindS (mountPath path target) (\<lambda>mountStatus.
     retS (if mountStatus \<noteq> NE_ST_OK then error_of mountStatus target
           else message_output (path @ '' mounts to '' @ target)))))))"

definition server_unmount :: native_method where
  "server_unmount input =
     bindS (arg_string input ''path'') (\<lambda>path0.
     bindS (getS (\<lambda>w. mount_point (os_platform w) path0)) (\<lambda>path.
     bindS (unmountPath path) (\<lambda>ok.
     retS (if \<not> ok then error_of NE_SR_NOMTPTH path else message_output (path @ '' unmounted'')))))"

definition server_getMounts :: native_method where
  "server_getMounts input =
     bindS (getS getMounts) (\<lambda>ms. retS (return_output (JObject (map (\<lambda>(p, t). (p, JString t)) ms))))"

section \<open>The method map\<close>

definition methodMap :: "(string \<times> native_method) list" where
  "methodMap =
    [(''app.exit'', app_exitMethod),
     (''app.killProcess'', app_killProcess),
     (''app.getProcessId'', app_getProcessIdMethod),
     (''app.getConfig'', app_getConfig),
     (''app.broadcast'', app_broadcast),
     (''app.readProcessInput'', app_readProcessInput),
     (''app.writeProcessOutput'', app_writeProcessOutput),
     (''app.writeProcessError'', app_writeProcessError),
     (''window.setTitle'', win_setTitle),
     (''window.getTitle'', win_getTitle),
     (''window.maximize'', win_maximize),
     (''window.isMaximized'', win_isMaximized),
     (''window.unmaximize'', win_unmaximize),
     (''window.minimize'', win_minimize),
     (''window.unminimize'', win_unminimize),
     (''window.isMinimized'', win_isMinimizedMethod),
     (''window.isVisible'', win_isVisible),
     (''window.show'', win_show),
     (''window.hide'', win_hide),
     (''window.isFullScreen'', win_isFullScreenMethod),
     (''window.setFullScreen'', win_setFullScreen),
     (''window.exitFullScreen'', win_exitFullScreen),
     (''window.focus'', win_focus),
     (''window.setIcon'', win_setIcon),
     (''window.setBadge'', win_setBadge),
     (''window.move'', win_move),
     (''window.beginDrag'', win_beginDrag),
     (''window.center'', win_center),
     (''window.setSize'', win_setSize),
     (''window.getSize'', win_getSize),
     (''window.getPosition'', win_getPosition),
     (''window.setAlwaysOnTop'', win_setAlwaysOnTop),
     (''window.setBorderless'', win_setBorderless),
     (''window.snapshot'', win_snapshot),
     (''window.setMainMenu'', win_setMainMenu),
     (''window.print'', win_print),
     (''computer.getMemoryInfo'', computer_getMemoryInfo),
     (''computer.getArch'', computer_getArchMethod),
     (''computer.getKernelInfo'', computer_getKernelInfo),
     (''computer.getOSInfo'', computer_getOSInfo),
     (''computer.getCPUInfo'', computer_getCPUInfo),
     (''computer.getGPUs'', computer_getGPUs),
     (''computer.getDisplays'', computer_getDisplays),
     (''computer.getDisks'', computer_getDisks),
     (''computer.getMousePosition'', computer_getMousePosition),
     (''computer.getHostname'', computer_getHostname),
     (''computer.getMachineId'', computer_getMachineId),
     (''computer.setMousePosition'', computer_setMousePosition),
     (''computer.setMouseGrabbing'', computer_setMouseGrabbing),
     (''computer.sendKey'', computer_sendKey),
     (''computer.getNetworkInterfaces'', computer_getNetworkInterfaces),
     (''debug.log'', debug_logMethod),
     (''filesystem.createDirectory'', fs_createDirectory),
     (''filesystem.remove'', fs_remove),
     (''filesystem.readFile'', fs_readFile),
     (''filesystem.readBinaryFile'', fs_readBinaryFile),
     (''filesystem.writeFile'', fs_writeFile),
     (''filesystem.writeBinaryFile'', fs_writeBinaryFile),
     (''filesystem.appendFile'', fs_appendFile),
     (''filesystem.appendBinaryFile'', fs_appendBinaryFile),
     (''filesystem.openFile'', fs_openFile),
     (''filesystem.createWatcher'', fs_createWatcher),
     (''filesystem.removeWatcher'', fs_removeWatcher),
     (''filesystem.getWatchers'', fs_getWatchers),
     (''filesystem.updateOpenedFile'', fs_updateOpenedFile),
     (''filesystem.getOpenedFileInfo'', fs_getOpenedFileInfo),
     (''filesystem.readDirectory'', fs_readDirectory),
     (''filesystem.copy'', fs_copy),
     (''filesystem.move'', fs_move),
     (''filesystem.getStats'', fs_getStats),
     (''filesystem.getAbsolutePath'', fs_getAbsolutePath),
     (''filesystem.getRelativePath'', fs_getRelativePath),
     (''filesystem.getPathParts'', fs_getPathParts),
     (''filesystem.getPermissions'', fs_getPermissions),
     (''filesystem.setPermissions'', fs_setPermissions),
     (''filesystem.getJoinedPath'', fs_getJoinedPath),
     (''filesystem.getNormalizedPath'', fs_getNormalizedPath),
     (''filesystem.getUnnormalizedPath'', fs_getUnnormalizedPath),
     (''filesystem.access'', fs_access),
     (''filesystem.chmod'', fs_chmod),
     (''filesystem.chown'', fs_chown),
     (''os.execCommand'', os_execCommand),
     (''os.spawnProcess'', os_spawnProcess),
     (''os.updateSpawnedProcess'', os_updateSpawnedProcess),
     (''os.getSpawnedProcesses'', os_getSpawnedProcesses),
     (''os.getEnv'', os_getEnv),
     (''os.setEnv'', os_setEnv),
     (''os.getEnvs'', os_getEnvs),
     (''os.getLocaleInfo'', os_getLocaleInfo),
     (''os.showOpenDialog'', os_showOpenDialog),
     (''os.showFolderDialog'', os_showFolderDialog),
     (''os.showSaveDialog'', os_showSaveDialog),
     (''os.showNotification'', os_showNotification),
     (''os.showMessageBox'', os_showMessageBox),
     (''os.setTray'', os_setTray),
     (''os.open'', os_open),
     (''os.getPath'', os_getPathMethod),
     (''os.trashItem'', os_trashItem),
     (''storage.setData'', storage_setData),
     (''storage.getData'', storage_getData),
     (''storage.removeData'', storage_removeData),
     (''storage.getKeys'', storage_getKeys),
     (''storage.clear'', storage_clear),
     (''events.broadcast'', events_broadcast),
     (''extensions.dispatch'', extensions_dispatch),
     (''extensions.broadcast'', extensions_broadcast),
     (''extensions.getStats'', extensions_getStats),
     (''clipboard.getFormat'', clipboard_getFormat),
     (''clipboard.readText'', clipboard_readText),
     (''clipboard.readImage'', clipboard_readImage),
     (''clipboard.writeText'', clipboard_writeText),
     (''clipboard.writeHTML'', clipboard_writeHTML),
     (''clipboard.readHTML'', clipboard_readHTML),
     (''clipboard.writeImage'', clipboard_writeImage),
     (''clipboard.clear'', clipboard_clear),
     (''resources.getFiles'', res_getFiles),
     (''resources.getStats'', res_getStats),
     (''resources.extractFile'', res_extractFile),
     (''resources.extractDirectory'', res_extractDirectory),
     (''resources.readFile'', res_readFile),
     (''resources.readBinaryFile'', res_readBinaryFile),
     (''server.mount'', server_mount),
     (''server.unmount'', server_unmount),
     (''server.getMounts'', server_getMounts),
     (''net.request'', net_request),
     (''custom.getMethods'', (custom_getMethods (sort method_names)))]"

record NativeMessage =
  nm_id :: string
  nm_method :: string
  nm_accessToken :: string
  nm_data :: json

text \<open>\<^verbatim>\<open>^window.*\<close>\<close>

definition window_rx :: rx where
  "window_rx = RSeq (rlit ''window'') rdots"

definition call_method :: "string \<Rightarrow> json \<Rightarrow> json prog" where
  "call_method nativeMethodId d = (case map_of methodMap nativeMethodId of
     None \<Rightarrow> retS (error_of NE_RT_NATNTIM nativeMethodId)
   | Some nativeMethod \<Rightarrow>
       catchS
         (bindS settings_getMode (\<lambda>mode.
          if mode \<noteq> AppModeWindow \<and> regex_match window_rx nativeMethodId
          then retS (message_output (''Discarded. '' @ nativeMethodId @ '' works within the window mode only''))
          else nativeMethod d))
         (retS (error_of NE_RT_NATRTER [])))"

definition executeNativeMethod :: "NativeMessage \<Rightarrow> NativeMessage prog" where
  "executeNativeMethod request =
     (let answer = (\<lambda>d. \<lparr>nm_id = nm_id request, nm_method = nm_method request, nm_accessToken = [], nm_data = d\<rparr>)
      in bindS (getS (verifyToken (nm_accessToken request))) (\<lambda>known.
         if \<not> known then retS (answer (error_of NE_RT_INVTOKN []))
         else bindS hasAPIAccess (\<lambda>api.
         if \<not> api then retS (answer (error_of NE_RT_APIPRME []))
         else bindS (readS (hasMethodAccess (nm_method request))) (\<lambda>granted.
         if \<not> granted then retS (answer (error_of NE_RT_NATPRME (nm_method request)))
         else bindS (call_method (nm_method request) (nm_data request)) (\<lambda>d. retS (answer d))))))"

section \<open>Assets\<close>

record Response =
  rs_status :: int
  rs_contentType :: string
  rs_data :: string
  rs_headers :: "(string \<times> string) list"

definition mimeTypes :: "(string \<times> string) list" where
  "mimeTypes =
    [(''css'', ''text/css''), (''csv'', ''text/csv''), (''txt'', ''text/plain''), (''vtt'', ''text/vtt''),
     (''htm'', ''text/html''), (''html'', ''text/html''), (''apng'', ''image/apng''), (''avif'', ''image/avif''),
     (''bmp'', ''image/bmp''), (''gif'', ''image/gif''), (''png'', ''image/png''), (''svg'', ''image/svg+xml''),
     (''webp'', ''image/webp''), (''ico'', ''image/x-icon''), (''tif'', ''image/tiff''),
     (''tiff'', ''image/tiff''), (''jpg'', ''image/jpeg''), (''jpeg'', ''image/jpeg''), (''mp4'', ''video/mp4''),
     (''mpeg'', ''video/mpeg''), (''webm'', ''video/webm''), (''mp3'', ''audio/mp3''), (''mpga'', ''audio/mpeg''),
     (''weba'', ''audio/webm''), (''wav'', ''audio/wave''), (''otf'', ''font/otf''), (''ttf'', ''font/ttf''),
     (''woff'', ''font/woff''), (''woff2'', ''font/woff2''), (''7z'', ''application/x-7z-compressed''),
     (''atom'', ''application/atom+xml''), (''pdf'', ''application/pdf''), (''js'', ''application/javascript''),
     (''mjs'', ''application/javascript''), (''json'', ''application/json''), (''rss'', ''application/rss+xml''),
     (''tar'', ''application/x-tar''), (''xht'', ''application/xhtml+xml''),
     (''xhtml'', ''application/xhtml+xml''), (''xslt'', ''application/xslt+xml''), (''xml'', ''application/xml''),
     (''gz'', ''application/gzip''), (''zip'', ''application/zip''), (''wasm'', ''application/wasm'')]"

definition content_type :: "string \<Rightarrow> string" where
  "content_type extension = (case map_of mimeTypes extension of Some t \<Rightarrow> t | None \<Rightarrow> ''application/octet-stream'')"

text \<open>The first mounted path that begins the path, in the order of the map.\<close>

definition find_mount :: "string \<Rightarrow> (string \<times> string) list \<Rightarrow> (string \<times> string) option" where
  "find_mount pathname mounts = find (\<lambda>(mountedPath, mountTarget). prefix mountedPath pathname) mounts"

definition mounted_file :: "string \<Rightarrow> string option prog" where
  "mounted_file path =
     bindS (getS rt_mountedPaths) (\<lambda>mounts.
     if mounts = [] then retS None
     else bindS getDocumentRoot (\<lambda>documentRoot.
          if length path < length documentRoot then throwS OutOfRange
          else let pathname = drop (length documentRoot) path
               in retS (case find_mount pathname mounts of
                    None \<Rightarrow> None
                  | Some (mountedPath, mountTarget) \<Rightarrow> Some (mountTarget @ ''/'' @ drop (length mountedPath) pathname))))"

definition read_asset :: "string \<Rightarrow> FileReaderOptions \<Rightarrow> FileReaderResult prog" where
  "read_asset path opts =
     bindS (mounted_file path) (\<lambda>mounted. case mounted of
       Some adjustedPath \<Rightarrow> readS (readFile adjustedPath opts)
     | None \<Rightarrow> resources_getFile path opts)"

text \<open>\<^verbatim>\<open>.*index.html$\<close>; the dot is any byte of a line.\<close>

definition index_rx :: rx where
  "index_rx = RSeq rdots (RSeq (rlit ''index'') (RSeq rdot (rlit ''html'')))"

text \<open>Where a single page application is sent instead of a missing page.\<close>

definition spa_path :: "string \<Rightarrow> string option prog" where
  "spa_path path =
     bindS (getOptionForCurrentMode ''singlePageServe'') (\<lambda>jSpaServing.
     bindS (if is_null jSpaServing then retS False else liftS (get_bool jSpaServing)) (\<lambda>spa.
     if \<not> (spa \<and> regex_match index_rx path) then retS None
     else bindS (getOptionForCurrentMode ''documentRoot'') (\<lambda>jDocumentRoot.
          bindS (if \<not> is_null jDocumentRoot
                 then bindS (liftS (get_string jDocumentRoot)) (\<lambda>r. retS (r @ ''index.html''))
                 else getNavigationUrl) (\<lambda>newPath.
          retS (if newPath \<noteq> path then Some newPath else None)))))"

definition asset_response :: "string \<Rightarrow> string \<Rightarrow> FileReaderOptions \<Rightarrow> FileReaderResult \<Rightarrow> Response prog" where
  "asset_response path prependData opts r =
     bindS
      (if fr_status r \<noteq> NE_ST_OK
       then thenS (debug_log LogTypeError (makeErrorMsg NE_RS_UNBLDRE path)) (retS (404, fr_data r, []))
       else if fo_pos opts > -1
       then (if fo_pos opts \<ge> fr_size r
             then retS (416, [], [(''Accept-Ranges'', ''bytes''), (''Content-Length'', ''0''),
                    (''Content-Range'', ''bytes */'' @ to_string (fr_size r))])
             else let bytesRead = int (length (fr_data r))
                  in retS (206, fr_data r, [(''Accept-Ranges'', ''bytes''), (''Content-Length'', to_string bytesRead),
                    (''Content-Range'', ''bytes '' @ to_string (fo_pos opts) @ ''-'' @ to_string (fo_pos opts + bytesRead - 1) @
                       ''/'' @ to_string (fr_size r))]))
       else retS (200, fr_data r, [])) (\<lambda>(status, d, headers).
     retS \<lparr>rs_status = status, rs_contentType = content_type (last (split path (CHR ''.''))),
           rs_data = prependData @ d, rs_headers = headers\<rparr>)"

text \<open>
  The function calls itself with the index page of a directory, and with the page of a single page
  application. The fuel counts the calls; where it runs out, as where the page of the application
  is itself such a directory, the calls go on for ever.
\<close>

fun getAsset :: "nat \<Rightarrow> string \<Rightarrow> string \<Rightarrow> FileReaderOptions \<Rightarrow> Response prog" where
  "getAsset 0 path prependData opts = throwS Diverges"
| "getAsset (Suc fuel) path prependData opts =
     (if length (split path (CHR ''.'')) < 2
      then (if path = [] then throwS Undefined
            else getAsset fuel ((if last path \<noteq> CHR ''/'' then path @ ''/'' else path) @ ''index.html'') prependData opts)
      else bindS (read_asset path opts) (\<lambda>r.
           if fr_status r \<noteq> NE_ST_OK
           then bindS (spa_path path) (\<lambda>newPath. case newPath of
                  Some p \<Rightarrow> getAsset fuel p prependData opts
                | None \<Rightarrow> asset_response path prependData opts r)
           else asset_response path prependData opts r))"

definition asset_fuel :: nat where
  "asset_fuel = 8"

definition client_rx :: rx where
  "client_rx = RSeq rdots (RSeq (rlit ''neutralino'') (RSeq rdot (rlit ''js'')))"

definition globals_rx :: rx where
  "globals_rx = RSeq rdots (RSeq (rlit ''__neutralino_globals'') (RSeq rdot (rlit ''js'')))"

definition request_path :: "string \<Rightarrow> string" where
  "request_path path = takeWhile (\<lambda>c. c \<noteq> CHR ''?'') (c_str (urldecode (c_str path)))"

definition serve :: "string \<Rightarrow> FileReaderOptions \<Rightarrow> Response prog" where
  "serve url opts =
     (let path = request_path url
      in if regex_match client_rx path
         then bindS getGlobalVars (\<lambda>vars. getAsset asset_fuel path vars opts)
         else if regex_match globals_rx path
         then bindS getGlobalVars (\<lambda>vars.
              retS \<lparr>rs_status = 200, rs_contentType = ''application/javascript'', rs_data = vars, rs_headers = []\<rparr>)
         else getAsset asset_fuel path [] opts)"

end
