(* ===== verification/Server.thy ===== *)
theory Server
  imports Router
begin

text \<open>
  The part of \<^verbatim>\<open>server/neuserver.cpp\<close> that needs the router: a message of a client and an HTTP
  request; and the idle check that ends the process.
\<close>

section \<open>Messages\<close>

definition log_error :: "StatusCode \<Rightarrow> unit prog" where
  "log_error code = debug_log LogTypeError (makeErrorMsg code [])"

text \<open>The frame type of the first message of an extension is the one it is answered with.\<close>

definition note_mode :: "nat \<Rightarrow> string \<Rightarrow> opcode \<Rightarrow> unit prog" where
  "note_mode handler url op =
     modS (\<lambda>w. if isExtensionEndpoint url \<and> \<not> has_key handler (srv_wsMode w)
               then w\<lparr>srv_wsMode := upd handler op (srv_wsMode w)\<rparr> else w)"

text \<open>The members of a message, read one after the other through \<^verbatim>\<open>operator[]\<close>.\<close>

definition read_message :: "json \<Rightarrow> NativeMessage result" where
  "read_message j0 =
     bindR (jref j0 ''id'') (\<lambda>(jid, j1). bindR (get_string jid) (\<lambda>i.
     bindR (jref j1 ''method'') (\<lambda>(jmethod, j2). bindR (get_string jmethod) (\<lambda>m.
     bindR (jref j2 ''accessToken'') (\<lambda>(jtoken, j3). bindR (get_string jtoken) (\<lambda>t.
     bindR (jref j3 ''data'') (\<lambda>(d, _).
     Inr \<lparr>nm_id = i, nm_method = m, nm_accessToken = t, nm_data = d\<rparr>)))))))"

definition response_json :: "NativeMessage \<Rightarrow> json" where
  "response_json r = jobj [(''id'', JString (nm_id r)), (''method'', JString (nm_method r)), (''data'', nm_data r)]"

definition answer_op :: "nat \<Rightarrow> string \<Rightarrow> world \<Rightarrow> opcode" where
  "answer_op handler url w = (if isExtensionEndpoint url then op_for handler w else opText)"

text \<open>Only \<^verbatim>\<open>websocketpp::exception\<close> is caught here.\<close>

definition catch_websocket :: "unit prog \<Rightarrow> unit prog \<Rightarrow> unit prog" where
  "catch_websocket m h = (\<lambda>w. case m w of
     (Inl e, w') \<Rightarrow> if e = WebsocketError then h w' else (Inl e, w')
   | (Inr v, w') \<Rightarrow> (Inr v, w'))"

definition send_response :: "nat \<Rightarrow> string \<Rightarrow> NativeMessage \<Rightarrow> unit prog" where
  "send_response handler url r =
     catch_websocket
      (bindS (getS (answer_op handler url)) (\<lambda>op.
       bindS (jsonToString (response_json r)) (\<lambda>text. send handler text op)))
      (log_error NE_SR_UNBSEND)"

definition handleMessage :: "nat \<Rightarrow> string \<Rightarrow> string \<Rightarrow> opcode \<Rightarrow> unit prog" where
  "handleMessage handler url payload op =
     thenS (note_mode handler url op)
    (catchS
      (bindS (json_parse payload) (\<lambda>j.
       bindS (liftS (read_message j)) (\<lambda>request.
       bindS (executeNativeMethod request) (\<lambda>r. send_response handler url r))))
      (log_error NE_SR_UNBPARS))"

section \<open>HTTP\<close>

text \<open>Header names are compared without regard to case; a replaced header keeps its name.\<close>

fun replace_header :: "string \<Rightarrow> string \<Rightarrow> (string \<times> string) list \<Rightarrow> (string \<times> string) list" where
  "replace_header k v [] = [(k, v)]"
| "replace_header k v ((k', v') # hs) =
     (if map toupper k = map toupper k' then (k', v) # hs else (k', v') # replace_header k v hs)"

definition applyConfigHeaders :: "(string \<times> string) list \<Rightarrow> (string \<times> string) list prog" where
  "applyConfigHeaders headers =
     bindS (getOptionForCurrentMode ''serverHeaders'') (\<lambda>jHeaders.
     bindS (liftS (mapR (\<lambda>(k, v). bindR (get_string v) (\<lambda>s. Inr (k, s))) (items jHeaders))) (\<lambda>kvs.
     retS (foldl (\<lambda>m (k, v). replace_header k v m) headers kvs)))"

text \<open>The status, the body and the headers of the connection afterwards.\<close>

definition handleHTTP :: "string \<Rightarrow> string option \<Rightarrow> Response prog" where
  "handleHTTP resource0 range_header =
     bindS getDocumentRoot (\<lambda>documentRoot.
     let resource = (if documentRoot \<noteq> [] then documentRoot @ resource0 else resource0)
     in bindS (liftS (getFileReaderOptionsFromHeaders range_header)) (\<lambda>opts.
        bindS (serve resource opts) (\<lambda>r.
        let headers = foldl (\<lambda>m (k, v). replace_header k v m) [(''Content-Type'', rs_contentType r)] (rs_headers r)
        in bindS (getS srv_applyConfigHeaders) (\<lambda>b.
           bindS (if b then applyConfigHeaders headers else retS headers) (\<lambda>hs.
           retS (r\<lparr>rs_headers := hs\<rparr>))))))"

section \<open>The idle check\<close>

text \<open>The body of the thread that \<^verbatim>\<open>__exitProcessIfIdle\<close> starts, after its pause.\<close>

definition idle_check :: "unit prog" where
  "idle_check =
     bindS (getS (\<lambda>w. srv_appConnections w = [])) (\<lambda>idle. if idle then app_exit 0 else retS ())"

end
