(* ===== verification/RouterProps.thy ===== *)
theory RouterProps
  imports Server Guard Demo
begin

text \<open>
  Properties of the router: the gate in front of the native methods, exceptions of methods, mounted
  directories, and the assets.
\<close>

section \<open>The gate\<close>

lemma keeps_hasAPIAccess: "keeps no_options hasAPIAccess"
  unfolding hasAPIAccess_def by (intro keeps_intros keeps_getOption)

lemma hasMethodAccess_options: "hasMethodAccess m (w\<lparr>settings_options := x\<rparr>) = hasMethodAccess m w"
  by (simp add: hasMethodAccess_def cong: if_cong)

text \<open>A request passes the gate: its token is the token, the API is enabled, the method is granted.\<close>

definition permitted :: "NativeMessage \<Rightarrow> world \<Rightarrow> bool" where
  "permitted request w \<longleftrightarrow> verifyToken (nm_accessToken request) w \<and> fst (hasAPIAccess w) = Inr True \<and>
     hasMethodAccess (nm_method request) w = Inr True"

definition reply :: "NativeMessage \<Rightarrow> json \<Rightarrow> NativeMessage" where
  "reply request d = \<lparr>nm_id = nm_id request, nm_method = nm_method request, nm_accessToken = [], nm_data = d\<rparr>"

lemma gate_refused: "\<not> permitted request w \<Longrightarrow> no_options (snd (executeNativeMethod request w)) = no_options w"
proof -
  assume p: "\<not> permitted request w"
  obtain r w1 where w1: "hasAPIAccess w = (r, w1)" by force
  have n: "no_options w1 = no_options w" using keepsD' [OF keeps_hasAPIAccess w1] .
  then have m: "hasMethodAccess (nm_method request) w1 = hasMethodAccess (nm_method request) w"
    by (rule no_options_field) (rule hasMethodAccess_options)
  show ?thesis
  proof (cases "verifyToken (nm_accessToken request) w \<and> r = Inr True")
    case True
    then have "hasMethodAccess (nm_method request) w \<noteq> Inr True" using p w1 by (simp add: permitted_def)
    then show ?thesis using True w1 n m
      by (cases "hasMethodAccess (nm_method request) w") (auto simp: executeNativeMethod_def)
  next
    case False
    then show ?thesis using w1 n by (cases r) (auto simp: executeNativeMethod_def)
  qed
qed

interpretation gate: guarded permitted executeNativeMethod no_options
  by unfold_locales (rule gate_refused)

text \<open>A program whose API is enabled, and a request to it.\<close>

definition demo_api :: world where
  "demo_api = demo\<lparr>settings_options := jobj [(''enableNativeAPI'', JBool True)], auth_token := ''tok''\<rparr>"

definition demo_request :: "string \<Rightarrow> string \<Rightarrow> json \<Rightarrow> NativeMessage" where
  "demo_request method token d = \<lparr>nm_id = ''1'', nm_method = method, nm_accessToken = token, nm_data = d\<rparr>"

subsection \<open>What the gate answers\<close>

definition api_view :: "json \<Rightarrow> bool" where
  "api_view opts \<longleftrightarrow> opt_view opts ''enableNativeAPI'' = JBool True"

definition bool_opt :: "json \<Rightarrow> bool" where
  "bool_opt j \<longleftrightarrow> (case j of JNull \<Rightarrow> True | JBool b \<Rightarrow> True | _ \<Rightarrow> False)"

lemma hasAPIAccess_step:
  assumes "good_options (settings_options w)" "bool_opt (opt_view (settings_options w) ''enableNativeAPI'')"
  obtains w' where "hasAPIAccess w = (Inr (api_view (settings_options w)), w')" "same_opts w w'"
proof -
  let ?v = "opt_view (settings_options w) ''enableNativeAPI''"
  obtain w1 where w1: "getOptionForCurrentMode ''enableNativeAPI'' w = (Inr ?v, w1)" "same_opts w w1"
    using getOption_step [OF assms(1), of "''enableNativeAPI''"] by auto
  then have "hasAPIAccess w = (Inr (api_view (settings_options w)), w1)"
    using assms(2) by (cases ?v) (simp_all add: hasAPIAccess_def bool_opt_def is_null_def get_bool_def api_view_def)
  with that w1(2) show ?thesis by blast
qed

lemma method_lists_options: "same_opts w w' \<Longrightarrow> method_lists B A w' = method_lists B A w"
  by (erule same_opts_field) (simp add: method_lists_def)

lemma gate_step:
  assumes "good_options (settings_options w)" "bool_opt (opt_view (settings_options w) ''enableNativeAPI'')"
    "method_lists B A w" "nm_method request \<noteq> []"
  shows "\<exists>w'. same_opts w w' \<and>
    executeNativeMethod request w =
     (if nm_accessToken request \<noteq> auth_token w then (Inr (reply request (error_of NE_RT_INVTOKN [])), w)
      else if \<not> api_view (settings_options w) then (Inr (reply request (error_of NE_RT_APIPRME [])), w')
      else if \<not> method_policy B A (nm_method request)
      then (Inr (reply request (error_of NE_RT_NATPRME (nm_method request))), w')
      else bindS (call_method (nm_method request) (nm_data request)) (\<lambda>d. retS (reply request d)) w')"
proof -
  obtain w' where w': "hasAPIAccess w = (Inr (api_view (settings_options w)), w')" "same_opts w w'"
    using hasAPIAccess_step [OF assms(1,2)] by blast
  have "hasMethodAccess (nm_method request) w' = Inr (method_policy B A (nm_method request))"
    using hasMethodAccess_policy [of B A w' "nm_method request"] method_lists_options [OF w'(2)] assms(3,4) by simp
  with w' show ?thesis
    by (intro exI [of _ w'])
       (cases "api_view (settings_options w)"; cases "method_policy B A (nm_method request)";
        auto simp: executeNativeMethod_def verifyToken_def reply_def)
qed

lemma demo_api_good:
  "good_options (settings_options (demo_api\<lparr>perm_shouldCheckBlockList := b, perm_blockedModules := l\<rparr>))"
proof -
  have o: "settings_options (demo_api\<lparr>perm_shouldCheckBlockList := b, perm_blockedModules := l\<rparr>) = settings_options demo_api"
    by simp
  have m: "ptr_get [''modes'', appModeToStr m] (settings_options demo_api) = JNull" for m by (cases m) code_simp+
  show ?thesis unfolding o good_options_def m by (intro conjI allI) code_simp+
qed

lemma demo_api_opts:
  "bool_opt (opt_view (settings_options demo_api) ''enableNativeAPI'')" "api_view (settings_options demo_api)"
  "auth_token demo_api = ''tok''"
  by code_simp+

text \<open>A request with the token reaches its method, with nothing but the options changed.\<close>

lemma demo_call:
  assumes "nm_accessToken q = ''tok''" "nm_method q \<noteq> []" "map_of methodMap (nm_method q) = Some m"
    "\<not> regex_match window_rx (nm_method q)"
  obtains x where "executeNativeMethod q demo_api =
    bindS (catchS (m (nm_data q)) (retS (error_of NE_RT_NATRTER []))) (\<lambda>d. retS (reply q d)) (demo_api\<lparr>settings_options := x\<rparr>)"
proof -
  have "method_lists None None demo_api"
    by (simp add: method_lists_def demo_api_def demo_def initial_world_def)
  moreover have "good_options (settings_options demo_api)"
    using demo_api_good by simp
  ultimately obtain w1 where w1: "same_opts demo_api w1"
    "executeNativeMethod q demo_api = bindS (call_method (nm_method q) (nm_data q)) (\<lambda>d. retS (reply q d)) w1"
    using gate_step [of demo_api None None q] demo_api_opts assms by (auto simp: method_policy_def)
  obtain w2 md where w2: "settings_getMode w1 = (Inr md, w2)" "same_opts w1 w2"
    using getMode_step [OF same_opts_good [OF w1(1)]] by blast
  have "call_method (nm_method q) (nm_data q) w1 = catchS (m (nm_data q)) (retS (error_of NE_RT_NATRTER [])) w2"
    using w2(1) assms by (simp add: call_method_def catchS_def bindS_def)
  moreover have "w2 = demo_api\<lparr>settings_options := settings_options w2\<rparr>"
  proof -
    have "w2\<lparr>settings_options := settings_options demo_api\<rparr> = demo_api"
      using same_opts_trans [OF w1(1) w2(2)] by (simp add: same_opts_def)
    moreover have "w2 = (w2\<lparr>settings_options := settings_options demo_api\<rparr>)\<lparr>settings_options := settings_options w2\<rparr>"
      by simp
    ultimately show ?thesis by simp
  qed
  ultimately show thesis using w1(2) that [of "settings_options w2"] by (simp add: bindS_def)
qed

lemma write_request_runs:
  "os_stdout (snd (executeNativeMethod (demo_request ''app.writeProcessOutput'' ''tok'' (jobj [(''data'', JString d)])) demo_api))
     = os_stdout demo_api @ d"
proof -
  let ?r = "demo_request ''app.writeProcessOutput'' ''tok'' (jobj [(''data'', JString d)])"
  have r: "nm_method ?r = ''app.writeProcessOutput''" "nm_accessToken ?r = ''tok''" "nm_data ?r = jobj [(''data'', JString d)]"
    by (simp_all add: demo_request_def)
  have "map_of methodMap ''app.writeProcessOutput'' = Some app_writeProcessOutput" by (simp add: methodMap_def)
  moreover have "\<not> regex_match window_rx ''app.writeProcessOutput''" by code_simp
  ultimately obtain x where "executeNativeMethod ?r demo_api =
      bindS (catchS (app_writeProcessOutput (nm_data ?r)) (retS (error_of NE_RT_NATRTER []))) (\<lambda>d. retS (reply ?r d))
        (demo_api\<lparr>settings_options := x\<rparr>)"
    using demo_call [of ?r] r by (metis list.distinct(1))
  moreover have "jget (jobj [(''data'', JString d)]) ''data'' = JString d" by (simp add: jobj_def jget_object)
  ultimately show ?thesis
    by (simp add: r catchS_def app_writeProcessOutput_def require_step hasField_iff arg_string_step write_out_stream_def)
qed



text \<open>
  C21. The gate implements the policy of the configuration. A wrong token is answered with
  \<^verbatim>\<open>NE_RT_INVTOKN\<close>, a disabled API with \<^verbatim>\<open>NE_RT_APIPRME\<close>, a method that the block list (or, without one, the
  allow list) does not grant with \<^verbatim>\<open>NE_RT_NATPRME\<close>; every other request is handed to its method. The
  lookups leave every variable but the options as it was, and these the same for later lookups.
\<close>

theorem gate_policy:
  assumes "good_options (settings_options w)" "bool_opt (opt_view (settings_options w) ''enableNativeAPI'')"
    "method_lists B A w" "nm_method request \<noteq> []"
  shows "\<exists>w'. same_opts w w' \<and>
    executeNativeMethod request w =
     (if nm_accessToken request \<noteq> auth_token w then (Inr (reply request (error_of NE_RT_INVTOKN [])), w)
      else if \<not> api_view (settings_options w) then (Inr (reply request (error_of NE_RT_APIPRME [])), w')
      else if \<not> method_policy B A (nm_method request)
      then (Inr (reply request (error_of NE_RT_NATPRME (nm_method request))), w')
      else bindS (call_method (nm_method request) (nm_data request)) (\<lambda>d. retS (reply request d)) w')"
  using assms by (rule gate_step)

theorem gate_policy_witness:
  "\<exists>w'. executeNativeMethod (demo_request ''os.execCommand'' ''tok'' JNull)
      (demo_api\<lparr>perm_shouldCheckBlockList := True, perm_blockedModules := [''os'']\<rparr>) =
    (Inr (reply (demo_request ''os.execCommand'' ''tok'' JNull) (error_of NE_RT_NATPRME ''os.execCommand'')), w')"
proof -
  let ?w = "demo_api\<lparr>perm_shouldCheckBlockList := True, perm_blockedModules := [''os'']\<rparr>"
  let ?r = "demo_request ''os.execCommand'' ''tok'' JNull"
  have "good_options (settings_options ?w)" by (rule demo_api_good)
  moreover have "bool_opt (opt_view (settings_options ?w) ''enableNativeAPI'')" "api_view (settings_options ?w)"
    "nm_method ?r \<noteq> []" "nm_accessToken ?r = auth_token ?w" "\<not> method_policy (Some [''os.*'']) None (nm_method ?r)"
    by code_simp+
  moreover have "method_lists (Some [''os.*'']) None ?w"
    unfolding method_lists_def by (intro conjI allI impI) (auto simp: list_modules_def list_methods_def, code_simp+)
  moreover have "nm_method ?r = ''os.execCommand''" by code_simp
  ultimately show ?thesis
    using gate_policy [of ?w "Some [''os.*'']" None ?r] by auto
qed

section \<open>Messages\<close>

lemma log_error_step: "log_error c w = (Inr (), w\<lparr>os_log := os_log w @ [(LogTypeError, makeErrorMsg c [])]\<rparr>)"
  by (simp add: log_error_def)

lemma note_mode_step: "note_mode h url op w = (Inr (), snd (note_mode h url op w))"
  by (simp add: note_mode_def)

text \<open>
  C22. No exception leaves the handler of messages, whatever the client sends and whatever a method
  raises: the handler returns, unless the process exits or runs into undefined behaviour. A payload
  that is no JSON text, or not a message, runs no method and leaves one line in the log.
\<close>

theorem handleMessage_contains_exceptions:
  "(case fst (handleMessage handler url payload op w) of Inr u \<Rightarrow> True | Inl e \<Rightarrow> \<not> catchable e) \<and>
   (case os_parse w payload of
      None \<Rightarrow> handleMessage handler url payload op w = log_error NE_SR_UNBPARS (snd (note_mode handler url op w))
    | Some j \<Rightarrow> (case read_message j of
        Inl e \<Rightarrow> catchable e = (handleMessage handler url payload op w =
          log_error NE_SR_UNBPARS (snd (note_mode handler url op w)))
      | Inr request \<Rightarrow> True))"
proof -
  let ?w = "snd (note_mode handler url op w)"
  have p: "os_parse ?w = os_parse w" by (simp add: note_mode_def)
  define body where "body = bindS (json_parse payload) (\<lambda>j. bindS (liftS (read_message j)) (\<lambda>request.
       bindS (executeNativeMethod request) (\<lambda>r. send_response handler url r)))"
  have run: "handleMessage handler url payload op w = catchS body (log_error NE_SR_UNBPARS) ?w"
    unfolding handleMessage_def body_def [symmetric] by (subst thenS_step(2) [OF note_mode_step]) (rule refl)
  have "case fst (catchS body (log_error NE_SR_UNBPARS) ?w) of Inr u \<Rightarrow> True | Inl e \<Rightarrow> \<not> catchable e"
    by (auto simp: catchS_def log_error_step split: prod.splits sum.splits)
  moreover have "os_parse w payload = None \<Longrightarrow>
      catchS body (log_error NE_SR_UNBPARS) ?w = log_error NE_SR_UNBPARS ?w"
    using p by (simp add: body_def catchable_def)
  moreover have "catchable e = (catchS body (log_error NE_SR_UNBPARS) ?w = log_error NE_SR_UNBPARS ?w)"
    if "os_parse w payload = Some j" "read_message j = Inl e" for j e
    using p that by (auto simp: body_def log_error_step)
  ultimately show ?thesis unfolding run by (auto split: option.splits sum.splits)
qed

lemma executeNativeMethod_reply:
  assumes "executeNativeMethod request w = (Inr r, w')"
  shows "nm_id r = nm_id request \<and> nm_method r = nm_method request"
  using assms by (auto simp: executeNativeMethod_def bindS_cases Let_def split: if_splits)


definition demo_message :: json where
  "demo_message = jobj [(''id'', JString ''7''), (''method'', JString ''x''), (''accessToken'', JString ''bad'')]"


section \<open>Mounted directories\<close>

lemma del_upd: "sorted_keys kvs \<Longrightarrow> \<not> has_key k kvs \<Longrightarrow> del k (upd k v kvs) = kvs"
proof (induction kvs)
  case (Cons kv kvs)
  have "k \<noteq> fst kv" "\<not> has_key k kvs" "sorted_keys kvs"
    using Cons.prems by (auto simp: has_key_def sorted_keys_def split: if_splits)
  moreover from \<open>\<not> has_key k kvs\<close> have "del k kvs = kvs"
    by (auto simp: del_def has_key_def map_of_eq_None_iff filter_id_conv)
  ultimately show ?case using Cons.IH by (cases kv) (auto simp: del_def)
qed (simp add: del_def)

text \<open>
  Mounting an existing directory at a free mount point adds exactly this mount, and unmounting it
  gives the state before back; a mount point in use is refused.
\<close>

theorem mount_unmount:
  assumes "jget input ''path'' = JString p" "jget input ''target'' = JString t"
    "fs_is_directory w (normalizePath (os_platform w) t)" "sorted_keys (rt_mountedPaths w)"
    "m = mount_point (os_platform w) p"
  shows "if isMounted m w
    then server_mount input w = (Inr (error_of NE_SR_MPINUSE (normalizePath (os_platform w) t)), w)
    else \<exists>w'. fst (server_mount input w) = Inr (message_output (m @ '' mounts to '' @ normalizePath (os_platform w) t)) \<and>
      snd (server_mount input w) = w' \<and> map_of (getMounts w') = (map_of (getMounts w))(m \<mapsto> normalizePath (os_platform w) t) \<and>
      server_unmount input w' = (Inr (message_output (m @ '' unmounted'')), w)"
proof -
  let ?t = "normalizePath (os_platform w) t"
  have f: "hasRequiredFields input [''path'', ''target'']" using assms(1,2) by (simp add: hasField_iff)
  have d: "fs_exists w ?t" using assms(3) by (simp add: fs_exists_def fs_is_directory_def)
  show ?thesis
  proof (cases "isMounted m w")
    case True
    then show ?thesis
      using f d assms by (simp add: server_mount_def require_step arg_string_step mountPath_def)
  next
    case False
    let ?w' = "w\<lparr>rt_mountedPaths := upd m ?t (rt_mountedPaths w)\<rparr>"
    have "server_mount input w = (Inr (message_output (m @ '' mounts to '' @ ?t)), ?w')"
      using f d assms False by (simp add: server_mount_def require_step arg_string_step mountPath_def)
    moreover have "server_unmount input ?w' = (Inr (message_output (m @ '' unmounted'')), w)"
      using assms False del_upd [of "rt_mountedPaths w" m ?t]
      by (simp add: server_unmount_def arg_string_step unmountPath_def isMounted_def)
    ultimately show ?thesis using False by (simp add: getMounts_def)
  qed
qed

theorem mount_unmount_witness:
  "fst (server_mount (jobj [(''path'', JString ''/x/''), (''target'', JString ''/home/bob'')]) demo) =
     Inr (message_output ''/x mounts to /home/bob'')"
proof -
  let ?in = "jobj [(''path'', JString ''/x/''), (''target'', JString ''/home/bob'')]"
  have "jget ?in ''path'' = JString ''/x/''" "jget ?in ''target'' = JString ''/home/bob''"
    "fs_is_directory demo (normalizePath (os_platform demo) ''/home/bob'')" "\<not> isMounted ''/x'' demo"
    "mount_point (os_platform demo) ''/x/'' = ''/x''" "normalizePath (os_platform demo) ''/home/bob'' = ''/home/bob''"
    by code_simp+
  moreover have "sorted_keys (rt_mountedPaths demo)" by (simp add: demo_def initial_world_def)
  ultimately show ?thesis using mount_unmount [of ?in "''/x/''" "''/home/bob''" demo "''/x''"] by auto
qed

lemma strict_prefix_less: "strict_prefix (a :: string) b \<Longrightarrow> a < b"
  by (auto simp: strict_prefix_def prefix_def list_less_def neq_Nil_conv intro: lexord_append_rightI)

text \<open>
  Of several mount points that begin a path the shortest one serves it: every other one is an
  extension of the one that is used. A mount at \<^verbatim>\<open>/\<close> therefore hides all others.
\<close>

theorem shortest_mount_wins:
  assumes "sorted_keys mounts" "find_mount path mounts = Some (m, t)" "(m', t') \<in> set mounts" "prefix m' path"
  shows "prefix m path \<and> prefix m m'"
proof -
  obtain i where i: "i < length mounts" "mounts ! i = (m, t)" "prefix m path" "\<forall>j < i. \<not> prefix (fst (mounts ! j)) path"
    using assms(2) by (auto simp: find_mount_def find_Some_iff split_beta) (metis fst_conv)
  obtain k where k: "k < length mounts" "mounts ! k = (m', t')" using assms(3) by (metis in_set_conv_nth)
  have "\<not> strict_prefix m' m"
  proof
    assume "strict_prefix m' m"
    then have "m' < m" by (rule strict_prefix_less)
    moreover have "i < k \<Longrightarrow> m < m'"
      using sorted_wrt_nth_less [of "(<)" "map fst mounts" i k] assms(1) i(2) k by (simp add: sorted_keys_def)
    ultimately have "k < i" using i k by (metis linorder_neqE_nat not_less_iff_gr_or_eq prod.inject)
    with i k assms(4) show False by auto
  qed
  moreover have "prefix m m' \<or> prefix m' m" using i(3) assms(4) by (rule prefix_same_cases)
  ultimately show ?thesis using i(3) by (metis prefix_order.le_less)
qed

theorem shortest_mount_wins_witness:
  "prefix ''/'' ''/docs/a.txt'' \<and> prefix ''/'' ''/docs''"
proof -
  have "sorted_keys [(''/'', ''/srv''), (''/docs'', ''/srv2'')]" "prefix ''/docs'' ''/docs/a.txt''" by code_simp+
  moreover have "find_mount ''/docs/a.txt'' [(''/'', ''/srv''), (''/docs'', ''/srv2'')] = Some (''/'', ''/srv'')" by code_simp
  moreover have "(''/docs'', ''/srv2'') \<in> set [(''/'', ''/srv''), (''/docs'', ''/srv2'')]" by simp
  ultimately show ?thesis by (rule_tac shortest_mount_wins)
qed

end
