(* ===== verification/MethodProps.thy ===== *)
theory MethodProps
  imports RouterProps
begin

text \<open>
  Properties of all native methods at once: the shape of their answers, and which of them can change
  the file tree.
\<close>

named_theorems answer_intros \<open>rules that follow the shape of a method to its answers\<close>
named_theorems file_intros \<open>steps that leave the file tree alone\<close>

section \<open>The shape of an answer\<close>

text \<open>An answer is an object that holds either the success or an error with a known code.\<close>

definition is_answer :: "json \<Rightarrow> bool" where
  "is_answer out \<longleftrightarrow> (\<exists>kvs. out = JObject kvs) \<and>
     (jget out ''success'' = JBool True \<and> jget out ''error'' = JNull \<or>
      jget out ''success'' = JNull \<and> (\<exists>code param. jget out ''error'' = makeErrorPayload code param))"

definition answers :: "json prog \<Rightarrow> bool" where
  "answers m \<longleftrightarrow> (\<forall>w out. fst (m w) = Inr out \<longrightarrow> is_answer out)"

lemma is_answer_outputs [simp, answer_intros]:
  "is_answer success_output" "is_answer (return_output v)" "is_answer (message_output s)"
  "is_answer (error_of c p)" "is_answer (error_output (makeMissingArgErrorPayload k))" "is_answer (array_error c p)"
  by (auto simp: is_answer_def success_output_def return_output_def message_output_def error_of_def error_output_def
      array_error_def makeMissingArgErrorPayload_def jput_def jget_object)

lemma answers_step [answer_intros]:
  "is_answer out \<Longrightarrow> answers (retS out)" "answers (throwS e)"
  "(\<And>v. answers (f v)) \<Longrightarrow> answers (bindS m f)"
  "answers n \<Longrightarrow> answers (thenS m' n)"
  by (auto simp: answers_def bindS_def thenS_def split: prod.splits sum.splits)

lemma answers_catch [answer_intros]: "answers m \<Longrightarrow> answers h \<Longrightarrow> answers (catchS m h)"
  unfolding answers_def catchS_def by (auto split: prod.splits sum.splits if_splits) (metis fst_conv)+

lemma answers_if [answer_intros]: "answers m \<Longrightarrow> answers n \<Longrightarrow> answers (if b then m else n)"
  by simp

lemma is_answer_if [answer_intros]: "is_answer x \<Longrightarrow> is_answer y \<Longrightarrow> is_answer (if b then x else y)"
  by simp

lemma answers_cases [answer_intros]:
  "answers n \<Longrightarrow> (\<And>x. answers (f x)) \<Longrightarrow> answers (case found of None \<Rightarrow> n | Some x \<Rightarrow> f x)"
  "(\<And>x y. answers (g x y)) \<Longrightarrow> answers (case xy of (x, y) \<Rightarrow> g x y)"
  by (simp_all split: option.splits prod.splits)

lemma answers_guards [answer_intros]:
  "answers m \<Longrightarrow> answers (require ks input m)" "answers m \<Longrightarrow> answers (scoped path perm m)"
  "(\<And>c. answers (body c)) \<Longrightarrow> answers (guarded_command input body)"
  by (auto simp: require_def scoped_def guarded_command_def intro!: answer_intros split: option.splits)

lemma answers_window [answer_intros]: "answers (do_window m input)" "answers (ask_window f input)"
  unfolding do_window_def ask_window_def by (intro answer_intros)+

lemma answers_event [answer_intros]: "answers (event_method deliver input)"
  unfolding event_method_def by (intro answer_intros)

lemma answers_app [answer_intros]:
  "answers (app_getProcessIdMethod input)" "answers (app_getConfig input)" "answers (app_broadcast input)"
  "answers (app_readProcessInput input)" "answers (app_writeProcessOutput input)" "answers (app_writeProcessError input)"
  "answers (debug_logMethod input)" "answers (events_broadcast input)" "answers (extensions_dispatch input)"
  "answers (extensions_broadcast input)" "answers (extensions_getStats input)" "answers (custom_getMethods names input)"
  unfolding app_getProcessIdMethod_def app_getConfig_def app_broadcast_def app_readProcessInput_def app_writeProcessOutput_def
    app_writeProcessError_def debug_logMethod_def events_broadcast_def extensions_dispatch_def extensions_broadcast_def
    extensions_getStats_def custom_getMethods_def
  by (intro answer_intros)+

lemma answers_win [answer_intros]:
  "answers (win_setTitle input)" "answers (win_getTitle input)" "answers (win_maximize input)" "answers (win_isMaximized input)"
  "answers (win_unmaximize input)" "answers (win_minimize input)" "answers (win_unminimize input)"
  "answers (win_isMinimizedMethod input)" "answers (win_isVisible input)" "answers (win_show input)" "answers (win_hide input)"
  "answers (win_isFullScreenMethod input)" "answers (win_setFullScreen input)" "answers (win_exitFullScreen input)"
  "answers (win_focus input)" "answers (win_setIcon input)" "answers (win_setBadge input)" "answers (win_move input)"
  "answers (win_beginDrag input)" "answers (win_center input)" "answers (win_setSize input)" "answers (win_getSize input)"
  "answers (win_getPosition input)" "answers (win_setAlwaysOnTop input)" "answers (win_setBorderless input)"
  "answers (win_snapshot input)" "answers (win_setMainMenu input)" "answers (win_print input)"
  unfolding win_setTitle_def win_getTitle_def win_maximize_def win_isMaximized_def win_unmaximize_def win_minimize_def
    win_unminimize_def win_isMinimizedMethod_def win_isVisible_def win_show_def win_hide_def win_isFullScreenMethod_def
    win_setFullScreen_def win_exitFullScreen_def win_focus_def win_setIcon_def win_setBadge_def win_move_def
    win_beginDrag_def win_center_def win_setSize_def win_getSize_def win_getPosition_def win_setAlwaysOnTop_def
    win_setBorderless_def win_snapshot_def win_setMainMenu_def win_print_def
  by (intro answer_intros)+

lemma answers_fs [answer_intros]:
  "answers (fs_createDirectory input)" "answers (fs_remove input)" "answers (fs_readFile input)"
  "answers (fs_readBinaryFile input)" "answers (fs_writeFile input)" "answers (fs_writeBinaryFile input)"
  "answers (fs_appendFile input)" "answers (fs_appendBinaryFile input)" "answers (fs_openFile input)"
  "answers (fs_createWatcher input)" "answers (fs_removeWatcher input)" "answers (fs_getWatchers input)"
  "answers (fs_updateOpenedFile input)" "answers (fs_getOpenedFileInfo input)" "answers (fs_readDirectory input)"
  "answers (fs_copy input)" "answers (fs_move input)" "answers (fs_getStats input)" "answers (fs_getAbsolutePath input)"
  "answers (fs_getRelativePath input)" "answers (fs_getPathParts input)" "answers (fs_getPermissions input)"
  "answers (fs_setPermissions input)" "answers (fs_getJoinedPath input)" "answers (fs_getNormalizedPath input)"
  "answers (fs_getUnnormalizedPath input)" "answers (fs_access input)" "answers (fs_chmod input)" "answers (fs_chown input)"
  unfolding fs_createDirectory_def fs_remove_def fs_readFile_def fs_readBinaryFile_def fs_writeFile_def fs_writeBinaryFile_def
    fs_appendFile_def fs_appendBinaryFile_def writeOrAppendFile_def writeOrAppendBinaryFile_def read_method_def
    fs_openFile_def fs_createWatcher_def fs_removeWatcher_def fs_getWatchers_def fs_updateOpenedFile_def
    fs_getOpenedFileInfo_def fs_readDirectory_def fs_copy_def fs_move_def fs_getStats_def fs_getAbsolutePath_def
    fs_getRelativePath_def fs_getPathParts_def fs_getPermissions_def fs_setPermissions_def fs_getJoinedPath_def
    fs_getNormalizedPath_def fs_getUnnormalizedPath_def fs_access_def fs_chmod_def fs_chown_def Let_def
  by (intro answer_intros)+

lemma http_answer_is_answer [answer_intros]: "is_answer (http_answer res)"
  by (auto simp: http_answer_def split: sum.splits http_error.splits)

lemma validate_is_answer: "\<not> is_null (validateStorageBucket key) \<Longrightarrow> is_answer (validateStorageBucket key)"
  by (auto simp: validateStorageBucket_def is_null_def split: if_splits)

lemma answers_bucket [answer_intros]:
  assumes "\<And>k. answers (body k)"
  shows "answers (with_key input body)"
proof -
  have guarded: "answers (if \<not> is_null (validateStorageBucket k) then retS (validateStorageBucket k) else body k)" for k
    using assms validate_is_answer [of k] by (auto intro: answer_intros)
  show ?thesis
    unfolding with_key_def Let_def by (rule answers_guards answers_step guarded)+
qed

lemma answers_removeBucket [answer_intros]: "answers (removeStorageBucket key)"
  unfolding removeStorageBucket_def by (intro answer_intros)

lemma answers_storage [answer_intros]:
  "answers (storage_getData input)" "answers (storage_setData input)" "answers (storage_removeData input)"
  "answers (storage_getKeys input)" "answers (storage_clear input)"
  unfolding storage_getData_def storage_setData_def storage_removeData_def storage_getKeys_def storage_clear_def
  by (intro answer_intros)+

lemma answers_res [answer_intros]:
  "answers (res_getFiles input)" "answers (res_getStats input)" "answers (res_read encode input)"
  "answers (res_readFile input)" "answers (res_readBinaryFile input)" "answers (extract_tree code path destination)"
  "answers (res_extractFile input)" "answers (res_extractDirectory input)"
  unfolding res_getFiles_def res_getStats_def stats_output_def res_readFile_def res_readBinaryFile_def res_read_def
    extract_tree_def res_extractFile_def res_extractDirectory_def
  by (intro answer_intros)+

lemma answers_os [answer_intros]:
  "answers (os_execCommand input)" "answers (os_spawnProcess input)" "answers (os_updateSpawnedProcess input)"
  "answers (os_getSpawnedProcesses input)" "answers (os_getEnv input)" "answers (os_setEnv input)" "answers (os_getEnvs input)"
  "answers (os_getLocaleInfo input)" "answers (os_showOpenDialog input)" "answers (os_showFolderDialog input)"
  "answers (os_showSaveDialog input)" "answers (os_showNotification input)" "answers (os_showMessageBox input)"
  "answers (os_setTray input)" "answers (os_open input)" "answers (os_getPathMethod input)" "answers (os_trashItem input)"
  unfolding os_execCommand_def os_spawnProcess_def os_updateSpawnedProcess_def os_getSpawnedProcesses_def os_getEnv_def
    os_setEnv_def os_getEnvs_def os_getLocaleInfo_def os_showOpenDialog_def os_showFolderDialog_def os_showSaveDialog_def
    os_showNotification_def os_showMessageBox_def os_setTray_def os_open_def os_getPathMethod_def os_trashItem_def Let_def
  by (intro answer_intros)+

lemma answers_computer [answer_intros]:
  "answers (computer_getMousePosition input)" "answers (computer_setMousePosition input)"
  "answers (computer_setMouseGrabbing input)" "answers (computer_sendKey input)" "answers (computer_getMachineId input)"
  "answers (computer_getHostname input)" "answers (computer_getMemoryInfo input)" "answers (computer_getKernelInfo input)"
  "answers (computer_getOSInfo input)" "answers (computer_getArchMethod input)" "answers (computer_getCPUInfo input)"
  "answers (computer_getGPUs input)" "answers (computer_getDisplays input)" "answers (computer_getDisks input)"
  unfolding computer_getMousePosition_def computer_setMousePosition_def computer_setMouseGrabbing_def computer_sendKey_def
    computer_getMachineId_def computer_getHostname_def computer_getMemoryInfo_def computer_getKernelInfo_def
    computer_getOSInfo_def computer_getArchMethod_def computer_getCPUInfo_def computer_getGPUs_def computer_getDisplays_def
    computer_getDisks_def
  by (intro answer_intros)+

lemma is_answer_cases [answer_intros]:
  "is_answer n \<Longrightarrow> (\<And>x. is_answer (f x)) \<Longrightarrow> is_answer (case found of None \<Rightarrow> n | Some x \<Rightarrow> f x)"
  by (simp split: option.splits)

lemma answers_rest [answer_intros]:
  "answers (computer_getNetworkInterfaces input)" "answers (clipboard_getFormat input)" "answers (clipboard_readText input)"
  "answers (clipboard_readHTML input)" "answers (clipboard_readImage input)" "answers (clipboard_writeImage input)"
  "answers (clipboard_writeText input)" "answers (clipboard_writeHTML input)" "answers (clipboard_clear input)"
  "answers (net_request input)" "answers (server_mount input)" "answers (server_unmount input)" "answers (server_getMounts input)"
  unfolding computer_getNetworkInterfaces_def clipboard_getFormat_def clipboard_readText_def clipboard_readHTML_def
    clipboard_readImage_def clipboard_writeImage_def clipboard_writeText_def clipboard_writeHTML_def clipboard_clear_def
    net_request_def server_mount_def server_unmount_def server_getMounts_def Let_def
  by (intro answer_intros)+

section \<open>Methods that leave the file tree alone\<close>

text \<open>The nodes of the file system and their attributes. The log file is not one of the nodes.\<close>

definition file_view :: "world \<Rightarrow> (string list \<times> node) list \<times> (string list \<Rightarrow> attrs)" where
  "file_view w = (os_nodes w, os_attrs w)"

abbreviation calm :: "'a prog \<Rightarrow> bool" where
  "calm m \<equiv> keeps file_view m"

lemmas [file_intros] = keeps_pure keeps_bindS keeps_thenS keeps_catchS keeps_forS keeps_if keeps_require
  keeps_args keeps_opt_arg keeps_json_parse keeps_jsonToString

lemma calm_cases [file_intros]:
  "calm n \<Longrightarrow> (\<And>x. calm (f x)) \<Longrightarrow> calm (case found of None \<Rightarrow> n | Some x \<Rightarrow> f x)"
  "(\<And>x y. calm (g x y)) \<Longrightarrow> calm (case xy of (x, y) \<Rightarrow> g x y)"
  by (simp_all split: option.splits prod.splits)

lemma calm_options: "keeps no_options m \<Longrightarrow> calm m"
  by (rule keeps_field) (simp_all add: file_view_def)

lemma calm_outbox: "keeps no_outbox m \<Longrightarrow> calm m"
  by (rule keepsI) (rule no_outbox_field [OF keepsD], simp_all add: file_view_def)

lemmas [file_intros] = keeps_hasAPIAccess [THEN calm_options] keeps_getMode [THEN calm_options]
  keeps_getOption [THEN calm_options] keeps_opt_ref [THEN calm_options]
  keeps_send [THEN calm_outbox] keeps_broadcast [THEN calm_outbox] keeps_broadcastToAllApps [THEN calm_outbox]
  keeps_broadcastToAllExtensions [THEN calm_outbox] keeps_dispatch [THEN calm_outbox]

text \<open>A step that writes other variables.\<close>

lemma calm_modS: "(\<And>w. os_nodes (f w) = os_nodes w) \<Longrightarrow> (\<And>w. os_attrs (f w) = os_attrs w) \<Longrightarrow> calm (modS f)"
  by (simp add: keeps_modS file_view_def)

lemma calm_writes [file_intros]:
  "calm (write_err_stream d)" "calm (write_out_stream d)" "calm (dev_log c)" "calm (put_reader i r)" "calm cleanupTray"
  "calm (os_show s)" "calm (setEnv key val)" "calm (wcall wc)" "calm (ncall wc)" "calm (modP g)" "calm (debug_log t m)"
  unfolding write_err_stream_def write_out_stream_def dev_log_def put_reader_def cleanupTray_def os_show_def setEnv_def
    wcall_def ncall_def modP_def debug_log_def
  by (intro file_intros calm_modS; simp)+

lemma calm_server [file_intros]:
  "calm (sendToExtension i m)" "calm (dispatchToAllApps e d)" "calm (dispatchToExtension i e d)"
  "calm (dispatchToAllExtensions e d)" "calm (unmountPath path)" "calm (mountPath path target)"
  unfolding sendToExtension_def dispatchToAllApps_def dispatchToExtension_def dispatchToAllExtensions_def
    unmountPath_def mountPath_def
  by (intro file_intros calm_modS; simp)+

lemma calm_resources [file_intros]:
  "calm openResourceFile" "calm (getFileFromBundle f opts)" "calm (getFileFromEmbedded f opts)"
  "calm (resources_getFile f opts)" "calm getResourcesDirectory"
  unfolding openResourceFile_def getFileFromBundle_def getFileFromEmbedded_def resources_getFile_def getResourcesDirectory_def
    Let_def
  by (intro file_intros calm_modS; simp)+

lemma calm_streams [file_intros]:
  "calm (dispatchOpenedFileEvt i a d)" "calm (readStreamBlock evt r)" "calm (openFile f)" "calm (createWatcher path)"
  "calm (removeWatcher i)"
  unfolding dispatchOpenedFileEvt_def readStreamBlock_def openFile_def createWatcher_def removeWatcher_def Let_def
  by (intro file_intros calm_modS; simp)+

lemma calm_read_blocks [file_intros]: "calm (read_blocks fuel evt r)"
  by (induction fuel arbitrary: r) (auto simp: Let_def split_beta intro!: file_intros)

lemma calm_updateOpened [file_intros]: "calm (readStream evt r)" "calm (updateOpenedFile evt)"
  unfolding readStream_def updateOpenedFile_def by (intro file_intros calm_modS; simp)+

lemma calm_scoped [file_intros]: "calm m \<Longrightarrow> calm (scoped path perm m)"
  unfolding scoped_def by (intro file_intros)

lemma calm_getSize [file_intros]: "calm window_getSize"
  by (auto simp: window_getSize_def keeps_def file_view_def Let_def split_beta)

lemma calm_window [file_intros]:
  "calm window_focus" "calm window_unminimize" "calm (getCenterPos b)" "calm (window_move x y)" "calm (window_center b)"
  "calm window_maximize" "calm window_unmaximize" "calm (window_setIcon f)" "calm apply_size"
  "calm window_setFullScreen" "calm window_exitFullScreen"
  "calm (jsonToSizeOptions input d)" "calm (window_setAlwaysOnTop b)" "calm (window_setBorderless b)"
  "calm (window_setMainMenu input)" "calm (ask_window g input)" "calm m \<Longrightarrow> calm (do_window m input)"
  "calm window_show" "calm window_hide"
  unfolding window_focus_def window_unminimize_def getCenterPos_def window_center_def window_move_def window_maximize_def
    window_unmaximize_def window_setIcon_def apply_size_def jsonToSizeOptions_def window_setAlwaysOnTop_def
    window_setBorderless_def window_setMainMenu_def window_setFullScreen_def window_exitFullScreen_def ask_window_def
    do_window_def window_show_def window_hide_def windowStateChange.simps Let_def
  by (intro file_intros calm_modS; simp)+

lemma calm_app_methods [file_intros]:
  "calm (app_killProcess input)" "calm (app_getProcessIdMethod input)" "calm (app_getConfig input)" "calm (app_broadcast input)"
  "calm (app_readProcessInput input)" "calm (app_writeProcessOutput input)" "calm (app_writeProcessError input)"
  "calm (debug_logMethod input)" "calm (events_broadcast input)" "calm (extensions_dispatch input)"
  "calm (extensions_broadcast input)" "calm (extensions_getStats input)" "calm (custom_getMethods names input)"
  unfolding app_killProcess_def signalHandler_def app_getProcessIdMethod_def app_getConfig_def app_broadcast_def
    app_readProcessInput_def app_writeProcessOutput_def app_writeProcessError_def debug_logMethod_def events_broadcast_def
    extensions_dispatch_def extensions_broadcast_def extensions_getStats_def custom_getMethods_def event_method_def arg_json_def
  by (intro file_intros calm_modS; simp)+

lemma calm_win_methods [file_intros]:
  "calm (win_setTitle input)" "calm (win_getTitle input)" "calm (win_maximize input)" "calm (win_isMaximized input)"
  "calm (win_unmaximize input)" "calm (win_minimize input)" "calm (win_unminimize input)"
  "calm (win_isMinimizedMethod input)" "calm (win_isVisible input)" "calm (win_show input)" "calm (win_hide input)"
  "calm (win_isFullScreenMethod input)" "calm (win_setFullScreen input)" "calm (win_exitFullScreen input)"
  "calm (win_focus input)" "calm (win_setIcon input)" "calm (win_setBadge input)" "calm (win_move input)"
  "calm (win_beginDrag input)" "calm (win_center input)" "calm (win_setSize input)" "calm (win_getSize input)"
  "calm (win_getPosition input)" "calm (win_setAlwaysOnTop input)" "calm (win_setBorderless input)"
  "calm (win_setMainMenu input)" "calm (win_print input)"
  unfolding win_setTitle_def win_getTitle_def win_maximize_def win_isMaximized_def win_unmaximize_def win_minimize_def
    win_unminimize_def win_isMinimizedMethod_def win_isVisible_def win_show_def win_hide_def
    win_isFullScreenMethod_def win_setFullScreen_def win_exitFullScreen_def win_focus_def win_setIcon_def
    win_setBadge_def win_move_def win_beginDrag_def win_center_def win_setSize_def win_getSize_def win_getPosition_def
    win_setAlwaysOnTop_def win_setBorderless_def win_setMainMenu_def win_print_def Let_def
  by (intro file_intros calm_modS; simp)+

lemma calm_computer_methods [file_intros]:
  "calm (computer_getMousePosition input)" "calm (computer_setMousePosition input)"
  "calm (computer_setMouseGrabbing input)" "calm (computer_sendKey input)" "calm (computer_getMachineId input)"
  "calm (computer_getHostname input)" "calm (computer_getMemoryInfo input)" "calm (computer_getKernelInfo input)"
  "calm (computer_getOSInfo input)" "calm (computer_getArchMethod input)" "calm (computer_getCPUInfo input)"
  "calm (computer_getGPUs input)" "calm (computer_getDisplays input)" "calm (computer_getDisks input)"
  "calm (computer_getNetworkInterfaces input)"
  unfolding computer_getMousePosition_def computer_setMousePosition_def computer_setMouseGrabbing_def
    computer_sendKey_def computer_getMachineId_def computer_getHostname_def computer_getMemoryInfo_def
    computer_getKernelInfo_def computer_getOSInfo_def computer_getArchMethod_def computer_getCPUInfo_def
    computer_getGPUs_def computer_getDisplays_def computer_getDisks_def computer_getNetworkInterfaces_def sendKey_def
    getMousePosition_def getMachineId_def setMousePosition_def setMouseGrabbing_def Let_def
  by (intro file_intros calm_modS; simp)+

lemma calm_fs_methods [file_intros]:
  "calm (fs_readFile input)" "calm (fs_readBinaryFile input)" "calm (fs_openFile input)"
  "calm (fs_createWatcher input)" "calm (fs_removeWatcher input)" "calm (fs_getWatchers input)"
  "calm (fs_updateOpenedFile input)" "calm (fs_getOpenedFileInfo input)" "calm (fs_readDirectory input)"
  "calm (fs_getStats input)" "calm (fs_getAbsolutePath input)" "calm (fs_getRelativePath input)"
  "calm (fs_getPathParts input)" "calm (fs_getPermissions input)" "calm (fs_getJoinedPath input)"
  "calm (fs_getNormalizedPath input)" "calm (fs_getUnnormalizedPath input)" "calm (fs_access input)"
  unfolding fs_readFile_def fs_readBinaryFile_def fs_openFile_def fs_createWatcher_def fs_removeWatcher_def
    fs_getWatchers_def fs_updateOpenedFile_def fs_getOpenedFileInfo_def fs_readDirectory_def fs_getStats_def
    fs_getAbsolutePath_def fs_getRelativePath_def fs_getPathParts_def fs_getPermissions_def fs_getJoinedPath_def
    fs_getNormalizedPath_def fs_getUnnormalizedPath_def fs_access_def read_method_def Let_def
  by (intro file_intros calm_modS; simp)+

lemma calm_os_methods [file_intros]:
  "calm (os_getSpawnedProcesses input)" "calm (os_getEnv input)" "calm (os_setEnv input)" "calm (os_getEnvs input)"
  "calm (os_getLocaleInfo input)" "calm (os_showOpenDialog input)" "calm (os_showFolderDialog input)"
  "calm (os_showSaveDialog input)" "calm (os_showNotification input)" "calm (os_showMessageBox input)"
  "calm (os_getPathMethod input)"
  unfolding os_getSpawnedProcesses_def os_getEnv_def os_setEnv_def os_getEnvs_def os_getLocaleInfo_def
    os_showOpenDialog_def os_showFolderDialog_def os_showSaveDialog_def os_showNotification_def os_showMessageBox_def
    os_getPathMethod_def arg_defaultPath_def arg_flag_def arg_filters_def Let_def
  by (intro file_intros calm_modS; simp)+

lemma calm_data_methods [file_intros]:
  "calm (storage_getData input)" "calm (storage_getKeys input)" "calm (res_getFiles input)"
  "calm (res_getStats input)" "calm (res_readFile input)" "calm (res_readBinaryFile input)"
  "calm (clipboard_getFormat input)" "calm (clipboard_readText input)" "calm (clipboard_readHTML input)"
  "calm (clipboard_readImage input)" "calm (clipboard_writeImage input)" "calm (clipboard_writeText input)"
  "calm (clipboard_writeHTML input)" "calm (clipboard_clear input)" "calm (net_request input)"
  "calm (server_mount input)" "calm (server_unmount input)" "calm (server_getMounts input)"
  unfolding storage_getData_def storage_getKeys_def res_getFiles_def res_getStats_def res_readFile_def
    res_readBinaryFile_def clipboard_getFormat_def clipboard_readText_def clipboard_readHTML_def
    clipboard_readImage_def clipboard_writeImage_def clipboard_writeText_def clipboard_writeHTML_def
    clipboard_clear_def net_request_def server_mount_def server_unmount_def server_getMounts_def with_key_def
    res_read_def clip_set_image_def arg_ulong_def read_request_def http_send_def some_arg_def arg_auth_def Let_def
  by (intro file_intros calm_modS; simp)+

section \<open>All methods of the router\<close>

text \<open>\<^verbatim>\<open>app.exit\<close> is the one method whose answer stays empty; \<^verbatim>\<open>app.killProcess\<close> never returns.\<close>

lemma answers_kill [answer_intros]: "answers (app_killProcess input)"
  by (auto simp: answers_def app_killProcess_def signalHandler_def thenS_def bindS_def split: prod.splits sum.splits if_splits)

lemma exit_answer: "app_exitMethod input w = (Inr out, w') \<Longrightarrow> out = JNull"
  by (auto simp: app_exitMethod_def bindS_def thenS_def split: prod.splits sum.splits)

lemma all_methods_answer: "list_all (\<lambda>(k, m). k = ''app.exit'' \<or> (\<forall>input. answers (m input))) methodMap"
  unfolding methodMap_def list.pred_inject(2) split_conv
  by (intro conjI; (rule list.pred_inject(1) | rule disjI1, rule refl | rule disjI2, rule allI, rule answer_intros))

lemma answers_methodMap: "(k, m) \<in> set methodMap \<Longrightarrow> k \<noteq> ''app.exit'' \<Longrightarrow> answers (m input)"
  using all_methods_answer by (auto simp: list_all_iff)

lemma call_method_typed:
  assumes "call_method k d w = (Inr out, w')"
  shows "is_answer out \<or> k = ''app.exit'' \<and> out = JNull"
proof (cases "map_of methodMap k")
  case None
  then show ?thesis using assms by (auto simp: call_method_def)
next
  case (Some m)
  then have m: "(k, m) \<in> set methodMap" by (rule map_of_SomeD)
  show ?thesis
  proof (cases "k = ''app.exit''")
    case True
    then have "m = app_exitMethod" using Some by (simp add: methodMap_def)
    then show ?thesis using assms Some True
      by (auto simp: call_method_def catchS_def bindS_cases bindS_def split: prod.splits sum.splits if_splits dest: exit_answer)
  next
    case False
    then have "answers (call_method k d)"
      using answers_methodMap [OF m] Some by (auto simp: call_method_def intro!: answer_intros)
    then show ?thesis using assms by (auto simp: answers_def dest: spec [of _ w])
  qed
qed

text \<open>
  The methods that may write to the file system. The last six hand a path or a command to the
  operating system, whose own effects are not in the model.
\<close>

definition file_methods :: "string list" where
  "file_methods =
    [''filesystem.createDirectory'', ''filesystem.remove'', ''filesystem.writeFile'', ''filesystem.writeBinaryFile'',
     ''filesystem.appendFile'', ''filesystem.appendBinaryFile'', ''filesystem.copy'', ''filesystem.move'',
     ''filesystem.setPermissions'', ''filesystem.chmod'', ''filesystem.chown'', ''storage.setData'', ''storage.removeData'',
     ''storage.clear'', ''resources.extractFile'', ''resources.extractDirectory'', ''os.setTray'', ''app.exit'',
     ''os.execCommand'', ''os.spawnProcess'', ''os.updateSpawnedProcess'', ''os.open'', ''os.trashItem'', ''window.snapshot'']"

lemma all_methods_calm: "list_all (\<lambda>(k, m). k \<in> set file_methods \<or> (\<forall>input. calm (m input))) methodMap"
  unfolding methodMap_def list.pred_inject(2) split_conv
  by (intro conjI; (rule list.pred_inject(1) | rule disjI2, rule allI, rule file_intros | rule disjI1, simp add: file_methods_def))

lemma calm_methodMap: "(k, m) \<in> set methodMap \<Longrightarrow> k \<notin> set file_methods \<Longrightarrow> calm (m input)"
  using all_methods_calm by (auto simp: list_all_iff)

lemma calm_execute: "nm_method request \<notin> set file_methods \<Longrightarrow> calm (executeNativeMethod request)"
  using calm_methodMap [OF map_of_SomeD] unfolding executeNativeMethod_def call_method_def Let_def
  by (auto intro!: file_intros split: option.splits)

lemma write_refused:
  "\<not> (permitted request w \<and> nm_method request \<in> set file_methods) \<Longrightarrow>
     file_view (snd (executeNativeMethod request w)) = file_view w"
  using keepsD [OF calm_execute] no_options_field [OF gate_refused, of request w file_view] by (auto simp: file_view_def)

interpretation writes: guarded "\<lambda>request w. permitted request w \<and> nm_method request \<in> set file_methods"
  executeNativeMethod file_view
  by unfold_locales (rule write_refused)

text \<open>A request that removes a file of the demonstration machine.\<close>

definition demo_remove :: NativeMessage where
  "demo_remove = demo_request ''filesystem.remove'' ''tok'' (jobj [(''path'', JString ''/home/bob/key'')])"

lemma demo_remove_effect:
  "\<not> isl (fst (fs_remove (nm_data demo_remove) (demo_api\<lparr>settings_options := x\<rparr>)))"
  "length (os_nodes (snd (fs_remove (nm_data demo_remove) (demo_api\<lparr>settings_options := x\<rparr>)))) = 4"
  by code_simp+

lemma demo_remove_runs:
  obtains r w' where "executeNativeMethod demo_remove demo_api = (Inr r, w')" "length (os_nodes w') = 4"
proof -
  have "nm_method demo_remove = ''filesystem.remove''" "nm_accessToken demo_remove = ''tok''"
    by (simp_all add: demo_remove_def demo_request_def)
  moreover have "map_of methodMap ''filesystem.remove'' = Some fs_remove" by (simp add: methodMap_def)
  moreover have "\<not> regex_match window_rx ''filesystem.remove''" by code_simp
  ultimately obtain x where run: "executeNativeMethod demo_remove demo_api =
    bindS (catchS (fs_remove (nm_data demo_remove)) (retS (error_of NE_RT_NATRTER []))) (\<lambda>d. retS (reply demo_remove d))
      (demo_api\<lparr>settings_options := x\<rparr>)"
    using demo_call [of demo_remove fs_remove] by (metis list.distinct(1))
  obtain out w' where "fs_remove (nm_data demo_remove) (demo_api\<lparr>settings_options := x\<rparr>) = (Inr out, w')"
    using demo_remove_effect(1) [of x] by (metis isl_def prod.collapse sum.exhaust)
  moreover from this have "length (os_nodes w') = 4" using demo_remove_effect(2) [of x] by simp
  ultimately show thesis using run that by (simp add: catchS_def bindS_def)
qed

section \<open>Properties\<close>

text \<open>
  C24. The type of the API. Whatever a request asks for and whatever its arguments are, an answer that
  comes back carries the identifier and the method of the request and no token, and its data is an
  object with either the success or an error payload with a code of the table. The one exception is
  \<^verbatim>\<open>app.exit\<close>, whose data is null when it returns.
\<close>

theorem native_answers_typed:
  assumes "executeNativeMethod request w = (Inr r, w')"
  shows "r = reply request (nm_data r) \<and>
    (is_answer (nm_data r) \<or> nm_method request = ''app.exit'' \<and> nm_data r = JNull)"
  using assms by (auto simp: executeNativeMethod_def bindS_cases Let_def reply_def split: if_splits dest: call_method_typed)

theorem native_answers_typed_witness:
  "\<exists>r w'. executeNativeMethod (demo_request ''filesystem.remove'' ''tok'' (jobj [(''path'', JString ''/home/bob/key'')])) demo_api
     = (Inr r, w') \<and> is_answer (nm_data r)"
proof -
  obtain r w' where "executeNativeMethod demo_remove demo_api = (Inr r, w')" by (rule demo_remove_runs)
  moreover have "nm_method demo_remove \<noteq> ''app.exit''" by (simp add: demo_remove_def demo_request_def)
  ultimately show ?thesis using native_answers_typed unfolding demo_remove_def by blast
qed



end
