(* ===== verification/Assets.thy ===== *)
theory Assets
  imports Server Demo
begin

text \<open>
  Properties of the files the server answers with: when the search for a page ends, when it does
  not, and what a request for a range of a file gets.
\<close>

section \<open>Steps that end\<close>

definition terminates :: "('s, 'a) comp \<Rightarrow> bool" where
  "terminates m \<longleftrightarrow> (\<forall>s. fst (m s) \<noteq> Inl Diverges)"

lemma terminatesD: "terminates m \<Longrightarrow> m s \<noteq> (Inl Diverges, t)"
  unfolding terminates_def by (metis fst_conv)

lemma terminates_pure [simp]:
  "terminates (retS v)" "terminates (getS f)" "terminates (modS g)"
  "terminates (throwS e) \<longleftrightarrow> e \<noteq> Diverges"
  "terminates (liftS r) \<longleftrightarrow> r \<noteq> Inl Diverges"
  "terminates (readS h) \<longleftrightarrow> (\<forall>s. h s \<noteq> Inl Diverges)"
  by (auto simp: terminates_def)

lemma terminates_bindS: "terminates m \<Longrightarrow> (\<And>v. terminates (f v)) \<Longrightarrow> terminates (bindS m f)"
  unfolding terminates_def bindS_def by (auto split: prod.splits sum.splits) (metis fst_conv)+

lemma terminates_thenS: "terminates m \<Longrightarrow> terminates n \<Longrightarrow> terminates (thenS m n)"
  by (simp add: thenS_def terminates_bindS)

lemma terminates_if: "terminates m \<Longrightarrow> terminates n \<Longrightarrow> terminates (if b then m else n)"
  by simp

lemmas terminates_intros = terminates_bindS terminates_thenS terminates_if

lemma bindR_eq_Inl: "bindR r f = Inl e \<longleftrightarrow> r = Inl e \<or> (\<exists>v. r = Inr v \<and> f v = Inl e)"
  by (cases r) simp_all

lemma gets_end [simp]:
  "get_string j \<noteq> Inl Diverges" "get_bool j \<noteq> Inl Diverges" "get_int j \<noteq> Inl Diverges"
  "get_ulong j \<noteq> Inl Diverges" "jref j k \<noteq> Inl Diverges" "stoi s \<noteq> Inl Diverges"
  by (auto simp: get_string_def get_bool_def get_int_def get_signed_def get_ulong_def jref_def stoi_def parse_int_def
      Let_def split: json.splits if_splits prod.splits)

lemma jrefs_end [simp]: "jrefs ks j \<noteq> Inl Diverges"
proof (induction ks arbitrary: j)
  case (Cons k ks)
  then show ?case by (cases j) (auto simp: bindR_eq_Inl)
qed simp

lemma seek_end [simp]: "seekFilePos p j \<noteq> Inl Diverges"
proof -
  have "seek_segments j ss \<noteq> Inl Diverges" for ss j
    by (induction ss arbitrary: j) (auto simp: bindR_eq_Inl seek_step_def split: if_splits)
  then show ?thesis by (auto simp: seekFilePos_def bindR_eq_Inl split: if_splits)
qed

lemma readFile_ends [simp]: "readFile f opts w \<noteq> Inl Diverges"
  by (auto simp: readFile_def split: option.splits prod.splits)

lemma terminates_opt_ref [simp]: "terminates (opt_ref ks)"
  using jrefs_end by (auto simp: terminates_def opt_ref_def split: sum.splits)

lemma terminates_options [simp]:
  "terminates settings_getMode" "terminates (getOptionForCurrentMode k)" "terminates getNavigationUrl" "terminates getDocumentRoot"
proof -
  show m: "terminates settings_getMode" unfolding settings_getMode_def by (intro terminates_intros) simp_all
  show o: "terminates (getOptionForCurrentMode k)" for k
    unfolding getOptionForCurrentMode_def by (intro terminates_intros m) simp_all
  show "terminates getNavigationUrl" unfolding getNavigationUrl_def by (intro terminates_intros o) simp_all
  show "terminates getDocumentRoot" unfolding getDocumentRoot_def by (intro terminates_intros o) simp_all
qed

lemma terminates_debug [simp]: "terminates (debug_log t m)"
  by (simp add: debug_log_def)

lemma terminates_case_option:
  "terminates a \<Longrightarrow> (\<And>x. terminates (b x)) \<Longrightarrow> terminates (case z of None \<Rightarrow> a | Some x \<Rightarrow> b x)"
  by (cases z) simp_all

lemma terminates_getFile [simp]: "terminates (resources_getFile f opts)"
proof -
  have o: "terminates openResourceFile"
    unfolding openResourceFile_def by (intro terminates_intros terminates_case_option) simp_all
  have "terminates (getFileFromBundle f opts)"
    unfolding getFileFromBundle_def Let_def split_beta
    by (intro terminates_intros terminates_case_option o) simp_all
  moreover have "terminates (getFileFromEmbedded f opts)"
    unfolding getFileFromEmbedded_def Let_def split_beta
    by (intro terminates_intros terminates_case_option) simp_all
  ultimately show ?thesis unfolding resources_getFile_def by (intro terminates_intros) simp_all
qed

lemma terminates_assets [simp]:
  "terminates (read_asset p opts)" "terminates (spa_path p)" "terminates (asset_response p d opts r)"
proof -
  have "terminates (mounted_file p)"
    unfolding mounted_file_def Let_def by (intro terminates_intros) simp_all
  then show "terminates (read_asset p opts)"
    unfolding read_asset_def by (intro terminates_intros terminates_case_option) simp_all
  show "terminates (spa_path p)" unfolding spa_path_def by (intro terminates_intros) simp_all
  show "terminates (asset_response p d opts r)"
    unfolding asset_response_def Let_def split_beta by (intro terminates_intros) simp_all
qed

section \<open>Lookups on the way\<close>

text \<open>The options of two states are the same for every later lookup.\<close>

definition stable :: "world \<Rightarrow> world \<Rightarrow> bool" where
  "stable w w' \<longleftrightarrow> good_options (settings_options w') \<and>
     (\<forall>k. k \<noteq> ''modes'' \<longrightarrow> opt_view (settings_options w') k = opt_view (settings_options w) k)"

lemma stable_trans: "stable w1 w2 \<Longrightarrow> stable w2 w3 \<Longrightarrow> stable w1 w3"
  by (simp add: stable_def)

lemma same_opts_stable: "same_opts w w' \<Longrightarrow> stable w w'"
  by (simp add: stable_def same_opts_good same_opts_view)

lemma option_stable:
  assumes "good_options (settings_options w)" "k \<noteq> ''modes''"
  obtains w' where "getOptionForCurrentMode k w = (Inr (opt_view (settings_options w) k), w')" "stable w w'"
  using getOption_step [OF assms] same_opts_stable by blast

lemma keeps_getFile: "keeps settings_options (resources_getFile f opts)"
proof -
  have d: "keeps settings_options (debug_log t m)" for t m by (auto simp: keeps_def)
  have c: "keeps v a \<Longrightarrow> (\<And>x. keeps v (b x)) \<Longrightarrow> keeps v (case z of None \<Rightarrow> a | Some x \<Rightarrow> b x)" for v :: "world \<Rightarrow> json" and a b z
    by (cases z) simp_all
  have o: "keeps settings_options openResourceFile"
    unfolding openResourceFile_def by (intro keeps_intros c d)
  have "keeps settings_options (getFileFromBundle f opts)"
    unfolding getFileFromBundle_def Let_def split_beta by (intro keeps_intros c o)
  moreover have "keeps settings_options (getFileFromEmbedded f opts)"
    unfolding getFileFromEmbedded_def Let_def split_beta by (intro keeps_intros c)
  ultimately show ?thesis unfolding resources_getFile_def by (intro keeps_intros)
qed

lemma getDocumentRoot_stable:
  assumes "good_options (settings_options w)" "getDocumentRoot w = (r, w')"
  shows "stable w w'"
proof -
  obtain w1 where "getOptionForCurrentMode ''documentRoot'' w = (Inr (opt_view (settings_options w) ''documentRoot''), w1)"
    "stable w w1" using option_stable [OF assms(1), of "''documentRoot''"] by auto
  with assms(2) show ?thesis by (auto simp: getDocumentRoot_def bindS_cases split: if_splits)
qed

lemma read_asset_stable:
  assumes "good_options (settings_options w)" "read_asset p opts w = (r, w')"
  shows "stable w w'"
proof -
  obtain x w1 where m: "mounted_file p w = (x, w1)" by force
  have s: "stable w w1"
    using m assms(1) getDocumentRoot_stable [OF assms(1)]
    by (auto simp: mounted_file_def bindS_cases Let_def stable_def split: if_splits)
  show ?thesis
  proof (cases x)
    case (Inl e)
    then show ?thesis using assms(2) m s by (simp add: read_asset_def)
  next
    case (Inr y)
    then have "settings_options w' = settings_options w1"
      using assms(2) m keepsD' [OF keeps_getFile, of p opts w1 r w'] by (cases y) (auto simp: read_asset_def)
    with s show ?thesis by (simp add: stable_def)
  qed
qed

lemma spa_path_off:
  assumes "good_options (settings_options w)" "opt_view (settings_options w) ''singlePageServe'' \<in> {JNull, JBool False}"
  shows "fst (spa_path p w) = Inr None"
proof -
  obtain w1 where "getOptionForCurrentMode ''singlePageServe'' w = (Inr (opt_view (settings_options w) ''singlePageServe''), w1)"
    using option_stable [OF assms(1), of "''singlePageServe''"] by auto
  then show ?thesis using assms(2) by (auto simp: spa_path_def is_null_def get_bool_def)
qed

lemma spa_path_cases:
  assumes "good_options (settings_options w)" "spa_path p w = (Inr (Some q), w')"
  shows "stable w w' \<and> q \<noteq> p \<and>
    (\<forall>r. opt_view (settings_options w) ''documentRoot'' = JString r \<longrightarrow> q = r @ ''index.html'')"
proof -
  obtain w1 where w1: "getOptionForCurrentMode ''singlePageServe'' w = (Inr (opt_view (settings_options w) ''singlePageServe''), w1)"
    "stable w w1" using option_stable [OF assms(1), of "''singlePageServe''"] by auto
  then have g1: "good_options (settings_options w1)" by (simp add: stable_def)
  let ?d = "opt_view (settings_options w1) ''documentRoot''"
  obtain w2 where w2: "getOptionForCurrentMode ''documentRoot'' w1 = (Inr ?d, w2)" "stable w1 w2"
    using option_stable [OF g1, of "''documentRoot''"] by auto
  have g2: "good_options (settings_options w2)" using w2(2) by (simp add: stable_def)
  have n: "stable w2 w3" if "getNavigationUrl w2 = (r, w3)" for r w3
  proof -
    obtain w4 where w4: "getOptionForCurrentMode ''url'' w2 = (Inr (opt_view (settings_options w2) ''url''), w4)" "stable w2 w4"
      using option_stable [OF g2, of "''url''"] by auto
    then have g4: "good_options (settings_options w4)" by (simp add: stable_def)
    obtain w5 where "getOptionForCurrentMode ''url'' w4 = (Inr (opt_view (settings_options w4) ''url''), w5)" "stable w4 w5"
      using option_stable [OF g4, of "''url''"] by auto
    with w4 that show ?thesis
      by (auto simp: getNavigationUrl_def bindS_cases intro: stable_trans split: if_splits)
  qed
  have d: "?d = opt_view (settings_options w) ''documentRoot''" using w1(2) by (simp add: stable_def)
  have s: "stable w w2" using w1(2) w2(2) by (rule stable_trans)
  show ?thesis using assms(2) w1(1) w2(1) n s
    by (auto simp: spa_path_def bindS_cases d is_null_def intro: stable_trans split: if_splits)
qed

section \<open>The search for a page ends\<close>

lemma getAsset_dotted:
  assumes "CHR ''.'' \<in> set (butlast path)" "good_options (settings_options w)"
    "\<And>r w1 q w2. read_asset path opts w = (Inr r, w1) \<Longrightarrow> spa_path path w1 = (Inr (Some q), w2) \<Longrightarrow>
       fst (getAsset fuel q pre opts w2) \<noteq> Inl Diverges"
  shows "fst (getAsset (Suc fuel) path pre opts w) \<noteq> Inl Diverges"
proof -
  obtain r w1 where r: "read_asset path opts w = (r, w1)" by force
  show ?thesis
  proof (cases r)
    case (Inl e)
    then show ?thesis
      using r assms(1) terminatesD [OF terminates_assets(1), of path opts w w1] by (simp add: split_length_one)
  next
    case (Inr v)
    obtain q w2 where q: "spa_path path w1 = (q, w2)" by force
    have a: "fst (asset_response path pre opts v w3) \<noteq> Inl Diverges" for w3
      using terminates_assets(3) by (simp add: terminates_def)
    show ?thesis
    proof (cases q)
      case (Inl e)
      then show ?thesis
        using r Inr q a assms(1) terminatesD [OF terminates_assets(2), of path w1 w2] by (simp add: split_length_one)
    next
      case (Inr y)
      then show ?thesis
        using r \<open>r = Inr v\<close> q a assms(1,3) by (cases y) (simp_all add: split_length_one)
    qed
  qed
qed

lemma index_dotted: "CHR ''.'' \<in> set (butlast (r @ ''index.html''))"
  by (simp add: butlast_append)

lemma getAsset_dotted_ends:
  assumes good: "good_options (settings_options w)" and dot: "CHR ''.'' \<in> set (butlast path)"
    and conf: "opt_view (settings_options w) ''singlePageServe'' \<in> {JNull, JBool False} \<or>
      opt_view (settings_options w) ''documentRoot'' = JString rt"
  shows "fst (getAsset (Suc (Suc n)) path pre opts w) \<noteq> Inl Diverges"
proof (rule getAsset_dotted [OF dot good])
  fix r w1 q w2
  assume 1: "read_asset path opts w = (Inr r, w1)" and 2: "spa_path path w1 = (Inr (Some q), w2)"
  have s1: "stable w w1" using read_asset_stable [OF good 1] .
  then have g1: "good_options (settings_options w1)" by (simp add: stable_def)
  have root: "opt_view (settings_options w1) ''documentRoot'' = JString rt"
    using conf s1 2 spa_path_off [OF g1, of path] by (auto simp: stable_def)
  have q: "q = rt @ ''index.html''" and s2: "stable w1 w2" using spa_path_cases [OF g1 2] root by auto
  then have g2: "good_options (settings_options w2)" by (simp add: stable_def)
  show "fst (getAsset (Suc n) q pre opts w2) \<noteq> Inl Diverges"
  proof (rule getAsset_dotted)
    show "CHR ''.'' \<in> set (butlast q)" unfolding q by (rule index_dotted)
    fix r' w3 q' w4
    assume 3: "read_asset q opts w2 = (Inr r', w3)" and 4: "spa_path q w3 = (Inr (Some q'), w4)"
    have s3: "stable w2 w3" using read_asset_stable [OF g2 3] .
    then have "opt_view (settings_options w3) ''documentRoot'' = JString rt" "good_options (settings_options w3)"
      using root s2 by (auto simp: stable_def)
    then have False using spa_path_cases [OF _ 4] q by auto
    then show "fst (getAsset n q' pre opts w4) \<noteq> Inl Diverges" ..
  qed (rule g2)
qed

text \<open>
  C26. The search for a page ends after at most three calls when single page serving is off, or when a
  document root is configured: the fuel of \<^verbatim>\<open>serve\<close> is then never used up.
\<close>

theorem getAsset_ends:
  assumes "good_options (settings_options w)"
    "opt_view (settings_options w) ''singlePageServe'' \<in> {JNull, JBool False} \<or>
     (\<exists>rt. opt_view (settings_options w) ''documentRoot'' = JString rt)" "3 \<le> fuel"
  shows "fst (getAsset fuel path pre opts w) \<noteq> Inl Diverges"
proof -
  obtain n where n: "fuel = Suc (Suc (Suc n))" using assms(3) by (metis Suc_le_D numeral_3_eq_3 Suc_le_mono)
  obtain rt where conf: "opt_view (settings_options w) ''singlePageServe'' \<in> {JNull, JBool False} \<or>
     opt_view (settings_options w) ''documentRoot'' = JString rt" using assms(2) by blast
  show ?thesis
  proof (cases "CHR ''.'' \<in> set (butlast path)")
    case True
    then show ?thesis unfolding n by (rule getAsset_dotted_ends [OF assms(1) _ conf])
  next
    case False
    let ?p = "(if last path \<noteq> CHR ''/'' then path @ ''/'' else path) @ ''index.html''"
    have "fst (getAsset (Suc (Suc n)) ?p pre opts w) \<noteq> Inl Diverges"
      by (rule getAsset_dotted_ends [OF assms(1) index_dotted conf])
    then show ?thesis using False unfolding n by (subst getAsset.simps) (simp add: split_length_one)
  qed
qed

definition demo_www :: world where
  "demo_www = demo\<lparr>res_mode := ResourceModeDir,
     settings_options := jobj [(''documentRoot'', JString ''/www/''), (''singlePageServe'', JBool True)]\<rparr>"

theorem getAsset_ends_witness: "fst (getAsset 3 ''/missing'' [] default_options demo_www) \<noteq> Inl Diverges"
proof (rule getAsset_ends)
  show "good_options (settings_options demo_www)" by (rule good_flat) code_simp+
  have "opt_view (settings_options demo_www) ''documentRoot'' = JString ''/www/''" by code_simp
  then show "opt_view (settings_options demo_www) ''singlePageServe'' \<in> {JNull, JBool False} \<or>
     (\<exists>rt. opt_view (settings_options demo_www) ''documentRoot'' = JString rt)" by blast
qed simp

section \<open>The search for a page that does not end\<close>

lemma spa_path_nav:
  assumes "good_options (settings_options w)" "opt_view (settings_options w) ''singlePageServe'' = JBool True"
    "opt_view (settings_options w) ''documentRoot'' = JNull" "opt_view (settings_options w) ''url'' = JString u"
    "regex_match index_rx p" "u \<noteq> p"
  obtains w' where "spa_path p w = (Inr (Some u), w')" "same_opts w w'"
proof -
  obtain w1 where w1: "getOptionForCurrentMode ''singlePageServe'' w = (Inr (JBool True), w1)" "same_opts w w1"
    using getOption_step [OF assms(1), of "''singlePageServe''"] assms(2) by auto
  obtain w2 where w2: "getOptionForCurrentMode ''documentRoot'' w1 = (Inr JNull, w2)" "same_opts w1 w2"
    using getOption_step [OF same_opts_good [OF w1(2)], of "''documentRoot''"] same_opts_view [OF w1(2)] assms(3) by auto
  have s2: "same_opts w w2" using same_opts_trans [OF w1(2) w2(2)] .
  obtain w3 where w3: "getOptionForCurrentMode ''url'' w2 = (Inr (JString u), w3)" "same_opts w2 w3"
    using getOption_step [OF same_opts_good [OF s2], of "''url''"] same_opts_view [OF s2] assms(4) by auto
  have s3: "same_opts w w3" using same_opts_trans [OF s2 w3(2)] .
  obtain w4 where w4: "getOptionForCurrentMode ''url'' w3 = (Inr (JString u), w4)" "same_opts w3 w4"
    using getOption_step [OF same_opts_good [OF s3], of "''url''"] same_opts_view [OF s3] assms(4) by auto
  have "spa_path p w = (Inr (Some u), w4)"
    using w1(1) w2(1) w3(1) w4(1) assms(5,6)
    by (simp add: spa_path_def getNavigationUrl_def is_null_def get_bool_def)
  with that same_opts_trans [OF s3 w4(2)] show ?thesis by blast
qed

lemma read_asset_dir:
  assumes "rt_mountedPaths w = []" "isDirMode w"
  shows "read_asset p opts w = (readFile (joinAppPath p w) opts w, w)"
proof -
  have "\<not> isEmbeddedMode w" "\<not> isBundleMode w"
    using assms(2) by (simp_all add: isDirMode_def isEmbeddedMode_def isBundleMode_def resources_getMode_def)
  then show ?thesis using assms(1) by (simp add: read_asset_def mounted_file_def resources_getFile_def)
qed

definition demo_spa :: world where
  "demo_spa = demo\<lparr>res_mode := ResourceModeDir,
     settings_options := jobj [(''singlePageServe'', JBool True), (''url'', JString ''/'')]\<rparr>"

lemma demo_spa_facts:
  "good_options (settings_options demo_spa)" "opt_view (settings_options demo_spa) ''singlePageServe'' = JBool True"
  "opt_view (settings_options demo_spa) ''documentRoot'' = JNull" "opt_view (settings_options demo_spa) ''url'' = JString ''/''"
  "regex_match index_rx ''/index.html''" "open_in demo_spa (joinAppPath ''/index.html'' demo_spa) = None"
  "isDirMode demo_spa"
proof -
  show "good_options (settings_options demo_spa)" by (rule good_flat) code_simp+
qed code_simp+

lemma open_in_options: "open_in (v\<lparr>settings_options := x\<rparr>) f = open_in v f"
  by (rule open_in_cong) simp_all

lemma readFile_options: "readFile f opts (v\<lparr>settings_options := x\<rparr>) = readFile f opts v"
  by (cases "open_in v f") (auto simp: readFile_def open_in_options Let_def split_beta)

lemma getAsset_loops:
  "same_opts demo_spa w \<Longrightarrow> fst (getAsset n ''/'' pre opts w) = Inl Diverges \<and> fst (getAsset n ''/index.html'' pre opts w) = Inl Diverges"
proof (induction n arbitrary: w)
  case (Suc n)
  note s = Suc.prems
  have m: "rt_mountedPaths w = []"
    using same_opts_field [OF s, of rt_mountedPaths] by (simp add: demo_spa_def demo_def initial_world_def)
  have d: "isDirMode w"
    using same_opts_field [OF s, of isDirMode] demo_spa_facts(7) by (simp add: isDirMode_def resources_getMode_def)
  have "readFile (joinAppPath ''/index.html'' w) opts w = readFile (joinAppPath ''/index.html'' demo_spa) opts demo_spa"
    by (rule same_opts_field [OF s]) (simp add: joinAppPath_def readFile_options)
  then have r: "read_asset ''/index.html'' opts w = (Inr \<lparr>fr_status = NE_FS_FILRDER, fr_data = [], fr_size = -1\<rparr>, w)"
    using read_asset_dir [OF m d] demo_spa_facts(6) by (simp add: readFile_def)
  obtain w' where w': "spa_path ''/index.html'' w = (Inr (Some ''/''), w')" "same_opts w w'"
    using spa_path_nav [OF same_opts_good [OF s], of "''/''" "''/index.html''"] same_opts_view [OF s] demo_spa_facts by auto
  have "fst (getAsset n ''/'' pre opts w') = Inl Diverges" using Suc.IH [OF same_opts_trans [OF s w'(2)]] by simp
  with r w'(1) Suc.IH [OF s] show ?case by (simp add: split_length_one)
qed simp

text \<open>
  With single page serving on, no document root, and the page of the application given as a
  directory, a missing index page sends the server into calls of itself that never end: no amount
  of fuel suffices.
\<close>

theorem getAsset_diverges: "fst (getAsset fuel ''/'' pre opts demo_spa) = Inl Diverges"
  using getAsset_loops [OF same_opts_refl [OF demo_spa_facts(1)]] by blast

section \<open>Ranges\<close>

lemma getDocumentRoot_null:
  assumes "good_options (settings_options w)" "opt_view (settings_options w) ''documentRoot'' = JNull"
  obtains w' where "getDocumentRoot w = (Inr [], w')" "same_opts w w'"
proof -
  obtain w' where "getOptionForCurrentMode ''documentRoot'' w = (Inr JNull, w')" "same_opts w w'"
    using getOption_step [OF assms(1), of "''documentRoot''"] assms(2) by auto
  with that show ?thesis by (simp add: getDocumentRoot_def is_null_def)
qed

lemma range_read:
  assumes "open_in w f = Some (int (length d), Some d)" "int (length d) \<le> os_memory w" "b < length d" "a \<le> b"
  shows "readFile f \<lparr>fo_pos = int a, fo_size = int b - int a + 1\<rparr> w =
    Inr \<lparr>fr_status = NE_ST_OK, fr_data = take (b - a + 1) (drop a d), fr_size = int (length d)\<rparr>"
proof -
  have "read_range (int (length d)) \<lparr>fo_pos = int a, fo_size = int b - int a + 1\<rparr> = (int a, int b - int a + 1)"
    using assms(3,4) by (simp add: read_range_def)
  moreover have "nat (int b - int a + 1) = b - a + 1" using assms(4) by linarith
  ultimately show ?thesis using readFile_regular [OF assms(1,2)] by simp
qed

definition byte_range :: "nat \<Rightarrow> nat \<Rightarrow> string \<Rightarrow> (string \<times> string) list" where
  "byte_range a b d = [(''Accept-Ranges'', ''bytes''), (''Content-Length'', to_string (int (b - a + 1))),
     (''Content-Range'', ''bytes '' @ to_string (int a) @ ''-'' @ to_string (int b) @ ''/'' @ to_string (int (length d)))]"

lemma range_headers:
  "foldl (\<lambda>m (k, v). replace_header k v m) [(''Content-Type'', t)] (byte_range a b d) = (''Content-Type'', t) # byte_range a b d"
proof -
  have "map toupper ''Content-Type'' = ''CONTENT-TYPE''" "map toupper ''Accept-Ranges'' = ''ACCEPT-RANGES''"
    "map toupper ''Content-Length'' = ''CONTENT-LENGTH''" "map toupper ''Content-Range'' = ''CONTENT-RANGE''" by code_simp+
  then show ?thesis by (simp add: byte_range_def del: list.map)
qed

lemma getAsset_range:
  assumes "rt_mountedPaths w = []" "isDirMode w" "CHR ''.'' \<in> set (butlast path)"
    "open_in w (joinAppPath path w) = Some (int (length d), Some d)" "int (length d) \<le> os_memory w" "b < length d" "a \<le> b"
  shows "getAsset (Suc n) path pre \<lparr>fo_pos = int a, fo_size = int b - int a + 1\<rparr> w =
    (Inr \<lparr>rs_status = 206, rs_contentType = content_type (last (split path (CHR ''.''))),
          rs_data = pre @ take (b - a + 1) (drop a d), rs_headers = byte_range a b d\<rparr>, w)"
proof -
  let ?o = "\<lparr>fo_pos = int a, fo_size = int b - int a + 1\<rparr>"
  have r: "read_asset path ?o w = (Inr \<lparr>fr_status = NE_ST_OK, fr_data = take (b - a + 1) (drop a d), fr_size = int (length d)\<rparr>, w)"
    using read_asset_dir [OF assms(1,2)] range_read [OF assms(4-7)] by simp
  have l: "length (take (b - a + 1) (drop a d)) = b - a + 1" using assms(6,7) by simp
  have "int a + int (b - a + 1) - 1 = int b" using assms(7) by simp
  then show ?thesis
    using r l assms(3,6,7) by (simp add: split_length_one asset_response_def Let_def byte_range_def)
qed



end
