(* ===== verification/ServerProps.thy ===== *)
theory ServerProps
  imports Server Demo
begin

text \<open>
  The table of connections as a state machine: what the handlers of the server make of it, in any
  order of events, and the invariant that holds in every state it reaches.
\<close>

section \<open>Effects of the handlers\<close>

type_synonym conns = "nat list \<times> (string \<times> nat) list \<times> (nat \<times> opcode) list \<times> string list \<times> json"

definition conn_view :: "world \<Rightarrow> conns" where
  "conn_view w = (srv_appConnections w, srv_extConnections w, srv_wsMode w, ext_loadedExtensions w, settings_options w)"

lemma keeps_conn_dispatch: "keeps conn_view (dispatch e d)"
proof (rule keepsI)
  fix w
  show "conn_view (snd (dispatch e d w)) = conn_view w"
    by (rule no_outbox_field [OF keepsD [OF keeps_dispatch]]) (simp add: conn_view_def)
qed

lemma keeps_conn_idle: "keeps conn_view exitProcessIfIdle"
  by (auto simp: keeps_def exitProcessIfIdle_def conn_view_def)

lemma keeps_then_view: "keeps v n \<Longrightarrow> thenS (modS f) n w = (r, w') \<Longrightarrow> v w' = v (f w)"
  by (auto dest: keepsD')

lemma handleConnect_view:
  assumes "handleConnect h url w = (r, w')"
  shows "conn_view w' = conn_view (if isExtensionEndpoint url
    then w\<lparr>srv_extConnections := upd (getExtensionIdFromUrl url) h (srv_extConnections w)\<rparr>
    else w\<lparr>srv_appConnections := insort_insert h (srv_appConnections w)\<rparr>)"
proof -
  have last: "keeps conn_view (bindS (getS f) (\<lambda>n. dispatch e (g n)))" for f :: "world \<Rightarrow> nat" and e g
    by (intro keeps_intros keeps_conn_dispatch)
  obtain r1 w1 where w1: "(if isExtensionEndpoint url
       then let extensionId = getExtensionIdFromUrl url
            in thenS (modS (\<lambda>w. w\<lparr>srv_extConnections := upd extensionId h (srv_extConnections w)\<rparr>))
                     (dispatch ''extClientConnect'' (JString extensionId))
       else thenS (modS (\<lambda>w. w\<lparr>srv_appConnections := insort_insert h (srv_appConnections w)\<rparr>))
                  (bindS (getS (\<lambda>w. length (srv_appConnections w))) (\<lambda>n.
                   dispatch ''appClientConnect'' (JInt (int n))))) w = (r1, w1)" by force
  have "conn_view w' = conn_view w1"
    using assms w1 keepsD' [OF last] by (cases r1) (auto simp: handleConnect_def)
  moreover have "conn_view w1 = conn_view (if isExtensionEndpoint url
    then w\<lparr>srv_extConnections := upd (getExtensionIdFromUrl url) h (srv_extConnections w)\<rparr>
    else w\<lparr>srv_appConnections := insort_insert h (srv_appConnections w)\<rparr>)"
    using w1 keeps_then_view [OF keeps_conn_dispatch] keeps_then_view [OF last] by (auto simp: Let_def split: if_splits)
  ultimately show ?thesis by simp
qed

lemma handleDisconnect_view:
  assumes "good_options (settings_options w)" "handleDisconnect h url w = (r, w')"
  shows "\<exists>w1. same_opts w w1 \<and> conn_view w' = conn_view (if isExtensionEndpoint url
    then w1\<lparr>srv_wsMode := del h (srv_wsMode w), srv_extConnections := del (getExtensionIdFromUrl url) (srv_extConnections w)\<rparr>
    else w1\<lparr>srv_wsMode := del h (srv_wsMode w), srv_appConnections := removeAll h (srv_appConnections w)\<rparr>)"
proof -
  let ?w0 = "w\<lparr>srv_wsMode := del h (srv_wsMode w)\<rparr>"
  have last: "keeps conn_view (bindS (getS f) (\<lambda>n. dispatch e (g n)))" for f :: "world \<Rightarrow> nat" and e g
    by (intro keeps_intros keeps_conn_dispatch)
  obtain m w2 where w2: "settings_getMode ?w0 = (Inr m, w2)" "same_opts ?w0 w2"
    by (rule getMode_step [of ?w0]) (use assms(1) in auto)
  let ?w1 = "w2\<lparr>srv_wsMode := srv_wsMode w\<rparr>"
  have "w2\<lparr>settings_options := settings_options w\<rparr> = ?w0" using w2(2) by (simp add: same_opts_def)
  then have "w2\<lparr>settings_options := settings_options w\<rparr>\<lparr>srv_wsMode := srv_wsMode w\<rparr> = w" by simp
  moreover have "w2\<lparr>settings_options := settings_options w\<rparr>\<lparr>srv_wsMode := srv_wsMode w\<rparr> =
      ?w1\<lparr>settings_options := settings_options w\<rparr>" by simp
  ultimately have s: "same_opts w ?w1" using w2(2) by (simp only: same_opts_def) simp
  have f: "srv_wsMode w2 = del h (srv_wsMode w)" "srv_appConnections w2 = srv_appConnections w"
    using same_opts_field [OF w2(2), of srv_wsMode] same_opts_field [OF w2(2), of srv_appConnections] by simp_all
  define body where "body = (if isExtensionEndpoint url
       then let extensionId = getExtensionIdFromUrl url
            in thenS (modS (\<lambda>w. w\<lparr>srv_extConnections := del extensionId (srv_extConnections w)\<rparr>))
                     (dispatch ''extClientDisconnect'' (JString extensionId))
       else bindS settings_getMode (\<lambda>mode.
            thenS (modS (\<lambda>w. w\<lparr>srv_appConnections := removeAll h (srv_appConnections w)\<rparr>))
           (thenS (if mode = AppModeBrowser \<or> mode = AppModeChrome then exitProcessIfIdle else retS ())
           (bindS (getS (\<lambda>w. length (srv_appConnections w))) (\<lambda>n.
            dispatch ''appClientDisconnect'' (JInt (int n)))))))"
  obtain r1 w3 where w3: "body ?w0 = (r1, w3)" by force
  have e: "conn_view w' = conn_view w3"
    using assms(2) w3 keepsD' [OF last] unfolding handleDisconnect_def body_def [symmetric]
    by (cases r1) (auto simp: handleDisconnect_def)
  show ?thesis
  proof (cases "isExtensionEndpoint url")
    case True
    then have "conn_view w3 = conn_view (?w0\<lparr>srv_extConnections := del (getExtensionIdFromUrl url) (srv_extConnections w)\<rparr>)"
      using w3 keeps_then_view [OF keeps_conn_dispatch] by (simp add: body_def Let_def)
    then show ?thesis using True e same_opts_refl [OF assms(1)] by (auto simp: conn_view_def)
  next
    case False
    have k: "keeps conn_view (thenS (if m = AppModeBrowser \<or> m = AppModeChrome then exitProcessIfIdle else retS ())
           (bindS (getS (\<lambda>w. length (srv_appConnections w))) (\<lambda>n. dispatch ''appClientDisconnect'' (JInt (int n)))))"
      by (intro keeps_intros keeps_conn_idle last)
    have "conn_view w3 = conn_view (w2\<lparr>srv_appConnections := removeAll h (srv_appConnections w2)\<rparr>)"
      using False w3 w2(1) keeps_then_view [OF k] by (simp add: body_def)
    then show ?thesis using False e s f by (auto simp: conn_view_def)
  qed
qed

section \<open>The state machine\<close>

inductive server_reach :: "world \<Rightarrow> bool" where
  server_start: "srv_appConnections w = [] \<Longrightarrow> srv_extConnections w = [] \<Longrightarrow> srv_wsMode w = [] \<Longrightarrow>
     good_options (settings_options w) \<Longrightarrow> server_reach w"
| server_connect: "server_reach w \<Longrightarrow> handleValidate url host w = (Inr True, w1) \<Longrightarrow>
     handleConnect h url w1 = (r, w2) \<Longrightarrow> server_reach w2"
| server_disconnect: "server_reach w \<Longrightarrow> handleDisconnect h url w = (r', w') \<Longrightarrow> server_reach w'"
| server_message: "server_reach w \<Longrightarrow> note_mode h url op w = (r'', w') \<Longrightarrow> server_reach w'"
| server_other: "server_reach w \<Longrightarrow> srv_appConnections w' = srv_appConnections w \<Longrightarrow>
     srv_extConnections w' = srv_extConnections w \<Longrightarrow> srv_wsMode w' = srv_wsMode w \<Longrightarrow>
     set (ext_loadedExtensions w) \<subseteq> set (ext_loadedExtensions w') \<Longrightarrow> good_options (settings_options w') \<Longrightarrow> server_reach w'"

definition conn_ok :: "conns \<Rightarrow> bool" where
  "conn_ok c = (case c of (app, ext, ws, loaded, opts) \<Rightarrow>
     sorted app \<and> distinct app \<and> sorted_keys ext \<and> sorted_keys ws \<and> (\<forall>i. has_key i ext \<longrightarrow> i \<in> set loaded) \<and> good_options opts)"

lemma server_reach_ok: "server_reach w \<Longrightarrow> conn_ok (conn_view w)"
proof (induction rule: server_reach.induct)
  case (server_start w)
  then show ?case by (simp add: conn_ok_def conn_view_def has_key_def)
next
  case (server_connect w url host w1 h r w2)
  have good: "good_options (settings_options w)" using server_connect.IH by (simp add: conn_ok_def conn_view_def)
  have v: "same_opts w w1" and ok: "handshake_ok url host w" using handleValidate_true [OF good server_connect.hyps(2)] by blast+
  have "srv_appConnections w1 = srv_appConnections w" "srv_extConnections w1 = srv_extConnections w"
    "srv_wsMode w1 = srv_wsMode w" "ext_loadedExtensions w1 = ext_loadedExtensions w"
    using same_opts_field [OF v, of srv_appConnections] same_opts_field [OF v, of srv_extConnections]
      same_opts_field [OF v, of srv_wsMode] same_opts_field [OF v, of ext_loadedExtensions] by simp_all
  with server_connect.IH ok same_opts_good [OF v] handleConnect_view [OF server_connect.hyps(3)] show ?case
    by (auto simp: conn_ok_def conn_view_def sorted_insort_insert distinct_insort_insert sorted_keys_upd isLoaded_def handshake_ok_def)
next
  case (server_disconnect w h url r' w')
  have good: "good_options (settings_options w)" using server_disconnect.IH by (simp add: conn_ok_def conn_view_def)
  obtain w1 where w1: "same_opts w w1" "conn_view w' = conn_view (if isExtensionEndpoint url
    then w1\<lparr>srv_wsMode := del h (srv_wsMode w), srv_extConnections := del (getExtensionIdFromUrl url) (srv_extConnections w)\<rparr>
    else w1\<lparr>srv_wsMode := del h (srv_wsMode w), srv_appConnections := removeAll h (srv_appConnections w)\<rparr>)"
    using handleDisconnect_view [OF good server_disconnect.hyps(2)] by blast
  have "srv_appConnections w1 = srv_appConnections w" "srv_extConnections w1 = srv_extConnections w"
    "ext_loadedExtensions w1 = ext_loadedExtensions w"
    using same_opts_field [OF w1(1), of srv_appConnections] same_opts_field [OF w1(1), of srv_extConnections]
      same_opts_field [OF w1(1), of ext_loadedExtensions] by simp_all
  with server_disconnect.IH w1(2) same_opts_good [OF w1(1)] show ?case
    by (auto simp: conn_ok_def conn_view_def sorted_keys_del distinct_removeAll removeAll_filter_not_eq intro: sorted_wrt_filter)
next
  case (server_message w h url op r'' w')
  then show ?case by (auto simp: conn_ok_def conn_view_def note_mode_def sorted_keys_upd)
next
  case (server_other w w')
  then show ?case by (auto simp: conn_ok_def conn_view_def)
qed

text \<open>
  C29. In every state the server reaches, whatever connects, disconnects and sends in whatever order, the
  tables of connections are ordered and without duplicates, and every connected extension is one of
  the loaded extensions.
\<close>

theorem connections_invariant:
  assumes "server_reach w"
  shows "sorted (srv_appConnections w) \<and> distinct (srv_appConnections w) \<and> distinct (getConnectedExtensions w) \<and>
    set (getConnectedExtensions w) \<subseteq> set (getLoaded w)"
proof -
  have "conn_ok (conn_view w)" using assms by (rule server_reach_ok)
  then show ?thesis
    by (auto simp: conn_ok_def conn_view_def getConnectedExtensions_def getLoaded_def sorted_keys_distinct has_key_def
        map_of_eq_None_iff)
qed

definition demo_ext :: world where
  "demo_ext = demo\<lparr>auth_connectToken := ''t'', ext_loadedExtensions := [''e1'']\<rparr>"

theorem connections_invariant_witness:
  "getConnectedExtensions (snd (handleConnect 5 ''/?extensionId=e1&connectToken=t''
      (snd (handleValidate ''/?extensionId=e1&connectToken=t'' ''localhost'' demo_ext)))) = [''e1''] \<and>
   server_reach (snd (handleConnect 5 ''/?extensionId=e1&connectToken=t''
      (snd (handleValidate ''/?extensionId=e1&connectToken=t'' ''localhost'' demo_ext)))) \<and>
   set (getConnectedExtensions (snd (handleConnect 5 ''/?extensionId=e1&connectToken=t''
      (snd (handleValidate ''/?extensionId=e1&connectToken=t'' ''localhost'' demo_ext))))) \<subseteq>
   set (getLoaded (snd (handleConnect 5 ''/?extensionId=e1&connectToken=t''
      (snd (handleValidate ''/?extensionId=e1&connectToken=t'' ''localhost'' demo_ext)))))"
proof -
  let ?u = "''/?extensionId=e1&connectToken=t''"
  let ?w1 = "snd (handleValidate ?u ''localhost'' demo_ext)"
  let ?w2 = "snd (handleConnect 5 ?u ?w1)"
  have "good_options JNull" by (simp add: good_options_def is_null_def)
  then have s: "server_reach demo_ext"
    by (intro server_start) (simp_all add: demo_ext_def demo_def initial_world_def)
  have "fst (handleValidate ?u ''localhost'' demo_ext) = Inr True" by code_simp
  then have "handleValidate ?u ''localhost'' demo_ext = (Inr True, ?w1)" by (simp add: prod_eq_iff)
  with s have r: "server_reach ?w2" by (rule server_connect) (rule prod.collapse [symmetric])
  have "getConnectedExtensions ?w2 = [''e1'']" by code_simp
  with r connections_invariant [OF r] show ?thesis by blast
qed

end
