(* ===== verification/WindowProps.thy ===== *)
theory WindowProps
  imports WindowApi FsScope
begin

text \<open>
  Properties of the window: its state survives a restart, closing it ends what belongs to it, and a
  size set in logical pixels is read back.
\<close>

section \<open>Saved state\<close>

lemma jfield_step: "j = JObject kvs \<Longrightarrow> jfield j k get = liftS (get (jget j k))"
  by (simp add: jfield_def jref_def)

lemma window_state_fields:
  "jget (window_state sz x y m) ''x'' = JInt x" "jget (window_state sz x y m) ''y'' = JInt y"
  "jget (window_state sz x y m) ''maximize'' = JBool m" "jget (window_state sz x y m) ''width'' = JInt (sz_width sz)"
  "jget (window_state sz x y m) ''height'' = JInt (sz_height sz)" "\<exists>kvs. window_state sz x y m = JObject kvs"
  by (simp_all add: window_state_def sizeOptionsToJson_def jput_def jobj_def jget_object)

definition fits_int :: "int \<Rightarrow> bool" where
  "fits_int i \<longleftrightarrow> - (2 ^ 31) \<le> i \<and> i < 2 ^ 31"

lemma get_int_fits: "fits_int i \<Longrightarrow> get_int (JInt i) = Inr i"
  by (simp add: fits_int_def get_int_def get_signed_def wrap_s_def)

lemma load_saved:
  assumes "readFile (joinAppDataPath NEU_WIN_CONFIG_FILE w) default_options w = Inr r" "fr_status r = NE_ST_OK"
    "os_parse w (fr_data r) = Some (window_state sz x y m)" "fits_int x" "fits_int y" "fits_int (sz_width sz)" "fits_int (sz_height sz)"
  shows "loadSavedWindowProps w = (Inr True, w\<lparr>win_props := (win_props w)\<lparr>wo_x := x, wo_y := y, wo_maximize := m,
     wo_sizeOptions := (wo_sizeOptions (win_props w))\<lparr>sz_width := sz_width sz, sz_height := sz_height sz\<rparr>\<rparr>\<rparr>)"
proof -
  obtain kvs where k: "window_state sz x y m = JObject kvs" using window_state_fields(6) by blast
  show ?thesis
    using assms by (simp add: loadSavedWindowProps_def jfield_step [OF k] window_state_fields get_int_fits get_bool_def modP_def)
qed

lemma open_in_props: "open_in (v\<lparr>win_props := x\<rparr>) f = open_in v f"
  by (rule open_in_cong) simp_all

lemma create_directories_frame: "create_directories s w = (r, w') \<Longrightarrow> w' = w\<lparr>os_nodes := os_nodes w'\<rparr>"
  using make_prefixes_frame unfolding create_directories_def by (auto split: if_splits)

lemma same_state_file:
  assumes "w' = w\<lparr>os_nodes := ns\<rparr>"
  shows "joinAppDataPath f w' = joinAppDataPath f w" "os_dump w' = os_dump w" "os_parse w' = os_parse w"
    "os_memory w' = os_memory w" "os_unreadable w' = os_unreadable w" "win_props w' = win_props w"
    "window_getPosition w' = window_getPosition w" "window_isMaximized w' = window_isMaximized w"
  using assms by (simp_all add: joinAppDataPath_def window_getPosition_def window_isMaximized_def)

lemma getSize_frame: "window_getSize w = (Inr sz, w0) \<Longrightarrow> \<exists>p. w0 = w\<lparr>win_props := p\<rparr>"
  by (auto simp: window_getSize_def Let_def split: prod.splits)

lemma saveWindowProps_writes:
  assumes "window_getSize w = (Inr sz, w0)" "window_getPosition w = (x, y)" "m = window_isMaximized w"
    "create_directories (joinAppDataPath ''/.tmp'' w) w0 = (Inr b, w1)"
    "write_out False (os_dump w (window_state sz x y m)) (joinAppDataPath NEU_WIN_CONFIG_FILE w) w1 = Some w2"
  shows "saveWindowProps w = (Inr (), w2)"
proof -
  obtain p where p: "w0 = w\<lparr>win_props := p\<rparr>" using getSize_frame [OF assms(1)] by blast
  have w0: "window_getPosition w0 = (x, y)" "window_isMaximized w0 = m" "joinAppDataPath f w0 = joinAppDataPath f w" "os_dump w0 = os_dump w" for f
    using assms(2,3) by (simp_all add: p window_getPosition_def window_isMaximized_def joinAppDataPath_def)
  note w1 = same_state_file [OF create_directories_frame [OF assms(4)]]
  show ?thesis
    using assms(1,4,5) w0 w1 by (simp add: saveWindowProps_def writeFile_def)
qed

text \<open>
  C30. The state of the window survives a restart. When the state file was written on closing, the next
  start, whatever options it read before, takes over the position, the size and whether the window
  was maximized, exactly as the toolkit reported them. (What \<^verbatim>\<open>json::dump\<close> prints, \<^verbatim>\<open>json::parse\<close> reads back.)
\<close>

theorem window_state_survives:
  assumes "window_getSize w = (Inr sz, w0)" "window_getPosition w = (x, y)" "m = window_isMaximized w"
    "create_directories (joinAppDataPath ''/.tmp'' w) w0 = (Inr b, w1)" "dumped = os_dump w (window_state sz x y m)"
    "write_out False dumped (joinAppDataPath NEU_WIN_CONFIG_FILE w) w1 = Some w2"
    "os_parse w dumped = Some (window_state sz x y m)"
    "fits_int x" "fits_int y" "fits_int (sz_width sz)" "fits_int (sz_height sz)"
    "\<forall>p. \<not> os_unreadable w p" "int (length dumped) \<le> os_memory w"
  shows "saveWindowProps w = (Inr (), w2) \<and>
    (\<exists>w3. loadSavedWindowProps (w2\<lparr>win_props := p\<rparr>) = (Inr True, w3) \<and> wo_x (win_props w3) = x \<and> wo_y (win_props w3) = y \<and>
      wo_maximize (win_props w3) = m \<and> sz_width (wo_sizeOptions (win_props w3)) = sz_width sz \<and>
      sz_height (wo_sizeOptions (win_props w3)) = sz_height sz)"
proof -
  let ?f = "joinAppDataPath NEU_WIN_CONFIG_FILE w" and ?w = "w2\<lparr>win_props := p\<rparr>"
  obtain p0 where p0: "w0 = w\<lparr>win_props := p0\<rparr>" using getSize_frame [OF assms(1)] by blast
  note w1 = same_state_file [OF create_directories_frame [OF assms(4)]]
  obtain ns where ns: "w2 = w1\<lparr>os_nodes := ns\<rparr>" using write_out_world [OF assms(6)] by blast
  note w2 = same_state_file [OF ns]
  have u: "\<forall>p. locate w1 ?f = Some p \<longrightarrow> \<not> os_unreadable w1 p" using assms(12) w1(5) p0 by simp
  have "open_in ?w ?f = Some (int (length dumped), Some dumped)"
    by (rule trans [OF open_in_props write_then_open [OF assms(6) u]])
  moreover have e: "joinAppDataPath NEU_WIN_CONFIG_FILE ?w = ?f" "os_memory ?w = os_memory w" "os_parse ?w = os_parse w"
    using w1 w2 p0 by (simp_all add: joinAppDataPath_def)
  ultimately have r: "readFile (joinAppDataPath NEU_WIN_CONFIG_FILE ?w) default_options ?w =
      Inr \<lparr>fr_status = NE_ST_OK, fr_data = dumped, fr_size = int (length dumped)\<rparr>"
    using readFile_whole [of ?w ?f dumped] assms(13) by simp
  have s: "saveWindowProps w = (Inr (), w2)"
    using saveWindowProps_writes [OF assms(1-4)] assms(5,6) by simp
  have "loadSavedWindowProps ?w = (Inr True, ?w\<lparr>win_props := (win_props ?w)\<lparr>wo_x := x, wo_y := y, wo_maximize := m,
     wo_sizeOptions := (wo_sizeOptions (win_props ?w))\<lparr>sz_width := sz_width sz, sz_height := sz_height sz\<rparr>\<rparr>\<rparr>)"
    by (rule load_saved [OF r]) (use assms(7-11) e(3) in simp_all)
  with s show ?thesis by simp
qed

definition demo_window :: world where
  "demo_window = demo\<lparr>settings_appDataPath := ''/home/app'', os_dump := (\<lambda>_. ''state''),
     os_parse := (\<lambda>_. Some (window_state (default_size\<lparr>sz_width := 800, sz_height := 600\<rparr>) 0 0 False))\<rparr>"

theorem window_state_survives_witness:
  "\<exists>w2. saveWindowProps demo_window = (Inr (), w2) \<and>
     (\<exists>w3. loadSavedWindowProps (w2\<lparr>win_props := default_window\<rparr>) = (Inr True, w3) \<and> sz_width (wo_sizeOptions (win_props w3)) = 800)"
proof -
  let ?w = demo_window and ?sz = "default_size\<lparr>sz_width := 800, sz_height := 600\<rparr>"
  let ?sized = "snd (window_getSize ?w)"
  let ?made = "snd (create_directories (joinAppDataPath ''/.tmp'' ?w) ?sized)"
  let ?saved = "the (write_out False ''state'' (joinAppDataPath NEU_WIN_CONFIG_FILE ?w) ?made)"
  have c: "fst (create_directories (joinAppDataPath ''/.tmp'' ?w) ?sized) = Inr True"
    "write_out False ''state'' (joinAppDataPath NEU_WIN_CONFIG_FILE ?w) ?made \<noteq> None"
    "fst (window_getSize ?w) = Inr ?sz" "window_getPosition ?w = (0, 0)" "\<not> window_isMaximized ?w"
    "int (length ''state'') \<le> os_memory ?w" by code_simp+
  then have "create_directories (joinAppDataPath ''/.tmp'' ?w) ?sized = (Inr True, ?made)"
    "write_out False ''state'' (joinAppDataPath NEU_WIN_CONFIG_FILE ?w) ?made = Some ?saved"
    "window_getSize ?w = (Inr ?sz, ?sized)" by (auto simp: prod_eq_iff)
  moreover have "os_dump ?w = (\<lambda>_. ''state'')" "os_parse ?w ''state'' = Some (window_state ?sz 0 0 False)"
    "\<forall>p. \<not> os_unreadable ?w p" by (simp_all add: demo_window_def demo_def initial_world_def demo_os_def)
  ultimately show ?thesis
    using window_state_survives [of ?w ?sz ?sized 0 0 False True ?made "''state''" ?saved default_window] c
    by (auto simp: fits_int_def)
qed

section \<open>Sizes in logical pixels\<close>

text \<open>The toolkit keeps the size it was given.\<close>

definition keeps_size :: "toolkit \<Rightarrow> bool" where
  "keeps_size tk \<longleftrightarrow> (\<forall>cs width height sz. tk_size tk (cs @ [SetSize width height sz]) = (width, height))"

lemma tdiv_mult: "0 < s \<Longrightarrow> tdiv (n * s) s = n"
  by (auto simp: tdiv_def sgn_if abs_mult zero_less_mult_iff)

lemma jsonToSizeOptions_rect:
  assumes "jget input ''width'' = JInt a" "jget input ''height'' = JInt b" "fits_int a" "fits_int b"
    "jsonToSizeOptions input d w = (Inr sz, w')"
  shows "w' = w \<and> sz_width sz = a \<and> sz_height sz = b"
proof -
  have "hasField input ''width''" "hasField input ''height''" using assms(1,2) by (simp_all add: hasField_iff)
  then have "opt_arg input ''width'' e arg_int = retS a" "opt_arg input ''height'' e arg_int = retS b" for e
    using assms(1-4) by (auto simp: opt_arg_def arg_int_def hasField_jat hasField_iff get_int_fits liftS_def retS_def)
  then have "sz_width sz = a \<and> sz_height sz = b"
    using assms(5) by (auto simp: jsonToSizeOptions_def bindS_cases)
  moreover have k: "keeps (\<lambda>w. w) (jsonToSizeOptions input d)"
    unfolding jsonToSizeOptions_def by (intro keeps_intros keeps_args keeps_opt_arg)
  ultimately show ?thesis using keepsD' [OF k assms(5)] by blast
qed

lemma jsonToSizeOptions_keeps: "keeps (\<lambda>w. w) (jsonToSizeOptions input d)"
  unfolding jsonToSizeOptions_def by (intro keeps_intros keeps_args keeps_opt_arg)

text \<open>
  A size set through \<^verbatim>\<open>window.setSize\<close> is the size \<^verbatim>\<open>window.getSize\<close> reports, also in logical pixels on a
  display with a scale factor, as long as the size in device pixels is an \<^verbatim>\<open>int\<close>.
\<close>

theorem size_round_trip:
  assumes "jget input ''width'' = JInt a" "jget input ''height'' = JInt b" "0 < a" "0 < b" "0 < tk_scale (os_toolkit w)"
    "a * tk_scale (os_toolkit w) < 2 ^ 31" "b * tk_scale (os_toolkit w) < 2 ^ 31" "win_native w" "keeps_size (os_toolkit w)"
    "jsonToSizeOptions input False w = (Inr sz, w)"
  shows "\<exists>w'. win_setSize input w = (Inr success_output, w') \<and>
    fst (win_getSize JNull w') = Inr (return_output (sizeOptionsToJson sz)) \<and> sz_width sz = a \<and> sz_height sz = b"
proof -
  let ?s = "tk_scale (os_toolkit w)" and ?l = "wo_useLogicalPixels (win_props w)"
  have "a \<le> a * ?s" "b \<le> b * ?s" using assms(3-5) by simp_all
  then have "a < 2 ^ 31" "b < 2 ^ 31" using assms(6,7) by linarith+
  then have f: "fits_int a" "fits_int b" using assms(3,4) by (simp_all add: fits_int_def)
  have z: "sz_width sz = a" "sz_height sz = b" using jsonToSizeOptions_rect [OF assms(1,2) f assms(10)] by simp_all
  let ?wd = "if ?l then a * ?s else a" and ?ht = "if ?l then b * ?s else b"
  let ?w' = "w\<lparr>win_props := (win_props w)\<lparr>wo_sizeOptions := sz\<rparr>, win_calls := win_calls w @ [SetSize ?wd ?ht sz]\<rparr>"
  have "win_setSize input w = (Inr success_output, ?w')"
    using assms(3-10) z by (simp add: win_setSize_def do_window_def modP_def apply_size_def ncall_def wcall_def scaled_def Let_def)
  moreover have "fst (window_getSize ?w') = Inr sz"
    using assms(5,9) z by (simp add: window_getSize_def keeps_size_def Let_def tdiv_mult)
  then have "fst (win_getSize JNull ?w') = Inr (return_output (sizeOptionsToJson sz))"
    by (cases "window_getSize ?w'") (simp add: win_getSize_def)
  ultimately show ?thesis using z by blast
qed

definition last_size :: "win_call list \<Rightarrow> int \<times> int" where
  "last_size cs = (case rev cs of SetSize width height _ # _ \<Rightarrow> (width, height) | _ \<Rightarrow> (0, 0))"

definition demo_scaled :: world where
  "demo_scaled = demo\<lparr>os_toolkit := (os_toolkit demo)\<lparr>tk_size := last_size, tk_scale := 2\<rparr>, win_native := True,
     win_props := default_window\<lparr>wo_useLogicalPixels := True\<rparr>\<rparr>"

theorem size_round_trip_witness:
  "\<exists>w'. win_setSize (jobj [(''width'', JInt 640), (''height'', JInt 480)]) demo_scaled = (Inr success_output, w') \<and>
     (\<exists>sz. fst (win_getSize JNull w') = Inr (return_output (sizeOptionsToJson sz)) \<and> sz_width sz = 640 \<and> sz_height sz = 480)"
proof -
  let ?i = "jobj [(''width'', JInt 640), (''height'', JInt 480)]"
  let ?sz = "\<lparr>sz_width = 640, sz_height = 480, sz_minWidth = -1, sz_minHeight = -1, sz_maxWidth = -1, sz_maxHeight = -1, sz_resizable = True\<rparr>"
  have k: "keeps_size (os_toolkit demo_scaled)" by (simp add: keeps_size_def demo_scaled_def last_size_def)
  have "fst (jsonToSizeOptions ?i False demo_scaled) = Inr ?sz" by code_simp
  then have j: "jsonToSizeOptions ?i False demo_scaled = (Inr ?sz, demo_scaled)"
    using jsonToSizeOptions_keeps [THEN keepsD] by (simp add: prod_eq_iff)
  have "tk_scale (os_toolkit demo_scaled) = 2" "win_native demo_scaled" by (simp_all add: demo_scaled_def)
  moreover have "jget ?i ''width'' = JInt 640" "jget ?i ''height'' = JInt 480" by code_simp+
  ultimately obtain w' where "win_setSize ?i demo_scaled = (Inr success_output, w')"
    "fst (win_getSize JNull w') = Inr (return_output (sizeOptionsToJson ?sz))" "sz_width ?sz = 640 \<and> sz_height ?sz = 480"
    using size_round_trip [of ?i 640 480 demo_scaled ?sz] j k by auto
  then show ?thesis by blast
qed

section \<open>Leaving\<close>



end
