(* ===== verification/WindowBuild.thy ===== *)
theory WindowBuild
  imports WindowApi
begin

text \<open>
  What the Windows and the macOS build of \<^verbatim>\<open>api/window/window.cpp\<close> have in common: a state that is the
  program's (\<open>world\<close>) with the variables one build adds, and steps on it.
\<close>

type_synonym ('x, 'a) build = "(world \<times> 'x, 'a) comp"

text \<open>A step of the program that is the same in all builds.\<close>

definition common :: "'a prog \<Rightarrow> ('x, 'a) build" where
  "common m = (\<lambda>(w, x). case m w of (r, w') \<Rightarrow> (r, (w', x)))"

definition modB :: "('x \<Rightarrow> 'x) \<Rightarrow> ('x, unit) build" where
  "modB f = modS (\<lambda>(w, x). (w, f x))"

definition getB :: "('x \<Rightarrow> 'a) \<Rightarrow> ('x, 'a) build" where
  "getB f = getS (\<lambda>(w, x). f x)"

definition propsB :: "(WindowOptions \<Rightarrow> 'a) \<Rightarrow> ('x, 'a) build" where
  "propsB f = common (getS (\<lambda>w. f (win_props w)))"

definition onlyIfB :: "bool \<Rightarrow> ('x, unit) build \<Rightarrow> ('x, unit) build" where
  "onlyIfB b m = (if b then m else retS ())"

lemma common_step: "m w = (r, w') \<Longrightarrow> common m (w, x) = (r, (w', x))"
  by (simp add: common_def)

lemma build_steps [simp]:
  "modB f (w, x) = (Inr (), (w, f x))"
  "getB g (w, x) = (Inr (g x), (w, x))"
  "propsB k (w, x) = (Inr (k (win_props w)), (w, x))"
  by (simp_all add: modB_def getB_def propsB_def common_def)

text \<open>Saving the state of a window of a given size and place, and leaving the application.\<close>

definition save_state :: "SizeOptions \<Rightarrow> int \<Rightarrow> int \<Rightarrow> bool \<Rightarrow> unit prog" where
  "save_state sz x y maximized =
     bindS (getS (joinAppDataPath ''/.tmp'')) (\<lambda>dir.
     bindS (create_directories dir) (\<lambda>_.
     bindS (getS (joinAppDataPath NEU_WIN_CONFIG_FILE)) (\<lambda>filename.
     bindS (jsonToString (window_state sz x y maximized)) (\<lambda>text.
     bindS (writeFile \<lparr>fw_filename = filename, fw_data = text, fw_append = False\<rparr>) (\<lambda>_. retS ())))))"

definition keep_size :: "int \<Rightarrow> int \<Rightarrow> ('x, SizeOptions) build" where
  "keep_size width height =
     thenS (common (modP (\<lambda>p. p\<lparr>wo_sizeOptions := (wo_sizeOptions p)\<lparr>sz_width := width, sz_height := height\<rparr>\<rparr>)))
           (propsB wo_sizeOptions)"

definition exit_with :: "(int \<Rightarrow> ('x, unit) build) \<Rightarrow> int \<Rightarrow> ('x, unit) build" where
  "exit_with close code =
     bindS (common (getS neuserver_isInitialized)) (\<lambda>srv.
     thenS (if srv then common neuserver_stop else retS ())
    (bindS (common settings_getMode) (\<lambda>m.
     if m = AppModeWindow then thenS (common cleanupTray) (close code) else common (std_exit code))))"

text \<open>
  The events of a window, which differ in what closing and activating do; the flags of the GTK builds
  are not kept.
\<close>

definition event_name :: "window_event \<Rightarrow> string" where
  "event_name e = (case e of
     WEBVIEW_WINDOW_CLOSE \<Rightarrow> ''windowClose'' | WEBVIEW_WINDOW_FOCUS \<Rightarrow> ''windowFocus'' | WEBVIEW_WINDOW_BLUR \<Rightarrow> ''windowBlur''
   | WEBVIEW_WINDOW_FULLSCREEN \<Rightarrow> ''windowFullScreenEnter'' | WEBVIEW_WINDOW_UNFULLSCREEN \<Rightarrow> ''windowFullScreenExit''
   | WEBVIEW_WINDOW_MINIMIZED \<Rightarrow> ''windowMinimize'' | WEBVIEW_WINDOW_RESTORED \<Rightarrow> ''windowRestore''
   | WEBVIEW_WINDOW_SHOW \<Rightarrow> ''windowShow'' | WEBVIEW_WINDOW_HIDE \<Rightarrow> ''windowHide'' | WEBVIEW_WINDOW_MAXIMIZE \<Rightarrow> ''windowMaximize''
   | WEBVIEW_WINDOW_ACTIVATE \<Rightarrow> [])"

definition state_change :: "(int \<Rightarrow> ('x, unit) build) \<Rightarrow> ('x, unit) build \<Rightarrow> window_event \<Rightarrow> ('x, unit) build" where
  "state_change close focus e =
     (if e = WEBVIEW_WINDOW_CLOSE
      then bindS (common closes_process) (\<lambda>b. if b then exit_with close 0 else common (dispatch (event_name e) JNull))
      else if e = WEBVIEW_WINDOW_ACTIVATE then focus
      else common (dispatch (event_name e) JNull))"

text \<open>Scripts to run in every page, with the way a build adds one.\<close>

definition client_library :: "(string \<Rightarrow> ('x, unit) build) \<Rightarrow> ('x, unit) build" where
  "client_library inject =
     bindS (common (readS (\<lambda>w. jrefs [''cli'', ''clientLibrary''] (getConfig w)))) (\<lambda>(jClientLibrary, _).
     if is_null jClientLibrary then retS ()
     else bindS (liftS (get_string jClientLibrary)) (\<lambda>clientLibPath.
          bindS (common (resources_getFile clientLibPath default_options)) (\<lambda>r.
          if fr_status r = NE_ST_OK
          then bindS (common getGlobalVars) (\<lambda>vars. inject (vars @ ''var NL_CINJECTED = true;'' @ fr_data r))
          else retS ())))"

definition own_script :: "(string \<Rightarrow> ('x, unit) build) \<Rightarrow> ('x, unit) build" where
  "own_script inject =
     bindS (common (getOptionForCurrentMode ''injectScript'')) (\<lambda>jInjectScript.
     if is_null jInjectScript then retS ()
     else bindS (liftS (get_string jInjectScript)) (\<lambda>script.
          bindS (common (resources_getFile script default_options)) (\<lambda>r.
          if fr_status r = NE_ST_OK then inject (''var NL_SINJECTED = true;'' @ fr_data r) else retS ())))"

definition inject_scripts :: "(string \<Rightarrow> ('x, unit) build) \<Rightarrow> WindowOptions \<Rightarrow> ('x, unit) build" where
  "inject_scripts inject p =
     thenS (onlyIfB (wo_injectGlobals p) (bindS (common getGlobalVars) (\<lambda>vars. inject (vars @ ''var NL_GINJECTED = true;''))))
    (thenS (onlyIfB (wo_injectClientLibrary p) (client_library inject))
           (onlyIfB (wo_injectScript p \<noteq> []) (own_script inject)))"

definition answer_success :: "('x, unit) build \<Rightarrow> ('x, json) build" where
  "answer_success m = thenS m (retS success_output)"

end
