(* ===== verification/WindowWin.thy ===== *)
theory WindowWin
  imports WindowBuild
begin

text \<open>
  \<^verbatim>\<open>api/window/window.cpp\<close> in the Windows build, where it differs from the one of \<open>Window\<close> and \<open>WindowApi\<close>:
  window styles and full-screen mode, the window that is hidden off the screen, positions and saved
  state, the main menu with its numbered items, and the procedure that turns the number of a menu
  command back into an item (\<^verbatim>\<open>lib/webview/webview.h\<close>).

  The Win32 interface is a parameter: the calls made to it are recorded, and what it reports may depend
  on all of them.
\<close>

unbundle bit_operations_syntax

section \<open>The Win32 interface\<close>

text \<open>A \<^verbatim>\<open>RECT\<close>.\<close>

record win_rect =
  rc_left :: int
  rc_top :: int
  rc_right :: int
  rc_bottom :: int

datatype show_cmd = SW_HIDE | SW_MAXIMIZE | SW_MINIMIZE | SW_RESTORE | SW_SHOW

datatype style_index = GWL_STYLE | GWL_EXSTYLE

datatype z_order = HWND_NULL | HWND_TOP | HWND_TOPMOST | HWND_NOTOPMOST

text \<open>A menu: separators, and entries with their number, their data and their submenu.\<close>

datatype hmenu_entry = Separator32 | Entry32 int WindowMenuItem "hmenu_entry list option"

datatype win32_call =
    ShowWindow show_cmd | SetForegroundWindow | FlashWindowEx | SetWindowLong style_index "32 word"
  | SetWindowPos z_order int int int int "32 word" | MoveWindow int int int int | SetWindowPlacement win_rect
  | MoveByCaption | WM_SETICON string | SetOverlayIcon "string option" | DeleteTab | AddTab
  | SetMenu "hmenu_entry list" | DestroyMenu "hmenu_entry list" | DragAcceptFiles bool | SetWndProc
  | TerminateLoop int | FreeConsole | SetWindowText string | UserAgent string
  | WebviewSize int int SizeOptions | WebviewInit string | WebviewNavigate string | WebviewPrint

text \<open>What the system reports after the calls so far. A rectangle may fail to be read.\<close>

record win32_reports =
  wr_style :: "win32_call list \<Rightarrow> style_index \<Rightarrow> 32 word"
  wr_rect :: "win32_call list \<Rightarrow> win_rect option"
  wr_normal :: "win32_call list \<Rightarrow> win_rect"
  wr_iconic :: "win32_call list \<Rightarrow> bool"
  wr_zoomed :: "win32_call list \<Rightarrow> bool"
  wr_visible :: "win32_call list \<Rightarrow> bool"
  wr_foreground :: "win32_call list \<Rightarrow> bool"
  wr_monitor :: "win32_call list \<Rightarrow> win_rect"
  wr_desktop :: win_rect
  wr_scale4 :: int                        \<comment> \<open>the DPI of the system in steps of 25 percent\<close>
  wr_originalStyleEx :: "32 word"
  wr_cursor :: bool
  wr_taskbar :: bool
  wr_imageStream :: "string \<Rightarrow> bool"
  wr_printWindow :: bool
  wr_encoders :: "string list option"
  wr_saves :: "string \<Rightarrow> bool"
  wr_menuItem :: "hmenu_entry list \<Rightarrow> int \<Rightarrow> WindowMenuItem option"
  wr_initCode :: int

text \<open>The variables of the build, of the window procedure, and the handle, which is null at the start.\<close>

record win32 =
  w3_handle :: bool
  w3_isFullScreen :: bool
  w3_savedStyle :: "32 word"
  w3_savedStyleX :: "32 word"
  w3_savedRect :: win_rect
  w3_windowMenu :: "hmenu_entry list option"
  w3_menuItemId :: int
  w3_originalWndProc :: bool
  w3_menuRefs :: "hmenu_entry list list"
  w3_calls :: "win32_call list"
  w3_reports :: win32_reports

type_synonym 'a wprog = "(win32, 'a) build"

text \<open>A call to the system; on the null handle it fails, which nothing checks.\<close>

definition call32 :: "win32_call \<Rightarrow> unit wprog" where
  "call32 c = modB (\<lambda>x. if w3_handle x then x\<lparr>w3_calls := w3_calls x @ [c]\<rparr> else x)"

definition report :: "(win32_reports \<Rightarrow> win32_call list \<Rightarrow> 'a) \<Rightarrow> 'a wprog" where
  "report f = getB (\<lambda>x. f (w3_reports x) (w3_calls x))"

text \<open>\<^verbatim>\<open>GetWindowRect\<close> without a look at its result: where it fails the rectangle is not initialized.\<close>

definition windowRect :: "win_rect wprog" where
  "windowRect = bindS (report wr_rect) (\<lambda>r. case r of None \<Rightarrow> throwS Undefined | Some r \<Rightarrow> retS r)"

definition rc_width :: "win_rect \<Rightarrow> int" where
  "rc_width r = rc_right r - rc_left r"

definition rc_height :: "win_rect \<Rightarrow> int" where
  "rc_height r = rc_bottom r - rc_top r"

text \<open>The constants of \<^verbatim>\<open>winuser.h\<close>.\<close>

definition WS_CAPTION :: "32 word" where "WS_CAPTION = 0xC00000"
definition WS_THICKFRAME :: "32 word" where "WS_THICKFRAME = 0x40000"
definition WS_EX_DLGMODALFRAME :: "32 word" where "WS_EX_DLGMODALFRAME = 0x1"
definition WS_EX_WINDOWEDGE :: "32 word" where "WS_EX_WINDOWEDGE = 0x100"
definition WS_EX_CLIENTEDGE :: "32 word" where "WS_EX_CLIENTEDGE = 0x200"
definition WS_EX_STATICEDGE :: "32 word" where "WS_EX_STATICEDGE = 0x20000"
definition SWP_NOSIZE :: "32 word" where "SWP_NOSIZE = 0x1"
definition SWP_NOMOVE :: "32 word" where "SWP_NOMOVE = 0x2"
definition SWP_NOZORDER :: "32 word" where "SWP_NOZORDER = 0x4"
definition SWP_NOACTIVATE :: "32 word" where "SWP_NOACTIVATE = 0x10"
definition SWP_FRAMECHANGED :: "32 word" where "SWP_FRAMECHANGED = 0x20"
definition SWP_SHOWWINDOW :: "32 word" where "SWP_SHOWWINDOW = 0x40"

section \<open>Reports\<close>

definition isMaximized32 :: "bool wprog" where
  "isMaximized32 = report wr_zoomed"

definition isMinimized32 :: "bool wprog" where
  "isMinimized32 = report wr_iconic"

definition isVisible32 :: "bool wprog" where
  "isVisible32 = report wr_visible"

definition isFullScreen32 :: "bool wprog" where
  "isFullScreen32 = getB w3_isFullScreen"

text \<open>A size in logical pixels: division by the scale, rounded towards zero.\<close>

definition logical32 :: "int \<Rightarrow> int \<Rightarrow> int" where
  "logical32 scale4 n = tdiv (n * 4) scale4"

definition getSize32 :: "SizeOptions wprog" where
  "getSize32 =
     bindS isMinimized32 (\<lambda>iconic.
     bindS (if iconic then report wr_normal else windowRect) (\<lambda>r.
     bindS (report (\<lambda>rep _. wr_scale4 rep)) (\<lambda>scale4.
     bindS (propsB wo_useLogicalPixels) (\<lambda>logical.
     let width = (if logical then logical32 scale4 (rc_width r) else rc_width r);
         height = (if logical then logical32 scale4 (rc_height r) else rc_height r)
     in keep_size width height))))"

definition getPosition32 :: "(int \<times> int) wprog" where
  "getPosition32 =
     bindS isMinimized32 (\<lambda>iconic.
     bindS (if iconic then report wr_normal else windowRect) (\<lambda>r. retS (rc_left r, rc_top r)))"

definition getCenterPos32 :: "bool \<Rightarrow> (int \<times> int) wprog" where
  "getCenterPos32 useConfigSizes =
     bindS (if useConfigSizes then propsB wo_sizeOptions else getSize32) (\<lambda>sz.
     report (\<lambda>rep _. (tdiv (rc_width (wr_desktop rep) - sz_width sz) 2, tdiv (rc_height (wr_desktop rep) - sz_height sz) 2)))"

section \<open>Leaving\<close>

text \<open>While the window is maximized the size and position it returns to are saved.\<close>

definition saveWindowProps32 :: "unit wprog" where
  "saveWindowProps32 =
     bindS getSize32 (\<lambda>sz0.
     bindS getPosition32 (\<lambda>(x0, y0).
     bindS isMaximized32 (\<lambda>zoomed.
     bindS (report wr_normal) (\<lambda>r.
     let sz = (if zoomed then sz0\<lparr>sz_width := rc_width r, sz_height := rc_height r\<rparr> else sz0);
         (x, y) = (if zoomed then (rc_left r, rc_top r) else (x0, y0))
     in common (save_state sz x y zoomed)))))"

definition close32 :: "int \<Rightarrow> unit wprog" where
  "close32 exitCode =
     bindS (common (getS win_native)) (\<lambda>native.
     if \<not> native then retS ()
     else
       thenS (bindS (propsB wo_useSavedState) (\<lambda>b. if b then saveWindowProps32 else retS ()))
      (thenS (bindS (getB (\<lambda>x. w3_handle x \<and> w3_originalWndProc x)) (\<lambda>b.
              if b then thenS (call32 (DragAcceptFiles False)) (thenS (call32 SetWndProc) (modB (\<lambda>x. x\<lparr>w3_originalWndProc := False\<rparr>)))
              else retS ()))
      (thenS (call32 (TerminateLoop exitCode))
      (thenS (call32 FreeConsole)
             (common (modS (\<lambda>w. w\<lparr>win_native := False\<rparr>)))))))"

definition focus32 :: "unit wprog" where
  "focus32 = call32 SetForegroundWindow"

definition windowStateChange32 :: "window_event \<Rightarrow> unit wprog" where
  "windowStateChange32 = state_change close32 focus32"

section \<open>Showing and hiding\<close>

definition isFakeHidden :: "bool wprog" where
  "isFakeHidden = bindS (report wr_rect) (\<lambda>r. retS (case r of None \<Rightarrow> False | Some r \<Rightarrow> rc_left r > 9999))"

definition undoFakeHidden :: "unit wprog" where
  "undoFakeHidden =
     bindS (common (getS (\<lambda>w. \<not> isSavedStateLoaded w \<and> wo_center (win_props w)))) (\<lambda>centered.
     bindS (if centered then getCenterPos32 True else propsB (\<lambda>p. (wo_x p, wo_y p))) (\<lambda>(x, y).
     bindS (report (\<lambda>rep _. wr_originalStyleEx rep)) (\<lambda>styleEx.
     thenS (call32 (ShowWindow SW_HIDE))
    (thenS (call32 (SetWindowLong GWL_EXSTYLE styleEx))
    (thenS (call32 (SetWindowPos HWND_NULL x y 0 0 (SWP_NOZORDER OR SWP_NOSIZE)))
           (call32 (ShowWindow SW_SHOW)))))))"

definition show32 :: "unit wprog" where
  "show32 =
     bindS isVisible32 (\<lambda>visible.
     if visible then retS ()
     else
       thenS (call32 (ShowWindow SW_SHOW))
      (thenS (call32 (SetWindowPos HWND_TOP 0 0 0 0 (SWP_NOMOVE OR SWP_NOSIZE OR SWP_SHOWWINDOW)))
      (thenS (call32 SetForegroundWindow)
      (thenS (bindS (report wr_foreground) (\<lambda>ok. if ok then retS () else call32 FlashWindowEx))
      (thenS (bindS isFakeHidden (\<lambda>b. if b then undoFakeHidden else retS ()))
             (windowStateChange32 WEBVIEW_WINDOW_SHOW))))))"

definition hide32 :: "unit wprog" where
  "hide32 =
     bindS isVisible32 (\<lambda>visible.
     if \<not> visible then retS () else thenS (call32 (ShowWindow SW_HIDE)) (windowStateChange32 WEBVIEW_WINDOW_HIDE))"

definition maximize32 :: "unit wprog" where
  "maximize32 = bindS isMaximized32 (\<lambda>b. if b then retS () else thenS (call32 (ShowWindow SW_MAXIMIZE)) (call32 SetForegroundWindow))"

definition unmaximize32 :: "unit wprog" where
  "unmaximize32 = bindS isMaximized32 (\<lambda>b. if \<not> b then retS () else thenS (call32 (ShowWindow SW_RESTORE)) (call32 SetForegroundWindow))"

definition unminimize32 :: "unit wprog" where
  "unminimize32 = call32 (ShowWindow SW_RESTORE)"

definition move32 :: "int \<Rightarrow> int \<Rightarrow> unit wprog" where
  "move32 x y = bindS windowRect (\<lambda>r. call32 (MoveWindow x y (rc_width r) (rc_height r)))"

definition center32 :: "bool \<Rightarrow> unit wprog" where
  "center32 useConfigSizes = bindS (getCenterPos32 useConfigSizes) (\<lambda>(x, y). move32 x y)"

definition beginDrag32 :: "unit wprog" where
  "beginDrag32 = bindS (report (\<lambda>rep _. wr_cursor rep)) (\<lambda>b. if b then call32 MoveByCaption else retS ())"

section \<open>Full-screen mode and styles\<close>

definition full_style :: "32 word \<Rightarrow> 32 word" where
  "full_style style = style AND NOT (WS_CAPTION OR WS_THICKFRAME)"

definition full_styleX :: "32 word \<Rightarrow> 32 word" where
  "full_styleX style = style AND NOT (WS_EX_DLGMODALFRAME OR WS_EX_WINDOWEDGE OR WS_EX_CLIENTEDGE OR WS_EX_STATICEDGE)"

definition place_flags :: "32 word" where
  "place_flags = SWP_NOZORDER OR SWP_NOACTIVATE OR SWP_FRAMECHANGED"

definition place :: "win_rect \<Rightarrow> unit wprog" where
  "place r = call32 (SetWindowPos HWND_NULL (rc_left r) (rc_top r) (rc_width r) (rc_height r) place_flags)"

definition setFullScreen32 :: "unit wprog" where
  "setFullScreen32 =
     bindS isFullScreen32 (\<lambda>b.
     if b then retS ()
     else
       bindS (report wr_style) (\<lambda>style.
       thenS (modB (\<lambda>x. x\<lparr>w3_savedStyle := style GWL_STYLE, w3_savedStyleX := style GWL_EXSTYLE\<rparr>))
      (bindS windowRect (\<lambda>r.
       thenS (modB (\<lambda>x. x\<lparr>w3_savedRect := r\<rparr>))
      (thenS (call32 (SetWindowLong GWL_STYLE (full_style (style GWL_STYLE))))
      (thenS (call32 (SetWindowLong GWL_EXSTYLE (full_styleX (style GWL_EXSTYLE))))
      (bindS (report wr_monitor) (\<lambda>monitor.
       thenS (place monitor)
      (thenS (modB (\<lambda>x. x\<lparr>w3_isFullScreen := True\<rparr>))
             (windowStateChange32 WEBVIEW_WINDOW_FULLSCREEN))))))))))"

definition exitFullScreen32 :: "unit wprog" where
  "exitFullScreen32 =
     bindS isFullScreen32 (\<lambda>b.
     if \<not> b then retS ()
     else
       bindS (getB (\<lambda>x. (w3_savedStyle x, w3_savedStyleX x, w3_savedRect x))) (\<lambda>(style, styleX, r).
       thenS (call32 (SetWindowLong GWL_STYLE style))
      (thenS (call32 (SetWindowLong GWL_EXSTYLE styleX))
      (thenS (place r)
      (thenS (modB (\<lambda>x. x\<lparr>w3_isFullScreen := False\<rparr>))
             (windowStateChange32 WEBVIEW_WINDOW_UNFULLSCREEN))))))"

definition setAlwaysOnTop32 :: "bool \<Rightarrow> unit wprog" where
  "setAlwaysOnTop32 onTop =
     call32 (SetWindowPos (if onTop then HWND_TOPMOST else HWND_NOTOPMOST) 0 0 0 0 (SWP_NOMOVE OR SWP_NOSIZE))"

definition borderless_style :: "bool \<Rightarrow> 32 word \<Rightarrow> 32 word" where
  "borderless_style borderless style =
     (if borderless then style AND NOT (WS_CAPTION OR WS_THICKFRAME) else style OR (WS_CAPTION OR WS_THICKFRAME))"

definition setBorderless32 :: "bool \<Rightarrow> unit wprog" where
  "setBorderless32 borderless =
     bindS (report (\<lambda>rep cs. wr_style rep cs GWL_STYLE)) (\<lambda>style.
     thenS (call32 (SetWindowLong GWL_STYLE (borderless_style borderless style)))
           (call32 (SetWindowPos HWND_NULL 0 0 0 0 (SWP_NOMOVE OR SWP_NOSIZE OR SWP_NOZORDER OR SWP_NOACTIVATE OR SWP_FRAMECHANGED))))"

section \<open>The task bar, icons and pictures\<close>

definition setSkipTaskbar32 :: "bool \<Rightarrow> unit wprog" where
  "setSkipTaskbar32 skip =
     bindS (report (\<lambda>rep _. wr_taskbar rep)) (\<lambda>ok.
     if \<not> ok then retS () else call32 (if skip then DeleteTab else AddTab))"

definition setBadge32 :: "int \<Rightarrow> unit wprog" where
  "setBadge32 count0 =
     (let count = (if count0 < 0 then 0 else count0)
      in bindS (report (\<lambda>rep _. wr_taskbar rep)) (\<lambda>ok.
         if \<not> ok then retS ()
         else if count = 0 then call32 (SetOverlayIcon None)
         else call32 (SetOverlayIcon (Some (if count > 99 then ''99+'' else to_string count)))))"

text \<open>A picture that cannot be read as a stream is a null pointer.\<close>

definition setIcon32 :: "string \<Rightarrow> unit wprog" where
  "setIcon32 iconFile =
     bindS (common (resources_getFile iconFile default_options)) (\<lambda>r.
     bindS (report (\<lambda>rep _. wr_imageStream rep (fr_data r))) (\<lambda>ok.
     if \<not> ok then throwS Undefined else call32 (WM_SETICON (fr_data r))))"

definition getEncoderClsid :: "string \<Rightarrow> win32_reports \<Rightarrow> bool" where
  "getEncoderClsid format rep = (case wr_encoders rep of None \<Rightarrow> False | Some mimeTypes \<Rightarrow> format \<in> set mimeTypes)"

definition snapshot32 :: "string \<Rightarrow> bool wprog" where
  "snapshot32 filename =
     report (\<lambda>rep _. wr_printWindow rep \<and> getEncoderClsid ''image/png'' rep \<and> wr_saves rep filename)"

section \<open>The main menu\<close>

definition ID_MENU_FIRST :: int where
  "ID_MENU_FIRST = 20000"

lemma size_values: "size_list size (values_of j) \<le> Suc (size j)"
proof -
  have "size_list size (map snd kvs) \<le> size_list (size_prod (\<lambda>_. 0) size) kvs" for kvs :: "(string \<times> json) list"
    by (induction kvs) auto
  moreover have "map (snd \<circ> (\<lambda>i. (f i, vs ! i))) [0..<length vs] = vs" for f :: "nat \<Rightarrow> string" and vs :: "json list"
    by (simp add: comp_def map_nth)
  ultimately show ?thesis by (cases j) (auto simp: values_of_def items_def le_SucI)
qed

text \<open>
  The entries of a menu. The counter and the list of submenus that the window procedure was told of
  are global: what was counted and told before an exception stays. An entry gets its number after its
  submenu is done; a separator takes none.
\<close>

function createMenu32 :: "json list \<Rightarrow> int \<times> hmenu_entry list list \<Rightarrow> hmenu_entry list result \<times> (int \<times> hmenu_entry list list)" where
  "createMenu32 [] st = (Inr [], st)"
| "createMenu32 (jMenuItem # js) st =
     (case menuItem_of jMenuItem of
        Inl e \<Rightarrow> (Inl e, st)
      | Inr menuItem \<Rightarrow>
          if mi_text menuItem = ''-''
          then (case createMenu32 js st of (r, st') \<Rightarrow> (bindR r (\<lambda>es. Inr (Separator32 # es)), st'))
          else if hasField jMenuItem ''menuItems''
          then (case createMenu32 (values_of (jget jMenuItem ''menuItems'')) st of
              (Inl e, st') \<Rightarrow> (Inl e, st')
            | (Inr sub, (n, refs)) \<Rightarrow>
                (case createMenu32 js (n + 1, refs @ [sub]) of
                   (r, st') \<Rightarrow> (bindR r (\<lambda>es. Inr (Entry32 n menuItem (Some sub) # es)), st')))
          else (case createMenu32 js (fst st + 1, snd st) of
              (r, st') \<Rightarrow> (bindR r (\<lambda>es. Inr (Entry32 (fst st) menuItem None # es)), st')))"
  by pat_completeness auto

termination createMenu32
  by (relation "measure (\<lambda>(js, st). size_list size js)") (auto dest!: size_jget intro: le_less_trans [OF size_values])

declare createMenu32.simps [simp del]

text \<open>
  \<^verbatim>\<open>setMainMenu\<close>: the procedure forgets the submenus, the numbers start again, and the menu there was is
  destroyed once the new one is in its place.
\<close>

definition setMainMenu32 :: "json \<Rightarrow> unit wprog" where
  "setMainMenu32 menu =
     thenS (modB (\<lambda>x. x\<lparr>w3_menuRefs := []\<rparr>))
    (bindS (getB w3_windowMenu) (\<lambda>prevMenu.
     thenS (modB (\<lambda>x. x\<lparr>w3_menuItemId := ID_MENU_FIRST\<rparr>))
    (bindS (\<lambda>(w, x). case createMenu32 (values_of menu) (w3_menuItemId x, w3_menuRefs x) of
              (r, (n, refs)) \<Rightarrow> (r, (w, x\<lparr>w3_menuItemId := n, w3_menuRefs := refs\<rparr>))) (\<lambda>m.
     thenS (modB (\<lambda>x. x\<lparr>w3_windowMenu := Some m\<rparr>))
    (thenS (call32 (SetMenu m))
           (case prevMenu of None \<Rightarrow> retS () | Some prev \<Rightarrow> call32 (DestroyMenu prev)))))))"

text \<open>
  \<^verbatim>\<open>WM_COMMAND\<close> of an entry of the main menu: the first submenu in which the system finds the number. An entry that is
  chosen posts the lower 16 bits of its number.
\<close>

definition menu_command :: "int \<Rightarrow> unit wprog" where
  "menu_command wp =
     bindS (getB (\<lambda>x. List.map_filter (\<lambda>ref. wr_menuItem (w3_reports x) ref wp) (w3_menuRefs x))) (\<lambda>found. case found of
       [] \<Rightarrow> retS ()
     | item # _ \<Rightarrow> common (handleMainMenuItem item))"

definition choose_entry :: "int \<Rightarrow> unit wprog" where
  "choose_entry n = (let wp = n mod 2 ^ 16 in if wp \<ge> ID_MENU_FIRST then menu_command wp else retS ())"

section \<open>Creation\<close>

text \<open>The placement is set while there is no window yet.\<close>

definition add_int :: "int \<Rightarrow> int \<Rightarrow> int result" where
  "add_int a b = (if - (2 ^ 31) \<le> a + b \<and> a + b < 2 ^ 31 then Inr (a + b) else Inl Undefined)"

definition loadSavedWindowProps32 :: "bool wprog" where
  "loadSavedWindowProps32 =
     bindS (common loadSavedWindowProps) (\<lambda>loaded.
     thenS (onlyIfB loaded (bindS (propsB (\<lambda>p. p)) (\<lambda>p.
              bindS (liftS (add_int (wo_x p) (sz_width (wo_sizeOptions p)))) (\<lambda>right.
              bindS (liftS (add_int (wo_y p) (sz_height (wo_sizeOptions p)))) (\<lambda>bottom.
              call32 (SetWindowPlacement \<lparr>rc_left = wo_x p, rc_top = wo_y p, rc_right = right, rc_bottom = bottom\<rparr>))))))
           (retS loaded))"

definition scaled32 :: "int \<Rightarrow> int \<Rightarrow> int result" where
  "scaled32 scale4 n =
     (if n > 0 then (if tdiv (n * scale4) 4 < 2 ^ 31 then Inr (tdiv (n * scale4) 4) else Inl Undefined) else Inr n)"

definition apply_size32 :: "unit wprog" where
  "apply_size32 =
     bindS (propsB (\<lambda>p. (wo_useLogicalPixels p, wo_sizeOptions p))) (\<lambda>(logical, sz).
     bindS (report (\<lambda>rep _. wr_scale4 rep)) (\<lambda>scale4.
     bindS (if logical then liftS (scaled32 scale4 (sz_width sz)) else retS (sz_width sz)) (\<lambda>width.
     bindS (if logical then liftS (scaled32 scale4 (sz_height sz)) else retS (sz_height sz)) (\<lambda>height.
     call32 (WebviewSize width height sz)))))"

text \<open>The window is made off the screen, and comes into sight at the end unless it is to be hidden.\<close>

definition createWindow32 :: "bool wprog" where
  "createWindow32 =
     bindS (bindS (propsB wo_useSavedState) (\<lambda>b. if b then loadSavedWindowProps32 else retS False)) (\<lambda>saved.
     thenS (common (modS (\<lambda>w. w\<lparr>win_savedState := saved, win_native := True\<rparr>)))
    (bindS (report (\<lambda>rep _. wr_initCode rep)) (\<lambda>code.
     if code = 1 then retS False
     else
     thenS (modB (\<lambda>x. x\<lparr>w3_handle := True\<rparr>))
    (bindS (propsB (\<lambda>p. p)) (\<lambda>p.
     thenS (call32 (SetWindowText (wo_title p)))
    (thenS (onlyIfB (wo_extendUserAgentWith p \<noteq> []) (call32 (UserAgent (wo_extendUserAgentWith p))))
    (thenS apply_size32
    (thenS (inject_scripts (\<lambda>script. call32 (WebviewInit script)) p)
    (thenS (onlyIfB (wo_hidden p) hide32)
    (thenS (onlyIfB (\<not> wo_hidden p) (bindS isFakeHidden (\<lambda>b. onlyIfB b undoFakeHidden)))
    (thenS (onlyIfB (wo_maximize p) maximize32)
    (thenS (onlyIfB (wo_fullScreen p) setFullScreen32)
    (thenS (onlyIfB (wo_icon p \<noteq> []) (setIcon32 (wo_icon p)))
    (thenS (onlyIfB (wo_alwaysOnTop p) (setAlwaysOnTop32 True))
    (thenS (onlyIfB (wo_borderless p) (setBorderless32 True))
    (thenS (onlyIfB (wo_skipTaskbar p) (setSkipTaskbar32 True))
    (thenS (call32 (WebviewNavigate (wo_url p)))
           (retS True))))))))))))))))))"

definition window_init32 :: "json \<Rightarrow> bool wprog" where
  "window_init32 windowOptions = thenS (common (read_window_options windowOptions)) createWindow32"

section \<open>Methods\<close>

definition win32_minimize :: "json \<Rightarrow> json wprog" where
  "win32_minimize input = answer_success (call32 (ShowWindow SW_MINIMIZE))"

definition win32_show :: "json \<Rightarrow> json wprog" where
  "win32_show input = answer_success show32"

definition win32_beginDrag :: "json \<Rightarrow> json wprog" where
  "win32_beginDrag input = answer_success beginDrag32"

definition win32_print :: "json \<Rightarrow> json wprog" where
  "win32_print input = answer_success (call32 WebviewPrint)"

end
