(* ===== verification/WindowWinProps.thy ===== *)
theory WindowWinProps
  imports WindowWin FsStream
begin

text \<open>
  The Windows build of the window: which item a command of the main menu reaches, and full-screen mode
  and back.
\<close>

section \<open>Steps\<close>

lemma call32_steps [simp]:
  "report h (w, x) = (Inr (h (w3_reports x) (w3_calls x)), (w, x))"
  "w3_handle x \<Longrightarrow> call32 c (w, x) = (Inr (), (w, x\<lparr>w3_calls := w3_calls x @ [c]\<rparr>))"
  "\<not> w3_handle x \<Longrightarrow> call32 c (w, x) = (Inr (), (w, x))"
  by (simp_all add: report_def call32_def)

lemma stateChange32_event [simp]:
  "windowStateChange32 WEBVIEW_WINDOW_FULLSCREEN = common (dispatch ''windowFullScreenEnter'' JNull)"
  "windowStateChange32 WEBVIEW_WINDOW_UNFULLSCREEN = common (dispatch ''windowFullScreenExit'' JNull)"
  by (simp_all add: windowStateChange32_def state_change_def event_name_def)

section \<open>Menus\<close>

text \<open>All entries of a menu with their numbers, and all its submenus.\<close>

fun entries :: "hmenu_entry list \<Rightarrow> (int \<times> WindowMenuItem) list" where
  "entries [] = []"
| "entries (Separator32 # es) = entries es"
| "entries (Entry32 n it None # es) = (n, it) # entries es"
| "entries (Entry32 n it (Some s) # es) = entries s @ (n, it) # entries es"

fun submenus :: "hmenu_entry list \<Rightarrow> hmenu_entry list list" where
  "submenus [] = []"
| "submenus (Separator32 # es) = submenus es"
| "submenus (Entry32 n it None # es) = submenus es"
| "submenus (Entry32 n it (Some s) # es) = submenus s @ s # submenus es"

text \<open>The menu without the numbers, as the GTK builds make it.\<close>

fun menu_shape :: "hmenu_entry list \<Rightarrow> menu_widget list" where
  "menu_shape [] = []"
| "menu_shape (Separator32 # es) = MenuSeparator # menu_shape es"
| "menu_shape (Entry32 n it None # es) = MenuLeaf it # menu_shape es"
| "menu_shape (Entry32 n it (Some s) # es) = MenuSub it (menu_shape s) # menu_shape es"

definition widget_of :: "json \<Rightarrow> menu_widget result" where
  "widget_of jMenuItem =
     bindR (menuItem_of jMenuItem) (\<lambda>menuItem.
       if mi_text menuItem = ''-'' then Inr MenuSeparator
       else if hasField jMenuItem ''menuItems''
       then bindR (createMenu (jget jMenuItem ''menuItems'')) (\<lambda>sub. Inr (MenuSub menuItem sub))
       else Inr (MenuLeaf menuItem))"

lemma createMenu_widgets: "createMenu menu = mapR widget_of (values_of menu)"
  by (subst createMenu.simps) (simp add: widget_of_def [abs_def])

text \<open>How a menu came out of its description.\<close>

lemma createMenu32_Cons:
  assumes "createMenu32 (j # js) st = (Inr es, st')"
  obtains (sep) it es' where "menuItem_of j = Inr it" "mi_text it = ''-''" "createMenu32 js st = (Inr es', st')"
      "es = Separator32 # es'"
    | (sub) it s n refs es' where "menuItem_of j = Inr it" "mi_text it \<noteq> ''-''" "hasField j ''menuItems''"
      "createMenu32 (values_of (jget j ''menuItems'')) st = (Inr s, (n, refs))"
      "createMenu32 js (n + 1, refs @ [s]) = (Inr es', st')" "es = Entry32 n it (Some s) # es'"
    | (leaf) it es' where "menuItem_of j = Inr it" "mi_text it \<noteq> ''-''" "\<not> hasField j ''menuItems''"
      "createMenu32 js (fst st + 1, snd st) = (Inr es', st')" "es = Entry32 (fst st) it None # es'"
proof -
  obtain it where it: "menuItem_of j = Inr it"
    using assms by (cases "menuItem_of j") (auto simp: createMenu32.simps(2))
  consider "mi_text it = ''-''" | "mi_text it \<noteq> ''-''" "hasField j ''menuItems''" | "mi_text it \<noteq> ''-''" "\<not> hasField j ''menuItems''"
    by blast
  then show thesis
  proof cases
    case 1
    then show thesis using assms it sep by (auto simp: createMenu32.simps(2) bindR_eq_Inr split: prod.splits)
  next
    case 2
    then show thesis using assms it sub
      by (auto simp: createMenu32.simps(2) bindR_eq_Inr split: prod.splits sum.splits)
  next
    case 3
    then show thesis using assms it leaf by (auto simp: createMenu32.simps(2) bindR_eq_Inr split: prod.splits)
  qed
qed

lemma createMenu32_shape:
  "createMenu32 js st = (Inr es, st') \<Longrightarrow> mapR widget_of js = Inr (menu_shape es)"
proof (induction js st arbitrary: es st' rule: createMenu32.induct)
  case (2 j js st)
  note IH = "2.IH"
  from "2.prems" show ?case
  proof (cases rule: createMenu32_Cons)
    case sep
    then show ?thesis using IH(1) by (simp add: widget_of_def [of j])
  next
    case sub
    then show ?thesis using IH(2) IH(3) by (simp add: widget_of_def [of j] createMenu_widgets)
  next
    case leaf
    then show ?thesis using IH(4) by (simp add: widget_of_def [of j])
  qed
qed (simp add: createMenu32.simps)

lemma createMenu32_error: "createMenu32 js st = (Inl e, st') \<Longrightarrow> mapR widget_of js = Inl e"
proof (induction js st arbitrary: st' rule: createMenu32.induct)
  case (2 j js st)
  show ?case
  proof (cases "menuItem_of j")
    case (Inl e')
    then show ?thesis using "2.prems" by (simp add: createMenu32.simps(2) widget_of_def [of j])
  next
    case (Inr it)
    note IH = "2.IH"(1,2) [OF Inr] "2.IH"(3) [OF Inr] "2.IH"(4) [OF Inr]
    consider "mi_text it = ''-''" | "mi_text it \<noteq> ''-''" "hasField j ''menuItems''" | "mi_text it \<noteq> ''-''" "\<not> hasField j ''menuItems''"
      by blast
    then show ?thesis
    proof cases
      case 1
      then show ?thesis using "2.prems" Inr IH(1) by (auto simp: createMenu32.simps(2) widget_of_def [of j] bindR_def split: prod.splits sum.splits)
    next
      case 2
      show ?thesis
      proof (cases "createMenu32 (values_of (jget j ''menuItems'')) st")
        case (fields r1 n1 refs1)
        then show ?thesis using "2.prems" Inr 2 IH(2,3) createMenu32_shape [of _ st]
          by (cases r1)
             (fastforce simp: createMenu32.simps(2) widget_of_def [of j] createMenu_widgets bindR_def split: prod.splits sum.splits)+
      qed
    next
      case 3
      then show ?thesis using "2.prems" Inr IH(4) by (auto simp: createMenu32.simps(2) widget_of_def [of j] bindR_def split: prod.splits sum.splits)
    qed
  qed
qed (simp add: createMenu32.simps)

lemma createMenu32_numbers:
  "createMenu32 js st = (Inr es, st') \<Longrightarrow>
     fst st \<le> fst st' \<and> map fst (entries es) = [fst st..fst st' - 1] \<and> snd st' = snd st @ submenus es"
proof (induction js st arbitrary: es st' rule: createMenu32.induct)
  case (2 j js st)
  note IH = "2.IH"
  from "2.prems" show ?case
  proof (cases rule: createMenu32_Cons)
    case sep
    then show ?thesis using IH(1) by simp
  next
    case (sub it s n refs es')
    have s: "fst st \<le> n" "map fst (entries s) = [fst st..n - 1]" "refs = snd st @ submenus s"
      using IH(2) [OF sub(1-3) sub(4)] by simp_all
    have e: "n + 1 \<le> fst st'" "map fst (entries es') = [n + 1..fst st' - 1]" "snd st' = refs @ [s] @ submenus es'"
      using IH(3) [OF sub(1-3) sub(4) [symmetric] refl refl sub(5)] by simp_all
    have "[fst st..fst st' - 1] = [fst st..n - 1] @ n # [n + 1..fst st' - 1]"
      using s(1) e(1) by (intro upto_split3) auto
    then show ?thesis using s e sub by simp
  next
    case (leaf it es')
    have e: "fst st + 1 \<le> fst st'" "map fst (entries es') = [fst st + 1..fst st' - 1]" "snd st' = snd st @ submenus es'"
      using IH(4) [OF leaf(1-4)] by simp_all
    have "[fst st..fst st' - 1] = fst st # [fst st + 1..fst st' - 1]" using e(1) by (intro upto_rec1) simp
    then show ?thesis using e leaf(5) by simp
  qed
qed (auto simp: createMenu32.simps)

text \<open>The numbers of a menu belong to one entry each; a submenu has some of them.\<close>

lemma submenus_entries: "s \<in> set (submenus es) \<Longrightarrow> set (entries s) \<subseteq> set (entries es)"
  by (induction es rule: submenus.induct) auto

lemma submenus_distinct: "s \<in> set (submenus es) \<Longrightarrow> distinct (map fst (entries es)) \<Longrightarrow> distinct (map fst (entries s))"
  by (induction es rule: submenus.induct) auto

lemma entry_top: "Entry32 n it sub \<in> set es \<Longrightarrow> (n, it) \<in> set (entries es)"
  by (induction es rule: entries.induct) auto

lemma submenus_keys: "s \<in> set (submenus es) \<Longrightarrow> fst ` set (entries s) \<subseteq> fst ` set (entries es)"
  using submenus_entries by blast

lemma entry_bar:
  "Entry32 n it sub \<in> set es \<Longrightarrow> distinct (map fst (entries es)) \<Longrightarrow> s \<in> set (submenus es) \<Longrightarrow> n \<notin> fst ` set (entries s)"
proof (induction es rule: submenus.induct)
  case (3 k it0 es)
  then show ?case using submenus_keys [of s es] by auto
next
  case (4 k it0 s0 es)
  have d: "distinct (map fst (entries es))" "k \<notin> fst ` set (entries s0)" "k \<notin> fst ` set (entries es)"
    "fst ` set (entries s0) \<inter> fst ` set (entries es) = {}"
    using "4.prems"(2) by (auto simp flip: set_map)
  consider "s \<in> set (submenus es)" | "fst ` set (entries s) \<subseteq> fst ` set (entries s0)"
    using "4.prems"(3) submenus_keys [of s s0] by auto
  then show ?case
  proof cases
    case 1
    then show ?thesis using "4.IH"(2) "4.prems"(1) d submenus_keys [OF 1] by auto
  next
    case 2
    have "n = k \<or> n \<in> fst ` set (entries es)" using "4.prems"(1) entry_top by force
    then show ?thesis using 2 d by blast
  qed
qed simp_all

text \<open>What the system promises about the lookup of a number in a menu.\<close>

definition finds_items :: "win32_reports \<Rightarrow> bool" where
  "finds_items rep \<longleftrightarrow> (\<forall>es n it sub. distinct (map fst (entries es)) \<longrightarrow>
     (Entry32 n it sub \<in> set es \<longrightarrow> wr_menuItem rep es n = Some it) \<and>
     (wr_menuItem rep es n = Some it \<longrightarrow> (n, it) \<in> set (entries es)))"

lemma menu_command_found:
  assumes "finds_items (w3_reports x)" "w3_menuRefs x = submenus es" "distinct (map fst (entries es))"
    "s \<in> set (submenus es)" "Entry32 n it sub \<in> set s"
  shows "menu_command n (w, x) = common (handleMainMenuItem it) (w, x)"
proof -
  let ?look = "\<lambda>ref. wr_menuItem (w3_reports x) ref n"
  have n: "(n, it) \<in> set (entries es)" using submenus_entries [OF assms(4)] entry_top [OF assms(5)] by blast
  have same: "it' = it" if "?look ref = Some it'" "ref \<in> set (submenus es)" for ref it'
  proof -
    have "(n, it') \<in> set (entries ref)"
      using that assms(1) submenus_distinct [OF that(2) assms(3)] by (auto simp: finds_items_def)
    then have "(n, it') \<in> set (entries es)" using submenus_entries [OF that(2)] by blast
    with n assms(3) show ?thesis by (metis eq_key_imp_eq_value)
  qed
  have "?look s = Some it" using assms(1,5) submenus_distinct [OF assms(4,3)] by (auto simp: finds_items_def)
  then have "List.map_filter ?look (submenus es) \<noteq> []"
    using assms(4) by (auto simp: List.map_filter_def filter_empty_conv)
  moreover have "set (List.map_filter ?look (submenus es)) \<subseteq> {it}"
    using same by (auto simp: List.map_filter_def)
  ultimately obtain its where "List.map_filter ?look (submenus es) = it # its"
    by (cases "List.map_filter ?look (submenus es)") auto
  then show ?thesis using assms(2) by (simp add: menu_command_def)
qed

lemma menu_command_bar:
  assumes "finds_items (w3_reports x)" "w3_menuRefs x = submenus es" "distinct (map fst (entries es))" "Entry32 n it sub \<in> set es"
  shows "menu_command n (w, x) = (Inr (), (w, x))"
proof -
  let ?look = "\<lambda>ref. wr_menuItem (w3_reports x) ref n"
  have "?look ref = None" if "ref \<in> set (submenus es)" for ref
  proof (rule ccontr)
    assume "?look ref \<noteq> None"
    then obtain it' where "(n, it') \<in> set (entries ref)"
      using assms(1) submenus_distinct [OF \<open>ref \<in> set (submenus es)\<close> assms(3)] by (auto simp: finds_items_def)
    with entry_bar [OF assms(4,3) that] show False by force
  qed
  then have "List.map_filter ?look (submenus es) = []"
    by (auto simp: List.map_filter_def filter_empty_conv)
  then show ?thesis using assms(2) by (simp add: menu_command_def)
qed

text \<open>Setting a menu: when its description is well formed, and when it is not.\<close>

lemma setMainMenu32_cases:
  assumes "w3_handle x" "createMenu32 (values_of menu) (ID_MENU_FIRST, []) = (r, (n, refs))"
  shows "setMainMenu32 menu (w, x) = (case r of
      Inl e \<Rightarrow> (Inl e, (w, x\<lparr>w3_menuRefs := refs, w3_menuItemId := n\<rparr>))
    | Inr m \<Rightarrow> (Inr (), (w, x\<lparr>w3_menuRefs := refs, w3_menuItemId := n, w3_windowMenu := Some m,
        w3_calls := w3_calls x @ SetMenu m # (case w3_windowMenu x of None \<Rightarrow> [] | Some prev \<Rightarrow> [DestroyMenu prev])\<rparr>)))"
  using assms by (auto simp: setMainMenu32_def thenS_def bindS_def split: sum.splits option.splits)


text \<open>A system on which the statements are exercised: it remembers styles and positions, and looks entries up.\<close>

definition demo_rect :: win_rect where
  "demo_rect = \<lparr>rc_left = 100, rc_top = 50, rc_right = 900, rc_bottom = 650\<rparr>"

definition demo_screen :: win_rect where
  "demo_screen = \<lparr>rc_left = 0, rc_top = 0, rc_right = 1920, rc_bottom = 1080\<rparr>"

definition last_style :: "win32_call list \<Rightarrow> style_index \<Rightarrow> 32 word" where
  "last_style cs = foldl (\<lambda>st c. case c of SetWindowLong i v \<Rightarrow> st(i := v) | _ \<Rightarrow> st) (\<lambda>_. 0xCF0000) cs"

definition last_rect :: "win32_call list \<Rightarrow> win_rect" where
  "last_rect cs = foldl (\<lambda>r c. case c of
     SetWindowPos h x y cx cy fl \<Rightarrow>
       if fl = place_flags then \<lparr>rc_left = x, rc_top = y, rc_right = x + cx, rc_bottom = y + cy\<rparr> else r
   | _ \<Rightarrow> r) demo_rect cs"

definition demo_reports :: win32_reports where
  "demo_reports =
    \<lparr>wr_style = last_style, wr_rect = (\<lambda>cs. Some (last_rect cs)), wr_normal = last_rect, wr_iconic = (\<lambda>_. False),
     wr_zoomed = (\<lambda>_. False), wr_visible = (\<lambda>_. True), wr_foreground = (\<lambda>_. True), wr_monitor = (\<lambda>_. demo_screen),
     wr_desktop = demo_screen, wr_scale4 = 4, wr_originalStyleEx = 0, wr_cursor = True, wr_taskbar = True,
     wr_imageStream = (\<lambda>_. True), wr_printWindow = True, wr_encoders = None, wr_saves = (\<lambda>_. True),
     wr_menuItem = (\<lambda>es n. map_of (entries es) n), wr_initCode = 0\<rparr>"

definition demo_win32 :: win32 where
  "demo_win32 =
    \<lparr>w3_handle = True, w3_isFullScreen = False, w3_savedStyle = 0, w3_savedStyleX = 0, w3_savedRect = demo_rect,
     w3_windowMenu = None, w3_menuItemId = 20000, w3_originalWndProc = False, w3_menuRefs = [], w3_calls = [],
     w3_reports = demo_reports\<rparr>"

lemma demo_finds: "finds_items (w3_reports demo_win32)"
  by (auto simp: finds_items_def demo_win32_def demo_reports_def dest: entry_top map_of_SomeD)

definition demo_menu :: json where
  "demo_menu = JArray
     [jobj [(''text'', JString ''File''), (''menuItems'', JArray [jobj [(''id'', JString ''open''), (''text'', JString ''Open'')]])],
      jobj [(''id'', JString ''about''), (''text'', JString ''About'')]]"

definition demo_item :: "string \<Rightarrow> string \<Rightarrow> WindowMenuItem" where
  "demo_item i t = \<lparr>mi_id = i, mi_text = t, mi_disabled = False, mi_checked = False, mi_shortcut = []\<rparr>"


section \<open>Full-screen mode\<close>

text \<open>What the system promises about styles and places.\<close>

definition obeys_calls :: "win32_reports \<Rightarrow> bool" where
  "obeys_calls rep \<longleftrightarrow>
     (\<forall>cs i v. wr_style rep (cs @ [SetWindowLong i v]) = (wr_style rep cs)(i := v) \<and>
               wr_rect rep (cs @ [SetWindowLong i v]) = wr_rect rep cs) \<and>
     (\<forall>cs h x y cx cy. wr_style rep (cs @ [SetWindowPos h x y cx cy place_flags]) = wr_style rep cs \<and>
        wr_rect rep (cs @ [SetWindowPos h x y cx cy place_flags]) =
          Some \<lparr>rc_left = x, rc_top = y, rc_right = x + cx, rc_bottom = y + cy\<rparr>)"

definition looks :: "win32 \<Rightarrow> (style_index \<Rightarrow> 32 word) \<times> win_rect option" where
  "looks x = (wr_style (w3_reports x) (w3_calls x), wr_rect (w3_reports x) (w3_calls x))"

lemma common_dispatch: "all_alive w \<Longrightarrow> common (dispatch e d) (w, x) = (Inr (), (delivered [makeEventPayload e d] w, x))"
  by (simp add: common_def dispatch_delivered)

lemma style_cleared: "(style AND NOT frame) AND frame = (0 :: 32 word)" "(style AND NOT frame) OR frame = style OR (frame :: 32 word)"
  by (rule bit_word_eqI, auto simp: bit_simps)+

definition with_calls :: "win32_call list \<Rightarrow> win32 \<Rightarrow> win32" where
  "with_calls cs x = x\<lparr>w3_calls := w3_calls x @ cs\<rparr>"

lemma setFullScreen32_run:
  assumes "w3_handle x" "\<not> w3_isFullScreen x" "looks x = (style, Some r)" "all_alive w"
    "a = SetWindowLong GWL_STYLE (full_style (style GWL_STYLE))" "b = SetWindowLong GWL_EXSTYLE (full_styleX (style GWL_EXSTYLE))"
    "m = wr_monitor (w3_reports x) (w3_calls x @ [a, b])"
  shows "setFullScreen32 (w, x) = (Inr (), (delivered [makeEventPayload ''windowFullScreenEnter'' JNull] w,
    x\<lparr>w3_savedStyle := style GWL_STYLE, w3_savedStyleX := style GWL_EXSTYLE, w3_savedRect := r,
      w3_calls := w3_calls x @ [a, b, SetWindowPos HWND_NULL (rc_left m) (rc_top m) (rc_width m) (rc_height m) place_flags],
      w3_isFullScreen := True\<rparr>))"
  using assms
  by (simp add: setFullScreen32_def isFullScreen32_def windowRect_def place_def thenS_def bindS_def looks_def common_dispatch)

lemma exitFullScreen32_run:
  assumes "w3_handle x" "w3_isFullScreen x" "all_alive w"
  shows "exitFullScreen32 (w, x) = (Inr (), (delivered [makeEventPayload ''windowFullScreenExit'' JNull] w,
    x\<lparr>w3_calls := w3_calls x @ [SetWindowLong GWL_STYLE (w3_savedStyle x), SetWindowLong GWL_EXSTYLE (w3_savedStyleX x),
        SetWindowPos HWND_NULL (rc_left (w3_savedRect x)) (rc_top (w3_savedRect x)) (rc_width (w3_savedRect x))
          (rc_height (w3_savedRect x)) place_flags],
      w3_isFullScreen := False\<rparr>))"
  using assms by (simp add: exitFullScreen32_def isFullScreen32_def place_def thenS_def bindS_def common_dispatch)

text \<open>How the window looks after two style calls and a placement.\<close>

lemma looks_placed:
  assumes "obeys_calls (w3_reports x)" "w3_reports x' = w3_reports x"
    "w3_calls x' = w3_calls x @ [SetWindowLong GWL_STYLE s, SetWindowLong GWL_EXSTYLE t,
       SetWindowPos HWND_NULL (rc_left q) (rc_top q) (rc_width q) (rc_height q) place_flags]"
  shows "looks x' = ((\<lambda>i. case i of GWL_STYLE \<Rightarrow> s | GWL_EXSTYLE \<Rightarrow> t), Some q)"
proof -
  let ?rep = "w3_reports x" and ?cs = "w3_calls x"
  let ?p = "SetWindowPos HWND_NULL (rc_left q) (rc_top q) (rc_width q) (rc_height q) place_flags"
  have c: "w3_calls x' = ((?cs @ [SetWindowLong GWL_STYLE s]) @ [SetWindowLong GWL_EXSTYLE t]) @ [?p]" using assms(3) by simp
  have "wr_style ?rep (w3_calls x') = (wr_style ?rep ?cs)(GWL_STYLE := s, GWL_EXSTYLE := t)"
    "wr_rect ?rep (w3_calls x') = Some q"
    using assms(1) unfolding c obeys_calls_def by (simp_all add: rc_width_def rc_height_def del: append_assoc)
  then show ?thesis unfolding looks_def assms(2) by (auto simp: fun_eq_iff split: style_index.splits)
qed



end
