(* ===== verification/WindowMac.thy ===== *)
theory WindowMac
  imports WindowBuild
begin

text \<open>
  \<^verbatim>\<open>api/window/window.cpp\<close> in the macOS build, where it differs from the other two: messages to the window
  object, whose coordinates grow upwards, and the main menu with its actions. The messages sent are
  recorded, and what the objects report may depend on all of them.
\<close>

unbundle bit_operations_syntax

section \<open>Messages and reports\<close>

text \<open>A menu item has a selector as its action, and its shortcut apart from its text.\<close>

record mac_item =
  ci_id :: string
  ci_text :: string
  ci_disabled :: bool
  ci_checked :: bool
  ci_action :: string
  ci_shortcut :: string

datatype ns_menu_item = SeparatorItem | NSItem mac_item "ns_menu_item list option"

datatype mac_call =
    Zoom | Miniaturize | Deminiaturize | SetIsVisible bool | ActivateApp | MakeKeyAndOrderFront | ToggleFullScreen
  | SetApplicationIconImage string | SetBadgeLabel "string option" | SetFrameTopLeftPoint int int | PerformWindowDrag
  | SetLevel int | SetStyleMask "64 word" | SetActivationPolicy bool | MainMenuMessage | SetNSMenu "ns_menu_item list" | SetHasShadow
  | MacTerminate int | MacTitle string | MacUserAgent string | MacSize int int SizeOptions | MacInit string
  | MacNavigate string | MacPrint

text \<open>The frame of a window: the lower left corner, the width and the height, as floating-point numbers.\<close>

record mac_frame =
  fr_x :: rat
  fr_y :: rat
  fr_width :: rat
  fr_height :: rat

record mac_reports =
  mr_zoomed :: "mac_call list \<Rightarrow> bool"
  mr_miniaturized :: "mac_call list \<Rightarrow> bool"
  mr_visible :: "mac_call list \<Rightarrow> bool"
  mr_styleMask :: "mac_call list \<Rightarrow> 64 word"
  mr_frame :: "mac_call list \<Rightarrow> mac_frame"
  mr_pixelsWide :: int
  mr_pixelsHigh :: int
  mr_scale :: int                      \<comment> \<open>\<^verbatim>\<open>backingScaleFactor\<close>\<close>
  mr_writes :: "string \<Rightarrow> bool"
  mr_initCode :: int

record mac =
  mc_calls :: "mac_call list"
  mc_reports :: mac_reports

type_synonym 'a mprog = "(mac, 'a) build"

definition send_mac :: "mac_call \<Rightarrow> unit mprog" where
  "send_mac c = modB (\<lambda>x. x\<lparr>mc_calls := mc_calls x @ [c]\<rparr>)"

definition mac_report :: "(mac_reports \<Rightarrow> mac_call list \<Rightarrow> 'a) \<Rightarrow> 'a mprog" where
  "mac_report f = getB (\<lambda>x. f (mc_reports x) (mc_calls x))"

text \<open>A floating-point number as an \<^verbatim>\<open>int\<close>.\<close>

definition trunc :: "rat \<Rightarrow> int" where
  "trunc r = (if r < 0 then \<lceil>r\<rceil> else \<lfloor>r\<rfloor>)"

definition NSFloatingWindowLevel :: int where "NSFloatingWindowLevel = 5"
definition NSBaseWindowLevel :: int where "NSBaseWindowLevel = 0"
definition NSWindowStyleMaskFullScreen :: "64 word" where "NSWindowStyleMaskFullScreen = 16384"
definition NSWindowStyleMaskTitled :: "64 word" where "NSWindowStyleMaskTitled = 1"

section \<open>Reports\<close>

definition mac_isMaximized :: "bool mprog" where
  "mac_isMaximized = mac_report mr_zoomed"

definition mac_isMinimized :: "bool mprog" where
  "mac_isMinimized = mac_report mr_miniaturized"

definition mac_isVisible :: "bool mprog" where
  "mac_isVisible = mac_report mr_visible"

definition mac_isFullScreen :: "bool mprog" where
  "mac_isFullScreen =
     mac_report (\<lambda>rep cs. mr_styleMask rep cs AND NSWindowStyleMaskFullScreen = NSWindowStyleMaskFullScreen)"

definition getWindowRect :: "mac_frame mprog" where
  "getWindowRect = mac_report mr_frame"

definition mac_getSize :: "SizeOptions mprog" where
  "mac_getSize =
     bindS getWindowRect (\<lambda>frame.
     bindS (mac_report (\<lambda>rep _. mr_scale rep)) (\<lambda>scale.
     bindS (propsB wo_useLogicalPixels) (\<lambda>logical.
     let width = trunc (fr_width frame); height = trunc (fr_height frame)
     in keep_size (if logical then tdiv width scale else width) (if logical then tdiv height scale else height))))"

definition mac_getPosition :: "(int \<times> int) mprog" where
  "mac_getPosition =
     bindS getWindowRect (\<lambda>frame.
     mac_report (\<lambda>rep _. (trunc (fr_x frame), trunc (of_int (mr_pixelsHigh rep) - fr_y frame - fr_height frame))))"

text \<open>The size of the display is unsigned, and so is the difference that is halved.\<close>

definition half_diff :: "int \<Rightarrow> int \<Rightarrow> int" where
  "half_diff pixels n = to_int (((pixels - n) mod 2 ^ 64) div 2)"

definition mac_getCenterPos :: "bool \<Rightarrow> (int \<times> int) mprog" where
  "mac_getCenterPos useConfigSizes =
     bindS (if useConfigSizes then propsB wo_sizeOptions else mac_getSize) (\<lambda>sz.
     mac_report (\<lambda>rep _. (half_diff (mr_pixelsWide rep) (sz_width sz), half_diff (mr_pixelsHigh rep) (sz_height sz))))"

section \<open>Leaving\<close>

definition mac_saveWindowProps :: "unit mprog" where
  "mac_saveWindowProps =
     bindS mac_getSize (\<lambda>sz.
     bindS mac_getPosition (\<lambda>(x, y).
     bindS mac_isMaximized (\<lambda>maximized. common (save_state sz x y maximized))))"

definition mac_close :: "int \<Rightarrow> unit mprog" where
  "mac_close exitCode =
     bindS (common (getS win_native)) (\<lambda>native.
     if \<not> native then retS ()
     else
       thenS (bindS (propsB wo_useSavedState) (\<lambda>b. onlyIfB b mac_saveWindowProps))
      (thenS (send_mac (MacTerminate exitCode))
             (common (modS (\<lambda>w. w\<lparr>win_native := False\<rparr>)))))"

definition mac_unminimize :: "unit mprog" where
  "mac_unminimize = send_mac Deminiaturize"

definition mac_focus :: "unit mprog" where
  "mac_focus =
     thenS (send_mac ActivateApp)
    (bindS mac_isMinimized (\<lambda>b. if b then mac_unminimize else send_mac MakeKeyAndOrderFront))"

definition mac_windowStateChange :: "window_event \<Rightarrow> unit mprog" where
  "mac_windowStateChange = state_change mac_close mac_focus"

section \<open>The window\<close>

definition mac_maximize :: "unit mprog" where
  "mac_maximize = bindS mac_isMaximized (\<lambda>b. onlyIfB (\<not> b) (send_mac Zoom))"

definition mac_unmaximize :: "unit mprog" where
  "mac_unmaximize = bindS mac_isMaximized (\<lambda>b. onlyIfB b (send_mac Zoom))"

definition mac_show :: "unit mprog" where
  "mac_show =
     bindS mac_isVisible (\<lambda>b.
     onlyIfB (\<not> b) (thenS (send_mac (SetIsVisible True)) (mac_windowStateChange WEBVIEW_WINDOW_SHOW)))"

definition mac_hide :: "unit mprog" where
  "mac_hide =
     bindS mac_isVisible (\<lambda>b.
     onlyIfB b (thenS (send_mac (SetIsVisible False)) (mac_windowStateChange WEBVIEW_WINDOW_HIDE)))"

definition mac_setFullScreen :: "unit mprog" where
  "mac_setFullScreen = bindS mac_isFullScreen (\<lambda>b. onlyIfB (\<not> b) (send_mac ToggleFullScreen))"

definition mac_exitFullScreen :: "unit mprog" where
  "mac_exitFullScreen = bindS mac_isFullScreen (\<lambda>b. onlyIfB b (send_mac ToggleFullScreen))"

definition mac_setIcon :: "string \<Rightarrow> unit mprog" where
  "mac_setIcon iconFile =
     bindS (common (resources_getFile iconFile default_options)) (\<lambda>r. send_mac (SetApplicationIconImage (fr_data r)))"

definition mac_setBadge :: "int \<Rightarrow> unit mprog" where
  "mac_setBadge count0 =
     (let count = (if count0 < 0 then 0 else count0)
      in send_mac (SetBadgeLabel (if count > 0 then Some (to_string count) else None)))"

definition mac_move :: "int \<Rightarrow> int \<Rightarrow> unit mprog" where
  "mac_move x y =
     bindS (mac_report (\<lambda>rep _. mr_pixelsHigh rep)) (\<lambda>height.
     if height - y < - (2 ^ 31) \<or> 2 ^ 31 \<le> height - y then throwS Undefined
     else send_mac (SetFrameTopLeftPoint x (height - y)))"

definition mac_center :: "bool \<Rightarrow> unit mprog" where
  "mac_center useConfigSizes = bindS (mac_getCenterPos useConfigSizes) (\<lambda>(x, y). mac_move x y)"

definition mac_beginDrag :: "unit mprog" where
  "mac_beginDrag = send_mac PerformWindowDrag"

definition mac_setAlwaysOnTop :: "bool \<Rightarrow> unit mprog" where
  "mac_setAlwaysOnTop onTop = send_mac (SetLevel (if onTop then NSFloatingWindowLevel else NSBaseWindowLevel))"

text \<open>The message takes an \<^verbatim>\<open>int\<close>.\<close>

definition mac_setBorderless :: "bool \<Rightarrow> unit mprog" where
  "mac_setBorderless borderless =
     bindS (mac_report mr_styleMask) (\<lambda>styleMask.
     let m = (if borderless then styleMask AND NOT NSWindowStyleMaskTitled else styleMask OR NSWindowStyleMaskTitled)
     in send_mac (SetStyleMask (scast (ucast m :: 32 word))))"

definition mac_setSkipTaskbar :: "bool \<Rightarrow> unit mprog" where
  "mac_setSkipTaskbar skip = send_mac (SetActivationPolicy skip)"

definition mac_snapshot :: "string \<Rightarrow> bool mprog" where
  "mac_snapshot filename = mac_report (\<lambda>rep _. mr_writes rep (c_str filename))"

section \<open>The main menu\<close>

definition macItem_of :: "json \<Rightarrow> mac_item result" where
  "macItem_of j =
     bindR (field_or j ''id'' [] get_string) (\<lambda>i.
     bindR (field_or j ''text'' [] get_string) (\<lambda>text.
     bindR (field_or j ''isDisabled'' False get_bool) (\<lambda>disabled.
     bindR (field_or j ''isChecked'' False get_bool) (\<lambda>checked.
     bindR (field_or j ''action'' ''menuCallback:'' get_string) (\<lambda>action.
     bindR (field_or j ''shortcut'' [] get_string) (\<lambda>shortcut.
     Inr \<lparr>ci_id = i, ci_text = text, ci_disabled = disabled, ci_checked = checked, ci_action = action, ci_shortcut = shortcut\<rparr>))))))"

function mac_createMenu :: "json \<Rightarrow> ns_menu_item list result" where
  "mac_createMenu menu =
     mapR (\<lambda>jMenuItem.
       bindR (macItem_of jMenuItem) (\<lambda>menuItem.
       if ci_text menuItem = ''-'' then Inr SeparatorItem
       else if hasField jMenuItem ''menuItems''
       then bindR (mac_createMenu (jget jMenuItem ''menuItems'')) (\<lambda>sub. Inr (NSItem menuItem (Some sub)))
       else Inr (NSItem menuItem None))) (values_of menu)"
  by pat_completeness auto

termination mac_createMenu
  by (relation "measure size") (auto dest!: size_jget size_values_of)

declare mac_createMenu.simps [simp del]

definition mac_setMainMenu :: "json \<Rightarrow> unit mprog" where
  "mac_setMainMenu menu =
     thenS (send_mac MainMenuMessage) (bindS (liftS (mac_createMenu menu)) (\<lambda>m. send_mac (SetNSMenu m)))"

section \<open>Creation\<close>

definition mac_apply_size :: "unit mprog" where
  "mac_apply_size =
     bindS (propsB (\<lambda>p. (wo_useLogicalPixels p, wo_sizeOptions p))) (\<lambda>(logical, sz).
     bindS (mac_report (\<lambda>rep _. mr_scale rep)) (\<lambda>scale.
     bindS (if logical then liftS (scaled scale (sz_width sz)) else retS (sz_width sz)) (\<lambda>width.
     bindS (if logical then liftS (scaled scale (sz_height sz)) else retS (sz_height sz)) (\<lambda>height.
     send_mac (MacSize width height sz)))))"

definition mac_createWindow :: "bool mprog" where
  "mac_createWindow =
     bindS (bindS (propsB wo_useSavedState) (\<lambda>b. if b then common loadSavedWindowProps else retS False)) (\<lambda>saved.
     thenS (common (modS (\<lambda>w. w\<lparr>win_savedState := saved, win_native := True\<rparr>)))
    (bindS (mac_report (\<lambda>rep _. mr_initCode rep)) (\<lambda>code.
     if code = 1 then retS False
     else
     bindS (propsB (\<lambda>p. p)) (\<lambda>p.
     thenS (send_mac (MacTitle (wo_title p)))
    (thenS (onlyIfB (wo_extendUserAgentWith p \<noteq> []) (send_mac (MacUserAgent (wo_extendUserAgentWith p))))
    (thenS mac_apply_size
    (thenS (inject_scripts (\<lambda>script. send_mac (MacInit script)) p)
    (thenS (send_mac SetHasShadow)
    (thenS (if \<not> saved \<and> wo_center p then mac_center True else mac_move (wo_x p) (wo_y p))
    (thenS (onlyIfB (wo_hidden p) mac_hide)
    (thenS (onlyIfB (wo_maximize p) mac_maximize)
    (thenS (onlyIfB (wo_fullScreen p) mac_setFullScreen)
    (thenS (onlyIfB (wo_icon p \<noteq> []) (mac_setIcon (wo_icon p)))
    (thenS (onlyIfB (wo_alwaysOnTop p) (mac_setAlwaysOnTop True))
    (thenS (onlyIfB (wo_borderless p) (mac_setBorderless True))
    (thenS (onlyIfB (wo_skipTaskbar p) (mac_setSkipTaskbar True))
    (thenS (send_mac (MacNavigate (wo_url p)))
           (retS True))))))))))))))))))"

definition mac_window_init :: "json \<Rightarrow> bool mprog" where
  "mac_window_init windowOptions = thenS (common (read_window_options windowOptions)) mac_createWindow"

definition mac_minimize :: "json \<Rightarrow> json mprog" where
  "mac_minimize input = answer_success (send_mac Miniaturize)"

definition mac_print :: "json \<Rightarrow> json mprog" where
  "mac_print input = answer_success (send_mac MacPrint)"

section \<open>The grabbed pointer\<close>

text \<open>
  The event tap of \<^verbatim>\<open>computer.cpp\<close>, which keeps the pointer inside the window: the location of the event
  that goes on, and where the cursor is warped to. Nothing happens to other events, or while the window
  has no area.
\<close>

definition clamp :: "rat \<Rightarrow> rat \<Rightarrow> rat \<Rightarrow> rat" where
  "clamp lo hi v = max lo (min v hi)"

definition mouseTapCallback :: "bool \<Rightarrow> mac_frame \<Rightarrow> rat \<times> rat \<Rightarrow> (rat \<times> rat) \<times> (rat \<times> rat) option" where
  "mouseTapCallback moves winRect location =
     (if fr_width winRect = 0 \<or> fr_height winRect = 0 \<or> \<not> moves then (location, None)
      else let point = (clamp (fr_x winRect) (fr_x winRect + fr_width winRect) (fst location),
                        clamp (fr_y winRect) (fr_y winRect + fr_height winRect) (snd location))
           in if point \<noteq> location then (point, Some point) else (location, None))"

section \<open>Properties\<close>

lemma mac_steps [simp]:
  "mac_report h (w, x) = (Inr (h (mc_reports x) (mc_calls x)), (w, x))"
  "send_mac c (w, x) = (Inr (), (w, x\<lparr>mc_calls := mc_calls x @ [c]\<rparr>))"
  by (simp_all add: mac_report_def send_mac_def)

text \<open>The window is where its upper left corner was put; the size stays.\<close>

definition keeps_corner :: "mac_reports \<Rightarrow> bool" where
  "keeps_corner rep \<longleftrightarrow> (\<forall>cs x y. mr_frame rep (cs @ [SetFrameTopLeftPoint x y]) =
     (mr_frame rep cs)\<lparr>fr_x := of_int x, fr_y := of_int y - fr_height (mr_frame rep cs)\<rparr>)"

lemma trunc_of_int [simp]: "trunc (of_int i) = i"
  by (simp add: trunc_def)

text \<open>The two conversions of coordinates undo each other: a window is reported where it was moved to.\<close>

lemma mac_move_position:
  assumes "keeps_corner (mc_reports x)" "mac_move a b (w, x) = (Inr (), (w1, x1))"
  shows "w1 = w \<and> mac_getPosition (w1, x1) = (Inr (a, b), (w1, x1))"
proof -
  have x1: "w1 = w" "x1 = x\<lparr>mc_calls := mc_calls x @ [SetFrameTopLeftPoint a (mr_pixelsHigh (mc_reports x) - b)]\<rparr>"
    using assms(2) by (auto simp: mac_move_def bindS_cases split: if_splits)
  then show ?thesis
    using assms(1) by (simp add: mac_getPosition_def getWindowRect_def keeps_corner_def bindS_def)
qed

lemma clamp_within: "lo \<le> hi \<Longrightarrow> lo \<le> clamp lo hi v \<and> clamp lo hi v \<le> hi \<and> clamp lo hi (clamp lo hi v) = clamp lo hi v"
  by (simp add: clamp_def)

text \<open>The pointer stays inside the window, and is left alone while it is there.\<close>

lemma mouseTap_inside:
  assumes "0 < fr_width r" "0 < fr_height r" "mouseTapCallback True r p = ((x, y), warp)"
  shows "fr_x r \<le> x \<and> x \<le> fr_x r + fr_width r \<and> fr_y r \<le> y \<and> y \<le> fr_y r + fr_height r \<and>
    mouseTapCallback True r (x, y) = ((x, y), None)"
proof -
  let ?cx = "clamp (fr_x r) (fr_x r + fr_width r)" and ?cy = "clamp (fr_y r) (fr_y r + fr_height r)"
  have "x = ?cx (fst p)" "y = ?cy (snd p)"
    using assms by (auto simp: mouseTapCallback_def Let_def split: if_splits)
  moreover have "fr_x r \<le> fr_x r + fr_width r" "fr_y r \<le> fr_y r + fr_height r" using assms(1,2) by simp_all
  ultimately show ?thesis using clamp_within by (auto simp: mouseTapCallback_def Let_def)
qed

end
