(* ===== verification/ResProps.thy ===== *)
theory ResProps
  imports Res Demo
begin

text \<open>
  Properties of the resources: a file reads the same from the directory, from the archive beside the
  executable and from the embedded one, and the search below a path finds what a search of the
  whole tree finds there.
\<close>

section \<open>The three places of a resource\<close>

text \<open>
  The archive holds the file: the header leads to its size and its offset, and its bytes are at
  that offset behind the header.
\<close>

definition archived :: "string \<Rightarrow> world \<Rightarrow> string \<Rightarrow> string \<Rightarrow> bool" where
  "archived bytes w filename d \<longleftrightarrow>
     (\<exists>offset t pre post. seekFilePos filename (res_fileTree w) = Inr (int (length d), t) \<and> stoi t = Inr (int offset) \<and>
        bytes = pre @ d @ post \<and> length pre = unat (res_asarHeaderSize w) + offset)"

lemma archivedI:
  "seekFilePos filename (res_fileTree w) = Inr (int (length d), t) \<Longrightarrow> stoi t = Inr (int offset) \<Longrightarrow> bytes = pre @ d @ post \<Longrightarrow>
     length pre = unat (res_asarHeaderSize w) + offset \<Longrightarrow> archived bytes w filename d"
  unfolding archived_def by blast

lemma read_buffer_slice:
  assumes "0 \<le> pos" "0 \<le> len" "pos + len \<le> int (length d)" "int (length pre) = p"
  shows "read_buffer (Some (pre @ d @ post)) (p + pos) len = take (nat len) (drop (nat pos) d)"
    and "take (nat len) (drop (nat (p + pos)) (pre @ d @ post)) = take (nat len) (drop (nat pos) d)"
proof -
  have n: "nat (p + pos) = length pre + nat pos" using assms by linarith
  have "nat pos \<le> length d" "nat len \<le> length d - nat pos" using assms by linarith+
  then show t: "take (nat len) (drop (nat (p + pos)) (pre @ d @ post)) = take (nat len) (drop (nat pos) d)"
    by (simp add: n)
  have "nat len \<le> length d - nat pos" using assms by linarith
  with t show "read_buffer (Some (pre @ d @ post)) (p + pos) len = take (nat len) (drop (nat pos) d)"
    by (simp add: read_buffer_def Let_def)
qed

lemma archive_offset:
  assumes "length (pre @ d @ post) < 2 ^ 62" "0 \<le> pos" "pos \<le> int (length d)" "length pre = unat (h :: 32 word) + offset"
  shows "to_ulong (uint h + to_ulong (int offset) + pos) = int (length pre) + pos" "to_long (int (length pre) + pos) = int (length pre) + pos"
proof -
  have u: "uint h = int (unat h)" by simp
  have b: "int (length pre) + int (length d) < 2 ^ 62" using assms(1) by simp
  have "0 \<le> int offset" "int offset \<le> int (length pre)" using assms(4) by simp_all
  moreover have c: "(2 :: int) ^ 62 < 2 ^ 63" "(2 :: int) ^ 63 < 2 ^ 64" by simp_all
  ultimately have "0 \<le> int offset" "int offset < 2 ^ 64" using b by linarith+
  then have "to_ulong (int offset) = int offset" by (simp add: to_ulong_def)
  moreover have "0 \<le> int (length pre) + pos" "int (length pre) + pos < 2 ^ 63" using b c assms(2,3) by linarith+
  moreover have "uint h + int offset = int (length pre)" using assms(4) u by linarith
  ultimately show "to_ulong (uint h + to_ulong (int offset) + pos) = int (length pre) + pos" "to_long (int (length pre) + pos) = int (length pre) + pos"
    using c by (simp_all only: to_ulong_def to_long_id) (rule mod_pos_pos_trivial, linarith+)
qed

text \<open>
  C33. Where the application's files are kept makes no difference. If a file has the bytes \<open>d\<close> in the
  resource directory, in \<^verbatim>\<open>resources.neu\<close> or in the embedded archive, according to the mode, then
  \<^verbatim>\<open>resources::getFile\<close> returns the same result in every mode: the size of the file and exactly the bytes
  of the requested range.
\<close>

theorem resource_modes_agree:
  assumes "case res_mode w of
      ResourceModeDir \<Rightarrow> open_in w (joinAppPath filename w) = Some (int (length d), Some d)
    | ResourceModeBundle \<Rightarrow> (\<exists>bytes. open_in w (joinAppPath ''/resources.neu'' w) = Some (int (length bytes), Some bytes) \<and>
        length bytes < 2 ^ 62 \<and> archived bytes w filename d)
    | ResourceModeEmbedded \<Rightarrow> (\<exists>bytes. os_resource w = Some bytes \<and> bytes \<noteq> [] \<and> length bytes < 2 ^ 62 \<and> archived bytes w filename d)"
    "int (length d) \<le> os_memory w" "read_range (int (length d)) opts = (pos, len)"
  shows "resources_getFile filename opts w =
    (Inr \<lparr>fr_status = NE_ST_OK, fr_data = take (nat len) (drop (nat pos) d), fr_size = int (length d)\<rparr>, w)"
proof -
  have r: "0 \<le> pos" "pos \<le> int (length d)" "0 \<le> len" "pos + len \<le> int (length d)"
    using read_range_bounds [OF _ assms(3)] by simp_all
  show ?thesis
  proof (cases "res_mode w")
    case ResourceModeDir
    with assms(1) show ?thesis
      using readFile_regular [OF _ assms(2,3), of "joinAppPath filename w"]
      by (simp add: resources_getFile_def isEmbeddedMode_def isBundleMode_def resources_getMode_def)
  next
    case ResourceModeBundle
    then obtain bytes where a: "open_in w (joinAppPath ''/resources.neu'' w) = Some (int (length bytes), Some bytes)"
      "length bytes < 2 ^ 62" "archived bytes w filename d" using assms(1) by auto
    from a(3) obtain offset t pre post where b: "seekFilePos filename (res_fileTree w) = Inr (int (length d), t)" "stoi t = Inr (int offset)"
      "bytes = pre @ d @ post" "length pre = unat (res_asarHeaderSize w) + offset"
      unfolding archived_def by blast
    note o = archive_offset [OF _ r(1,2) b(4), of post]
    have l: "to_ulong len = len" using r a(2) b(3) by (simp add: to_ulong_def)
    have "length (pre @ d @ post) < 2 ^ 62" using a(2) b(3) by simp
    with ResourceModeBundle a(1) b(1,2,3) o r l assms(2,3) show ?thesis
      by (simp add: resources_getFile_def isEmbeddedMode_def isBundleMode_def resources_getMode_def getFileFromBundle_def
          openResourceFile_def applyFileReaderOptions_def archive_slice_def read_buffer_slice)
  next
    case ResourceModeEmbedded
    then obtain bytes where a: "os_resource w = Some bytes" "bytes \<noteq> []" "length bytes < 2 ^ 62"
      "archived bytes w filename d" using assms(1) by auto
    from a(4) obtain offset t pre post where b: "seekFilePos filename (res_fileTree w) = Inr (int (length d), t)" "stoi t = Inr (int offset)"
      "bytes = pre @ d @ post" "length pre = unat (res_asarHeaderSize w) + offset"
      unfolding archived_def by blast
    note o = archive_offset [OF _ r(1,2) b(4), of post]
    have l: "to_ulong len = len" using r a(3) b(3) by (simp add: to_ulong_def)
    have "length (pre @ d @ post) < 2 ^ 62" "int (length pre) + pos + len \<le> int (length (pre @ d @ post))" using r a(3) b(3) by simp_all
    moreover have "nat (int (length pre) + pos) = length pre + nat pos" using r(1) by linarith
    ultimately show ?thesis using ResourceModeEmbedded a(1,2) b(1,2,3) o(1) r l assms(2,3)
      by (simp add: resources_getFile_def isEmbeddedMode_def resources_getMode_def getFileFromEmbedded_def
          applyFileReaderOptions_def read_buffer_slice)
  qed
qed

text \<open>
  An archive with one file: 16 bytes, a header of 8 bytes in front of the 5 bytes of \<^verbatim>\<open>/a.txt\<close>.
\<close>

definition demo_archive :: string where
  "demo_archive = replicate 16 (CHR ''h'') @ ''{header}'' @ ''hello'' @ ''rest''"

definition demo_bundle :: world where
  "demo_bundle = demo\<lparr>res_mode := ResourceModeBundle, res_asarHeaderSize := 24,
     os_nodes := ([''home'', ''app'', ''resources.neu''], FileN demo_archive) # os_nodes demo,
     res_fileTree := jobj [(''files'', jobj [(''a.txt'', jobj [(''size'', JInt 5), (''offset'', JString ''0'')])])]\<rparr>"

theorem resource_modes_agree_witness:
  "resources_getFile ''/a.txt'' \<lparr>fo_pos = 1, fo_size = 3\<rparr> demo_bundle =
     (Inr \<lparr>fr_status = NE_ST_OK, fr_data = ''ell'', fr_size = 5\<rparr>, demo_bundle)"
proof -
  have f: "open_in demo_bundle (joinAppPath ''/resources.neu'' demo_bundle) = Some (int (length demo_archive), Some demo_archive)"
    "seekFilePos ''/a.txt'' (res_fileTree demo_bundle) = Inr (int (length ''hello''), ''0'')" "stoi ''0'' = Inr (int 0)"
    "demo_archive = (replicate 16 (CHR ''h'') @ ''{header}'') @ ''hello'' @ ''rest''" "unat (res_asarHeaderSize demo_bundle) = 24"
    "res_mode demo_bundle = ResourceModeBundle" by code_simp+
  have "archived demo_archive demo_bundle ''/a.txt'' ''hello''"
    by (rule archivedI [OF f(2-4)]) (simp add: f(5))
  moreover have "length demo_archive < 2 ^ 62" by (simp add: demo_archive_def)
  moreover have "read_range (int (length ''hello'')) \<lparr>fo_pos = 1, fo_size = 3\<rparr> = (1, 3)" "int (length ''hello'') \<le> os_memory demo_bundle"
    by code_simp+
  ultimately have "resources_getFile ''/a.txt'' \<lparr>fo_pos = 1, fo_size = 3\<rparr> demo_bundle =
      (Inr \<lparr>fr_status = NE_ST_OK, fr_data = take (nat 3) (drop (nat 1) ''hello''), fr_size = int (length ''hello'')\<rparr>, demo_bundle)"
    using f(1,6) by (intro resource_modes_agree) (auto simp del: list.size)
  moreover have "take (nat 3) (drop (nat 1) ''hello'') = ''ell''" by code_simp
  ultimately show ?thesis by simp
qed

section \<open>Searching the tree\<close>

text \<open>All files of the tree, by their paths.\<close>

function tree_files :: "string \<Rightarrow> json \<Rightarrow> string list" where
  "tree_files path d =
     (if \<not> hasField d ''files'' then [path]
      else concat (map (\<lambda>(childPath, childData). tree_files (path @ ''/'' @ childPath) childData) (items (jget d ''files''))))"
  by pat_completeness auto

termination tree_files
  by (relation "measure (\<lambda>(p, d). size d)") (auto dest: size_child)

declare tree_files.simps [simp del]

lemma tree_files_prefix: "f \<in> set (tree_files path d) \<Longrightarrow> prefix path f"
proof (induction path d rule: tree_files.induct)
  case (1 path d)
  show ?case
  proof (cases "hasField d ''files''")
    case True
    then obtain c v where c: "(c, v) \<in> set (items (jget d ''files''))" "f \<in> set (tree_files (path @ ''/'' @ c) v)"
      using 1(2) by (auto simp: tree_files.simps [of path])
    have "prefix (path @ ''/'' @ c) f" using 1(1) [of "(c, v)" c v] True c by simp
    then show ?thesis by (rule append_prefixD)
  next
    case False
    with 1(2) show ?thesis by (simp add: tree_files.simps [of path])
  qed
qed

text \<open>
  The search below a path, which does not enter directories that cannot lead there, finds exactly
  the files of the whole tree whose path starts with it, in the same order. (The comparison is by
  characters: a search below \<^verbatim>\<open>/img\<close> also finds \<^verbatim>\<open>/img2/a\<close>.)
\<close>

theorem files_below_filters: "res_getFilesBelow rootPath w = filter (prefix rootPath) (tree_files [] (getFileTree w))"
proof -
  have "files_below rootPath path d = filter (prefix rootPath) (tree_files path d)" for path d
  proof (induction rootPath path d rule: files_below.induct)
    case (1 rootPath path d)
    consider "\<not> hasField d ''files''" | "hasField d ''files''" "\<not> prefix path rootPath \<and> \<not> prefix rootPath path"
      | "hasField d ''files''" "prefix path rootPath \<or> prefix rootPath path" by blast
    then show ?case
    proof cases
      case 1
      then show ?thesis by (simp add: files_below.simps [of rootPath path] tree_files.simps [of path])
    next
      case 2
      have "\<not> prefix rootPath f" if "f \<in> set (tree_files path d)" for f
        using prefix_same_cases [OF _ tree_files_prefix [OF that], of rootPath] 2(2) by blast
      with 2 show ?thesis by (simp add: files_below.simps [of rootPath path] filter_False)
    next
      case 3
      have "concat (map (\<lambda>(c, v). files_below rootPath (path @ ''/'' @ c) v) (items (jget d ''files''))) =
        concat (map (\<lambda>(c, v). filter (prefix rootPath) (tree_files (path @ ''/'' @ c) v)) (items (jget d ''files'')))"
        using 1 3 by (intro arg_cong [where f = concat] map_cong) auto
      with 3 show ?thesis
        by (auto simp: files_below.simps [of rootPath path] tree_files.simps [of path] filter_concat comp_def case_prod_unfold)
    qed
  qed
  then show ?thesis by (simp add: res_getFilesBelow_def)
qed

section \<open>Extraction\<close>

text \<open>An archive with the directories \<^verbatim>\<open>/img\<close>, empty, and \<^verbatim>\<open>/img2\<close>, with a file.\<close>

definition demo_images :: world where
  "demo_images = demo_bundle\<lparr>res_fileTree := jobj [(''files'', jobj [(''img'', jobj [(''files'', jobj [])]),
     (''img2'', jobj [(''files'', jobj [(''b.txt'', jobj [(''size'', JInt 5), (''offset'', JString ''0'')])])])])]\<rparr>"

text \<open>
  Extracting a directory can leave the destination. A file of a directory whose name only begins
  with the name asked for is found as well, the characters after the name are taken for its path,
  and these begin with a separator: the file is written below the root of the file system.
\<close>

theorem extractDirectory_escapes:
  "\<exists>input w. jget input ''path'' = JString ''/img'' \<and> jget input ''destination'' = JString ''/home/app/out'' \<and>
     fst (res_extractDirectory input w) = Inr success_output \<and> node_at w [''b.txt''] = None \<and>
     node_at (snd (res_extractDirectory input w)) [''b.txt''] = Some (FileN ''hello'')"
proof (intro exI conjI)
  let ?i = "jobj [(''path'', JString ''/img''), (''destination'', JString ''/home/app/out'')]"
  show "jget ?i ''path'' = JString ''/img''" "jget ?i ''destination'' = JString ''/home/app/out''"
    "fst (res_extractDirectory ?i demo_images) = Inr success_output" "node_at demo_images [''b.txt''] = None"
    "node_at (snd (res_extractDirectory ?i demo_images)) [''b.txt''] = Some (FileN ''hello'')" by code_simp+
qed

end
