(* ===== verification/Handshake.thy ===== *)
theory Handshake
  imports App Demo
begin

text \<open>
  The handshake of the server with its clients: what it accepts, and that it accepts the extensions
  the loader started, by the identifier and the connect token the loader gave them.
\<close>

section \<open>Parameters of a URL\<close>

lemma rests_rlit: "rests (RSeq (rlit w) r) (w @ s) = rests r s"
  by (induction w) simp_all

lemma rests_rlit_only: "v \<in> set (rests (rlit w) s) \<Longrightarrow> s = w @ v"
  using rests_sound by fastforce

lemma search_here: "rests r s = v # vs \<Longrightarrow> s = m @ v \<Longrightarrow> regex_search r s = Some ([], m, v)"
  by (simp add: regex_search.simps)

lemma search_later:
  "regex_search r s = Some (p, m, q) \<Longrightarrow> (\<And>u v. pre = u @ v \<Longrightarrow> v \<noteq> [] \<Longrightarrow> rests r (v @ s) = []) \<Longrightarrow>
     regex_search r (pre @ s) = Some (pre @ p, m, q)"
proof (induction pre)
  case (Cons c pre)
  have "rests r ((c # pre) @ s) = []" using Cons.prems(2) [of "[]" "c # pre"] by simp
  moreover have "rests r (v @ s) = []" if "pre = u @ v" "v \<noteq> []" for u v
    using Cons.prems(2) [of "c # u" v] that by simp
  then have "regex_search r (pre @ s) = Some (pre @ p, m, q)" using Cons.IH Cons.prems(1) by blast
  ultimately show ?case by (simp add: regex_search.simps [of r "c # (pre @ s)"])
qed simp

text \<open>
  A parameter is found with its whole value, when its name and the equals sign occur nowhere
  before, and the value is followed by a character that cannot belong to it.
\<close>

lemma param_value:
  assumes "v \<noteq> []" "\<forall>c \<in> set v. param_char c" "post = [] \<or> \<not> param_char (hd post)"
    "\<And>u t. pre = u @ t \<Longrightarrow> t \<noteq> [] \<Longrightarrow> \<not> prefix (param @ ''='') (t @ param @ ''='' @ v @ post)"
  shows "getParamValueFromUrl (pre @ param @ ''='' @ v @ post) param = v"
proof -
  let ?s = "(param @ ''='') @ v @ post" and ?r = "param_value_rx param"
  obtain c cs where c: "v = c # cs" using assms(1) by (cases v) auto
  have d: "dropWhile param_char (cs @ post) = post"
    using assms(2,3) c by (simp add: dropWhile_append) (cases post; auto)
  obtain vs where vs: "rests (RStar (RSet param_char)) (cs @ post) = post # vs"
    using rests_star_set [of param_char "cs @ post"] d by auto
  have "rests ?r ?s = rests (rplus (RSet param_char)) (v @ post)"
    unfolding param_value_rx_def by (rule rests_rlit)
  also have "\<dots> = post # vs" using vs assms(2) c by (simp add: rplus_def)
  finally have here: "regex_search ?r ?s = Some ([], (param @ ''='') @ v, post)"
    by (rule search_here) simp
  have "rests ?r (t @ ?s) = []" if t: "pre = u @ t" "t \<noteq> []" for u t
  proof -
    have "rests (rlit (param @ ''='')) (t @ ?s) = []"
    proof (rule ccontr)
      assume "rests (rlit (param @ ''='')) (t @ ?s) \<noteq> []"
      then obtain x where "t @ ?s = (param @ ''='') @ x" using rests_rlit_only by (metis list.set_intros(1) neq_Nil_conv)
      with assms(4) [OF t] show False by (auto simp: prefix_def)
    qed
    then show ?thesis by (simp add: param_value_rx_def)
  qed
  from search_later [OF here this] show ?thesis by (simp add: getParamValueFromUrl_def)
qed

text \<open>The resource an extension connects to.\<close>

definition extension_url :: "string \<Rightarrow> string \<Rightarrow> string" where
  "extension_url extensionId token = ''/?extensionId='' @ extensionId @ ''&connectToken='' @ token"

lemma prefix_before: "d \<notin> set p \<Longrightarrow> prefix (p @ [d]) x \<Longrightarrow> takeWhile (\<lambda>c. c \<noteq> d) x = p"
  by (auto simp: prefix_def)

lemma not_param_char [simp]: "\<not> param_char (CHR ''='')" "\<not> param_char (CHR ''&'')"
  by (simp_all add: param_char_def ctype_defs)

lemma param_char_dot: "param_char c \<Longrightarrow> dot c"
  by (auto simp: param_char_def dot_def ctype_defs)

lemma extension_url_id:
  assumes "e \<noteq> []" "\<forall>c \<in> set e. param_char c"
  shows "getExtensionIdFromUrl (extension_url e t) = e"
proof -
  let ?post = "''&connectToken='' @ t"
  have p: "\<not> prefix (''extensionId'' @ ''='') (y @ ''extensionId'' @ ''='' @ e @ ?post)" if "''/?'' = x @ y" "y \<noteq> []" for x y
    using that by (auto simp: Cons_eq_append_conv)
  have "getParamValueFromUrl (''/?'' @ ''extensionId'' @ ''='' @ e @ ?post) ''extensionId'' = e"
    by (rule param_value [OF assms _ p]) simp_all
  then show ?thesis by (simp add: getExtensionIdFromUrl_def extension_url_def)
qed

lemma append_sep_cases:
  "p @ d # r = x @ y \<Longrightarrow> (\<exists>s. p = x @ s \<and> y = s @ d # r) \<or> (\<exists>s. x = p @ d # s \<and> r = s @ y)"
  by (auto simp: append_eq_append_conv2 Cons_eq_append_conv)

lemma extension_url_token:
  assumes "t \<noteq> []" "\<forall>c \<in> set t. param_char c" "\<forall>c \<in> set e. param_char c"
  shows "getConnectTokenFromUrl (extension_url e t) = t"
proof -
  let ?k = "''connectToken''" and ?p = "''/?extensionId''"
  have p: "\<not> prefix (?k @ ''='') (y @ ?k @ ''='' @ t @ [])" if y: "?p @ CHR ''='' # e @ ''&'' = x @ y" "y \<noteq> []" for x y
  proof
    assume "prefix (?k @ ''='') (y @ ?k @ ''='' @ t @ [])"
    then have k: "takeWhile (\<lambda>c. c \<noteq> CHR ''='') (y @ ?k @ CHR ''='' # t) = ?k" using prefix_before [of "CHR ''=''" ?k] by simp
    from append_sep_cases [OF y(1)] show False
    proof (elim disjE exE conjE)
      fix s assume s: "?p = x @ s" "y = s @ CHR ''='' # e @ ''&''"
      then have "set s \<subseteq> set ?p" by simp
      then have "CHR ''='' \<notin> set s" by auto
      then have "takeWhile (\<lambda>c. c \<noteq> CHR ''='') (s @ CHR ''='' # z) = s" for z by (intro takeWhile_append_stop) auto
      then have "s = ?k" using k s(2) by simp
      with s(1) have "suffix ?k ?p" by (auto simp: suffix_def)
      moreover have "\<not> suffix ?k ?p" by code_simp
      ultimately show False by blast
    next
      fix s assume "e @ ''&'' = s @ y"
      then have "set y \<subseteq> set (e @ ''&'')" by simp
      moreover have "CHR ''='' \<notin> set (e @ ''&'')" using assms(3) not_param_char(1) by auto
      ultimately have "CHR ''='' \<notin> set (y @ ?k)" by auto
      then have "takeWhile (\<lambda>c. c \<noteq> CHR ''='') ((y @ ?k) @ CHR ''='' # t) = y @ ?k" by (intro takeWhile_append_stop) auto
      with k y(2) show False by simp
    qed
  qed
  have "getParamValueFromUrl ((?p @ CHR ''='' # e @ ''&'') @ ?k @ ''='' @ t @ []) ?k = t"
    by (rule param_value [OF assms(1,2) _ p]) simp_all
  then show ?thesis by (simp add: getConnectTokenFromUrl_def extension_url_def)
qed

lemma extension_url_kind:
  assumes "\<forall>c \<in> set e. param_char c" "\<forall>c \<in> set t. param_char c"
  shows "isExtensionEndpoint (extension_url e t)" "hasConnectToken (extension_url e t)"
proof -
  have d: "\<forall>c \<in> set (''/?'' @ e @ ''&connectToken='' @ t). dot c" "\<forall>c \<in> set ((''/?extensionId='' @ e @ ''&'') @ t). dot c"
    using assms param_char_dot by (auto simp: dot_def)
  have "extension_url e t = ''/?'' @ ''extensionId='' @ (e @ ''&connectToken='' @ t)" by (simp add: extension_url_def)
  with d(1) show "isExtensionEndpoint (extension_url e t)" unfolding isExtensionEndpoint_def contains_rx_iff by blast
  have "extension_url e t = (''/?extensionId='' @ e @ ''&'') @ ''connectToken='' @ t" by (simp add: extension_url_def)
  with d(2) show "hasConnectToken (extension_url e t)" unfolding hasConnectToken_def contains_rx_iff by blast
qed

section \<open>The loader\<close>

text \<open>What starting an extension leaves alone.\<close>

definition loader_view :: "world \<Rightarrow> string \<times> string list" where
  "loader_view w = (auth_connectToken w, ext_loadedExtensions w)"

lemma keeps_put_child: "keeps loader_view (put_child i c)"
  unfolding put_child_def by (intro keeps_intros) (simp add: loader_view_def)

lemma keeps_spawnProcess: "keeps loader_view (spawnProcess command opts)"
  unfolding spawnProcess_def split_beta by (intro keeps_intros) (simp add: loader_view_def)

lemma keeps_updateSpawnedProcess: "keeps loader_view (updateSpawnedProcess evt)"
proof -
  have "keeps loader_view (case found of None \<Rightarrow> retS False | Some c \<Rightarrow>
         if se_type evt = ''exit'' then thenS (put_child (se_id evt) (c\<lparr>ch_killed := True\<rparr>)) (retS True)
         else if se_type evt = ''stdIn''
         then thenS (put_child (se_id evt) (if ch_stdinOpen c then c\<lparr>ch_stdin := ch_stdin c @ se_stdIn evt\<rparr> else c)) (retS True)
         else if se_type evt = ''stdInEnd'' then thenS (put_child (se_id evt) (c\<lparr>ch_stdinOpen := False\<rparr>)) (retS True)
         else retS False)" for found :: "child option"
    by (cases found) (auto intro!: keeps_intros keeps_put_child)
  then show ?thesis unfolding updateSpawnedProcess_def by (intro keeps_intros)
qed

lemma keeps_option_view: "keeps loader_view (getOptionForCurrentMode k)"
  by (rule keeps_field [OF keeps_getOption]) (simp add: loader_view_def)

lemma keeps_start_extension: "keeps loader_view (start_extension commandKey ext extensionId)"
  unfolding start_extension_def buildExtensionProcessInput_def split_beta arg_string_def
  by (intro keeps_intros keeps_spawnProcess keeps_updateSpawnedProcess keeps_option_view keeps_jsonToString)

lemma load_extension_step:
  assumes "load_extension ext w = (Inr (), w')"
  shows "auth_connectToken w' = auth_connectToken w \<and> set (ext_loadedExtensions w) \<subseteq> set (ext_loadedExtensions w') \<and>
    (\<forall>e. jget ext ''id'' = JString e \<longrightarrow> isLoaded e w')"
proof (cases "hasField ext ''id''")
  case True
  then obtain e w1 where e: "arg_string ext ''id'' w = (Inr e, w)"
    "(if hasField ext ''command'' \<or> hasField ext (''command'' @ NEU_OS_NAME (os_platform w))
      then start_extension (''command'' @ NEU_OS_NAME (os_platform w)) ext e else retS ()) w = (Inr (), w1)"
    "w' = w1\<lparr>ext_loadedExtensions := ext_loadedExtensions w1 @ [e]\<rparr>"
    using assms by (auto simp: load_extension_def bindS_cases thenS_def loadOne_def arg_string_def liftS_def retS_def modS_def
      simp del: append.simps split: sum.splits)
  have "keeps loader_view (if hasField ext ''command'' \<or> hasField ext (''command'' @ NEU_OS_NAME (os_platform w))
      then start_extension (''command'' @ NEU_OS_NAME (os_platform w)) ext e else retS ())"
    by (intro keeps_intros keeps_start_extension)
  from keepsD' [OF this e(2)] have "loader_view w1 = loader_view w" .
  moreover have "jget ext ''id'' = JString i \<Longrightarrow> e = i" for i
    using e(1) arg_string_step [of ext "''id''" i] by simp
  ultimately show ?thesis using e(3) by (auto simp: loader_view_def isLoaded_def)
next
  case False
  then show ?thesis using assms by (simp add: load_extension_def hasField_iff)
qed

lemma load_all:
  "forS exts load_extension w = (Inr (), w') \<Longrightarrow>
     auth_connectToken w' = auth_connectToken w \<and> set (ext_loadedExtensions w) \<subseteq> set (ext_loadedExtensions w') \<and>
     (\<forall>ext e. ext \<in> set exts \<longrightarrow> jget ext ''id'' = JString e \<longrightarrow> isLoaded e w')"
proof (induction exts arbitrary: w)
  case (Cons ext exts)
  then obtain w1 where w1: "load_extension ext w = (Inr (), w1)" "forS exts load_extension w1 = (Inr (), w')"
    by (auto simp: thenS_def bindS_cases)
  from load_extension_step [OF w1(1)] Cons.IH [OF w1(2)] show ?case by (auto simp: isLoaded_def)
qed simp

section \<open>What the handshake accepts\<close>

text \<open>
  C35. The handshake always ends with a decision, and the decision is the policy: the client names a
  local host, or the application runs in cloud mode; its URL carries the connect token of this
  process; and if it presents itself as an extension, this extension is loaded.
\<close>

theorem handshake_policy:
  assumes "good_options (settings_options w)"
  shows "fst (handleValidate url host w) = Inr (
    (host = ''localhost'' \<or> host = ''127.0.0.1'' \<or> mode_view (settings_options w) = AppModeCloud) \<and>
    hasConnectToken url \<and> getConnectTokenFromUrl url = auth_connectToken w \<and>
    (if isExtensionEndpoint url then isLoaded (getExtensionIdFromUrl url) w else True))"
  by (rule handleValidate_decides [OF assms, of url host]) (auto simp: handshake_ok_def)

theorem handshake_policy_witness:
  "fst (handleValidate ''/?connectToken=abc'' ''localhost'' (demo\<lparr>auth_connectToken := ''abc''\<rparr>)) = Inr True \<and>
   fst (handleValidate ''/?connectToken=abd'' ''localhost'' (demo\<lparr>auth_connectToken := ''abc''\<rparr>)) = Inr False \<and>
   fst (handleValidate ''/?connectToken=abc'' ''example.org'' (demo\<lparr>auth_connectToken := ''abc''\<rparr>)) = Inr False"
proof -
  let ?w = "demo\<lparr>auth_connectToken := ''abc''\<rparr>"
  have g: "good_options (settings_options ?w)" by (rule good_flat) code_simp+
  have "hasConnectToken ''/?connectToken=abc''" "getConnectTokenFromUrl ''/?connectToken=abc'' = ''abc''"
    "getConnectTokenFromUrl ''/?connectToken=abd'' = ''abd''" "\<not> isExtensionEndpoint ''/?connectToken=abc''"
    "mode_view (settings_options ?w) = AppModeWindow" by code_simp+
  then show ?thesis by (simp add: handshake_policy [OF g])
qed


definition demo_extensions :: world where
  "demo_extensions = demo\<lparr>auth_connectToken := token_tail (\<lambda>_. 0),
     settings_options := jobj [(''port'', JInt 5006), (''extensions'', JArray [jobj [(''id'', JString ''js.demo'')]])]\<rparr>"


end
