(* ===== verification/Startup.thy ===== *)
theory Startup
  imports Server
begin

text \<open>
  \<^verbatim>\<open>chrome.cpp\<close> and \<^verbatim>\<open>main.cpp\<close>: what the process does from its command line until the window or the
  browser is open. Showing an error box before leaving is recorded with the other dialogs.
\<close>

section \<open>Chrome mode\<close>

definition getDefaultChromeArgs :: string where
  "getDefaultChromeArgs =
     ''--disable-background-networking '' @
     ''--disable-background-timer-throttling '' @
     ''--disable-backgrounding-occluded-windows '' @
     ''--disable-breakpad '' @
     ''--disable-client-side-phishing-detection '' @
     ''--disable-default-apps '' @
     ''--disable-dev-shm-usage '' @
     ''--disable-infobars '' @
     ''--disable-extensions '' @
     ''--disable-features=site-per-process '' @
     ''--disable-hang-monitor '' @
     ''--disable-ipc-flooding-protection '' @
     ''--disable-popup-blocking '' @
     ''--disable-prompt-on-repost '' @
     ''--disable-renderer-backgrounding '' @
     ''--disable-sync '' @
     ''--disable-translate '' @
     ''--disable-windows10-custom-titlebar '' @
     ''--metrics-recording-only '' @
     ''--no-first-run '' @
     ''--no-default-browser-check '' @
     ''--safebrowsing-disable-auto-update '' @
     ''--password-store=basic '' @
     ''--use-mock-keychain''"

definition chromeBins :: "world \<Rightarrow> string list" where
  "chromeBins w = (case os_platform w of
     Linux \<Rightarrow> [''/usr/bin/google-chrome-stable'', ''/usr/bin/google-chrome'', ''/usr/bin/chromium'',
       ''/usr/bin/chromium-browser'', ''/snap/bin/chromium'']
   | Darwin \<Rightarrow> [''/Applications/Google Chrome.app/Contents/MacOS/Google Chrome'',
       ''/Applications/Google Chrome Canary.app/Contents/MacOS/Google Chrome Canary'',
       ''/Applications/Chromium.app/Contents/MacOS/Chromium'',
       ''/Applications/Microsoft Edge.app/Contents/MacOS/Microsoft Edge'',
       ''/usr/bin/google-chrome-stable'', ''/usr/bin/google-chrome'', ''/usr/bin/chromium'', ''/usr/bin/chromium-browser'']
   | Windows \<Rightarrow> [getEnv ''LocalAppData'' w @ ''/Google/Chrome/Application/chrome.exe'',
       getEnv ''ProgramFiles'' w @ ''/Google/Chrome/Application/chrome.exe'',
       getEnv ''ProgramFiles(x86)'' w @ ''/Google/Chrome/Application/chrome.exe'',
       getEnv ''LocalAppData'' w @ ''/Chromium/Application/chrome.exe'',
       getEnv ''ProgramFiles'' w @ ''/Chromium/Application/chrome.exe'',
       getEnv ''ProgramFiles(x86)'' w @ ''/Chromium/Application/chrome.exe'',
       getEnv ''ProgramFiles(x86)'' w @ ''/Microsoft/Edge/Application/msedge.exe'',
       getEnv ''ProgramFiles'' w @ ''/Microsoft/Edge/Application/msedge.exe'']
   | FreeBSD \<Rightarrow> [])"

definition is_program :: "world \<Rightarrow> string \<Rightarrow> bool" where
  "is_program w cmd =
     (let stats = getStats cmd w in st_status stats = NE_ST_OK \<and> st_entryType stats = EntryTypeFile)"

definition findChrome :: "json \<Rightarrow> string prog" where
  "findChrome input =
     bindS (getS (\<lambda>w. ''browserBinary'' @ NEU_OS_NAME (os_platform w))) (\<lambda>osKey.
     bindS (getS chromeBins) (\<lambda>bins.
     bindS (if hasField input ''browserBinary'' \<or> hasField input osKey
            then bindS (arg_string input (if hasField input osKey then osKey else ''browserBinary'')) (\<lambda>customBin.
                 bindS (readS (applyPathConstants customBin)) (\<lambda>b. retS (b # bins)))
            else retS bins) (\<lambda>candidates.
     getS (\<lambda>w. case find (is_program w) candidates of Some cmd \<Rightarrow> cmd | None \<Rightarrow> []))))"

definition quoted :: "string \<Rightarrow> string" where
  "quoted s = [CHR 0x22] @ s @ [CHR 0x22]"

text \<open>An error box, and the end of the process.\<close>

definition fatal :: "string \<Rightarrow> string \<Rightarrow> 'a prog" where
  "fatal title content = thenS (os_show (Message title content ''OK'' ''ERROR'')) (throwS (Exits 1))"

definition chrome_init :: "json \<Rightarrow> unit prog" where
  "chrome_init input =
     bindS (findChrome input) (\<lambda>chromePath.
     if chromePath = []
     then fatal ''Unable to start Chrome mode'' ''You need to install Google Chrome to run this Neutralinojs application''
     else bindS (getS (joinAppDataPath ''/.tmp/chromedata'')) (\<lambda>dataDir.
          bindS (arg_string input ''url'') (\<lambda>url.
          bindS (if hasRequiredFields input [''width'', ''height'']
                 then bindS (arg_int input ''width'') (\<lambda>width.
                      bindS (arg_int input ''height'') (\<lambda>height.
                      retS ('' --window-size='' @ to_string width @ '','' @ to_string height)))
                 else retS []) (\<lambda>windowSize.
          bindS (if hasField input ''args'' then bindS (arg_string input ''args'') (\<lambda>args. retS ('' '' @ args)) else retS []) (\<lambda>args.
          bindS (execCommand ((if CHR '' '' \<in> set chromePath then quoted chromePath else chromePath) @ '' '' @
                   getDefaultChromeArgs @ '' --user-data-dir='' @ quoted dataDir @ '' --app='' @ quoted url @ windowSize @ args)
                 (default_child_options\<lparr>cp_background := True\<rparr>)) (\<lambda>_. retS ()))))))"

section \<open>Start\<close>

definition configured :: "string \<Rightarrow> 'a \<Rightarrow> (json \<Rightarrow> 'a result) \<Rightarrow> 'a prog" where
  "configured key d get =
     bindS (getOptionForCurrentMode key) (\<lambda>j. if is_null j then retS d else liftS (get j))"

definition initFramework :: "(nat \<Rightarrow> nat) \<Rightarrow> string list \<Rightarrow> unit prog" where
  "initFramework draw args =
     thenS (setGlobalArgs args)
    (thenS resources_init
    (bindS settings_init (\<lambda>settingsStatus.
     if \<not> settingsStatus
     then fatal ''Unable to load configuration''
            ''The application configuration file cannot be loaded due to a JSON parsing error.''
     else
     thenS (authbasic_init draw)
    (thenS permission_init
    (thenS storage_init
    (bindS (getOptionForCurrentMode ''systemEnvs'') (\<lambda>jEnvs.
     forS (items jEnvs) (\<lambda>(key, v).
       bindS (liftS (get_string v)) (\<lambda>val. bindS (setEnv key val) (\<lambda>_. retS ()))))))))))"

definition startServerAsync :: "(string \<Rightarrow> int \<Rightarrow> int option) \<Rightarrow> string prog" where
  "startServerAsync listen =
     bindS getNavigationUrl (\<lambda>navigationUrl.
     bindS (configured ''enableServer'' False get_bool) (\<lambda>enableServer.
     if \<not> enableServer then retS navigationUrl
     else (\<lambda>w. case neuserver_init listen w of
       (Inl e, w') \<Rightarrow>
         if e = WebsocketError
         then bindS (getOptionForCurrentMode ''port'') (\<lambda>jPort.
              bindS (if is_null jPort then retS [] else bindS (liftS (get_int jPort)) (\<lambda>port. retS ('' on port: '' @ to_string port))) (\<lambda>suffix.
              fatal ''Unable to start server'' (''Neutralinojs can'' @ [CHR 0x27] @ ''t initialize the application server'' @ suffix))) w'
         else (Inl e, w')
     | (Inr url, w') \<Rightarrow> (Inr url, w'))))"

record logger =
  lg_enabled :: bool
  lg_toFile :: bool
  lg_format :: string
  lg_filename :: "string option"

text \<open>\<^verbatim>\<open>logging[...]\<close> on a copy of the option, which is null where logging is not configured.\<close>

definition logging_option :: "json \<Rightarrow> string \<Rightarrow> 'a \<Rightarrow> (json \<Rightarrow> 'a result) \<Rightarrow> 'a prog" where
  "logging_option logging key d get =
     bindS (liftS (jref logging key)) (\<lambda>(j, _). if is_null j then retS d else liftS (get j))"

definition configureLogger :: "logger prog" where
  "configureLogger =
     bindS (getOptionForCurrentMode ''logging'') (\<lambda>logging.
     bindS (logging_option logging ''enabled'' True get_bool) (\<lambda>enableLogging.
     bindS (logging_option logging ''writeToLogFile'' True get_bool) (\<lambda>enableLogFile.
     bindS (logging_option logging ''format'' ''%level %datetime %msg %loc %user@%host'' get_string) (\<lambda>format.
     bindS (getS (joinAppDataPath ''/neutralinojs.log'')) (\<lambda>filename.
     retS \<lparr>lg_enabled = enableLogging, lg_toFile = enableLogFile, lg_format = format,
           lg_filename = (if enableLogFile then Some filename else None)\<rparr>)))))"

definition initExtra :: "unit prog" where
  "initExtra =
     bindS (configured ''enableExtensions'' False get_bool) (\<lambda>enableExtensions.
     bindS (configured ''exportAuthInfo'' False get_bool) (\<lambda>exportAuth.
     thenS (onlyIf exportAuth exportAuthInfo) (onlyIf enableExtensions extensions_init)))"

text \<open>The options of a mode, on a copy of the configuration, with the page to open.\<close>

definition mode_options :: "string \<Rightarrow> string \<Rightarrow> json prog" where
  "mode_options mode url =
     bindS (readS (\<lambda>w. jrefs [''modes'', mode] (getConfig w))) (\<lambda>(j, _).
     liftS (bindR (jref j ''url'') (\<lambda>(_, j'). Inr (jput ''url'' (JString url) j'))))"

text \<open>In the modes that wait, the main thread has nothing more to do.\<close>

definition startApp :: "string \<Rightarrow> unit prog" where
  "startApp navigationUrl =
     bindS settings_getMode (\<lambda>mode. case mode of
       AppModeBrowser \<Rightarrow> os_open_url navigationUrl
     | AppModeWindow \<Rightarrow>
         bindS (mode_options ''window'' navigationUrl) (\<lambda>windowOptions.
         bindS (window_init windowOptions) (\<lambda>ok.
         if ok then retS ()
         else fatal ''Unable to create a webview instance''
                ''Please install libwebkit2gtk-4.0-37 or libwebkit2gtk-4.1-0 library to run this application.''))
     | AppModeCloud \<Rightarrow>
         bindS (getS neuserver_isInitialized) (\<lambda>b.
         onlyIf b (bindS getAppId (\<lambda>appId. debug_log LogTypeInfo (appId @ '' is available at '' @ navigationUrl))))
     | AppModeChrome \<Rightarrow> bindS (mode_options ''chrome'' navigationUrl) chrome_init)"

definition main_program :: "(nat \<Rightarrow> nat) \<Rightarrow> (string \<Rightarrow> int \<Rightarrow> int option) \<Rightarrow> string list \<Rightarrow> unit prog" where
  "main_program draw listen args =
     thenS (initFramework draw args)
    (bindS (startServerAsync listen) (\<lambda>navigationUrl.
     bindS configureLogger (\<lambda>_.
     thenS initExtra (startApp navigationUrl))))"

end
