(* ===== verification/StartProps.thy ===== *)
theory StartProps
  imports Startup Demo
begin

text \<open>
  Properties of the start: a configuration that cannot be read stops it before anything is opened or
  started, and the Chrome mode starts an installed browser or nothing.
\<close>

section \<open>A broken configuration\<close>

lemma open_in_locale: "open_in (v\<lparr>settings_localeName := x, settings_options := y\<rparr>) f = open_in v f"
  by (rule open_in_cong) simp_all

lemma settings_init_broken:
  assumes "isDirMode w" "open_in w (joinAppPath (settings_configFile w) w) = Some (int (length d), Some d)"
    "int (length d) \<le> os_memory w" "os_parse w d = None"
  shows "settings_init w = (Inr False, w\<lparr>settings_localeName := lc_locale (getLocaleInfo w), settings_options := JObject [],
     os_log := os_log w @ [(LogTypeError, makeErrorMsg NE_CF_UNBPRCF (settings_configFile w))]\<rparr>)"
proof -
  let ?w = "w\<lparr>settings_localeName := lc_locale (getLocaleInfo w), settings_options := JObject []\<rparr>"
  have "open_in ?w (joinAppPath (settings_configFile w) ?w) = Some (int (length d), Some d)"
    using assms(2) by (simp add: open_in_locale joinAppPath_def)
  then have "readFile (joinAppPath (settings_configFile w) ?w) default_options ?w =
      Inr \<lparr>fr_status = NE_ST_OK, fr_data = d, fr_size = int (length d)\<rparr>"
    using assms(3) by (intro readFile_whole) simp_all
  then show ?thesis
    using assms(1,4) by (simp add: settings_init_def load_config_def resources_getFile_def isEmbeddedMode_def isBundleMode_def
        isDirMode_def resources_getMode_def debug_log_def catchable_def)
qed



section \<open>The browser\<close>

lemma keeps_findChrome: "keeps (\<lambda>w. w) (findChrome input)"
  unfolding findChrome_def by (intro keeps_intros keeps_args)

lemma findChrome_result:
  assumes "findChrome input w = (Inr p, w')"
  shows "w' = w" "p = [] \<or> is_program w p"
proof -
  show w: "w' = w" using keepsD' [OF keeps_findChrome assms] .
  obtain ps w1 where "p = (case find (is_program w1) ps of Some cmd \<Rightarrow> cmd | None \<Rightarrow> [])" "w' = w1"
    using assms by (auto simp: findChrome_def bindS_cases)
  then show "p = [] \<or> is_program w p" using w by (auto simp: find_Some_iff split: option.splits)
qed

text \<open>A step that starts a command with a property in the background, or fails and starts nothing.\<close>

definition launched :: "string \<Rightarrow> world \<Rightarrow> world" where
  "launched command w = w\<lparr>os_started := os_started w @
     [start_process (shell_line (os_platform w) command) (default_child_options\<lparr>cp_background := True\<rparr>) []]\<rparr>"

definition launches :: "(string \<Rightarrow> bool) \<Rightarrow> unit prog \<Rightarrow> world \<Rightarrow> bool" where
  "launches P m w = (case m w of (Inr (), w') \<Rightarrow> \<exists>command. P command \<and> w' = launched command w | (Inl e, w') \<Rightarrow> os_started w' = os_started w)"

lemma launchesI: "m w = (Inr (), launched command w) \<Longrightarrow> P command \<Longrightarrow> launches P m w"
  unfolding launches_def by (simp only: prod.case sum.case unit.case) blast

lemma launches_step: "m w = (Inr v, w) \<Longrightarrow> launches P (f v) w \<Longrightarrow> launches P (bindS m f) w"
  by (simp add: launches_def)

lemma launches_bind:
  assumes "keeps (\<lambda>w. w) m" "\<And>v. launches P (f v) w"
  shows "launches P (bindS m f) w"
proof (cases "m w")
  case (Pair r w')
  then have "w' = w" using keepsD' [OF assms(1)] by blast
  with Pair assms(2) show ?thesis by (cases r) (auto simp: launches_def)
qed

lemma launches_exec:
  "P command \<Longrightarrow> launches P (bindS (execCommand command (default_child_options\<lparr>cp_background := True\<rparr>)) (\<lambda>_. retS ())) w"
proof -
  have "bindS (execCommand command (default_child_options\<lparr>cp_background := True\<rparr>)) (\<lambda>_. retS ()) w = (Inr (), launched command w)"
    by (simp add: launched_def execCommand_def Let_def default_child_options_def)
  moreover assume "P command"
  ultimately show ?thesis by (rule launchesI)
qed

text \<open>The command line of a browser starts with its path.\<close>

definition runs_browser :: "world \<Rightarrow> string \<Rightarrow> bool" where
  "runs_browser w command \<longleftrightarrow> (\<exists>p args. is_program w p \<and>
     command = (if CHR '' '' \<in> set p then quoted p else p) @ '' '' @ getDefaultChromeArgs @ args)"

text \<open>
  C38. The Chrome mode starts at most one process, in the background, and only a browser that is there:
  the command begins with the path of an existing regular file, in quotes if it contains a space,
  followed by the default arguments. On every error, a missing browser among them, nothing is started.
\<close>

theorem chrome_starts_browser:
  "case chrome_init input w of
     (Inr (), w') \<Rightarrow> \<exists>command. runs_browser w command \<and> w' = w\<lparr>os_started := os_started w @
       [start_process (shell_line (os_platform w) command) (default_child_options\<lparr>cp_background := True\<rparr>) []]\<rparr>
   | (Inl e, w') \<Rightarrow> os_started w' = os_started w"
proof -
  have "launches (runs_browser w) (chrome_init input) w"
  proof (cases "\<exists>p. findChrome input w = (Inr p, w) \<and> p \<noteq> []")
    case True
    then obtain p where p: "findChrome input w = (Inr p, w)" "p \<noteq> []" by blast
    then have "is_program w p" using findChrome_result by blast
    then have "runs_browser w ((if CHR '' '' \<in> set p then quoted p else p) @ '' '' @ getDefaultChromeArgs @ args)" for args
      unfolding runs_browser_def by blast
    note run = launches_exec [where P = "runs_browser w", OF this]
    show ?thesis
      unfolding chrome_init_def
      by (rule launches_step [where m = "findChrome input", OF p(1)], unfold if_not_P [OF p(2)])
        (intro launches_bind run keeps_intros keeps_args)
  next
    case False
    obtain r w1 where r: "findChrome input w = (r, w1)" by force
    then have "w1 = w" using keepsD' [OF keeps_findChrome] by blast
    with r False show ?thesis by (cases r) (auto simp: launches_def chrome_init_def fatal_def os_show_def)
  qed
  then show ?thesis unfolding launches_def launched_def .
qed

end
