(* ===== verification/Spec2Isabelle.thy ===== *)
theory Spec2Isabelle
  imports FsScope FsStream Storage OsProps RouterProps MethodProps Assets ServerProps WindowProps WindowWinProps WindowMac ResProps Handshake StartProps
begin

text \<open>
  \<^bold>\<open>A verification library for the Neutralinojs framework.\<close>

  Neutralinojs runs a web application as a desktop application. A native process reads a
  configuration, opens a window (or a browser, or only a server), serves the application's files
  over HTTP, and accepts requests over a web socket: each names a \<^emph>\<open>native method\<close>
  (\<^verbatim>\<open>filesystem.readFile\<close>, \<^verbatim>\<open>os.execCommand\<close>, ...), carries an access token and JSON data, and is
  answered with JSON. Extensions are further processes that connect to the same server. This library
  models the framework's own C++ code, from \<^verbatim>\<open>main.cpp\<close> to the native methods, and proves what makes
  it correct, and where it is not, what it does instead.

  \<^bold>\<open>The state.\<close> \<open>World\<close> has one record for the program: the operating system (\<open>osys\<close>: a tree of
  files, environment variables, started processes, dialogs shown, standard streams, and the
  environment parameters named below), extended by the namespace-level variables of each component
  (\<^verbatim>\<open>settings::options\<close> is \<open>settings_options\<close>, \<^verbatim>\<open>authbasic::token\<close> is \<open>auth_token\<close>, and so on). A step of the
  program is a function of type \<open>'a prog\<close>: from a state to a value or a fault, and a new state. A fault
  is a C++ exception (with its class, so that \<^verbatim>\<open>catch\<close> clauses can be written out), the end of the
  process (\<open>Exits\<close>), undefined behaviour (\<open>Undefined\<close>), or fuel used up (\<open>Diverges\<close>). \<open>Prelude\<close> has
  the combinators, the facts every component uses, and the notion that a step keeps a view of the
  state.

  \<^bold>\<open>Parameters.\<close> What is not the repository's own code is an argument or an environment field:
  \<^verbatim>\<open>nlohmann::json\<close> parsing and printing (\<open>os_parse\<close>, \<open>os_dump\<close>), the folders of \<^verbatim>\<open>sago\<close>, the file
  watcher, child processes and what they answer, dialogs, the window toolkit (\<open>toolkit\<close>), random
  numbers (\<open>draw\<close>), the socket layer (\<open>listen\<close>), and the devices (\<open>Devices\<close>: hardware, pointer, keyboard,
  network interfaces, clipboard, the client of \<^verbatim>\<open>httplib\<close>), whose reports may depend on all calls made so
  far. Whether the kernel grants an access or a change of the attributes of a file is environment too
  (\<open>os_denyRead\<close>, \<open>os_chmod\<close>, ...); the attributes belong to the location. What a property needs of them is a named hypothesis. \<^verbatim>\<open>std::regex\<close>, \<^verbatim>\<open>std::filesystem\<close> and the
  streams belong to the language: \<open>Regex\<close> and \<open>Vfs\<close> define what the code uses of them.

  \<^bold>\<open>Theories and sources.\<close>

    \<^item> \<open>Prelude\<close>, \<open>Assoc\<close> (sorted association lists, as \<^verbatim>\<open>std::map\<close>), \<open>Regex\<close>, \<open>Json\<close>: the foundation.
      \<open>Helpers\<close> is \<^verbatim>\<open>helpers.cpp\<close>, \<open>Errors\<close> is \<^verbatim>\<open>errors.cpp\<close>, \<open>Base64\<close> is \<^verbatim>\<open>lib/base64/base64.hpp\<close>.
    \<^item> \<open>Vfs\<close>: the file system; \<open>FileStore\<close>: the interface \<open>file_store\<close> of named values in files, and the
      file system as an instance of it.
    \<^item> \<open>Fs\<close>, \<open>FsApi\<close>, \<open>Copy\<close>, \<open>FsPaths\<close>, \<open>FsPerm\<close> (permissions, mode, owner): \<^verbatim>\<open>api/fs/fs.cpp\<close>. \<open>FsScope\<close> and \<open>FsStream\<close> have their properties.
    \<^item> \<open>Resources\<close>: \<^verbatim>\<open>resources.cpp\<close>; \<open>Res\<close>: \<^verbatim>\<open>api/res/res.cpp\<close>; properties in \<open>ResProps\<close>.
    \<^item> \<open>Settings\<close>: \<^verbatim>\<open>settings.cpp\<close>; \<open>Authbasic\<close>, \<open>Permission\<close>: \<^verbatim>\<open>auth/\<close>; \<open>Extensions\<close>: the list of
      \<^verbatim>\<open>extensions_loader.cpp\<close>.
    \<^item> \<open>Api\<close>: the conventions of native methods; \<open>Storage\<close>: \<^verbatim>\<open>api/storage\<close>; \<open>Os\<close>, \<open>OsProps\<close>: \<^verbatim>\<open>api/os\<close>;
      \<open>App\<close>: \<^verbatim>\<open>api/app\<close>, \<^verbatim>\<open>api/debug\<close>, \<^verbatim>\<open>api/events\<close>, \<^verbatim>\<open>api/extensions\<close>, \<^verbatim>\<open>api/custom\<close> and the
      loader of extensions; \<open>Window\<close>, \<open>WindowApi\<close>, \<open>WindowProps\<close>: \<^verbatim>\<open>api/window\<close> in the GTK
      builds, which the router calls; \<open>WindowBuild\<close>, \<open>WindowWin\<close>, \<open>WindowMac\<close>: the same functions in the Windows and
      the macOS build, as steps on the program's state and the variables such a build adds; \<open>WindowWinProps\<close>.
    \<^item> \<open>Clipboard\<close>, \<open>Computer\<close>, \<open>Net\<close>: \<^verbatim>\<open>api/clipboard\<close>, \<^verbatim>\<open>api/computer\<close> and \<^verbatim>\<open>api/net\<close>, with their properties.
    \<^item> \<open>Neuserver\<close> (connections) and \<open>Server\<close> (messages and HTTP): \<^verbatim>\<open>server/neuserver.cpp\<close>; \<open>Router\<close>:
      \<^verbatim>\<open>server/router.cpp\<close> and \<^verbatim>\<open>api/server\<close>. Properties in \<open>RouterProps\<close>, \<open>MethodProps\<close> (all native
      methods at once), \<open>Assets\<close>, \<open>ServerProps\<close> and \<open>Handshake\<close>; \<open>Guard\<close> has the interface \<open>guarded\<close> of a gate in front of a set of requests,
      of which the router (twice) and the command allow list are instances.
    \<^item> \<open>Startup\<close>: \<^verbatim>\<open>main.cpp\<close> and \<^verbatim>\<open>chrome.cpp\<close>; properties in \<open>StartProps\<close>.
    \<^item> \<open>Demo\<close>: a small machine on which the statements are exercised.

  \<^bold>\<open>What is shown.\<close> The security boundary: what file system methods can write and read under the
  configured scopes, and a way around them (C1 to C3); which commands the allow list lets
  through, and what it misses (C13, C14); the handshake (C35), the token (C40) and the gate of the router
  (C20, C21); which methods can write to the file system at all (C27); that storage stays in its directory (C10); which calls a
  request to the network makes (C11). Functional correctness: round trips of files,
  Base64, environment, permissions, window state, full-screen mode (C4, C5, C16, C18, C25, C30); network interfaces and
  images of the clipboard, and where the code fails on them (C12, C31); streams (C6, C7); storage
  as a map (C9); relative paths (C19); HTTP ranges (C28); the three places of the resources (C33); the main menu on Windows (C34); patterns
  of commands (C39). Invariants of tables over all reachable states (C8, C15, C29). Ends of loops (C7,
  C26). The type of all answers (C24). The replies and errors of the server and of the start (C22, C23, C36 to C38).

  \<^bold>\<open>Fuel.\<close> \<open>getAsset\<close> calls itself; it runs on fuel 8, C26 shows that three calls suffice unless single
  page serving meets a certain configuration, and \<open>getAsset_diverges\<close> that no fuel suffices then. \<open>read_blocks\<close> has the
  fuel \<open>stream_fuel\<close>, one more than the bytes left; C6 shows it suffices for a positive block size and C7
  that nothing does for zero. \<open>list_dir\<close> has one more than the nodes of the tree, and \<open>copy_at\<close> the length
  of the longest path the system accepts. Every other loop is a
  terminating function.

  \<^bold>\<open>Not modelled.\<close> What the three window toolkits do with the calls made to them, and messages that a Win32
  call sends while it runs (they are events of their own); scales of a Windows display other than multiples of
  25 percent; symbolic links; that a new, moved or copied file gets attributes of its own (they belong
  to the location, and only \<open>FsPerm\<close> changes them); the moment at which threads interleave within one handler: handlers are steps. The vendored
  libraries under \<^verbatim>\<open>lib/\<close> are parameters.
\<close>

section \<open>Properties of the foundation\<close>


text \<open>
  C39. The matcher of command patterns, which turns a pattern into a regular expression, escapes its
  special characters and runs \<^verbatim>\<open>regex_match\<close>, agrees with the direct reading of the pattern: a star is any
  text without line break, a question mark is one such character, everything else is itself.
\<close>

theorem globalMatch_is_glob: "globalMatch value pattern \<longleftrightarrow> glob pattern value"
  by (rule globalMatch_glob)

text \<open>
  C40. With the one-time token setting, the token the process made at its start is handed to the first
  client that asks, and to no other: every later request gets the empty string.
\<close>

theorem one_time_token:
  assumes "good_options (settings_options w)" "opt_view (settings_options w) ''tokenSecurity'' = JString ''one-time''"
    "\<forall>i. draw i < 64" "\<not> auth_tokenSent w"
  shows "\<exists>w1 w2. authbasic_init draw w = (Inr (), w1) \<and> verifyToken (generateToken draw) w1 \<and>
    getToken_runs (Suc n) w1 = (Inr (generateToken draw # replicate n []), w2)"
proof -
  obtain w1 where w1: "authbasic_init draw w = (Inr (), w1)" "auth_token w1 = generateToken draw"
    "auth_tokenSecurity w1 = TokenSecurityOneTime" "\<not> auth_tokenSent w1"
    using authbasic_init_step [OF assms(1,3)] assms(2,4) by (auto simp: is_string_def)
  then show ?thesis using getToken_runs_one_time [of w1 n] by (auto simp: verifyToken_def)
qed

theorem one_time_token_witness:
  "\<exists>w1 w2. authbasic_init (\<lambda>_. 7) (demo\<lparr>settings_options := jobj [(''tokenSecurity'', JString ''one-time'')]\<rparr>) = (Inr (), w1) \<and>
     getToken_runs 3 w1 = (Inr [generateToken (\<lambda>_. 7), [], []], w2)"
proof -
  let ?w = "demo\<lparr>settings_options := jobj [(''tokenSecurity'', JString ''one-time'')]\<rparr>"
  have "good_options (settings_options ?w)" by (rule good_flat) code_simp+
  moreover have "opt_view (settings_options ?w) ''tokenSecurity'' = JString ''one-time''" "\<not> auth_tokenSent ?w" by code_simp+
  ultimately obtain w1 w2 where "authbasic_init (\<lambda>_. 7) ?w = (Inr (), w1)"
    "getToken_runs (Suc 2) w1 = (Inr (generateToken (\<lambda>_. 7) # replicate 2 []), w2)"
    using one_time_token [of ?w "\<lambda>_. 7" 2] by auto
  moreover have "replicate 2 ([] :: string) = [[], []]" "Suc 2 = 3" by (simp_all add: numeral_2_eq_2)
  ultimately show ?thesis by metis
qed

end
